(* ===== verification/RCL_Prelude.thy ===== *)
theory RCL_Prelude
  imports Main "HOL-Library.Word"
begin

text \<open>
  Shared vocabulary of the RemoteCL development.

  \<^item> names for the machine integers the wire protocol uses;
  \<^item> the outcome type of a C++ function (a value, a C++ exception, or a failure that no
    handler can catch: a failed \<open>assert\<close>, a loop that never ends, undefined behaviour, a
    read that blocks, or an exception that leaves a \<open>noexcept\<close> function) and the state-passing monad over it;
  \<^item> little-endian encoding of integers (the \<open>memcpy\<close> of \<open>SocketStream::operator<<\<close>);
  \<^item> the theorem collections the component theories extend.
\<close>

section \<open>Machine integers\<close>

type_synonym byte = "8 word"
type_synonym u16 = "16 word"
type_synonym u32 = "32 word"
type_synonym u64 = "64 word"
type_synonym ptr = "64 word"

text \<open>\<open>common/idtype.h\<close>: object IDs are 16 bit wide.\<close>

type_synonym IDType = "16 word"

abbreviation nullptr :: ptr where
  "nullptr \<equiv> 0"

text \<open>Assigning a size to a \<open>uint16_t\<close> member keeps the low 16 bits.\<close>

definition trunc16 :: "nat \<Rightarrow> nat" where
  "trunc16 n = n mod 65536"

lemma trunc16_id [simp]: "n < 65536 \<Longrightarrow> trunc16 n = n"
  by (simp add: trunc16_def)

section \<open>Outcomes\<close>

text \<open>
  The exceptions the program throws: \<open>Socket::Error\<close>, an \<open>ErrorPacket\<close> (thrown by
  \<open>PacketStream::read\<close>), \<open>std::bad_alloc\<close>, \<open>std::length_error\<close>, an OpenCL status thrown as an integer
  (\<open>client/objects.h\<close>), and \<open>std::system_error\<close>, which \<open>server/main.cpp\<close> has a handler for.
\<close>

datatype exn = SocketError | ErrorPacketExn u32 | BadAlloc | LengthError | ClStatusExn u32 | SystemError

datatype failure = AssertionFailed | Nontermination | UndefinedBehaviour | Blocked | Terminated

datatype 'a res = Ok 'a | Throw exn | Fail failure

fun is_Ok :: "'a res \<Rightarrow> bool" where
  "is_Ok (Ok _) = True"
| "is_Ok _ = False"

lemma is_Ok_iff: "is_Ok r \<longleftrightarrow> (\<exists>a. r = Ok a)"
  by (cases r) auto

section \<open>The state and outcome monad\<close>

named_theorems monad_simps "evaluation of the state and outcome monad"

type_synonym ('s, 'a) smonad = "'s \<Rightarrow> 'a res \<times> 's"

definition mret :: "'a \<Rightarrow> ('s, 'a) smonad" where
  "mret a = (\<lambda>s. (Ok a, s))"

definition mthrow :: "exn \<Rightarrow> ('s, 'a) smonad" where
  "mthrow e = (\<lambda>s. (Throw e, s))"

definition mfail :: "failure \<Rightarrow> ('s, 'a) smonad" where
  "mfail f = (\<lambda>s. (Fail f, s))"

definition mbind :: "('s, 'a) smonad \<Rightarrow> ('a \<Rightarrow> ('s, 'b) smonad) \<Rightarrow> ('s, 'b) smonad" where
  "mbind m f = (\<lambda>s. case m s of
       (Ok a, s') \<Rightarrow> f a s'
     | (Throw e, s') \<Rightarrow> (Throw e, s')
     | (Fail x, s') \<Rightarrow> (Fail x, s'))"

definition mget :: "('s \<Rightarrow> 'a) \<Rightarrow> ('s, 'a) smonad" where
  "mget g = (\<lambda>s. (Ok (g s), s))"

definition mupd :: "('s \<Rightarrow> 's) \<Rightarrow> ('s, unit) smonad" where
  "mupd g = (\<lambda>s. (Ok (), g s))"

text \<open>\<open>try { m } catch (...)\<close>: the handler sees exceptions only, never a failure.\<close>

definition mcatch :: "('s, 'a) smonad \<Rightarrow> (exn \<Rightarrow> ('s, 'a) smonad) \<Rightarrow> ('s, 'a) smonad" where
  "mcatch m h = (\<lambda>s. case m s of (Throw e, s') \<Rightarrow> h e s' | r \<Rightarrow> r)"

definition massert :: "bool \<Rightarrow> ('s, unit) smonad" where
  "massert b = (if b then mret () else mfail AssertionFailed)"

text \<open>A range-based \<open>for\<close> loop that collects one result per element.\<close>

fun mmap :: "('a \<Rightarrow> ('s, 'b) smonad) \<Rightarrow> 'a list \<Rightarrow> ('s, 'b list) smonad" where
  "mmap f [] = mret []"
| "mmap f (x # xs) = mbind (f x) (\<lambda>y. mbind (mmap f xs) (\<lambda>ys. mret (y # ys)))"

lemma mret_apply [monad_simps]: "mret a s = (Ok a, s)"
  by (simp add: mret_def)

lemma mthrow_apply [monad_simps]: "mthrow e s = (Throw e, s)"
  by (simp add: mthrow_def)

lemma mfail_apply [monad_simps]: "mfail x s = (Fail x, s)"
  by (simp add: mfail_def)

lemma mget_apply [monad_simps]: "mget g s = (Ok (g s), s)"
  by (simp add: mget_def)

lemma mupd_apply [monad_simps]: "mupd g s = (Ok (), g s)"
  by (simp add: mupd_def)

lemma mbind_apply [monad_simps]:
  "mbind m f s = (case m s of
       (Ok a, s') \<Rightarrow> f a s' | (Throw e, s') \<Rightarrow> (Throw e, s') | (Fail x, s') \<Rightarrow> (Fail x, s'))"
  by (simp add: mbind_def)

lemma mcatch_apply [monad_simps]:
  "mcatch m h s = (case m s of (Throw e, s') \<Rightarrow> h e s' | r \<Rightarrow> r)"
  by (simp add: mcatch_def)

lemma massert_apply [monad_simps]:
  "massert b s = (if b then (Ok (), s) else (Fail AssertionFailed, s))"
  by (simp add: massert_def monad_simps)

lemma mbind_Ok: "m s = (Ok a, s') \<Longrightarrow> mbind m f s = f a s'"
  by (simp add: mbind_def)

lemma mbind_eq_Ok:
  "mbind m f s = (Ok b, s'') \<longleftrightarrow> (\<exists>a s'. m s = (Ok a, s') \<and> f a s' = (Ok b, s''))"
  by (auto simp: mbind_def split: prod.splits res.splits)

lemma mbind_mret_left [simp]: "mbind (mret a) f = f a"
  by (simp add: mbind_def mret_def)

lemma mbind_mret_right [simp]: "mbind m mret = m"
  by (auto simp: mbind_def mret_def fun_eq_iff split: prod.splits res.splits)

lemma mbind_assoc: "mbind (mbind m f) g = mbind m (\<lambda>a. mbind (f a) g)"
  by (auto simp: mbind_def fun_eq_iff split: prod.splits res.splits)

section \<open>Little-endian integers\<close>

text \<open>
  \<open>le_encode n v\<close> is the little-endian image of \<open>v\<close> in \<open>n\<close> bytes, \<open>le_decode\<close> its
  inverse.
\<close>

fun le_encode :: "nat \<Rightarrow> nat \<Rightarrow> byte list" where
  "le_encode 0 v = []"
| "le_encode (Suc n) v = word_of_nat (v mod 256) # le_encode n (v div 256)"

fun le_decode :: "byte list \<Rightarrow> nat" where
  "le_decode [] = 0"
| "le_decode (b # bs) = unat b + 256 * le_decode bs"

lemma length_le_encode [simp]: "length (le_encode n v) = n"
  by (induction n arbitrary: v) auto

lemma unat_byte_of_mod [simp]: "unat (word_of_nat (v mod 256) :: byte) = v mod 256"
  by (simp add: unat_of_nat)

lemma le_decode_encode: "le_decode (le_encode n v) = v mod 256 ^ n"
proof (induction n arbitrary: v)
  case 0
  then show ?case by simp
next
  case (Suc n)
  have "v mod 256 ^ Suc n = v mod 256 + 256 * (v div 256 mod 256 ^ n)"
    by (simp add: mod_mult2_eq)
  with Suc show ?case by simp
qed

lemma le_decode_bound: "le_decode bs < 256 ^ length bs"
proof (induction bs)
  case Nil
  then show ?case by simp
next
  case (Cons b bs)
  have "unat b < 256" using unsigned_less [of b, where ?'a = nat] by simp
  moreover have "256 * le_decode bs + 256 \<le> 256 * 256 ^ length bs" using Cons by simp
  ultimately show ?case by (simp add: add.commute)
qed

lemma le_encode_decode: "le_encode (length bs) (le_decode bs) = bs"
proof (induction bs)
  case Nil
  then show ?case by simp
next
  case (Cons b bs)
  have b: "unat b < 256" using unsigned_less [of b, where ?'a = nat] by simp
  then have "(unat b + 256 * le_decode bs) mod 256 = unat b"
    and "(unat b + 256 * le_decode bs) div 256 = le_decode bs"
    by simp_all
  with Cons show ?case by simp
qed

section \<open>Lists\<close>

lemma take_append_exact [simp]: "length xs = n \<Longrightarrow> take n (xs @ ys) = xs"
  by simp

lemma drop_append_exact [simp]: "length xs = n \<Longrightarrow> drop n (xs @ ys) = ys"
  by simp

text \<open>Copying \<open>bs\<close> over the bytes of \<open>buf\<close> that start at offset \<open>off\<close> (\<open>std::memcpy\<close>).\<close>

definition memcpy_at :: "byte list \<Rightarrow> nat \<Rightarrow> byte list \<Rightarrow> byte list" where
  "memcpy_at buf off bs = take off buf @ bs @ drop (off + length bs) buf"

lemma length_memcpy_at [simp]:
  "off + length bs \<le> length buf \<Longrightarrow> length (memcpy_at buf off bs) = length buf"
  by (simp add: memcpy_at_def)

lemma take_memcpy_at [simp]:
  "off + length bs \<le> length buf \<Longrightarrow>
   take (off + length bs) (memcpy_at buf off bs) = take off buf @ bs"
  by (simp add: memcpy_at_def)

lemma memcpy_at_front [simp]:
  "length bs \<le> length buf \<Longrightarrow> take (length bs) (memcpy_at buf 0 bs) = bs"
  by (simp add: memcpy_at_def)

end
