(* ===== verification/RCL_Socket.thy ===== *)
theory RCL_Socket
  imports RCL_Prelude
begin

text \<open>
  The TCP socket wrapper, \<open>common/socket.h\<close> and \<open>common/socket.cpp\<close>.

  The operating system is not part of the repository, so its two calls are parameters:
  \<open>os_recv n k\<close> is \<open>recv(fd, buf, k, 0)\<close> and \<open>os_send n bs\<close> is \<open>send(fd, bs, len, 0)\<close>
  in network state \<open>n\<close>; \<open>None\<close> is a negative result. \<open>Socket::receive\<close> and
  \<open>Socket::send\<close> are translated from the source. What the stream layer relies on is the
  named hypothesis \<open>os_ok\<close>: a call returns at most what was asked for, data arrives in the
  order in which it was sent, an empty result means that the peer has closed, and a send takes
  all its bytes.
\<close>

record 'n os =
  os_recv :: "'n \<Rightarrow> nat \<Rightarrow> (byte list \<times> 'n) option"
  os_send :: "'n \<Rightarrow> byte list \<Rightarrow> (nat \<times> 'n) option"

definition sock_receive :: "'n os \<Rightarrow> nat \<Rightarrow> ('n, byte list) smonad" where
  "sock_receive os available = (\<lambda>n.
     case os_recv os n available of
       None \<Rightarrow> (Throw SocketError, n)
     | Some (bs, n') \<Rightarrow> (Ok bs, n'))"

definition sock_send :: "'n os \<Rightarrow> byte list \<Rightarrow> ('n, unit) smonad" where
  "sock_send os bs = (\<lambda>n.
     case os_send os n bs of
       None \<Rightarrow> (Throw SocketError, n)
     | Some (written, n') \<Rightarrow>
         if written = length bs then (Ok (), n') else (Fail AssertionFailed, n'))"

text \<open>
  \<open>rem n\<close> is what the peer has sent and this side has not received; \<open>out n\<close> is what this
  side has sent.
\<close>

definition os_ok :: "'n os \<Rightarrow> ('n \<Rightarrow> byte list) \<Rightarrow> ('n \<Rightarrow> byte list) \<Rightarrow> bool" where
  "os_ok os rem out \<longleftrightarrow>
     (\<forall>n k. \<exists>bs n'. os_recv os n k = Some (bs, n') \<and> rem n = bs @ rem n' \<and> length bs \<le> k
              \<and> (bs = [] \<and> 0 < k \<longrightarrow> rem n = []) \<and> out n' = out n) \<and>
     (\<forall>n bs. \<exists>n'. os_send os n bs = Some (length bs, n') \<and> out n' = out n @ bs
              \<and> rem n' = rem n)"

lemma os_ok_receive:
  assumes "os_ok os rem out"
  shows "\<exists>bs n'. sock_receive os k n = (Ok bs, n') \<and> rem n = bs @ rem n' \<and> length bs \<le> k
           \<and> (bs = [] \<and> 0 < k \<longrightarrow> rem n = []) \<and> out n' = out n"
proof -
  from assms obtain bs n' where r: "os_recv os n k = Some (bs, n')" and "rem n = bs @ rem n'"
    and "length bs \<le> k" and "bs = [] \<and> 0 < k \<longrightarrow> rem n = []" and "out n' = out n"
    unfolding os_ok_def by blast
  moreover from r have "sock_receive os k n = (Ok bs, n')" by (simp add: sock_receive_def)
  ultimately show ?thesis by blast
qed

lemma os_ok_send:
  assumes "os_ok os rem out"
  shows "\<exists>n'. sock_send os bs n = (Ok (), n') \<and> out n' = out n @ bs \<and> rem n' = rem n"
proof -
  from assms obtain n' where r: "os_send os n bs = Some (length bs, n')"
    and "out n' = out n @ bs" and "rem n' = rem n"
    unfolding os_ok_def by blast
  moreover from r have "sock_send os bs n = (Ok (), n')" by (simp add: sock_send_def)
  ultimately show ?thesis by blast
qed

text \<open>
  A concrete network that satisfies the hypothesis: the peer's bytes arrive in segments, and a
  receive returns data of one segment only.
\<close>

type_synonym seg_net = "byte list list \<times> byte list"

fun seg_recv :: "seg_net \<Rightarrow> nat \<Rightarrow> (byte list \<times> seg_net) option" where
  "seg_recv ([], snt) k = Some ([], ([], snt))"
| "seg_recv ([] # segs, snt) k = seg_recv (segs, snt) k"
| "seg_recv (s # segs, snt) k =
     (if length s \<le> k then Some (s, (segs, snt))
      else Some (take k s, (drop k s # segs, snt)))"

fun seg_send :: "seg_net \<Rightarrow> byte list \<Rightarrow> (nat \<times> seg_net) option" where
  "seg_send (segs, snt) bs = Some (length bs, (segs, snt @ bs))"

definition seg_os :: "seg_net os" where
  "seg_os = \<lparr>os_recv = seg_recv, os_send = seg_send\<rparr>"

lemma seg_recv_ok:
  "\<exists>bs n'. seg_recv n k = Some (bs, n') \<and> concat (fst n) = bs @ concat (fst n')
     \<and> length bs \<le> k \<and> (bs = [] \<and> 0 < k \<longrightarrow> concat (fst n) = []) \<and> snd n' = snd n"
  by (induction n k rule: seg_recv.induct) auto

lemma seg_os_ok: "os_ok seg_os (\<lambda>n. concat (fst n)) snd"
  using seg_recv_ok by (auto simp: os_ok_def seg_os_def split: prod.splits)

end
