(* ===== verification/RCL_SocketStream.thy ===== *)
theory RCL_SocketStream
  imports RCL_Socket
begin

text \<open>
  The buffered stream over a socket, \<open>common/socketstream.h\<close> and \<open>common/socketstream.cpp\<close>:
  its two 1024-byte buffers, the read and the write loop, \<open>peek\<close> and \<open>flush\<close>.

  The members \<open>mWriteOffset\<close>, \<open>mReadOffset\<close>, \<open>mAvailable\<close> are \<open>uint16_t\<close>; they are
  natural numbers here and every assignment of a \<open>size_t\<close> to one of them is truncated to 16
  bits. The invariant \<open>ss_inv\<close> shows that no truncation ever loses a bit.

  The read loop may run forever (it does when the peer closes in the middle of a large read), so
  it is a partial function into \<open>option\<close>. The write loop takes the number of iterations it may
  run: the comment in the source promises at most two, and running out is \<open>Nontermination\<close>.
\<close>

record 'n sockstream =
  mWriteBuffer :: "byte list"
  mWriteOffset :: nat
  mReadBuffer :: "byte list"
  mReadOffset :: nat
  mAvailable :: nat
  mSocket :: 'n

definition BufferSize :: nat where
  "BufferSize = 1024"

lemma BufferSize_pos [simp]: "0 < BufferSize" "BufferSize \<noteq> 0" "BufferSize < 65536"
  by (simp_all add: BufferSize_def)

text \<open>Running a socket operation on the owned socket.\<close>

definition ss_sock :: "('n, 'a) smonad \<Rightarrow> ('n sockstream, 'a) smonad" where
  "ss_sock m = (\<lambda>ss. case m (mSocket ss) of (r, n') \<Rightarrow> (r, ss\<lparr>mSocket := n'\<rparr>))"

lemma ss_sock_eq: "m (mSocket ss) = (r, n') \<Longrightarrow> ss_sock m ss = (r, ss\<lparr>mSocket := n'\<rparr>)"
  by (simp add: ss_sock_def)

section \<open>Reading\<close>

definition ss_readMoreData :: "'n os \<Rightarrow> ('n sockstream, unit) smonad" where
  "ss_readMoreData os =
     mbind (mget mAvailable) (\<lambda>avail.
     mbind (massert (avail = 0)) (\<lambda>_.
     mbind (massert (avail < BufferSize)) (\<lambda>_.
     mbind (mupd (\<lambda>ss. ss\<lparr>mReadOffset := 0\<rparr>)) (\<lambda>_.
     mbind (ss_sock (sock_receive os BufferSize)) (\<lambda>bs.
     mbind (massert (length bs \<le> BufferSize)) (\<lambda>_.
     mupd (\<lambda>ss. ss\<lparr>mReadBuffer := memcpy_at (mReadBuffer ss) 0 bs,
                     mAvailable := trunc16 (length bs)\<rparr>)))))))"

text \<open>One pass of the \<open>memcpy\<close> part of the loop: hand out up to \<open>count\<close> buffered bytes.\<close>

definition ss_take :: "nat \<Rightarrow> ('n sockstream, byte list) smonad" where
  "ss_take count =
     mbind (mget id) (\<lambda>ss.
     mbind (massert (mAvailable ss \<le> BufferSize)) (\<lambda>_.
     mbind (massert (mAvailable ss \<noteq> 0)) (\<lambda>_.
     let readSize = min count (mAvailable ss);
         bs = take readSize (drop (mReadOffset ss) (mReadBuffer ss))
     in
     mbind (massert (readSize \<noteq> 0)) (\<lambda>_.
     mbind (mupd (\<lambda>ss. ss\<lparr>mReadOffset := trunc16 (mReadOffset ss + readSize),
                            mAvailable := mAvailable ss - readSize\<rparr>)) (\<lambda>_.
     mbind (mget id) (\<lambda>ss'.
     mbind (massert (if mReadOffset ss' = BufferSize then mAvailable ss' = 0
                     else mReadOffset ss' < BufferSize)) (\<lambda>_.
     mret bs)))))))"

text \<open>
  \<open>SocketStream::read\<close>. \<open>acc\<close> is what the destination holds so far; \<open>None\<close> is a loop that
  never ends.
\<close>

partial_function (option) ss_read_loop ::
  "'n os \<Rightarrow> nat \<Rightarrow> byte list \<Rightarrow> 'n sockstream \<Rightarrow> (byte list res \<times> 'n sockstream) option" where
  "ss_read_loop os count acc ss =
     (if count = 0 then Some (Ok acc, ss)
      else if mAvailable ss = 0 \<and> BufferSize \<le> count then
        (case ss_sock (sock_receive os count) ss of
           (Ok bs, ss') \<Rightarrow> ss_read_loop os (count - length bs) (acc @ bs) ss'
         | (Throw e, ss') \<Rightarrow> Some (Throw e, ss')
         | (Fail x, ss') \<Rightarrow> Some (Fail x, ss'))
      else
        (case (if mAvailable ss = 0 then ss_readMoreData os ss else (Ok (), ss)) of
           (Ok _, ss') \<Rightarrow>
             (if mAvailable ss' = 0 then Some (Throw SocketError, ss')
              else
                (case ss_take count ss' of
                   (Ok bs, ss'') \<Rightarrow> ss_read_loop os (count - length bs) (acc @ bs) ss''
                 | (Throw e, ss'') \<Rightarrow> Some (Throw e, ss'')
                 | (Fail x, ss'') \<Rightarrow> Some (Fail x, ss'')))
         | (Throw e, ss') \<Rightarrow> Some (Throw e, ss')
         | (Fail x, ss') \<Rightarrow> Some (Fail x, ss')))"

definition ss_read :: "'n os \<Rightarrow> nat \<Rightarrow> ('n sockstream, byte list) smonad" where
  "ss_read os count = (\<lambda>ss.
     case ss_read_loop os count [] ss of
       None \<Rightarrow> (Fail Nontermination, ss)
     | Some r \<Rightarrow> r)"

text \<open>
  \<open>SocketStream::peek\<close> is \<open>noexcept\<close>: it returns \<open>-1\<close> (the byte 255) when nothing arrives.
\<close>

definition ss_peek :: "'n os \<Rightarrow> ('n sockstream, byte) smonad" where
  "ss_peek os =
     mcatch
       (mbind (mget mAvailable) (\<lambda>avail.
        mbind (if avail = 0 then ss_readMoreData os else mret ()) (\<lambda>_.
        mbind (mget id) (\<lambda>ss.
        mret (if mAvailable ss = 0 then 255 else mReadBuffer ss ! mReadOffset ss)))))
       (\<lambda>e. mret 255)"

section \<open>Writing\<close>

definition ss_flushWriteBuffer :: "'n os \<Rightarrow> ('n sockstream, unit) smonad" where
  "ss_flushWriteBuffer os =
     mbind (mget id) (\<lambda>ss.
     mbind (massert (mWriteOffset ss \<noteq> 0)) (\<lambda>_.
     mbind (ss_sock (sock_send os (take (mWriteOffset ss) (mWriteBuffer ss)))) (\<lambda>_.
     mupd (\<lambda>ss. ss\<lparr>mWriteOffset := 0\<rparr>))))"

definition ss_flush :: "'n os \<Rightarrow> ('n sockstream, unit) smonad" where
  "ss_flush os =
     mbind (mget mWriteOffset) (\<lambda>off. if off \<noteq> 0 then ss_flushWriteBuffer os else mret ())"

fun ss_write_loop :: "'n os \<Rightarrow> nat \<Rightarrow> byte list \<Rightarrow> ('n sockstream, unit) smonad" where
  "ss_write_loop os iters [] = mret ()"
| "ss_write_loop os 0 (b # bs) = mfail Nontermination"
| "ss_write_loop os (Suc iters) (b # bs) =
     mbind (mget id) (\<lambda>ss.
     let available = BufferSize - mWriteOffset ss;
         writeSize = min available (length (b # bs))
     in
     mbind (mupd (\<lambda>ss. ss\<lparr>mWriteBuffer :=
                              memcpy_at (mWriteBuffer ss) (mWriteOffset ss) (take writeSize (b # bs)),
                            mWriteOffset := trunc16 (mWriteOffset ss + writeSize)\<rparr>)) (\<lambda>_.
     mbind (mget id) (\<lambda>ss'.
     mbind (massert (mWriteOffset ss' \<le> BufferSize)) (\<lambda>_.
     mbind (if mWriteOffset ss' = BufferSize then ss_flushWriteBuffer os else mret ()) (\<lambda>_.
     ss_write_loop os iters (drop writeSize (b # bs)))))))"

definition ss_write :: "'n os \<Rightarrow> byte list \<Rightarrow> ('n sockstream, unit) smonad" where
  "ss_write os bs =
     (if BufferSize \<le> length bs
      then mbind (mget mWriteOffset) (\<lambda>off.
           mbind (if off \<noteq> 0 then ss_flushWriteBuffer os else mret ()) (\<lambda>_.
           ss_sock (sock_send os bs)))
      else ss_write_loop os 2 bs)"

section \<open>What the stream promises\<close>

text \<open>
  \<open>ss_in\<close>: the bytes a reader has still to see (buffered, then on the network); \<open>ss_out\<close>: the
  bytes written so far (sent, then buffered). The invariant bounds the three 16-bit offsets and
  says that the write buffer is never left full.
\<close>

definition ss_in :: "('n \<Rightarrow> byte list) \<Rightarrow> 'n sockstream \<Rightarrow> byte list" where
  "ss_in rem ss = take (mAvailable ss) (drop (mReadOffset ss) (mReadBuffer ss)) @ rem (mSocket ss)"

definition ss_out :: "('n \<Rightarrow> byte list) \<Rightarrow> 'n sockstream \<Rightarrow> byte list" where
  "ss_out out ss = out (mSocket ss) @ take (mWriteOffset ss) (mWriteBuffer ss)"

definition ss_inv :: "'n sockstream \<Rightarrow> bool" where
  "ss_inv ss \<longleftrightarrow> length (mWriteBuffer ss) = BufferSize \<and> length (mReadBuffer ss) = BufferSize
     \<and> mReadOffset ss + mAvailable ss \<le> BufferSize \<and> mWriteOffset ss < BufferSize"

subsection \<open>Reading\<close>

lemma ss_readMoreData_ok:
  assumes os: "os_ok os rem out" and inv: "ss_inv ss" and empty: "mAvailable ss = 0"
  obtains ss' where "ss_readMoreData os ss = (Ok (), ss')" and "ss_inv ss'"
    and "ss_in rem ss' = ss_in rem ss" and "ss_out out ss' = ss_out out ss"
    and "mAvailable ss' = 0 \<Longrightarrow> ss_in rem ss = []"
proof -
  from os_ok_receive [OF os] obtain bs n'
    where r: "sock_receive os BufferSize (mSocket ss) = (Ok bs, n')"
      and rem: "rem (mSocket ss) = bs @ rem n'" and len: "length bs \<le> BufferSize"
      and eof: "bs = [] \<and> 0 < BufferSize \<longrightarrow> rem (mSocket ss) = []"
      and out: "out n' = out (mSocket ss)"
    by blast
  let ?ss' = "ss\<lparr>mReadOffset := 0, mSocket := n', mReadBuffer := memcpy_at (mReadBuffer ss) 0 bs,
                 mAvailable := length bs\<rparr>"
  have "ss_readMoreData os ss = (Ok (), ?ss')"
    using r empty len by (simp add: ss_readMoreData_def monad_simps ss_sock_def BufferSize_def)
  moreover have "ss_inv ?ss'" using inv len by (simp add: ss_inv_def)
  moreover have "ss_in rem ?ss' = ss_in rem ss"
    using inv len empty rem by (simp add: ss_in_def ss_inv_def)
  moreover have "ss_out out ?ss' = ss_out out ss" using out by (simp add: ss_out_def)
  moreover have "mAvailable ?ss' = 0 \<Longrightarrow> ss_in rem ss = []"
    using eof empty by (simp add: ss_in_def)
  ultimately show thesis by (rule that)
qed

lemma ss_take_ok:
  assumes inv: "ss_inv ss" and "mAvailable ss \<noteq> 0" and "count \<noteq> 0"
  obtains bs ss' where "ss_take count ss = (Ok bs, ss')" and "ss_inv ss'"
    and "ss_in rem ss = bs @ ss_in rem ss'" and "ss_out out ss' = ss_out out ss"
    and "bs \<noteq> []" and "length bs \<le> count"
proof -
  let ?n = "min count (mAvailable ss)"
  let ?bs = "take ?n (drop (mReadOffset ss) (mReadBuffer ss))"
  let ?ss' = "ss\<lparr>mReadOffset := mReadOffset ss + ?n, mAvailable := mAvailable ss - ?n\<rparr>"
  have bounds: "mReadOffset ss + mAvailable ss \<le> 1024" "length (mReadBuffer ss) = 1024"
    using inv by (simp_all add: ss_inv_def BufferSize_def)
  then have "mReadOffset ss + ?n < 1024 \<or> mReadOffset ss + ?n = 1024 \<and> mAvailable ss \<le> ?n"
    by linarith
  then have "ss_take count ss = (Ok ?bs, ?ss')"
    using assms bounds by (auto simp: ss_take_def monad_simps Let_def BufferSize_def)
  moreover have "ss_inv ?ss'" using inv by (simp add: ss_inv_def)
  moreover have "ss_in rem ss = ?bs @ ss_in rem ?ss'"
  proof -
    have "?n + (mAvailable ss - ?n) = mAvailable ss" by simp
    then have "take (mAvailable ss) xs = take ?n xs @ take (mAvailable ss - ?n) (drop ?n xs)"
      for xs :: "byte list" by (metis take_add)
    then show ?thesis by (simp add: ss_in_def add.commute)
  qed
  moreover have "ss_out out ?ss' = ss_out out ss" by (simp add: ss_out_def)
  moreover have "?bs \<noteq> []" using assms bounds by auto
  moreover have "length ?bs \<le> count" by simp
  ultimately show thesis by (rule that)
qed

text \<open>One pass through the loop that finds something to hand out.\<close>

lemma ss_read_loop_step:
  assumes os: "os_ok os rem out" and inv: "ss_inv ss" and count: "count \<noteq> 0"
    and data: "ss_in rem ss \<noteq> []"
  obtains bs ss' where
    "ss_read_loop os count acc ss = ss_read_loop os (count - length bs) (acc @ bs) ss'"
    and "ss_inv ss'" and "ss_in rem ss = bs @ ss_in rem ss'" and "ss_out out ss' = ss_out out ss"
    and "bs \<noteq> []" and "length bs \<le> count"
proof (cases "mAvailable ss = 0 \<and> BufferSize \<le> count")
  case True
  from os_ok_receive [OF os] obtain bs n'
    where r: "sock_receive os count (mSocket ss) = (Ok bs, n')"
      and rem: "rem (mSocket ss) = bs @ rem n'" and len: "length bs \<le> count"
      and eof: "bs = [] \<and> 0 < count \<longrightarrow> rem (mSocket ss) = []"
      and out: "out n' = out (mSocket ss)"
    by blast
  let ?ss' = "ss\<lparr>mSocket := n'\<rparr>"
  have "ss_read_loop os count acc ss = ss_read_loop os (count - length bs) (acc @ bs) ?ss'"
    by (subst ss_read_loop.simps) (simp add: True count r ss_sock_def)
  moreover have "ss_inv ?ss'" using inv by (simp add: ss_inv_def)
  moreover have "ss_in rem ss = bs @ ss_in rem ?ss'" using True rem by (simp add: ss_in_def)
  moreover have "ss_out out ?ss' = ss_out out ss" using out by (simp add: ss_out_def)
  moreover have "bs \<noteq> []" using eof count data True by (auto simp: ss_in_def)
  ultimately show thesis using len by - (rule that)
next
  case False
  obtain ss1 where r: "(if mAvailable ss = 0 then ss_readMoreData os ss else (Ok (), ss)) = (Ok (), ss1)"
    and inv1: "ss_inv ss1" and in1: "ss_in rem ss1 = ss_in rem ss"
    and out1: "ss_out out ss1 = ss_out out ss" and av1: "mAvailable ss1 \<noteq> 0"
    using data inv by (cases "mAvailable ss = 0") (auto elim: ss_readMoreData_ok [OF os inv])
  from ss_take_ok [OF inv1 av1 count] obtain bs ss2 where t: "ss_take count ss1 = (Ok bs, ss2)"
    and inv2: "ss_inv ss2" and in2: "ss_in rem ss1 = bs @ ss_in rem ss2"
    and out2: "ss_out out ss2 = ss_out out ss1" and "bs \<noteq> []" and "length bs \<le> count"
    by metis
  moreover have "ss_read_loop os count acc ss = ss_read_loop os (count - length bs) (acc @ bs) ss2"
    by (subst ss_read_loop.simps) (simp add: False count r av1 t)
  ultimately show thesis using in1 out1 by (intro that [of bs ss2]) auto
qed

lemma ss_read_loop_enough:
  assumes os: "os_ok os rem out"
  shows "ss_inv ss \<Longrightarrow> count \<le> length (ss_in rem ss) \<Longrightarrow>
    \<exists>ss'. ss_read_loop os count acc ss = Some (Ok (acc @ take count (ss_in rem ss)), ss')
      \<and> ss_in rem ss' = drop count (ss_in rem ss) \<and> ss_inv ss' \<and> ss_out out ss' = ss_out out ss"
proof (induction count arbitrary: acc ss rule: less_induct)
  case (less count)
  show ?case
  proof (cases "count = 0")
    case True
    with less.prems show ?thesis by (subst ss_read_loop.simps) simp
  next
    case False
    with less.prems have "ss_in rem ss \<noteq> []" by auto
    with ss_read_loop_step [OF os less.prems(1) False] obtain bs ss'
      where step: "ss_read_loop os count acc ss = ss_read_loop os (count - length bs) (acc @ bs) ss'"
        and "ss_inv ss'" and inp: "ss_in rem ss = bs @ ss_in rem ss'"
        and "ss_out out ss' = ss_out out ss" and "bs \<noteq> []" and "length bs \<le> count"
      by metis
    moreover from this False have "count - length bs < count" by simp
    ultimately show ?thesis
      using less.IH [of "count - length bs" ss' "acc @ bs"] less.prems(2) by auto
  qed
qed

text \<open>At the end of the input a remaining count of a buffer or more never gets smaller.\<close>

lemma ss_read_loop_spins:
  assumes os: "os_ok os rem out" and "mAvailable ss = 0" and "rem (mSocket ss) = []"
    and "BufferSize \<le> count"
  shows "ss_read_loop os count acc ss = None"
proof (rule ccontr)
  assume "ss_read_loop os count acc ss \<noteq> None"
  then obtain r where r: "ss_read_loop os count acc ss = Some r" by blast
  have "\<not> (os_ok os rem out \<and> mAvailable ss = 0 \<and> rem (mSocket ss) = [] \<and> BufferSize \<le> count)"
  proof (rule ss_read_loop.raw_induct
      [where P = "\<lambda>os count acc ss r. \<not> (os_ok os rem out \<and> mAvailable ss = 0
                    \<and> rem (mSocket ss) = [] \<and> BufferSize \<le> count)", OF _ r])
    fix f :: "'a os \<Rightarrow> nat \<Rightarrow> byte list \<Rightarrow> 'a sockstream \<Rightarrow> (byte list res \<times> 'a sockstream) option"
    fix os :: "'a os" and count acc ss r
    assume IH: "\<And>os count acc ss r. f os count acc ss = Some r \<Longrightarrow>
        \<not> (os_ok os rem out \<and> mAvailable ss = 0 \<and> rem (mSocket ss) = [] \<and> BufferSize \<le> count)"
      and step: "(if count = 0 then Some (Ok acc, ss)
      else if mAvailable ss = 0 \<and> BufferSize \<le> count then
        (case ss_sock (sock_receive os count) ss of
           (Ok bs, ss') \<Rightarrow> f os (count - length bs) (acc @ bs) ss'
         | (Throw e, ss') \<Rightarrow> Some (Throw e, ss')
         | (Fail x, ss') \<Rightarrow> Some (Fail x, ss'))
      else
        (case (if mAvailable ss = 0 then ss_readMoreData os ss else (Ok (), ss)) of
           (Ok _, ss') \<Rightarrow>
             (if mAvailable ss' = 0 then Some (Throw SocketError, ss')
              else
                (case ss_take count ss' of
                   (Ok bs, ss'') \<Rightarrow> f os (count - length bs) (acc @ bs) ss''
                 | (Throw e, ss'') \<Rightarrow> Some (Throw e, ss'')
                 | (Fail x, ss'') \<Rightarrow> Some (Fail x, ss'')))
         | (Throw e, ss') \<Rightarrow> Some (Throw e, ss')
         | (Fail x, ss') \<Rightarrow> Some (Fail x, ss'))) = Some r"
    show "\<not> (os_ok os rem out \<and> mAvailable ss = 0 \<and> rem (mSocket ss) = [] \<and> BufferSize \<le> count)"
    proof
      assume eof: "os_ok os rem out \<and> mAvailable ss = 0 \<and> rem (mSocket ss) = []
                     \<and> BufferSize \<le> count"
      then obtain n' where "sock_receive os count (mSocket ss) = (Ok [], n')" and rem: "rem n' = []"
        using os_ok_receive [of os rem out count "mSocket ss"] by auto
      with step eof have "f os count acc (ss\<lparr>mSocket := n'\<rparr>) = Some r"
        by (auto simp: ss_sock_def BufferSize_def split: if_splits)
      from IH [OF this] eof rem show False by simp
    qed
  qed
  with assms show False by blast
qed

lemma ss_read_loop_short:
  assumes os: "os_ok os rem out"
  shows "ss_inv ss \<Longrightarrow> length (ss_in rem ss) < count \<Longrightarrow>
    (if BufferSize \<le> count - length (ss_in rem ss) then ss_read_loop os count acc ss = None
     else \<exists>ss'. ss_read_loop os count acc ss = Some (Throw SocketError, ss')
            \<and> ss_in rem ss' = [] \<and> ss_inv ss' \<and> ss_out out ss' = ss_out out ss)"
proof (induction count arbitrary: acc ss rule: less_induct)
  case (less count)
  from less.prems have count: "count \<noteq> 0" by simp
  show ?case
  proof (cases "ss_in rem ss = []")
    case False
    with ss_read_loop_step [OF os less.prems(1) count] obtain bs ss'
      where step: "ss_read_loop os count acc ss = ss_read_loop os (count - length bs) (acc @ bs) ss'"
        and "ss_inv ss'" and inp: "ss_in rem ss = bs @ ss_in rem ss'"
        and "ss_out out ss' = ss_out out ss" and "bs \<noteq> []" and "length bs \<le> count"
      by metis
    moreover from this count have "count - length bs < count" by simp
    ultimately show ?thesis
      using less.IH [of "count - length bs" ss' "acc @ bs"] less.prems(2) by auto
  next
    case True
    then have rem: "rem (mSocket ss) = []" and av: "mAvailable ss = 0"
      using less.prems(1) by (auto simp: ss_in_def ss_inv_def BufferSize_def)
    show ?thesis
    proof (cases "BufferSize \<le> count")
      case big: True
      with True show ?thesis using ss_read_loop_spins [OF os av rem big] by simp
    next
      case small: False
      obtain ss' where r: "ss_readMoreData os ss = (Ok (), ss')" and "ss_inv ss'"
        and "ss_in rem ss' = ss_in rem ss" and "ss_out out ss' = ss_out out ss"
        using ss_readMoreData_ok [OF os less.prems(1) av] by metis
      moreover from this True have "mAvailable ss' = 0"
        by (auto simp: ss_in_def ss_inv_def BufferSize_def)
      ultimately show ?thesis
        using True small count av by (subst ss_read_loop.simps) auto
    qed
  qed
qed

text \<open>\<open>SocketStream::read\<close> and \<open>peek\<close>, from the loop lemmas.\<close>

lemma ss_read_enough:
  assumes "os_ok os rem out" and "ss_inv ss" and "n \<le> length (ss_in rem ss)"
  shows "\<exists>ss'. ss_read os n ss = (Ok (take n (ss_in rem ss)), ss')
           \<and> ss_in rem ss' = drop n (ss_in rem ss) \<and> ss_inv ss' \<and> ss_out out ss' = ss_out out ss"
  using ss_read_loop_enough [OF assms, of "[]"] by (auto simp: ss_read_def)

lemma ss_read_short:
  assumes "os_ok os rem out" and "ss_inv ss" and "length (ss_in rem ss) < n"
  shows "if BufferSize \<le> n - length (ss_in rem ss)
         then ss_read os n ss = (Fail Nontermination, ss)
         else \<exists>ss'. ss_read os n ss = (Throw SocketError, ss') \<and> ss_in rem ss' = []
                \<and> ss_inv ss' \<and> ss_out out ss' = ss_out out ss"
  using ss_read_loop_short [OF assms, of "[]"] by (auto simp: ss_read_def split: if_splits)

lemma ss_peek_ok:
  assumes os: "os_ok os rem out" and inv: "ss_inv ss"
  shows "\<exists>ss'. ss_peek os ss = (Ok (case ss_in rem ss of [] \<Rightarrow> 255 | b # _ \<Rightarrow> b), ss')
           \<and> ss_in rem ss' = ss_in rem ss \<and> ss_inv ss' \<and> ss_out out ss' = ss_out out ss"
proof -
  obtain ss1 where r: "(if mAvailable ss = 0 then ss_readMoreData os else mret ()) ss = (Ok (), ss1)"
    and inv1: "ss_inv ss1" and in1: "ss_in rem ss1 = ss_in rem ss"
    and out1: "ss_out out ss1 = ss_out out ss" and av: "mAvailable ss1 = 0 \<Longrightarrow> ss_in rem ss = []"
    using inv by (cases "mAvailable ss = 0")
      (auto elim: ss_readMoreData_ok [OF os inv] simp: monad_simps)
  have "(if mAvailable ss1 = 0 then 255 else mReadBuffer ss1 ! mReadOffset ss1)
          = (case ss_in rem ss of [] \<Rightarrow> 255 | b # _ \<Rightarrow> b)"
  proof (cases "mAvailable ss1 = 0")
    case True
    with av show ?thesis by simp
  next
    case False
    then have "drop (mReadOffset ss1) (mReadBuffer ss1)
                 = mReadBuffer ss1 ! mReadOffset ss1 # drop (Suc (mReadOffset ss1)) (mReadBuffer ss1)"
      using inv1 by (intro Cons_nth_drop_Suc [symmetric]) (auto simp: ss_inv_def)
    with False have "ss_in rem ss1 = mReadBuffer ss1 ! mReadOffset ss1
        # take (mAvailable ss1 - 1) (drop (Suc (mReadOffset ss1)) (mReadBuffer ss1)) @ rem (mSocket ss1)"
      by (cases "mAvailable ss1") (simp_all add: ss_in_def)
    with False show ?thesis unfolding in1 [symmetric] by simp
  qed
  with r inv1 in1 out1 show ?thesis
    by (intro exI [of _ ss1]) (simp add: ss_peek_def monad_simps)
qed

subsection \<open>Writing\<close>

definition ss_wf :: "'n sockstream \<Rightarrow> bool" where
  "ss_wf ss \<longleftrightarrow> length (mWriteBuffer ss) = BufferSize \<and> length (mReadBuffer ss) = BufferSize
     \<and> mReadOffset ss + mAvailable ss \<le> BufferSize \<and> mWriteOffset ss \<le> BufferSize"

lemma ss_inv_wf: "ss_inv ss \<longleftrightarrow> ss_wf ss \<and> mWriteOffset ss \<noteq> BufferSize"
  by (auto simp: ss_inv_def ss_wf_def)

lemma ss_flushWriteBuffer_ok:
  assumes os: "os_ok os rem out" and wf: "ss_wf ss" and "mWriteOffset ss \<noteq> 0"
  shows "\<exists>ss'. ss_flushWriteBuffer os ss = (Ok (), ss') \<and> ss_inv ss' \<and> mWriteOffset ss' = 0
           \<and> out (mSocket ss') = ss_out out ss \<and> ss_in rem ss' = ss_in rem ss"
proof -
  from os_ok_send [OF os] obtain n'
    where s: "sock_send os (take (mWriteOffset ss) (mWriteBuffer ss)) (mSocket ss) = (Ok (), n')"
      and o: "out n' = out (mSocket ss) @ take (mWriteOffset ss) (mWriteBuffer ss)"
      and r: "rem n' = rem (mSocket ss)"
    by blast
  from s assms(3) have
    "ss_flushWriteBuffer os ss = (Ok (), ss\<lparr>mSocket := n', mWriteOffset := 0\<rparr>)"
    by (simp add: ss_flushWriteBuffer_def monad_simps ss_sock_def)
  with wf o r show ?thesis by (auto simp: ss_wf_def ss_inv_def ss_out_def ss_in_def)
qed

lemma ss_flush_ok:
  assumes os: "os_ok os rem out" and inv: "ss_inv ss"
  shows "\<exists>ss'. ss_flush os ss = (Ok (), ss') \<and> ss_inv ss' \<and> out (mSocket ss') = ss_out out ss
           \<and> ss_out out ss' = ss_out out ss \<and> ss_in rem ss' = ss_in rem ss"
proof (cases "mWriteOffset ss = 0")
  case True
  with inv show ?thesis by (simp add: ss_flush_def monad_simps ss_out_def)
next
  case False
  with ss_flushWriteBuffer_ok [OF os _ False] inv show ?thesis
    by (auto simp: ss_flush_def monad_simps ss_inv_wf ss_out_def)
qed

text \<open>One iteration of the write loop: fill the buffer, and flush it when it is full.\<close>

lemma ss_write_loop_step:
  assumes os: "os_ok os rem out" and inv: "ss_inv ss" and ne: "bs \<noteq> []"
  defines "k \<equiv> min (BufferSize - mWriteOffset ss) (length bs)"
  shows "\<exists>ss'. ss_write_loop os (Suc i) bs ss = ss_write_loop os i (drop k bs) ss' \<and> ss_inv ss'
           \<and> ss_out out ss' = ss_out out ss @ take k bs \<and> ss_in rem ss' = ss_in rem ss
           \<and> (length bs < BufferSize - mWriteOffset ss \<or> mWriteOffset ss' = 0)"
proof -
  let ?ss1 = "ss\<lparr>mWriteBuffer := memcpy_at (mWriteBuffer ss) (mWriteOffset ss) (take k bs),
                 mWriteOffset := mWriteOffset ss + k\<rparr>"
  from ne obtain b bs' where bs: "bs = b # bs'" by (cases bs) auto
  have off: "mWriteOffset ss + k \<le> BufferSize" "k \<le> length bs" "mWriteOffset ss < BufferSize"
    using inv by (auto simp: k_def ss_inv_def)
  have wf1: "ss_wf ?ss1" using inv off by (auto simp: ss_wf_def ss_inv_def)
  have out1: "ss_out out ?ss1 = ss_out out ss @ take k bs"
    using inv off take_memcpy_at [of "mWriteOffset ss" "take k bs" "mWriteBuffer ss"]
    by (simp add: ss_out_def ss_inv_def)
  have in1: "ss_in rem ?ss1 = ss_in rem ss" by (simp add: ss_in_def)
  have step: "ss_write_loop os (Suc i) bs ss =
      mbind (if mWriteOffset ?ss1 = BufferSize then ss_flushWriteBuffer os else mret ())
            (\<lambda>_. ss_write_loop os i (drop k bs)) ?ss1"
  proof -
    have "min (BufferSize - mWriteOffset ss) (Suc (length bs')) = k" by (simp add: k_def bs)
    moreover have "trunc16 (mWriteOffset ss + k) = mWriteOffset ss + k"
      using le_less_trans [OF off(1) BufferSize_pos(3)] by (rule trunc16_id)
    ultimately show ?thesis using off(1) by (simp add: bs monad_simps Let_def)
  qed
  show ?thesis
  proof (cases "mWriteOffset ?ss1 = BufferSize")
    case True
    with ss_flushWriteBuffer_ok [OF os wf1] off obtain ss' where
      "ss_flushWriteBuffer os ?ss1 = (Ok (), ss')" and "ss_inv ss'" and "mWriteOffset ss' = 0"
      and "out (mSocket ss') = ss_out out ?ss1" and "ss_in rem ss' = ss_in rem ?ss1"
      by fastforce
    with step True out1 in1 show ?thesis
      by (intro exI [of _ ss']) (auto simp: monad_simps ss_out_def)
  next
    case False
    with wf1 have "ss_inv ?ss1" by (simp add: ss_inv_wf)
    moreover have "length bs < BufferSize - mWriteOffset ss"
      using False off by (auto simp: k_def min_def split: if_splits)
    ultimately show ?thesis
      using step False out1 in1 by (intro exI [of _ ?ss1]) (simp add: monad_simps)
  qed
qed

lemma ss_write_ok:
  assumes os: "os_ok os rem out" and inv: "ss_inv ss"
  shows "\<exists>ss'. ss_write os bs ss = (Ok (), ss') \<and> ss_inv ss' \<and> ss_out out ss' = ss_out out ss @ bs
           \<and> ss_in rem ss' = ss_in rem ss"
proof (cases "BufferSize \<le> length bs")
  case True
  obtain ss1 where f: "(if mWriteOffset ss \<noteq> 0 then ss_flushWriteBuffer os else mret ()) ss = (Ok (), ss1)"
    and inv1: "ss_inv ss1" and off1: "mWriteOffset ss1 = 0"
    and out1: "ss_out out ss1 = ss_out out ss" and in1: "ss_in rem ss1 = ss_in rem ss"
  proof (cases "mWriteOffset ss = 0")
    case True
    with inv that show thesis by (simp add: monad_simps)
  next
    case False
    with ss_flushWriteBuffer_ok [OF os _ False] inv that show thesis
      by (auto simp: ss_inv_wf ss_out_def)
  qed
  from os_ok_send [OF os] obtain n' where s: "sock_send os bs (mSocket ss1) = (Ok (), n')"
    and "out n' = out (mSocket ss1) @ bs" and "rem n' = rem (mSocket ss1)"
    by blast
  moreover from f s True have "ss_write os bs ss = (Ok (), ss1\<lparr>mSocket := n'\<rparr>)"
    by (simp add: ss_write_def monad_simps ss_sock_def)
  ultimately show ?thesis
    using inv1 off1 out1 in1 by (auto simp: ss_inv_def ss_out_def ss_in_def)
next
  case False
  let ?k = "min (BufferSize - mWriteOffset ss) (length bs)"
  show ?thesis
  proof (cases "bs = []")
    case True
    with inv show ?thesis by (simp add: ss_write_def monad_simps BufferSize_def)
  next
    case ne: False
    from ss_write_loop_step [OF os inv ne, of 1] obtain ss1
      where s1: "ss_write_loop os (Suc 1) bs ss = ss_write_loop os 1 (drop ?k bs) ss1"
        and inv1: "ss_inv ss1" and out1: "ss_out out ss1 = ss_out out ss @ take ?k bs"
        and in1: "ss_in rem ss1 = ss_in rem ss"
        and left: "length bs < BufferSize - mWriteOffset ss \<or> mWriteOffset ss1 = 0"
      by blast
    have w: "ss_write os bs ss = ss_write_loop os 1 (drop ?k bs) ss1"
      using s1 False by (simp add: ss_write_def numeral_2_eq_2)
    show ?thesis
    proof (cases "drop ?k bs = []")
      case True
      then have "take ?k bs = bs" by auto
      with True w inv1 out1 in1 show ?thesis by (simp add: monad_simps)
    next
      case ne2: False
      then have "mWriteOffset ss1 = 0" using left by auto
      moreover have "length (drop ?k bs) < BufferSize" using False by simp
      ultimately show ?thesis
        using ss_write_loop_step [OF os inv1 ne2, of 0] w out1 in1
        by (auto simp: monad_simps min_def)
    qed
  qed
qed

subsection \<open>Reading leaves the write side alone\<close>

lemma ss_sock_mWriteOffset: "ss_sock m ss = (r, ss') \<Longrightarrow> mWriteOffset ss' = mWriteOffset ss"
  by (auto simp: ss_sock_def split: prod.splits)

lemma ss_readMoreData_mWriteOffset:
  "ss_readMoreData os ss = (r, ss') \<Longrightarrow> mWriteOffset ss' = mWriteOffset ss"
  by (auto simp: ss_readMoreData_def monad_simps split: prod.splits res.splits if_splits
      dest: ss_sock_mWriteOffset)

lemma ss_take_mWriteOffset: "ss_take n ss = (r, ss') \<Longrightarrow> mWriteOffset ss' = mWriteOffset ss"
  by (auto simp: ss_take_def Let_def monad_simps split: if_splits)

lemma snd_mWriteOffset [simp]:
  "mWriteOffset (snd (ss_sock m ss)) = mWriteOffset ss"
  "mWriteOffset (snd (ss_take n ss)) = mWriteOffset ss"
  by (metis prod.collapse ss_sock_mWriteOffset, metis prod.collapse ss_take_mWriteOffset)

lemma ss_read_loop_mWriteOffset:
  assumes "ss_read_loop os count acc ss = Some (r, ss')"
  shows "mWriteOffset ss' = mWriteOffset ss"
proof -
  have "mWriteOffset (snd (r, ss')) = mWriteOffset ss"
  proof (rule ss_read_loop.raw_induct
      [where P = "\<lambda>os count acc ss q. mWriteOffset (snd q) = mWriteOffset ss", OF _ assms])
    fix f :: "'a os \<Rightarrow> nat \<Rightarrow> byte list \<Rightarrow> 'a sockstream \<Rightarrow> (byte list res \<times> 'a sockstream) option"
    fix os :: "'a os" and count acc and ss :: "'a sockstream" and q
    assume IH: "\<And>os count acc ss q. f os count acc ss = Some q \<Longrightarrow> mWriteOffset (snd q) = mWriteOffset ss"
      and q: "(if count = 0 then Some (Ok acc, ss)
      else if mAvailable ss = 0 \<and> BufferSize \<le> count then
        (case ss_sock (sock_receive os count) ss of
           (Ok bs, ss') \<Rightarrow> f os (count - length bs) (acc @ bs) ss'
         | (Throw e, ss') \<Rightarrow> Some (Throw e, ss')
         | (Fail x, ss') \<Rightarrow> Some (Fail x, ss'))
      else
        (case (if mAvailable ss = 0 then ss_readMoreData os ss else (Ok (), ss)) of
           (Ok _, ss') \<Rightarrow>
             (if mAvailable ss' = 0 then Some (Throw SocketError, ss')
              else
                (case ss_take count ss' of
                   (Ok bs, ss'') \<Rightarrow> f os (count - length bs) (acc @ bs) ss''
                 | (Throw e, ss'') \<Rightarrow> Some (Throw e, ss'')
                 | (Fail x, ss'') \<Rightarrow> Some (Fail x, ss'')))
         | (Throw e, ss') \<Rightarrow> Some (Throw e, ss')
         | (Fail x, ss') \<Rightarrow> Some (Fail x, ss'))) = Some q"
    show "mWriteOffset (snd q) = mWriteOffset ss"
      using q
      by (auto split: if_splits prod.splits res.splits dest!: IH ss_sock_mWriteOffset
          ss_readMoreData_mWriteOffset ss_take_mWriteOffset)
  qed
  then show ?thesis by simp
qed

lemma ss_read_mWriteOffset: "ss_read os n ss = (r, ss') \<Longrightarrow> mWriteOffset ss' = mWriteOffset ss"
  by (auto simp: ss_read_def split: option.splits dest: ss_read_loop_mWriteOffset)

lemma ss_peek_mWriteOffset: "ss_peek os ss = (r, ss') \<Longrightarrow> mWriteOffset ss' = mWriteOffset ss"
  by (auto simp: ss_peek_def monad_simps split: prod.splits res.splits if_splits
      dest: ss_readMoreData_mWriteOffset)

lemma ss_flush_mWriteOffset: "ss_flush os ss = (Ok (), ss') \<Longrightarrow> mWriteOffset ss' = 0"
  by (auto simp: ss_flush_def ss_flushWriteBuffer_def monad_simps split: prod.splits res.splits if_splits)

lemma ss_write_Nil: "ss_write os [] ss = (Ok (), ss)"
  by (simp add: ss_write_def BufferSize_def monad_simps)

end
