(* ===== verification/RCL_Decode.thy ===== *)
theory RCL_Decode
  imports RCL_SocketStream
begin

text \<open>
  Deserialisers as programs over a byte source, and the two interfaces between the packet layer
  and the stream below it.

  Every \<open>operator>>\<close> of \<open>common/\<close> is a \<open>'a dec\<close>: it reads fixed numbers of bytes through
  \<open>SocketStream::read\<close> and computes with them. \<open>run_dec rd\<close> runs it on any read operation
  \<open>rd\<close>. The locale \<open>byte_source\<close> states what the packet layer relies on; it holds for the
  buffered socket stream (\<open>ss_byte_source\<close>) and for the abstract stream of the handlers
  (\<open>RCL_PacketStream\<close>). The locale \<open>byte_sink\<close> is the same for writing, and \<open>codec\<close> is the
  contract between an \<open>operator<<\<close> and its \<open>operator>>\<close>.
\<close>

section \<open>Decoders\<close>

datatype 'a dec =
    DRet 'a
  | DThrow exn
  | DFail failure
  | DRead nat "byte list \<Rightarrow> 'a dec"

primrec dbind :: "'a dec \<Rightarrow> ('a \<Rightarrow> 'b dec) \<Rightarrow> 'b dec" where
  "dbind (DRet a) f = f a"
| "dbind (DThrow e) f = DThrow e"
| "dbind (DFail x) f = DFail x"
| "dbind (DRead n k) f = DRead n (\<lambda>bs. dbind (k bs) f)"

primrec run_dec :: "(nat \<Rightarrow> ('s, byte list) smonad) \<Rightarrow> 'a dec \<Rightarrow> ('s, 'a) smonad" where
  "run_dec rd (DRet a) = mret a"
| "run_dec rd (DThrow e) = mthrow e"
| "run_dec rd (DFail x) = mfail x"
| "run_dec rd (DRead n k) = mbind (rd n) (\<lambda>bs. run_dec rd (k bs))"

lemma run_dec_dbind: "run_dec rd (dbind d f) = mbind (run_dec rd d) (\<lambda>a. run_dec rd (f a))"
  by (induction d) (simp_all add: mbind_assoc, simp_all add: mbind_def mthrow_def mfail_def)

text \<open>Reading from a byte list; a read that needs more than there is blocks.\<close>

definition list_rd :: "nat \<Rightarrow> (byte list, byte list) smonad" where
  "list_rd n = (\<lambda>bs. if n \<le> length bs then (Ok (take n bs), drop n bs) else (Fail Blocked, bs))"

definition decode :: "'a dec \<Rightarrow> byte list \<Rightarrow> 'a res \<times> byte list" where
  "decode d = run_dec list_rd d"

named_theorems codec_simps "evaluation of decoders on encoded input"

lemma decode_DRet [codec_simps]: "decode (DRet a) bs = (Ok a, bs)"
  by (simp add: decode_def monad_simps)

lemma decode_DThrow [codec_simps]: "decode (DThrow e) bs = (Throw e, bs)"
  by (simp add: decode_def monad_simps)

lemma decode_DFail [codec_simps]: "decode (DFail x) bs = (Fail x, bs)"
  by (simp add: decode_def monad_simps)

lemma decode_dbind [codec_simps]:
  "decode (dbind d f) bs = (case decode d bs of
       (Ok a, bs') \<Rightarrow> decode (f a) bs'
     | (Throw e, bs') \<Rightarrow> (Throw e, bs')
     | (Fail x, bs') \<Rightarrow> (Fail x, bs'))"
  unfolding decode_def run_dec_dbind mbind_apply ..

lemma decode_DRead: "decode (DRead n k) bs =
    (if n \<le> length bs then decode (k (take n bs)) (drop n bs) else (Fail Blocked, bs))"
  by (simp add: decode_def mbind_apply list_rd_def)

section \<open>Byte sources\<close>

text \<open>
  The contract of \<open>SocketStream::read\<close>: with enough input it returns exactly the next \<open>n\<close>
  bytes and consumes nothing else; without it never returns a value.
\<close>

locale byte_source =
  fixes rd :: "nat \<Rightarrow> 's \<Rightarrow> byte list res \<times> 's"
    and content :: "'s \<Rightarrow> byte list"
    and sinv :: "'s \<Rightarrow> bool"
  assumes rd_enough: "sinv s \<Longrightarrow> n \<le> length (content s) \<Longrightarrow>
      \<exists>s'. rd n s = (Ok (take n (content s)), s') \<and> content s' = drop n (content s) \<and> sinv s'"
    and rd_short: "sinv s \<Longrightarrow> length (content s) < n \<Longrightarrow> \<not> is_Ok (fst (rd n s))"
begin

text \<open>A decoder does on the source what it does on the list of bytes the source holds.\<close>

lemma run_dec_complete:
  "sinv s \<Longrightarrow> decode d (content s) = (r, rest) \<Longrightarrow> r \<noteq> Fail Blocked \<Longrightarrow>
   \<exists>s'. run_dec rd d s = (r, s') \<and> content s' = rest \<and> sinv s'"
proof (induction d arbitrary: s)
  case (DRead n k)
  then have n: "n \<le> length (content s)" by (auto simp: decode_DRead split: if_splits)
  from rd_enough [OF DRead.prems(1) n] obtain s' where
    s': "rd n s = (Ok (take n (content s)), s')" "content s' = drop n (content s)" "sinv s'"
    by blast
  from DRead.prems n have "decode (k (take n (content s))) (content s') = (r, rest)"
    by (simp add: decode_DRead s')
  with DRead.IH [OF _ s'(3)] DRead.prems(3) s' show ?case by (auto simp: mbind_apply)
qed (auto simp: codec_simps monad_simps)

lemma run_dec_sound:
  assumes "sinv s" and "run_dec rd d s = (Ok x, s')"
  shows "decode d (content s) = (Ok x, content s')"
  using assms
proof (induction d arbitrary: s)
  case (DRead n k)
  have n: "n \<le> length (content s)"
  proof (rule ccontr)
    assume "\<not> n \<le> length (content s)"
    with rd_short [OF DRead.prems(1), of n] have "\<not> is_Ok (fst (rd n s))" by simp
    with DRead.prems(2) show False
      by (cases "rd n s"; cases "fst (rd n s)") (auto simp: mbind_apply)
  qed
  from rd_enough [OF DRead.prems(1) n] obtain s1 where
    s1: "rd n s = (Ok (take n (content s)), s1)" "content s1 = drop n (content s)" "sinv s1"
    by blast
  with DRead.prems(2) have "run_dec rd (k (take n (content s))) s1 = (Ok x, s')"
    by (simp add: mbind_apply)
  with DRead.IH [OF _ s1(3)] n s1(2) show ?case by (simp add: decode_DRead)
qed (auto simp: codec_simps monad_simps)

lemma run_dec_iff:
  assumes "sinv s"
  shows "(\<exists>s'. run_dec rd d s = (Ok x, s')) \<longleftrightarrow> (\<exists>rest. decode d (content s) = (Ok x, rest))"
proof
  assume "\<exists>s'. run_dec rd d s = (Ok x, s')"
  then obtain s' where "run_dec rd d s = (Ok x, s')" ..
  from run_dec_sound [OF assms this] show "\<exists>rest. decode d (content s) = (Ok x, rest)" ..
next
  assume "\<exists>rest. decode d (content s) = (Ok x, rest)"
  then obtain rest where "decode d (content s) = (Ok x, rest)" ..
  from run_dec_complete [OF assms this] show "\<exists>s'. run_dec rd d s = (Ok x, s')" by auto
qed

end

interpretation list_source: byte_source list_rd "\<lambda>bs. bs" "\<lambda>_. True"
  by unfold_locales (auto simp: list_rd_def)

lemma ss_byte_source: "os_ok os rem out \<Longrightarrow> byte_source (ss_read os) (ss_in rem) ss_inv"
proof
  fix s :: "'a sockstream" and n
  assume os: "os_ok os rem out" and sinv: "ss_inv s"
  show "\<exists>s'. ss_read os n s = (Ok (take n (ss_in rem s)), s') \<and> ss_in rem s' = drop n (ss_in rem s)
          \<and> ss_inv s'" if "n \<le> length (ss_in rem s)"
    using ss_read_enough [OF os sinv that] by blast
  show "\<not> is_Ok (fst (ss_read os n s))" if "length (ss_in rem s) < n"
    using ss_read_short [OF os sinv that] by (auto split: if_splits)
qed

section \<open>Byte sinks\<close>

text \<open>
  The contract of \<open>write\<close> and \<open>flush\<close>: nothing is lost, reordered or repeated, and after a
  flush everything written has been handed to the network.
\<close>

locale byte_sink =
  fixes wr :: "byte list \<Rightarrow> 's \<Rightarrow> unit res \<times> 's"
    and fl :: "'s \<Rightarrow> unit res \<times> 's"
    and written :: "'s \<Rightarrow> byte list"
    and delivered :: "'s \<Rightarrow> byte list"
    and sinv :: "'s \<Rightarrow> bool"
  assumes wr_ok: "sinv s \<Longrightarrow> \<exists>s'. wr bs s = (Ok (), s') \<and> written s' = written s @ bs \<and> sinv s'"
    and fl_ok: "sinv s \<Longrightarrow> \<exists>s'. fl s = (Ok (), s') \<and> written s' = written s
                  \<and> delivered s' = written s \<and> sinv s'"
begin

text \<open>A burst of writes followed by one flush delivers the concatenation.\<close>

lemma burst_writes:
  "sinv s \<Longrightarrow> \<exists>s'. mmap wr bss s = (Ok (map (\<lambda>_. ()) bss), s')
     \<and> written s' = written s @ concat bss \<and> sinv s'"
proof (induction bss arbitrary: s)
  case Nil
  then show ?case by (simp add: monad_simps)
next
  case (Cons bs bss)
  from wr_ok [OF Cons.prems] obtain s1
    where "wr bs s = (Ok (), s1)" "written s1 = written s @ bs" "sinv s1" by blast
  with Cons.IH [of s1] show ?case by (auto simp: monad_simps)
qed

lemma burst_delivers:
  assumes "sinv s"
  shows "\<exists>s'. mbind (mmap wr bss) (\<lambda>_. fl) s = (Ok (), s')
           \<and> delivered s' = written s @ concat bss \<and> sinv s'"
proof -
  from burst_writes [OF assms] obtain s1 where "mmap wr bss s = (Ok (map (\<lambda>_. ()) bss), s1)"
    and w: "written s1 = written s @ concat bss" and i: "sinv s1"
    by blast
  with fl_ok [OF i] show ?thesis by (auto simp: mbind_apply)
qed

end

lemma ss_byte_sink:
  "os_ok os rem out \<Longrightarrow>
   byte_sink (ss_write os) (ss_flush os) (ss_out out) (\<lambda>ss. out (mSocket ss)) ss_inv"
proof
  fix s :: "'a sockstream" and bs
  assume os: "os_ok os rem out" and sinv: "ss_inv s"
  show "\<exists>s'. ss_write os bs s = (Ok (), s') \<and> ss_out out s' = ss_out out s @ bs \<and> ss_inv s'"
    using ss_write_ok [OF os sinv] by blast
  show "\<exists>s'. ss_flush os s = (Ok (), s') \<and> ss_out out s' = ss_out out s
          \<and> out (mSocket s') = ss_out out s \<and> ss_inv s'"
    using ss_flush_ok [OF os sinv] by blast
qed

section \<open>Codecs\<close>

locale codec =
  fixes enc :: "'a \<Rightarrow> byte list"
    and dec :: "'a dec"
    and ok :: "'a \<Rightarrow> bool"
  assumes decode_enc: "ok x \<Longrightarrow> decode dec (enc x @ rest) = (Ok x, rest)"
begin

lemma prefix_free: "ok x \<Longrightarrow> ok y \<Longrightarrow> enc x @ r = enc y @ r' \<Longrightarrow> x = y \<and> r = r'"
  by (metis decode_enc prod.inject res.inject(1))

lemma enc_inj: "inj_on enc {x. ok x}"
  by (rule inj_onI) (metis mem_Collect_eq prefix_free)

text \<open>The decoder recovers the value from any source that meets the contract.\<close>

lemma decode_from_source:
  assumes "byte_source rd content sinv" and "sinv s" and "content s = enc x @ rest" and "ok x"
  shows "\<exists>s'. run_dec rd dec s = (Ok x, s') \<and> content s' = rest \<and> sinv s'"
  using byte_source.run_dec_complete [OF assms(1,2), of dec "Ok x" rest] decode_enc assms(3,4)
  by simp

end

end
