(* ===== verification/RCL_Interaction.thy ===== *)
theory RCL_Interaction
  imports RCL_Decode
begin

text \<open>
  Code that talks over a stream, and the streams it can run on.

  The handlers of the server (and every client call) read and write packets through one
  \<open>SocketStream\<close> while they change the state \<open>'s\<close> of their instance. Such code is a
  \<open>('s, 'a) prog\<close>: the tree of its reads, peeks, writes and flushes, with the outcome of each
  as the argument of what follows, so that \<open>try\<close>/\<open>catch\<close> is a function on programs
  (\<open>pcatch\<close>). \<open>run ops\<close> executes a program on a stream whose four operations are \<open>ops\<close>.

  Two streams matter: the buffered socket stream (\<open>ss_ops\<close>) and the abstract \<open>stream\<close>, two byte
  queues (\<open>st_ops\<close>). The locale \<open>stream_refinement\<close> carries the result that ties them: whatever a
  program does on the abstract stream it does on a socket stream, for every segmentation of the
  traffic (\<open>run_refines\<close>).
\<close>

section \<open>Programs\<close>

datatype ('s, 'a) prog =
    PRet 'a
  | PThrow exn
  | PFail failure
  | PGet "'s \<Rightarrow> ('s, 'a) prog"
  | PPut 's "('s, 'a) prog"
  | PRead nat "exn + byte list \<Rightarrow> ('s, 'a) prog"
  | PPeek "byte \<Rightarrow> ('s, 'a) prog"
  | PWrite "byte list" "exn option \<Rightarrow> ('s, 'a) prog"
  | PFlush "exn option \<Rightarrow> ('s, 'a) prog"

primrec pbind :: "('s, 'a) prog \<Rightarrow> ('a \<Rightarrow> ('s, 'b) prog) \<Rightarrow> ('s, 'b) prog" where
  "pbind (PRet a) f = f a"
| "pbind (PThrow e) f = PThrow e"
| "pbind (PFail x) f = PFail x"
| "pbind (PGet k) f = PGet (\<lambda>s. pbind (k s) f)"
| "pbind (PPut s p) f = PPut s (pbind p f)"
| "pbind (PRead n k) f = PRead n (\<lambda>r. pbind (k r) f)"
| "pbind (PPeek k) f = PPeek (\<lambda>b. pbind (k b) f)"
| "pbind (PWrite bs k) f = PWrite bs (\<lambda>r. pbind (k r) f)"
| "pbind (PFlush k) f = PFlush (\<lambda>r. pbind (k r) f)"

text \<open>\<open>try { p } catch\<close>: \<open>h\<close> handles every exception, also those of reads and writes.\<close>

primrec pcatch :: "('s, 'a) prog \<Rightarrow> (exn \<Rightarrow> ('s, 'a) prog) \<Rightarrow> ('s, 'a) prog" where
  "pcatch (PRet a) h = PRet a"
| "pcatch (PThrow e) h = h e"
| "pcatch (PFail x) h = PFail x"
| "pcatch (PGet k) h = PGet (\<lambda>s. pcatch (k s) h)"
| "pcatch (PPut s p) h = PPut s (pcatch p h)"
| "pcatch (PRead n k) h = PRead n (\<lambda>r. pcatch (k r) h)"
| "pcatch (PPeek k) h = PPeek (\<lambda>b. pcatch (k b) h)"
| "pcatch (PWrite bs k) h = PWrite bs (\<lambda>r. pcatch (k r) h)"
| "pcatch (PFlush k) h = PFlush (\<lambda>r. pcatch (k r) h)"

definition pread :: "nat \<Rightarrow> ('s, byte list) prog" where
  "pread n = PRead n (\<lambda>r. case r of Inl e \<Rightarrow> PThrow e | Inr bs \<Rightarrow> PRet bs)"

definition ppeek :: "('s, byte) prog" where
  "ppeek = PPeek PRet"

definition pwrite :: "byte list \<Rightarrow> ('s, unit) prog" where
  "pwrite bs = PWrite bs (\<lambda>r. case r of Some e \<Rightarrow> PThrow e | None \<Rightarrow> PRet ())"

definition pflush :: "('s, unit) prog" where
  "pflush = PFlush (\<lambda>r. case r of Some e \<Rightarrow> PThrow e | None \<Rightarrow> PRet ())"

definition pget :: "('s \<Rightarrow> 'a) \<Rightarrow> ('s, 'a) prog" where
  "pget g = PGet (\<lambda>s. PRet (g s))"

definition pupd :: "('s \<Rightarrow> 's) \<Rightarrow> ('s, unit) prog" where
  "pupd g = PGet (\<lambda>s. PPut (g s) (PRet ()))"

text \<open>Running a state transformer of the instance, such as a call into a library.\<close>

definition pstate :: "('s \<Rightarrow> 'a \<times> 's) \<Rightarrow> ('s, 'a) prog" where
  "pstate t = PGet (\<lambda>s. case t s of (a, s') \<Rightarrow> PPut s' (PRet a))"

definition passert :: "bool \<Rightarrow> ('s, unit) prog" where
  "passert b = (if b then PRet () else PFail AssertionFailed)"

fun pmap :: "('a \<Rightarrow> ('s, 'b) prog) \<Rightarrow> 'a list \<Rightarrow> ('s, 'b list) prog" where
  "pmap f [] = PRet []"
| "pmap f (x # xs) = pbind (f x) (\<lambda>y. pbind (pmap f xs) (\<lambda>ys. PRet (y # ys)))"

text \<open>A deserialiser as a program.\<close>

primrec pdec :: "'a dec \<Rightarrow> ('s, 'a) prog" where
  "pdec (DRet a) = PRet a"
| "pdec (DThrow e) = PThrow e"
| "pdec (DFail x) = PFail x"
| "pdec (DRead n k) = PRead n (\<lambda>r. case r of Inl e \<Rightarrow> PThrow e | Inr bs \<Rightarrow> pdec (k bs))"

lemma pbind_PRet_right [simp]: "pbind p PRet = p"
  by (induction p) (auto simp: fun_eq_iff)

lemma pbind_assoc: "pbind (pbind p f) g = pbind p (\<lambda>a. pbind (f a) g)"
  by (induction p) (auto simp: fun_eq_iff)

section \<open>Running a program on a stream\<close>

record 'c stream_ops =
  so_read :: "nat \<Rightarrow> 'c \<Rightarrow> byte list res \<times> 'c"
  so_peek :: "'c \<Rightarrow> byte res \<times> 'c"
  so_write :: "byte list \<Rightarrow> 'c \<Rightarrow> unit res \<times> 'c"
  so_flush :: "'c \<Rightarrow> unit res \<times> 'c"

primrec run :: "'c stream_ops \<Rightarrow> ('s, 'a) prog \<Rightarrow> 's \<Rightarrow> 'c \<Rightarrow> 'a res \<times> 's \<times> 'c" where
  "run ops (PRet a) s c = (Ok a, s, c)"
| "run ops (PThrow e) s c = (Throw e, s, c)"
| "run ops (PFail x) s c = (Fail x, s, c)"
| "run ops (PGet k) s c = run ops (k s) s c"
| "run ops (PPut s' p) s c = run ops p s' c"
| "run ops (PRead n k) s c = (case so_read ops n c of
      (Ok bs, c') \<Rightarrow> run ops (k (Inr bs)) s c'
    | (Throw e, c') \<Rightarrow> run ops (k (Inl e)) s c'
    | (Fail x, c') \<Rightarrow> (Fail x, s, c'))"
| "run ops (PPeek k) s c = (case so_peek ops c of
      (Ok b, c') \<Rightarrow> run ops (k b) s c'
    | (Throw e, c') \<Rightarrow> (Throw e, s, c')
    | (Fail x, c') \<Rightarrow> (Fail x, s, c'))"
| "run ops (PWrite bs k) s c = (case so_write ops bs c of
      (Ok _, c') \<Rightarrow> run ops (k None) s c'
    | (Throw e, c') \<Rightarrow> run ops (k (Some e)) s c'
    | (Fail x, c') \<Rightarrow> (Fail x, s, c'))"
| "run ops (PFlush k) s c = (case so_flush ops c of
      (Ok _, c') \<Rightarrow> run ops (k None) s c'
    | (Throw e, c') \<Rightarrow> run ops (k (Some e)) s c'
    | (Fail x, c') \<Rightarrow> (Fail x, s, c'))"

named_theorems prog_simps "evaluation of programs"

lemma run_pbind [prog_simps]:
  "run ops (pbind p f) s c = (case run ops p s c of
      (Ok a, s', c') \<Rightarrow> run ops (f a) s' c'
    | (Throw e, s', c') \<Rightarrow> (Throw e, s', c')
    | (Fail x, s', c') \<Rightarrow> (Fail x, s', c'))"
  by (induction p arbitrary: s c) (auto split: prod.splits res.splits)

lemma run_pcatch [prog_simps]:
  "(\<And>c. \<not> (\<exists>e c'. so_peek ops c = (Throw e, c'))) \<Longrightarrow>
   run ops (pcatch p h) s c = (case run ops p s c of
      (Throw e, s', c') \<Rightarrow> run ops (h e) s' c' | r \<Rightarrow> r)"
proof (induction p arbitrary: s c)
  case (PPeek k)
  then show ?case by (auto split: prod.splits res.splits)
qed (auto split: prod.splits res.splits)

lemma run_PRet [prog_simps]: "run ops (PRet a) s c = (Ok a, s, c)" by simp

lemma run_PThrow [prog_simps]: "run ops (PThrow e) s c = (Throw e, s, c)" by simp

lemma run_PFail [prog_simps]: "run ops (PFail x) s c = (Fail x, s, c)" by simp

lemma run_pget [prog_simps]: "run ops (pget g) s c = (Ok (g s), s, c)"
  by (simp add: pget_def)

lemma run_pupd [prog_simps]: "run ops (pupd g) s c = (Ok (), g s, c)"
  by (simp add: pupd_def)

lemma run_pstate [prog_simps]:
  "run ops (pstate t) s c = (Ok (fst (t s)), snd (t s), c)"
  by (simp add: pstate_def split: prod.splits)

lemma run_passert [prog_simps]:
  "run ops (passert b) s c = (if b then Ok () else Fail AssertionFailed, s, c)"
  by (simp add: passert_def)

lemma run_pmap_Nil [prog_simps]: "run ops (pmap f []) s c = (Ok [], s, c)" by simp

section \<open>Changes of state\<close>

text \<open>
  \<open>presv Q p s\<close>: whatever the stream delivers, every change of the instance's state that \<open>p\<close>
  makes from \<open>s\<close> is in \<open>Q\<close>. \<open>preserves Q p\<close> says it for every start state.
\<close>

primrec presv :: "('s \<Rightarrow> 's \<Rightarrow> bool) \<Rightarrow> ('s, 'a) prog \<Rightarrow> 's \<Rightarrow> bool" where
  "presv Q (PRet a) s = True"
| "presv Q (PThrow e) s = True"
| "presv Q (PFail x) s = True"
| "presv Q (PGet k) s = presv Q (k s) s"
| "presv Q (PPut s' p) s = (Q s s' \<and> presv Q p s')"
| "presv Q (PRead n k) s = (\<forall>r. presv Q (k r) s)"
| "presv Q (PPeek k) s = (\<forall>b. presv Q (k b) s)"
| "presv Q (PWrite bs k) s = (\<forall>r. presv Q (k r) s)"
| "presv Q (PFlush k) s = (\<forall>r. presv Q (k r) s)"

definition preserves :: "('s \<Rightarrow> 's \<Rightarrow> bool) \<Rightarrow> ('s, 'a) prog \<Rightarrow> bool" where
  "preserves Q p \<longleftrightarrow> (\<forall>s. presv Q p s)"

named_theorems preserves_intros "composition of state-preserving programs"

lemma presv_pbind: "presv Q p s \<Longrightarrow> (\<And>a s'. presv Q (f a) s') \<Longrightarrow> presv Q (pbind p f) s"
  by (induction p arbitrary: s) auto

lemma presv_pcatch: "presv Q p s \<Longrightarrow> (\<And>e s'. presv Q (h e) s') \<Longrightarrow> presv Q (pcatch p h) s"
  by (induction p arbitrary: s) auto

lemma preserves_pbind [preserves_intros]:
  "preserves Q p \<Longrightarrow> (\<And>a. preserves Q (f a)) \<Longrightarrow> preserves Q (pbind p f)"
  by (simp add: preserves_def presv_pbind)

lemma preserves_pcatch [preserves_intros]:
  "preserves Q p \<Longrightarrow> (\<And>e. preserves Q (h e)) \<Longrightarrow> preserves Q (pcatch p h)"
  by (simp add: preserves_def presv_pcatch)

lemma preserves_PRet [preserves_intros]: "preserves Q (PRet a)"
  by (simp add: preserves_def)

lemma preserves_PThrow [preserves_intros]: "preserves Q (PThrow e)"
  by (simp add: preserves_def)

lemma preserves_PFail [preserves_intros]: "preserves Q (PFail x)"
  by (simp add: preserves_def)

lemma preserves_pread [preserves_intros]: "preserves Q (pread n)"
  by (simp add: preserves_def pread_def split: sum.split)

lemma preserves_ppeek [preserves_intros]: "preserves Q ppeek"
  by (simp add: preserves_def ppeek_def)

lemma preserves_pwrite [preserves_intros]: "preserves Q (pwrite bs)"
  by (simp add: preserves_def pwrite_def split: option.split)

lemma preserves_pflush [preserves_intros]: "preserves Q pflush"
  by (simp add: preserves_def pflush_def split: option.split)

lemma preserves_passert [preserves_intros]: "preserves Q (passert b)"
  by (simp add: preserves_def passert_def)

lemma preserves_pget [preserves_intros]: "preserves Q (pget g)"
  by (simp add: preserves_def pget_def)

lemma presv_pdec: "presv Q (pdec d) s"
  by (induction d) (auto split: sum.split)

lemma preserves_pdec [preserves_intros]: "preserves Q (pdec d)"
  by (simp add: preserves_def presv_pdec)

lemma preserves_pupd: "(\<And>s. Q s (g s)) \<Longrightarrow> preserves Q (pupd g)"
  by (simp add: preserves_def pupd_def)

lemma preserves_pstate: "(\<And>s. Q s (snd (t s))) \<Longrightarrow> preserves Q (pstate t)"
  by (auto simp: preserves_def pstate_def split: prod.split) (metis snd_conv)

lemma preserves_pmap [preserves_intros]:
  "(\<And>x. preserves Q (f x)) \<Longrightarrow> preserves Q (pmap f xs)"
  by (induction xs) (auto intro!: preserves_intros)

lemma preserves_If [preserves_intros]:
  "(b \<Longrightarrow> preserves Q p) \<Longrightarrow> (\<not> b \<Longrightarrow> preserves Q q) \<Longrightarrow> preserves Q (if b then p else q)"
  by simp

lemma preserves_Let [preserves_intros]:
  "(\<And>x. preserves Q (f x)) \<Longrightarrow> preserves Q (let x = e in f x)"
  by simp

lemma preserves_case_option [preserves_intros]:
  "(\<And>x. preserves Q (f x)) \<Longrightarrow> preserves Q q \<Longrightarrow>
   preserves Q (case m of None \<Rightarrow> q | Some x \<Rightarrow> f x)"
  by (simp split: option.split)

lemma preserves_case_prod [preserves_intros]:
  "(\<And>x y. preserves Q (f x y)) \<Longrightarrow> preserves Q (case m of (x, y) \<Rightarrow> f x y)"
  by (simp split: prod.split)

text \<open>What a program does to the state is a sequence of changes in \<open>Q\<close>, on every stream.\<close>

lemma presv_run: "presv Q p s \<Longrightarrow> run ops p s c = (r, s', c') \<Longrightarrow> Q\<^sup>*\<^sup>* s s'"
proof (induction p arbitrary: s c)
  case (PGet k)
  then show ?case by (metis presv.simps(4) rangeI run.simps(4))
next
  case (PPut s1 p)
  then show ?case by (auto intro: converse_rtranclp_into_rtranclp)
next
  case (PRead n k)
  then show ?case by (fastforce split: prod.splits res.splits)
next
  case (PPeek k)
  then show ?case by (fastforce split: prod.splits res.splits)
next
  case (PWrite bs k)
  then show ?case by (fastforce split: prod.splits res.splits)
next
  case (PFlush k)
  then show ?case by (fastforce split: prod.splits res.splits)
qed auto

lemma preserves_run:
  assumes "preserves Q p" and "reflp Q" and "transp Q" and "run ops p s c = (r, s', c')"
  shows "Q s s'"
proof -
  from assms(1) have "Q\<^sup>*\<^sup>* s s'" using presv_run [OF _ assms(4)] by (simp add: preserves_def)
  then show ?thesis
    by induction (use assms(2,3) in \<open>auto dest: reflpD transpD\<close>)
qed

section \<open>The abstract stream\<close>

text \<open>
  \<open>s_in\<close> is what is left to read and \<open>s_closed\<close> tells whether the peer has closed its end;
  \<open>s_sent\<close> is what has been flushed, \<open>s_pending\<close> what has been written since. On an open stream
  a read that needs more than there is waits (\<open>Blocked\<close>). On a closed one it does what the
  socket stream does: it throws, or it spins when at least a whole buffer is missing.
\<close>

record stream =
  s_in :: "byte list"
  s_closed :: bool
  s_pending :: "byte list"
  s_sent :: "byte list"

definition st_read :: "nat \<Rightarrow> (stream, byte list) smonad" where
  "st_read n = (\<lambda>st.
     let avail = length (s_in st) in
     if n \<le> avail then (Ok (take n (s_in st)), st\<lparr>s_in := drop n (s_in st)\<rparr>)
     else if \<not> s_closed st then (Fail Blocked, st)
     else if BufferSize \<le> n - avail then (Fail Nontermination, st)
     else (Throw SocketError, st\<lparr>s_in := []\<rparr>))"

definition st_peek :: "(stream, byte) smonad" where
  "st_peek = (\<lambda>st. case s_in st of
       b # _ \<Rightarrow> (Ok b, st)
     | [] \<Rightarrow> if s_closed st then (Ok 255, st) else (Fail Blocked, st))"

definition st_write :: "byte list \<Rightarrow> (stream, unit) smonad" where
  "st_write bs = (\<lambda>st. (Ok (), st\<lparr>s_pending := s_pending st @ bs\<rparr>))"

definition st_flush :: "(stream, unit) smonad" where
  "st_flush = (\<lambda>st. (Ok (), st\<lparr>s_sent := s_sent st @ s_pending st, s_pending := []\<rparr>))"

definition st_ops :: "stream stream_ops" where
  "st_ops = \<lparr>so_read = st_read, so_peek = st_peek, so_write = st_write, so_flush = st_flush\<rparr>"

definition st_out :: "stream \<Rightarrow> byte list" where
  "st_out st = s_sent st @ s_pending st"

interpretation stream_source: byte_source st_read s_in "\<lambda>_. True"
  by unfold_locales (auto simp: st_read_def Let_def)

interpretation stream_sink: byte_sink st_write st_flush st_out s_sent "\<lambda>_. True"
  by unfold_locales (auto simp: st_write_def st_flush_def st_out_def)

text \<open>Evaluation of programs on the abstract stream.\<close>

abbreviation exec :: "('s, 'a) prog \<Rightarrow> 's \<Rightarrow> stream \<Rightarrow> 'a res \<times> 's \<times> stream" where
  "exec \<equiv> run st_ops"

lemma exec_pread:
  "exec (pread n) s st = (let (r, st') = st_read n st in (r, s, st'))"
  by (auto simp: pread_def st_ops_def split: prod.splits res.splits)

lemma exec_ppeek [prog_simps]:
  "exec ppeek s st = (let (r, st') = st_peek st in (r, s, st'))"
  by (auto simp: ppeek_def st_ops_def split: prod.splits res.splits)

lemma exec_pwrite [prog_simps]:
  "exec (pwrite bs) s st = (Ok (), s, st\<lparr>s_pending := s_pending st @ bs\<rparr>)"
  by (simp add: pwrite_def st_ops_def st_write_def)

lemma exec_pflush [prog_simps]:
  "exec pflush s st = (Ok (), s, st\<lparr>s_sent := s_sent st @ s_pending st, s_pending := []\<rparr>)"
  by (simp add: pflush_def st_ops_def st_flush_def)

lemma exec_pcatch [prog_simps]:
  "exec (pcatch p h) s st = (case exec p s st of
      (Throw e, s', st') \<Rightarrow> exec (h e) s' st' | r \<Rightarrow> r)"
  by (rule run_pcatch) (auto simp: st_ops_def st_peek_def split: list.splits if_splits)

lemma exec_pdec:
  "exec (pdec d) s st = (case run_dec st_read d st of (r, st') \<Rightarrow> (r, s, st'))"
  by (induction d arbitrary: st)
    (auto simp: monad_simps st_ops_def split: prod.splits res.splits)

text \<open>A decoder that finds all it needs consumes it and leaves the rest of the stream alone.\<close>

lemma st_read_frame: "st_read n st = (r, st') \<Longrightarrow> \<exists>i. st' = st\<lparr>s_in := i\<rparr>"
  by (auto simp: st_read_def Let_def split: if_splits intro: exI [of _ "s_in st"])

lemma run_dec_st_frame: "run_dec st_read d st = (r, st') \<Longrightarrow> \<exists>i. st' = st\<lparr>s_in := i\<rparr>"
proof (induction d arbitrary: st)
  case (DRead n k)
  obtain q st1 where rd: "st_read n st = (q, st1)" by (cases "st_read n st")
  from st_read_frame [OF rd] obtain j where st1: "st1 = st\<lparr>s_in := j\<rparr>" by blast
  show ?case
  proof (cases q)
    case (Ok bs)
    with DRead.prems rd have "run_dec st_read (k bs) st1 = (r, st')" by (simp add: mbind_apply)
    with DRead.IH [of "k bs" st1] st1 show ?thesis by auto
  qed (use DRead.prems rd st1 in \<open>auto simp: mbind_apply\<close>)
qed (auto simp: monad_simps intro: exI [of _ "s_in st'"])

lemma exec_pdec_Ok:
  assumes "decode d (s_in st) = (Ok x, rest)"
  shows "exec (pdec d) s st = (Ok x, s, st\<lparr>s_in := rest\<rparr>)"
proof -
  from stream_source.run_dec_complete [OF _ assms]
  obtain st' where st': "run_dec st_read d st = (Ok x, st')" "s_in st' = rest" by auto
  with run_dec_st_frame [OF st'(1)] show ?thesis by (auto simp: exec_pdec)
qed

section \<open>Refinement\<close>

text \<open>
  A stream \<open>ops\<close> implements the abstract one when each operation gives the result the abstract
  operation gives, unless that one waits for data that has not arrived.
\<close>

locale stream_refinement =
  fixes ops :: "'c stream_ops"
    and R :: "'c \<Rightarrow> stream \<Rightarrow> bool"
  assumes read_sim: "R c st \<Longrightarrow> st_read n st = (r, st') \<Longrightarrow> r \<noteq> Fail Blocked \<Longrightarrow>
      \<exists>c'. so_read ops n c = (r, c') \<and> (r = Fail Nontermination \<or> R c' st')"
    and peek_sim: "R c st \<Longrightarrow> st_peek st = (q, st') \<Longrightarrow> q \<noteq> Fail Blocked \<Longrightarrow>
      \<exists>c'. so_peek ops c = (q, c') \<and> R c' st'"
    and write_sim: "R c st \<Longrightarrow> st_write bs st = (u, st') \<Longrightarrow>
      \<exists>c'. so_write ops bs c = (u, c') \<and> R c' st'"
    and flush_sim: "R c st \<Longrightarrow> st_flush st = (u, st') \<Longrightarrow>
      \<exists>c'. so_flush ops c = (u, c') \<and> R c' st'"
begin

lemma run_refines:
  "R c st \<Longrightarrow> exec p s st = (r, s', st') \<Longrightarrow> r \<noteq> Fail Blocked \<Longrightarrow>
   \<exists>c'. run ops p s c = (r, s', c') \<and> (r = Fail Nontermination \<or> R c' st')"
proof (induction p arbitrary: s st c)
  case (PRead n k)
  obtain q st1 where rd: "st_read n st = (q, st1)" by (cases "st_read n st")
  have nb: "q \<noteq> Fail Blocked" using PRead.prems rd by (auto simp: st_ops_def)
  from read_sim [OF PRead.prems(1) rd nb] obtain c1
    where c1: "so_read ops n c = (q, c1)" "q = Fail Nontermination \<or> R c1 st1" by blast
  show ?case
  proof (cases q)
    case (Ok bs)
    with PRead.prems rd PRead.IH [of "k (Inr bs)" c1 st1 s] c1 show ?thesis
      by (auto simp: st_ops_def)
  next
    case (Throw e)
    with PRead.prems rd PRead.IH [of "k (Inl e)" c1 st1 s] c1 show ?thesis
      by (auto simp: st_ops_def)
  next
    case (Fail x)
    with PRead.prems rd c1 show ?thesis by (auto simp: st_ops_def)
  qed
next
  case (PPeek k)
  obtain q st1 where rd: "st_peek st = (q, st1)" by (cases "st_peek st")
  have nb: "q \<noteq> Fail Blocked" using PPeek.prems rd by (auto simp: st_ops_def)
  from peek_sim [OF PPeek.prems(1) rd nb] obtain c1
    where c1: "so_peek ops c = (q, c1)" "R c1 st1" by blast
  show ?case
  proof (cases q)
    case (Ok b)
    with PPeek.prems rd PPeek.IH [of "k b" c1 st1 s] c1 show ?thesis
      by (auto simp: st_ops_def)
  qed (use PPeek.prems rd c1 in \<open>auto simp: st_ops_def\<close>)
next
  case (PWrite bs k)
  obtain st1 where w: "st_write bs st = (Ok (), st1)" by (simp add: st_write_def)
  from write_sim [OF PWrite.prems(1) w] obtain c1
    where "so_write ops bs c = (Ok (), c1)" "R c1 st1" by blast
  with PWrite.prems w PWrite.IH [of "k None" c1 st1 s] show ?case by (auto simp: st_ops_def)
next
  case (PFlush k)
  obtain st1 where w: "st_flush st = (Ok (), st1)" by (simp add: st_flush_def)
  from flush_sim [OF PFlush.prems(1) w] obtain c1
    where "so_flush ops c = (Ok (), c1)" "R c1 st1" by blast
  with PFlush.prems w PFlush.IH [of "k None" c1 st1 s] show ?case by (auto simp: st_ops_def)
qed auto

end

interpretation abstract_stream: stream_refinement st_ops "(=)"
  by unfold_locales (auto simp: st_ops_def)

subsection \<open>The socket stream implements the abstract stream\<close>

definition ss_ops :: "'n os \<Rightarrow> 'n sockstream stream_ops" where
  "ss_ops os = \<lparr>so_read = ss_read os, so_peek = ss_peek os, so_write = ss_write os,
                 so_flush = ss_flush os\<rparr>"

text \<open>
  The socket stream holds what the abstract one holds, and more when the peer has not closed its
  end of the abstract one. When nothing is pending, nothing is left in the write buffer.
\<close>

definition ss_abs ::
  "('n \<Rightarrow> byte list) \<Rightarrow> ('n \<Rightarrow> byte list) \<Rightarrow> 'n sockstream \<Rightarrow> stream \<Rightarrow> bool" where
  "ss_abs rem out ss st \<longleftrightarrow> ss_inv ss \<and> ss_out out ss = st_out st
     \<and> (s_pending st = [] \<longrightarrow> mWriteOffset ss = 0)
     \<and> (\<exists>more. ss_in rem ss = s_in st @ more \<and> (s_closed st \<longrightarrow> more = []))"

lemma ss_abs_delivered:
  "ss_abs rem out ss st \<Longrightarrow> s_pending st = [] \<Longrightarrow> out (mSocket ss) = s_sent st"
  by (auto simp: ss_abs_def ss_out_def st_out_def)

lemma ss_abs_read:
  assumes os: "os_ok os rem out" and R: "ss_abs rem out ss st"
    and r: "st_read n st = (r, st')" and nb: "r \<noteq> Fail Blocked"
  shows "\<exists>ss'. ss_read os n ss = (r, ss') \<and> (r = Fail Nontermination \<or> ss_abs rem out ss' st')"
proof -
  from R obtain more where inv: "ss_inv ss" and out: "ss_out out ss = st_out st"
    and off: "s_pending st = [] \<longrightarrow> mWriteOffset ss = 0"
    and inp: "ss_in rem ss = s_in st @ more" and cl: "s_closed st \<longrightarrow> more = []"
    unfolding ss_abs_def by blast
  show ?thesis
  proof (cases "n \<le> length (s_in st)")
    case True
    with r have r': "r = Ok (take n (s_in st))" "st' = st\<lparr>s_in := drop n (s_in st)\<rparr>"
      by (auto simp: st_read_def)
    from True inp have "n \<le> length (ss_in rem ss)" by simp
    from ss_read_enough [OF os inv this] True inp out cl off show ?thesis
      by (auto simp: r' ss_abs_def st_out_def intro: trans [OF ss_read_mWriteOffset])
  next
    case False
    with r nb have closed: "s_closed st" by (auto simp: st_read_def Let_def split: if_splits)
    with cl inp have inp': "ss_in rem ss = s_in st" by simp
    with False have "length (ss_in rem ss) < n" by simp
    from ss_read_short [OF os inv this] False r closed out off show ?thesis
      by (auto simp: inp' st_read_def Let_def ss_abs_def st_out_def split: if_splits
          intro: trans [OF ss_read_mWriteOffset])
  qed
qed

lemma ss_abs_peek:
  assumes os: "os_ok os rem out" and R: "ss_abs rem out ss st"
    and r: "st_peek st = (r, st')" and nb: "r \<noteq> Fail Blocked"
  shows "\<exists>ss'. ss_peek os ss = (r, ss') \<and> ss_abs rem out ss' st'"
proof -
  from R obtain more where inv: "ss_inv ss" and out: "ss_out out ss = st_out st"
    and off: "s_pending st = [] \<longrightarrow> mWriteOffset ss = 0"
    and inp: "ss_in rem ss = s_in st @ more" and cl: "s_closed st \<longrightarrow> more = []"
    unfolding ss_abs_def by blast
  from r nb inp cl have "r = Ok (case ss_in rem ss of [] \<Rightarrow> 255 | b # _ \<Rightarrow> b)" and "st' = st"
    by (auto simp: st_peek_def split: list.splits if_splits)
  with ss_peek_ok [OF os inv] inp cl out off show ?thesis
    by (auto simp: ss_abs_def intro: trans [OF ss_peek_mWriteOffset])
qed

lemma ss_stream_refinement:
  "os_ok os rem out \<Longrightarrow> stream_refinement (ss_ops os) (ss_abs rem out)"
proof (rule stream_refinement.intro)
  fix c :: "'a sockstream" and st n r st'
  assume os: "os_ok os rem out" and R: "ss_abs rem out c st"
  show "\<exists>c'. so_read (ss_ops os) n c = (r, c') \<and> (r = Fail Nontermination \<or> ss_abs rem out c' st')"
    if "st_read n st = (r, st')" "r \<noteq> Fail Blocked"
    using ss_abs_read [OF os R that] by (simp add: ss_ops_def)
next
  fix c :: "'a sockstream" and st q st'
  assume os: "os_ok os rem out" and R: "ss_abs rem out c st"
  show "\<exists>c'. so_peek (ss_ops os) c = (q, c') \<and> ss_abs rem out c' st'"
    if "st_peek st = (q, st')" "q \<noteq> Fail Blocked"
    using ss_abs_peek [OF os R that] by (simp add: ss_ops_def)
next
  fix c :: "'a sockstream" and st bs u st'
  assume os: "os_ok os rem out" and R: "ss_abs rem out c st"
  show "\<exists>c'. so_write (ss_ops os) bs c = (u, c') \<and> ss_abs rem out c' st'"
    if "st_write bs st = (u, st')"
    using ss_write_ok [OF os, of c bs] ss_write_Nil [of os c] R that
    by (auto simp: ss_ops_def ss_abs_def st_write_def st_out_def)
next
  fix c :: "'a sockstream" and st u st'
  assume os: "os_ok os rem out" and R: "ss_abs rem out c st"
  show "\<exists>c'. so_flush (ss_ops os) c = (u, c') \<and> ss_abs rem out c' st'"
    if "st_flush st = (u, st')"
    using ss_flush_ok [OF os, of c] R that
    by (auto simp: ss_ops_def ss_abs_def st_flush_def st_out_def dest: ss_flush_mWriteOffset)
qed

interpretation segmented: stream_refinement "ss_ops seg_os" "ss_abs (\<lambda>n. concat (fst n)) snd"
  by (rule ss_stream_refinement [OF seg_os_ok])

text \<open>A fresh socket stream whose peer sends \<open>bs\<close> and then closes.\<close>

definition ss_start :: "'n \<Rightarrow> 'n sockstream" where
  "ss_start n = \<lparr>mWriteBuffer = replicate BufferSize 0, mWriteOffset = 0,
                  mReadBuffer = replicate BufferSize 0, mReadOffset = 0, mAvailable = 0,
                  mSocket = n\<rparr>"

lemma ss_start_abs:
  "ss_abs rem out (ss_start n)
     \<lparr>s_in = rem n, s_closed = True, s_pending = [], s_sent = out n\<rparr>"
  by (simp add: ss_abs_def ss_start_def ss_inv_def ss_in_def ss_out_def st_out_def)

lemma ss_inv_start: "ss_inv (ss_start n)"
  by (simp add: ss_inv_def ss_start_def)

lemma ss_in_start: "ss_in rem (ss_start n) = rem n"
  by (simp add: ss_in_def ss_start_def)

lemma ss_out_start: "ss_out out (ss_start n) = out n"
  by (simp add: ss_out_def ss_start_def)

end
