(* ===== verification/RCL_Serialise.thy ===== *)
theory RCL_Serialise
  imports RCL_Decode
begin

text \<open>
  Serialisation of integers, strings, arrays and containers: the integral \<open>operator<<\<close> and
  \<open>operator>>\<close> of \<open>common/socketstream.h\<close> and all of \<open>common/streamserialise.h\<close>.

  \<open>put_*\<close> is what an \<open>operator<<\<close> writes, \<open>get_*\<close> the matching \<open>operator>>\<close>. The
  assertions on sizes of the source are the predicates \<open>*_ok\<close>; a writer checks them before it
  writes (\<open>RCL_PacketStream\<close>).
\<close>

section \<open>Integers\<close>

text \<open>
  \<open>write(&t, sizeof(t))\<close> and \<open>read(&t, sizeof(t))\<close> on a little-endian machine, for the
  integral types the protocol uses.
\<close>

definition put_u8 :: "byte \<Rightarrow> byte list" where
  "put_u8 w = le_encode 1 (unat w)"

definition put_u16 :: "u16 \<Rightarrow> byte list" where
  "put_u16 w = le_encode 2 (unat w)"

definition put_u32 :: "u32 \<Rightarrow> byte list" where
  "put_u32 w = le_encode 4 (unat w)"

definition put_u64 :: "u64 \<Rightarrow> byte list" where
  "put_u64 w = le_encode 8 (unat w)"

definition get_u8 :: "byte dec" where
  "get_u8 = DRead 1 (\<lambda>bs. DRet (word_of_nat (le_decode bs)))"

definition get_u16 :: "u16 dec" where
  "get_u16 = DRead 2 (\<lambda>bs. DRet (word_of_nat (le_decode bs)))"

definition get_u32 :: "u32 dec" where
  "get_u32 = DRead 4 (\<lambda>bs. DRet (word_of_nat (le_decode bs)))"

definition get_u64 :: "u64 dec" where
  "get_u64 = DRead 8 (\<lambda>bs. DRet (word_of_nat (le_decode bs)))"

text \<open>
  A \<open>bool\<close> is one byte. Reading a byte other than 0 or 1 into a \<open>bool\<close> is undefined
  behaviour.
\<close>

definition put_bool :: "bool \<Rightarrow> byte list" where
  "put_bool b = put_u8 (if b then 1 else 0)"

definition get_bool :: "bool dec" where
  "get_bool = dbind get_u8 (\<lambda>b. if b = 0 then DRet False else if b = 1 then DRet True
                                  else DFail UndefinedBehaviour)"

text \<open>
  Sizes are written as an integer of \<open>w\<close> bytes (\<open>SizeT\<close>); converting a \<open>size_t\<close> to it
  keeps the low bits.
\<close>

definition size_max :: "nat \<Rightarrow> nat" where
  "size_max w = 256 ^ w - 1"

definition put_size :: "nat \<Rightarrow> nat \<Rightarrow> byte list" where
  "put_size w n = le_encode w (n mod 256 ^ w)"

definition get_size :: "nat \<Rightarrow> nat dec" where
  "get_size w = DRead w (\<lambda>bs. DRet (le_decode bs))"

section \<open>Strings, arrays, containers\<close>

text \<open>Reading \<open>n\<close> elements one after the other.\<close>

fun get_n :: "nat \<Rightarrow> 'a dec \<Rightarrow> 'a list dec" where
  "get_n 0 d = DRet []"
| "get_n (Suc n) d = dbind d (\<lambda>x. dbind (get_n n d) (\<lambda>xs. DRet (x # xs)))"

text \<open>\<open>Serialiseable<Container, SizeT>\<close> with \<open>sizeof(SizeT) = w\<close>.\<close>

definition container_ok :: "nat \<Rightarrow> 'a list \<Rightarrow> bool" where
  "container_ok w xs \<longleftrightarrow> length xs \<le> size_max w"

definition put_container :: "nat \<Rightarrow> ('a \<Rightarrow> byte list) \<Rightarrow> 'a list \<Rightarrow> byte list" where
  "put_container w put xs = put_size w (length xs) @ concat (map put xs)"

definition get_container :: "nat \<Rightarrow> 'a dec \<Rightarrow> 'a list dec" where
  "get_container w d = dbind (get_size w) (\<lambda>n. get_n n d)"

text \<open>\<open>std::string\<close>, a sequence of bytes with a 16-bit length.\<close>

definition string_ok :: "byte list \<Rightarrow> bool" where
  "string_ok s \<longleftrightarrow> length s \<le> 65535"

definition put_string :: "byte list \<Rightarrow> byte list" where
  "put_string s = put_u16 (word_of_nat (length s)) @ s"

definition get_string :: "byte list dec" where
  "get_string = dbind get_u16 (\<lambda>len. get_n (unat len) get_u8)"

text \<open>\<open>std::array<T, N>\<close>: no size on the wire. \<open>dim3\<close> is \<open>std::array<uint32_t, 3>\<close>.\<close>

definition put_array :: "('a \<Rightarrow> byte list) \<Rightarrow> 'a list \<Rightarrow> byte list" where
  "put_array put a = concat (map put a)"

definition get_array :: "nat \<Rightarrow> 'a dec \<Rightarrow> 'a list dec" where
  "get_array n d = get_n n d"

type_synonym dim3 = "u32 \<times> u32 \<times> u32"

definition put_dim3 :: "dim3 \<Rightarrow> byte list" where
  "put_dim3 a = (case a of (x, y, z) \<Rightarrow> put_array put_u32 [x, y, z])"

definition get_dim3 :: "dim3 dec" where
  "get_dim3 = dbind (get_array 3 get_u32)
                (\<lambda>a. case a of [x, y, z] \<Rightarrow> DRet (x, y, z) | _ \<Rightarrow> DFail UndefinedBehaviour)"

section \<open>Round trips\<close>

lemma word_of_le:
  "unat (w :: 'a::len word) < 256 ^ n \<Longrightarrow> word_of_nat (le_decode (le_encode n (unat w))) = w"
  by (simp add: le_decode_encode)

lemma get_u8_put [codec_simps]: "decode get_u8 (put_u8 w @ rest) = (Ok w, rest)"
  using unsigned_less [of w, where ?'a = nat]
  by (simp add: get_u8_def put_u8_def decode_DRead codec_simps word_of_le del: One_nat_def)

lemma get_u16_put [codec_simps]: "decode get_u16 (put_u16 w @ rest) = (Ok w, rest)"
  using unsigned_less [of w, where ?'a = nat]
  by (simp add: get_u16_def put_u16_def decode_DRead codec_simps word_of_le)

lemma get_u32_put [codec_simps]: "decode get_u32 (put_u32 w @ rest) = (Ok w, rest)"
  using unsigned_less [of w, where ?'a = nat]
  by (simp add: get_u32_def put_u32_def decode_DRead codec_simps word_of_le)

lemma get_u64_put [codec_simps]: "decode get_u64 (put_u64 w @ rest) = (Ok w, rest)"
  using unsigned_less [of w, where ?'a = nat]
  by (simp add: get_u64_def put_u64_def decode_DRead codec_simps word_of_le)

lemma get_bool_put [codec_simps]: "decode get_bool (put_bool b @ rest) = (Ok b, rest)"
  by (simp add: get_bool_def put_bool_def codec_simps)

lemma get_size_put: "decode (get_size w) (put_size w n @ rest) = (Ok (n mod 256 ^ w), rest)"
  by (simp add: get_size_def put_size_def decode_DRead codec_simps le_decode_encode)

lemma get_size_put_fits [codec_simps]:
  "n \<le> size_max w \<Longrightarrow> decode (get_size w) (put_size w n @ rest) = (Ok n, rest)"
proof -
  assume "n \<le> size_max w"
  moreover have "0 < (256 :: nat) ^ w" by simp
  ultimately have "n < 256 ^ w" unfolding size_max_def by linarith
  then show ?thesis by (simp add: get_size_put)
qed

lemma get_n_put:
  assumes "\<And>x rest. x \<in> set xs \<Longrightarrow> decode d (put x @ rest) = (Ok x, rest)"
  shows "decode (get_n (length xs) d) (concat (map put xs) @ rest) = (Ok xs, rest)"
  using assms by (induction xs) (simp_all add: codec_simps)

lemma get_container_put:
  assumes "\<And>x rest. x \<in> set xs \<Longrightarrow> decode d (put x @ rest) = (Ok x, rest)"
    and "container_ok w xs"
  shows "decode (get_container w d) (put_container w put xs @ rest) = (Ok xs, rest)"
  using assms
  by (simp add: get_container_def put_container_def codec_simps container_ok_def get_n_put)

lemma get_container_u16 [codec_simps]:
  "container_ok w xs \<Longrightarrow>
   decode (get_container w get_u16) (put_container w put_u16 xs @ rest) = (Ok xs, rest)"
  by (rule get_container_put) (simp_all add: codec_simps)

lemma get_container_u64 [codec_simps]:
  "container_ok w xs \<Longrightarrow>
   decode (get_container w get_u64) (put_container w put_u64 xs @ rest) = (Ok xs, rest)"
  by (rule get_container_put) (simp_all add: codec_simps)

lemma put_u8_single: "put_u8 b = [b]"
  using le_encode_decode [of "[b]"] by (simp add: put_u8_def)

lemma put_u8_concat: "concat (map put_u8 s) = s"
  by (induction s) (simp_all add: put_u8_single)

lemma get_n_u8 [codec_simps]:
  "length s = n \<Longrightarrow> decode (get_n n get_u8) (s @ rest) = (Ok s, rest)"
  using get_n_put [of s get_u8 put_u8 rest] by (simp add: codec_simps put_u8_concat)

lemma get_string_put [codec_simps]:
  "string_ok s \<Longrightarrow> decode get_string (put_string s @ rest) = (Ok s, rest)"
  by (simp add: get_string_def put_string_def codec_simps string_ok_def unat_of_nat)

lemma get_container_string [codec_simps]:
  "container_ok w xs \<Longrightarrow> list_all string_ok xs \<Longrightarrow>
   decode (get_container w get_string) (put_container w put_string xs @ rest) = (Ok xs, rest)"
  by (rule get_container_put) (simp_all add: codec_simps list_all_iff)

lemma get_array_u8 [codec_simps]:
  "length a = n \<Longrightarrow> decode (get_array n get_u8) (put_array put_u8 a @ rest) = (Ok a, rest)"
  by (simp add: get_array_def put_array_def put_u8_concat codec_simps)

lemma get_dim3_put [codec_simps]: "decode get_dim3 (put_dim3 a @ rest) = (Ok a, rest)"
  by (cases a) (simp add: get_dim3_def put_dim3_def get_array_def put_array_def codec_simps
      numeral_3_eq_3)

end
