(* ===== verification/RCL_PacketType.thy ===== *)
theory RCL_PacketType
  imports RCL_Serialise
begin

text \<open>
  The packet types of \<open>common/packets/packet.h\<close>: an \<open>enum class\<close> over \<open>uint8_t\<close>.
  \<open>pt_code\<close> is the value of an enumerator. A byte read from the wire need not be an
  enumerator: \<open>pt_of_byte\<close> is \<open>None\<close> for the values that no \<open>case\<close> of a \<open>switch\<close>
  matches.
\<close>

datatype (plugins only: code size) packet_type =
    PT_Version
  | PT_Payload
  | PT_Success
  | PT_Error
  | PT_Retain
  | PT_Release
  | PT_CreateContext
  | PT_CreateContextFromType
  | PT_GetContextInfo
  | PT_GetImageFormats
  | PT_CreateQueue
  | PT_CreateQueueWithProp
  | PT_GetQueueInfo
  | PT_Flush
  | PT_Finish
  | PT_CreateSourceProgram
  | PT_CreateBinaryProgram
  | PT_CompileProgram
  | PT_BuildProgram
  | PT_LinkProgram
  | PT_BuildInfo
  | PT_ProgramInfo
  | PT_CreateKernel
  | PT_CreateKernels
  | PT_CloneKernel
  | PT_SetKernelArg
  | PT_KernelWGInfo
  | PT_KernelInfo
  | PT_KernelArgInfo
  | PT_CreateBuffer
  | PT_CreateSubBuffer
  | PT_ReadBuffer
  | PT_ReadBufferRect
  | PT_WriteBuffer
  | PT_FillBuffer
  | PT_GetMemObjInfo
  | PT_CreateImage
  | PT_ReadImage
  | PT_WriteImage
  | PT_GetImageInfo
  | PT_EnqueueKernel
  | PT_CreateUserEvent
  | PT_SetUserEventStatus
  | PT_GetEventInfo
  | PT_GetEventProfilingInfo
  | PT_WaitEvents
  | PT_GetPlatformInfo
  | PT_GetPlatformIDs
  | PT_GetDeviceIDs
  | PT_GetDeviceInfo
  | PT_ID
  | PT_IDList
  | PT_EventStreamOpen
  | PT_CallbackTrigger
  | PT_RegisterEventCallback
  | PT_EventCallbackTrigger
  | PT_Terminate

primrec pt_code :: "packet_type \<Rightarrow> byte" where
  "pt_code PT_Version = 0"
| "pt_code PT_Payload = 1"
| "pt_code PT_Success = 2"
| "pt_code PT_Error = 3"
| "pt_code PT_Retain = 4"
| "pt_code PT_Release = 5"
| "pt_code PT_CreateContext = 6"
| "pt_code PT_CreateContextFromType = 7"
| "pt_code PT_GetContextInfo = 8"
| "pt_code PT_GetImageFormats = 9"
| "pt_code PT_CreateQueue = 10"
| "pt_code PT_CreateQueueWithProp = 11"
| "pt_code PT_GetQueueInfo = 12"
| "pt_code PT_Flush = 13"
| "pt_code PT_Finish = 14"
| "pt_code PT_CreateSourceProgram = 15"
| "pt_code PT_CreateBinaryProgram = 16"
| "pt_code PT_CompileProgram = 17"
| "pt_code PT_BuildProgram = 18"
| "pt_code PT_LinkProgram = 19"
| "pt_code PT_BuildInfo = 20"
| "pt_code PT_ProgramInfo = 21"
| "pt_code PT_CreateKernel = 22"
| "pt_code PT_CreateKernels = 23"
| "pt_code PT_CloneKernel = 24"
| "pt_code PT_SetKernelArg = 25"
| "pt_code PT_KernelWGInfo = 26"
| "pt_code PT_KernelInfo = 27"
| "pt_code PT_KernelArgInfo = 28"
| "pt_code PT_CreateBuffer = 29"
| "pt_code PT_CreateSubBuffer = 30"
| "pt_code PT_ReadBuffer = 31"
| "pt_code PT_ReadBufferRect = 32"
| "pt_code PT_WriteBuffer = 33"
| "pt_code PT_FillBuffer = 34"
| "pt_code PT_GetMemObjInfo = 35"
| "pt_code PT_CreateImage = 36"
| "pt_code PT_ReadImage = 37"
| "pt_code PT_WriteImage = 38"
| "pt_code PT_GetImageInfo = 39"
| "pt_code PT_EnqueueKernel = 40"
| "pt_code PT_CreateUserEvent = 41"
| "pt_code PT_SetUserEventStatus = 42"
| "pt_code PT_GetEventInfo = 43"
| "pt_code PT_GetEventProfilingInfo = 44"
| "pt_code PT_WaitEvents = 45"
| "pt_code PT_GetPlatformInfo = 46"
| "pt_code PT_GetPlatformIDs = 47"
| "pt_code PT_GetDeviceIDs = 48"
| "pt_code PT_GetDeviceInfo = 49"
| "pt_code PT_ID = 50"
| "pt_code PT_IDList = 51"
| "pt_code PT_EventStreamOpen = 52"
| "pt_code PT_CallbackTrigger = 53"
| "pt_code PT_RegisterEventCallback = 54"
| "pt_code PT_EventCallbackTrigger = 55"
| "pt_code PT_Terminate = 255"

definition all_packet_types :: "packet_type list" where
  "all_packet_types =
    [PT_Version, PT_Payload, PT_Success, PT_Error, PT_Retain, PT_Release, PT_CreateContext,
     PT_CreateContextFromType, PT_GetContextInfo, PT_GetImageFormats, PT_CreateQueue,
     PT_CreateQueueWithProp, PT_GetQueueInfo, PT_Flush, PT_Finish, PT_CreateSourceProgram,
     PT_CreateBinaryProgram, PT_CompileProgram, PT_BuildProgram, PT_LinkProgram,
     PT_BuildInfo, PT_ProgramInfo, PT_CreateKernel, PT_CreateKernels, PT_CloneKernel,
     PT_SetKernelArg, PT_KernelWGInfo, PT_KernelInfo, PT_KernelArgInfo, PT_CreateBuffer,
     PT_CreateSubBuffer, PT_ReadBuffer, PT_ReadBufferRect, PT_WriteBuffer, PT_FillBuffer,
     PT_GetMemObjInfo, PT_CreateImage, PT_ReadImage, PT_WriteImage, PT_GetImageInfo,
     PT_EnqueueKernel, PT_CreateUserEvent, PT_SetUserEventStatus, PT_GetEventInfo,
     PT_GetEventProfilingInfo, PT_WaitEvents, PT_GetPlatformInfo, PT_GetPlatformIDs,
     PT_GetDeviceIDs, PT_GetDeviceInfo, PT_ID, PT_IDList, PT_EventStreamOpen,
     PT_CallbackTrigger, PT_RegisterEventCallback, PT_EventCallbackTrigger, PT_Terminate]"

definition pt_of_byte :: "byte \<Rightarrow> packet_type option" where
  "pt_of_byte b = map_of (map (\<lambda>t. (pt_code t, t)) all_packet_types) b"

lemma pt_of_code [simp]: "pt_of_byte (pt_code t) = Some t"
  by (cases t) (simp_all add: pt_of_byte_def all_packet_types_def)

lemma pt_code_inj [simp]: "pt_code s = pt_code t \<longleftrightarrow> s = t"
  by (metis option.inject pt_of_code)

lemma pt_of_byte_Some: "pt_of_byte b = Some t \<longleftrightarrow> b = pt_code t"
proof
  assume "pt_of_byte b = Some t"
  then show "b = pt_code t" by (auto simp: pt_of_byte_def dest: map_of_SomeD)
qed simp

text \<open>Comparison of packet types is comparison of the underlying bytes.\<close>

instantiation packet_type :: linorder
begin

definition less_eq_packet_type :: "packet_type \<Rightarrow> packet_type \<Rightarrow> bool" where
  "less_eq_packet_type s t \<longleftrightarrow> pt_code s \<le> pt_code t"

definition less_packet_type :: "packet_type \<Rightarrow> packet_type \<Rightarrow> bool" where
  "less_packet_type s t \<longleftrightarrow> pt_code s < pt_code t"

instance
  by standard (auto simp: less_eq_packet_type_def less_packet_type_def,
      metis order_le_less pt_code_inj)
end

text \<open>\<open>operator<<\<close> and \<open>operator>>\<close>; the latter keeps whatever byte arrives.\<close>

definition put_PacketType :: "packet_type \<Rightarrow> byte list" where
  "put_PacketType t = put_u8 (pt_code t)"

definition get_PacketType :: "byte dec" where
  "get_PacketType = get_u8"

lemma get_PacketType_put [codec_simps]:
  "decode get_PacketType (put_PacketType t @ rest) = (Ok (pt_code t), rest)"
  by (simp add: get_PacketType_def put_PacketType_def codec_simps)

lemma put_PacketType_single: "put_PacketType t = [pt_code t]"
  by (simp add: put_PacketType_def put_u8_single)

end
