(* ===== verification/RCL_Payload.thy ===== *)
theory RCL_Payload
  imports RCL_PacketType
begin

text \<open>
  Bursts of data, \<open>common/packets/payload.h\<close> and \<open>common/compression.h\<close>.

  ZLib is an optional third-party library: the argument \<open>z\<close> is \<open>None\<close> when the build does not
  define \<open>REMOTECL_USE_ZLIB\<close>, and otherwise holds its two calls. \<open>z_compress\<close> is \<open>compress\<close>
  with a large enough output buffer (\<open>None\<close> for a result other than \<open>Z_OK\<close>);
  \<open>z_uncompress zl c n\<close> is what \<open>uncompress\<close> writes to an output of \<open>n\<close> bytes. \<open>zlib_ok\<close> is
  their documented contract.

  The template argument \<open>SizeT\<close> of the payloads is its width \<open>w\<close> in bytes.
\<close>

record zlib =
  z_compress :: "byte list \<Rightarrow> byte list option"
  z_uncompress :: "byte list \<Rightarrow> nat \<Rightarrow> byte list"

definition zlib_ok :: "zlib \<Rightarrow> bool" where
  "zlib_ok zl \<longleftrightarrow> (\<forall>d c. z_compress zl d = Some c \<longrightarrow> z_uncompress zl c (length d) = d)"

definition zlib_opt_ok :: "zlib option \<Rightarrow> bool" where
  "zlib_opt_ok z \<longleftrightarrow> (case z of None \<Rightarrow> True | Some zl \<Rightarrow> zlib_ok zl)"

definition Compress :: "zlib \<Rightarrow> byte list \<Rightarrow> byte list" where
  "Compress zl data = (case z_compress zl data of None \<Rightarrow> [] | Some out \<Rightarrow> out)"

text \<open>\<open>Decompress\<close> ignores the status of \<open>uncompress\<close>; \<open>out\<close> is the buffer it writes to.\<close>

definition Decompress :: "zlib \<Rightarrow> byte list \<Rightarrow> byte list \<Rightarrow> byte list" where
  "Decompress zl data out = memcpy_at out 0 (z_uncompress zl data (length out))"

definition CompressionSizeThreshold :: nat where
  "CompressionSizeThreshold = 2 ^ 20"

section \<open>Sending\<close>

text \<open>\<open>operator<<(const Payload<SizeT>&)\<close>\<close>

definition put_Payload :: "nat \<Rightarrow> zlib option \<Rightarrow> byte list \<Rightarrow> byte list" where
  "put_Payload w z mData =
     (let plain = put_size w (length mData) @ take (length mData mod 256 ^ w) mData in
      case z of
        None \<Rightarrow> plain
      | Some zl \<Rightarrow>
          (let compressed = Compress zl mData in
           if CompressionSizeThreshold \<le> length mData \<and> length compressed \<noteq> 0
              \<and> length compressed < length mData
           then put_size w (length mData) @ put_size w (length compressed) @ compressed
           else put_size w 0 @ plain))"

text \<open>
  \<open>operator<<(const PayloadPtr<SizeT>&)\<close>: the constructor stores its size argument \<open>len\<close> in a \<open>SizeT\<close>; \<open>mem\<close>
  is the memory at \<open>mPtr\<close>.
\<close>

definition put_PayloadPtr :: "nat \<Rightarrow> zlib option \<Rightarrow> byte list \<Rightarrow> nat \<Rightarrow> byte list" where
  "put_PayloadPtr w z mem len =
     (let mSize = len mod 256 ^ w;
          plain = put_size w mSize @ (if mSize \<noteq> 0 then take mSize mem else []) in
      case z of
        None \<Rightarrow> plain
      | Some zl \<Rightarrow>
          (let compressed = Compress zl (take mSize mem) in
           if CompressionSizeThreshold \<le> mSize \<and> length compressed \<noteq> 0
              \<and> length compressed < mSize
           then put_size w mSize @ put_size w (length compressed) @ compressed
           else put_size w 0 @ plain))"

section \<open>Receiving\<close>

text \<open>\<open>operator>>(Payload<SizeT>&)\<close>: the vector it decompresses into is zero-filled.\<close>

definition get_Payload :: "nat \<Rightarrow> zlib option \<Rightarrow> byte list dec" where
  "get_Payload w z =
     (case z of
        None \<Rightarrow> dbind (get_size w) (\<lambda>dataSize. DRead dataSize DRet)
      | Some zl \<Rightarrow>
          dbind (get_size w) (\<lambda>decompressedSize.
          dbind (get_size w) (\<lambda>dataSize.
          DRead dataSize (\<lambda>mData.
          DRet (if decompressedSize \<noteq> 0
                then Decompress zl mData (replicate decompressedSize 0) else mData)))))"

text \<open>
  \<open>operator>>(PayloadInto<SizeT>&)\<close>: the result is what it stores at \<open>mPtr\<close>. Nothing compares
  its length with the space the caller has there.
\<close>

definition get_PayloadInto :: "nat \<Rightarrow> zlib option \<Rightarrow> byte list dec" where
  "get_PayloadInto w z =
     (case z of
        None \<Rightarrow> dbind (get_size w) (\<lambda>dataSize.
                 if dataSize \<noteq> 0 then DRead dataSize DRet else DRet [])
      | Some zl \<Rightarrow>
          dbind (get_size w) (\<lambda>decompressedSize.
          dbind (get_size w) (\<lambda>dataSize.
          if decompressedSize \<noteq> 0
          then DRead dataSize (\<lambda>compressed. DRet (z_uncompress zl compressed decompressedSize))
          else if dataSize \<noteq> 0 then DRead dataSize DRet else DRet [])))"

section \<open>Round trips\<close>

definition payload_fits :: "nat \<Rightarrow> byte list \<Rightarrow> bool" where
  "payload_fits w d \<longleftrightarrow> length d \<le> size_max w"

lemma payload_fits_less: "payload_fits w d \<longleftrightarrow> length d < 256 ^ w"
proof -
  have "0 < (256 :: nat) ^ w" by simp
  then show ?thesis unfolding payload_fits_def size_max_def by linarith
qed

text \<open>For data whose size fits, both ways of sending write the same bytes.\<close>

lemma put_PayloadPtr_eq:
  "payload_fits w d \<Longrightarrow> put_PayloadPtr w z d (length d) = put_Payload w z d"
  by (cases z) (simp_all add: put_PayloadPtr_def put_Payload_def payload_fits_less Let_def)

text \<open>What goes over the wire is one of two shapes.\<close>

lemma put_Payload_cases:
  assumes "payload_fits w d"
  obtains (plain) "put_Payload w z d
                     = (if z = None then [] else put_size w 0) @ put_size w (length d) @ d"
  | (compressed) zl where "z = Some zl"
      "put_Payload w z d = put_size w (length d) @ put_size w (length (Compress zl d)) @ Compress zl d"
      "CompressionSizeThreshold \<le> length d" "Compress zl d \<noteq> []" "length (Compress zl d) < length d"
proof (cases "\<exists>zl. z = Some zl \<and> CompressionSizeThreshold \<le> length d \<and> Compress zl d \<noteq> []
                \<and> length (Compress zl d) < length d")
  case True
  with assms show ?thesis
    by (auto simp: put_Payload_def Let_def intro: compressed)
next
  case False
  with assms show ?thesis
    by (cases z) (auto simp: put_Payload_def payload_fits_less Let_def intro: plain)
qed

lemma Compress_nonempty: "Compress zl d \<noteq> [] \<Longrightarrow> z_compress zl d = Some (Compress zl d)"
  by (auto simp: Compress_def split: option.splits)

lemma decode_read_all: "decode (DRead (length d) k) (d @ rest) = decode (k d) rest"
  by (simp add: decode_DRead)

lemma get_Payload_put:
  assumes fits: "payload_fits w d" and z: "zlib_opt_ok z"
  shows "decode (get_Payload w z) (put_Payload w z d @ rest) = (Ok d, rest)"
  using fits
proof (cases rule: put_Payload_cases [where z = z])
  case plain
  then show ?thesis
    using fits by (cases z)
      (simp_all add: get_Payload_def codec_simps payload_fits_def decode_read_all)
next
  case (compressed zl)
  from compressed have "length (Compress zl d) \<le> size_max w" "length d \<noteq> 0"
    using fits by (auto simp: payload_fits_def)
  moreover have "z_uncompress zl (Compress zl d) (length d) = d"
    using compressed z Compress_nonempty by (simp add: zlib_opt_ok_def zlib_ok_def)
  ultimately show ?thesis
    using compressed fits
    by (simp add: get_Payload_def codec_simps payload_fits_def decode_read_all Decompress_def
        memcpy_at_def)
qed

lemma get_PayloadInto_put:
  assumes fits: "payload_fits w d" and z: "zlib_opt_ok z"
  shows "decode (get_PayloadInto w z) (put_Payload w z d @ rest) = (Ok d, rest)"
  using fits
proof (cases rule: put_Payload_cases [where z = z])
  case plain
  then show ?thesis
    using fits by (cases z)
      (simp_all add: get_PayloadInto_def codec_simps payload_fits_def decode_read_all)
next
  case (compressed zl)
  from compressed have "length (Compress zl d) \<le> size_max w" "length d \<noteq> 0"
    using fits by (auto simp: payload_fits_def)
  moreover have "z_uncompress zl (Compress zl d) (length d) = d"
    using compressed z Compress_nonempty by (simp add: zlib_opt_ok_def zlib_ok_def)
  ultimately show ?thesis
    using compressed fits
    by (simp add: get_PayloadInto_def codec_simps payload_fits_def decode_read_all)
qed

text \<open>
  Larger data is silently cut: the receiver gets the first \<open>length d mod 256 ^ w\<close> bytes.
\<close>

lemma get_Payload_truncated:
  "decode (get_Payload w None) (put_Payload w None d @ rest)
     = (Ok (take (length d mod 256 ^ w) d), rest)"
proof -
  have "length d mod 256 ^ w \<le> length d" by simp
  then show ?thesis
    by (simp add: get_Payload_def put_Payload_def codec_simps get_size_put decode_DRead)
qed

end
