(* ===== verification/RCL_Packets.thy ===== *)
theory RCL_Packets
  imports RCL_PacketType
begin

text \<open>
  The packets of \<open>common/packets/\<close> other than the command and program packets: \<open>simple.h\<close>,
  \<open>IDs.h\<close>, \<open>refcount.h\<close>, \<open>callbacks.h\<close>, \<open>context.h\<close>, \<open>device.h\<close>, \<open>event.h\<close>,
  \<open>platform.h\<close>, \<open>queue.h\<close>, \<open>terminate.h\<close>.

  Per packet: the struct as a record (its fields prefixed), \<open>put_X\<close> for \<open>operator<<\<close>,
  \<open>get_X\<close> for \<open>operator>>\<close>, \<open>ok_X\<close> for the assertions of its containers and strings, and
  an interpretation of the \<open>codec\<close> contract. A \<open>SimplePacket<Type, T>\<close> is its payload \<open>T\<close>,
  a \<open>SignalPacket<Type>\<close> is empty.
\<close>

section \<open>simple.h, IDs.h, refcount.h\<close>

definition put_Signal :: "unit \<Rightarrow> byte list" where
  "put_Signal p = []"

definition get_Signal :: "unit dec" where
  "get_Signal = DRet ()"

interpretation Signal_codec: codec put_Signal get_Signal "\<lambda>_. True"
  by unfold_locales (simp add: put_Signal_def get_Signal_def codec_simps)

text \<open>\<open>SimplePacket<Type, IDType>\<close>: \<open>IDPacket\<close>, \<open>QFlushPacket\<close>, \<open>CreateUserEvent\<close> and others.\<close>

interpretation SimpleID_codec: codec put_u16 get_u16 "\<lambda>_. True"
  by unfold_locales (simp add: codec_simps)

text \<open>\<open>SimplePacket<Type, uint32_t>\<close> and \<open>ErrorPacket\<close> (an \<open>int32_t\<close>).\<close>

interpretation SimpleU32_codec: codec put_u32 get_u32 "\<lambda>_. True"
  by unfold_locales (simp add: codec_simps)

interpretation SimpleU64_codec: codec put_u64 get_u64 "\<lambda>_. True"
  by unfold_locales (simp add: codec_simps)

interpretation SimpleU8_codec: codec put_u8 get_u8 "\<lambda>_. True"
  by unfold_locales (simp add: codec_simps)

text \<open>\<open>IDListPacket\<close>: at most 255 IDs.\<close>

definition put_IDList :: "IDType list \<Rightarrow> byte list" where
  "put_IDList mIDs = put_container 1 put_u16 mIDs"

definition get_IDList :: "IDType list dec" where
  "get_IDList = get_container 1 get_u16"

definition ok_IDList :: "IDType list \<Rightarrow> bool" where
  "ok_IDList mIDs \<longleftrightarrow> container_ok 1 mIDs"

interpretation IDList_codec: codec put_IDList get_IDList ok_IDList
  by unfold_locales (simp add: put_IDList_def get_IDList_def ok_IDList_def codec_simps)

text \<open>\<open>IDParamPair<Type>\<close>, an \<open>IDTypePair\<close> with a 32-bit payload.\<close>

record IDParamPair =
  idp_mData :: u32
  idp_mID :: IDType

definition put_IDParamPair :: "IDParamPair \<Rightarrow> byte list" where
  "put_IDParamPair p =
    put_u32 (idp_mData p) @ put_u16 (idp_mID p)"

definition get_IDParamPair :: "IDParamPair dec" where
  "get_IDParamPair =
    dbind get_u32 (\<lambda>mData.
    dbind get_u16 (\<lambda>mID.
    DRet \<lparr>idp_mData = mData, idp_mID = mID\<rparr>))"

interpretation IDParamPair_codec:
  codec put_IDParamPair get_IDParamPair "\<lambda>_. True"
  by unfold_locales
    (simp add: put_IDParamPair_def get_IDParamPair_def codec_simps)

record RefCount =
  rc_mID :: IDType
  rc_mObjTy :: byte

definition put_RefCount :: "RefCount \<Rightarrow> byte list" where
  "put_RefCount p =
    put_u8 (rc_mObjTy p) @ put_u16 (rc_mID p)"

definition get_RefCount :: "RefCount dec" where
  "get_RefCount =
    dbind get_u8 (\<lambda>mObjTy.
    dbind get_u16 (\<lambda>mID.
    DRet \<lparr>rc_mID = mID, rc_mObjTy = mObjTy\<rparr>))"

interpretation RefCount_codec:
  codec put_RefCount get_RefCount "\<lambda>_. True"
  by unfold_locales
    (simp add: put_RefCount_def get_RefCount_def codec_simps)

section \<open>callbacks.h\<close>

record RegisterEventCallback =
  rec_mEventID :: IDType
  rec_mCallbackID :: IDType
  rec_mCBType :: u32

definition put_RegisterEventCallback :: "RegisterEventCallback \<Rightarrow> byte list" where
  "put_RegisterEventCallback p =
    put_u16 (rec_mEventID p) @ put_u16 (rec_mCallbackID p) @ put_u32 (rec_mCBType p)"

definition get_RegisterEventCallback :: "RegisterEventCallback dec" where
  "get_RegisterEventCallback =
    dbind get_u16 (\<lambda>mEventID.
    dbind get_u16 (\<lambda>mCallbackID.
    dbind get_u32 (\<lambda>mCBType.
    DRet \<lparr>rec_mEventID = mEventID, rec_mCallbackID = mCallbackID, rec_mCBType = mCBType\<rparr>)))"

interpretation RegisterEventCallback_codec:
  codec put_RegisterEventCallback get_RegisterEventCallback "\<lambda>_. True"
  by unfold_locales
    (simp add: put_RegisterEventCallback_def get_RegisterEventCallback_def codec_simps)

section \<open>context.h, device.h, queue.h\<close>

record CreateContextFromType =
  cct_mDeviceType :: u64
  cct_mProperties :: "u64 list"

definition put_CreateContextFromType :: "CreateContextFromType \<Rightarrow> byte list" where
  "put_CreateContextFromType p =
    put_u64 (cct_mDeviceType p) @ put_container 1 put_u64 (cct_mProperties p)"

definition get_CreateContextFromType :: "CreateContextFromType dec" where
  "get_CreateContextFromType =
    dbind get_u64 (\<lambda>mDeviceType.
    dbind (get_container 1 get_u64) (\<lambda>mProperties.
    DRet \<lparr>cct_mDeviceType = mDeviceType, cct_mProperties = mProperties\<rparr>))"

definition ok_CreateContextFromType :: "CreateContextFromType \<Rightarrow> bool" where
  "ok_CreateContextFromType p \<longleftrightarrow> container_ok 1 (cct_mProperties p)"

interpretation CreateContextFromType_codec:
  codec put_CreateContextFromType get_CreateContextFromType ok_CreateContextFromType
  by unfold_locales
    (simp add: put_CreateContextFromType_def get_CreateContextFromType_def ok_CreateContextFromType_def codec_simps)

record CreateContext =
  cc_mProperties :: "u64 list"
  cc_mDevices :: "u16 list"

definition put_CreateContext :: "CreateContext \<Rightarrow> byte list" where
  "put_CreateContext p =
    put_container 1 put_u64 (cc_mProperties p) @ put_container 2 put_u16 (cc_mDevices p)"

definition get_CreateContext :: "CreateContext dec" where
  "get_CreateContext =
    dbind (get_container 1 get_u64) (\<lambda>mProperties.
    dbind (get_container 2 get_u16) (\<lambda>mDevices.
    DRet \<lparr>cc_mProperties = mProperties, cc_mDevices = mDevices\<rparr>))"

definition ok_CreateContext :: "CreateContext \<Rightarrow> bool" where
  "ok_CreateContext p \<longleftrightarrow> container_ok 1 (cc_mProperties p)
     \<and> container_ok 2 (cc_mDevices p)"

interpretation CreateContext_codec:
  codec put_CreateContext get_CreateContext ok_CreateContext
  by unfold_locales
    (simp add: put_CreateContext_def get_CreateContext_def ok_CreateContext_def codec_simps)

record GetImageFormats =
  gif_mContextID :: IDType
  gif_mFlags :: u32
  gif_mImageType :: u32

definition put_GetImageFormats :: "GetImageFormats \<Rightarrow> byte list" where
  "put_GetImageFormats p =
    put_u16 (gif_mContextID p) @ put_u32 (gif_mFlags p) @ put_u32 (gif_mImageType p)"

definition get_GetImageFormats :: "GetImageFormats dec" where
  "get_GetImageFormats =
    dbind get_u16 (\<lambda>mContextID.
    dbind get_u32 (\<lambda>mFlags.
    dbind get_u32 (\<lambda>mImageType.
    DRet \<lparr>gif_mContextID = mContextID, gif_mFlags = mFlags, gif_mImageType = mImageType\<rparr>)))"

interpretation GetImageFormats_codec:
  codec put_GetImageFormats get_GetImageFormats "\<lambda>_. True"
  by unfold_locales
    (simp add: put_GetImageFormats_def get_GetImageFormats_def codec_simps)

record GetDeviceIDs =
  gdi_mDeviceType :: u64
  gdi_mPlatformID :: IDType

definition put_GetDeviceIDs :: "GetDeviceIDs \<Rightarrow> byte list" where
  "put_GetDeviceIDs p =
    put_u64 (gdi_mDeviceType p) @ put_u16 (gdi_mPlatformID p)"

definition get_GetDeviceIDs :: "GetDeviceIDs dec" where
  "get_GetDeviceIDs =
    dbind get_u64 (\<lambda>mDeviceType.
    dbind get_u16 (\<lambda>mPlatformID.
    DRet \<lparr>gdi_mDeviceType = mDeviceType, gdi_mPlatformID = mPlatformID\<rparr>))"

interpretation GetDeviceIDs_codec:
  codec put_GetDeviceIDs get_GetDeviceIDs "\<lambda>_. True"
  by unfold_locales
    (simp add: put_GetDeviceIDs_def get_GetDeviceIDs_def codec_simps)

record CreateQueue =
  cq_mProp :: u32
  cq_mContext :: IDType
  cq_mDevice :: IDType

definition put_CreateQueue :: "CreateQueue \<Rightarrow> byte list" where
  "put_CreateQueue p =
    put_u16 (cq_mContext p) @ put_u16 (cq_mDevice p) @ put_u32 (cq_mProp p)"

definition get_CreateQueue :: "CreateQueue dec" where
  "get_CreateQueue =
    dbind get_u16 (\<lambda>mContext.
    dbind get_u16 (\<lambda>mDevice.
    dbind get_u32 (\<lambda>mProp.
    DRet \<lparr>cq_mProp = mProp, cq_mContext = mContext, cq_mDevice = mDevice\<rparr>)))"

interpretation CreateQueue_codec:
  codec put_CreateQueue get_CreateQueue "\<lambda>_. True"
  by unfold_locales
    (simp add: put_CreateQueue_def get_CreateQueue_def codec_simps)

record CreateQueueWithProp =
  cqp_mContext :: IDType
  cqp_mDevice :: IDType
  cqp_mProperties :: "u64 list"

definition put_CreateQueueWithProp :: "CreateQueueWithProp \<Rightarrow> byte list" where
  "put_CreateQueueWithProp p =
    put_u16 (cqp_mContext p) @ put_u16 (cqp_mDevice p) @
    put_container 1 put_u64 (cqp_mProperties p)"

definition get_CreateQueueWithProp :: "CreateQueueWithProp dec" where
  "get_CreateQueueWithProp =
    dbind get_u16 (\<lambda>mContext.
    dbind get_u16 (\<lambda>mDevice.
    dbind (get_container 1 get_u64) (\<lambda>mProperties.
    DRet \<lparr>cqp_mContext = mContext, cqp_mDevice = mDevice, cqp_mProperties = mProperties\<rparr>)))"

definition ok_CreateQueueWithProp :: "CreateQueueWithProp \<Rightarrow> bool" where
  "ok_CreateQueueWithProp p \<longleftrightarrow> container_ok 1 (cqp_mProperties p)"

interpretation CreateQueueWithProp_codec:
  codec put_CreateQueueWithProp get_CreateQueueWithProp ok_CreateQueueWithProp
  by unfold_locales
    (simp add: put_CreateQueueWithProp_def get_CreateQueueWithProp_def ok_CreateQueueWithProp_def codec_simps)

text \<open>The round trips, for the simplifier.\<close>

lemmas packets_round_trip [codec_simps] =
  Signal_codec.decode_enc IDList_codec.decode_enc IDParamPair_codec.decode_enc
  RefCount_codec.decode_enc RegisterEventCallback_codec.decode_enc
  CreateContextFromType_codec.decode_enc CreateContext_codec.decode_enc
  GetImageFormats_codec.decode_enc GetDeviceIDs_codec.decode_enc CreateQueue_codec.decode_enc
  CreateQueueWithProp_codec.decode_enc

end
