(* ===== verification/RCL_PacketsCommands.thy ===== *)
theory RCL_PacketsCommands
  imports RCL_PacketType
begin

text \<open>
  The packets of \<open>common/packets/commands.h\<close>, \<open>memory.h\<close> and \<open>image.h\<close>: enqueued
  commands and the creation of buffers and images. The layout per packet is that of
  \<open>RCL_Packets\<close>. A template over the packet type (\<open>ImageRW\<close>, \<open>BufferRW\<close>,
  \<open>BufferRectRW\<close>) is one record: the type byte is written by \<open>PacketStream::write\<close>.
\<close>

section \<open>commands.h\<close>

record EnqueueKernel =
  ek_mGlobalSize :: dim3
  ek_mGlobalOffset :: dim3
  ek_mLocalSize :: dim3
  ek_mKernelID :: IDType
  ek_mQueueID :: IDType
  ek_mWorkDim :: byte
  ek_mWantEvent :: bool
  ek_mExpectEventList :: bool

definition put_EnqueueKernel :: "EnqueueKernel \<Rightarrow> byte list" where
  "put_EnqueueKernel p =
    put_u16 (ek_mKernelID p) @ put_u16 (ek_mQueueID p) @ put_u8 (ek_mWorkDim p) @
    put_dim3 (ek_mGlobalSize p) @ put_dim3 (ek_mGlobalOffset p) @ put_dim3 (ek_mLocalSize p) @
    put_bool (ek_mWantEvent p) @ put_bool (ek_mExpectEventList p)"

definition get_EnqueueKernel :: "EnqueueKernel dec" where
  "get_EnqueueKernel =
    dbind get_u16 (\<lambda>mKernelID.
    dbind get_u16 (\<lambda>mQueueID.
    dbind get_u8 (\<lambda>mWorkDim.
    dbind get_dim3 (\<lambda>mGlobalSize.
    dbind get_dim3 (\<lambda>mGlobalOffset.
    dbind get_dim3 (\<lambda>mLocalSize.
    dbind get_bool (\<lambda>mWantEvent.
    dbind get_bool (\<lambda>mExpectEventList.
    DRet \<lparr>ek_mGlobalSize = mGlobalSize, ek_mGlobalOffset = mGlobalOffset,
      ek_mLocalSize = mLocalSize, ek_mKernelID = mKernelID, ek_mQueueID = mQueueID,
      ek_mWorkDim = mWorkDim, ek_mWantEvent = mWantEvent, ek_mExpectEventList = mExpectEventList\<rparr>))))))))"

interpretation EnqueueKernel_codec:
  codec put_EnqueueKernel get_EnqueueKernel "\<lambda>_. True"
  by unfold_locales
    (simp add: put_EnqueueKernel_def get_EnqueueKernel_def codec_simps)

record ImageRW =
  irw_mImageID :: IDType
  irw_mQueueID :: IDType
  irw_mRowPitch :: u32
  irw_mSlicePitch :: u32
  irw_mOrigin :: dim3
  irw_mRegion :: dim3
  irw_mWantEvent :: bool
  irw_mExpectEventList :: bool
  irw_mBlock :: bool

definition put_ImageRW :: "ImageRW \<Rightarrow> byte list" where
  "put_ImageRW p =
    put_u16 (irw_mImageID p) @ put_u16 (irw_mQueueID p) @ put_dim3 (irw_mOrigin p) @
    put_dim3 (irw_mRegion p) @ put_u32 (irw_mRowPitch p) @ put_u32 (irw_mSlicePitch p) @
    put_bool (irw_mWantEvent p) @ put_bool (irw_mExpectEventList p) @ put_bool (irw_mBlock p)"

definition get_ImageRW :: "ImageRW dec" where
  "get_ImageRW =
    dbind get_u16 (\<lambda>mImageID.
    dbind get_u16 (\<lambda>mQueueID.
    dbind get_dim3 (\<lambda>mOrigin.
    dbind get_dim3 (\<lambda>mRegion.
    dbind get_u32 (\<lambda>mRowPitch.
    dbind get_u32 (\<lambda>mSlicePitch.
    dbind get_bool (\<lambda>mWantEvent.
    dbind get_bool (\<lambda>mExpectEventList.
    dbind get_bool (\<lambda>mBlock.
    DRet \<lparr>irw_mImageID = mImageID, irw_mQueueID = mQueueID, irw_mRowPitch = mRowPitch,
      irw_mSlicePitch = mSlicePitch, irw_mOrigin = mOrigin, irw_mRegion = mRegion,
      irw_mWantEvent = mWantEvent, irw_mExpectEventList = mExpectEventList, irw_mBlock = mBlock\<rparr>)))))))))"

interpretation ImageRW_codec:
  codec put_ImageRW get_ImageRW "\<lambda>_. True"
  by unfold_locales
    (simp add: put_ImageRW_def get_ImageRW_def codec_simps)

record BufferRW =
  brw_mBufferID :: IDType
  brw_mQueueID :: IDType
  brw_mSize :: u32
  brw_mOffset :: u32
  brw_mWantEvent :: bool
  brw_mExpectEventList :: bool
  brw_mBlock :: bool

definition put_BufferRW :: "BufferRW \<Rightarrow> byte list" where
  "put_BufferRW p =
    put_u16 (brw_mBufferID p) @ put_u16 (brw_mQueueID p) @ put_u32 (brw_mSize p) @
    put_u32 (brw_mOffset p) @ put_bool (brw_mWantEvent p) @ put_bool (brw_mExpectEventList p) @
    put_bool (brw_mBlock p)"

definition get_BufferRW :: "BufferRW dec" where
  "get_BufferRW =
    dbind get_u16 (\<lambda>mBufferID.
    dbind get_u16 (\<lambda>mQueueID.
    dbind get_u32 (\<lambda>mSize.
    dbind get_u32 (\<lambda>mOffset.
    dbind get_bool (\<lambda>mWantEvent.
    dbind get_bool (\<lambda>mExpectEventList.
    dbind get_bool (\<lambda>mBlock.
    DRet \<lparr>brw_mBufferID = mBufferID, brw_mQueueID = mQueueID, brw_mSize = mSize,
      brw_mOffset = mOffset, brw_mWantEvent = mWantEvent,
      brw_mExpectEventList = mExpectEventList, brw_mBlock = mBlock\<rparr>)))))))"

interpretation BufferRW_codec:
  codec put_BufferRW get_BufferRW "\<lambda>_. True"
  by unfold_locales
    (simp add: put_BufferRW_def get_BufferRW_def codec_simps)

record BufferRectRW =
  brr_mBufferID :: IDType
  brr_mQueueID :: IDType
  brr_mBufferOrigin :: dim3
  brr_mHostOrigin :: dim3
  brr_mRegion :: dim3
  brr_mBufferRowPitch :: u32
  brr_mBufferSlicePitch :: u32
  brr_mHostRowPitch :: u32
  brr_mHostSlicePitch :: u32
  brr_mWantEvent :: bool
  brr_mExpectEventList :: bool
  brr_mBlock :: bool

definition put_BufferRectRW :: "BufferRectRW \<Rightarrow> byte list" where
  "put_BufferRectRW p =
    put_u16 (brr_mBufferID p) @ put_u16 (brr_mQueueID p) @ put_dim3 (brr_mBufferOrigin p) @
    put_dim3 (brr_mHostOrigin p) @ put_dim3 (brr_mRegion p) @ put_u32 (brr_mBufferRowPitch p) @
    put_u32 (brr_mBufferSlicePitch p) @ put_u32 (brr_mHostRowPitch p) @
    put_u32 (brr_mHostSlicePitch p) @ put_bool (brr_mWantEvent p) @
    put_bool (brr_mExpectEventList p) @ put_bool (brr_mBlock p)"

definition get_BufferRectRW :: "BufferRectRW dec" where
  "get_BufferRectRW =
    dbind get_u16 (\<lambda>mBufferID.
    dbind get_u16 (\<lambda>mQueueID.
    dbind get_dim3 (\<lambda>mBufferOrigin.
    dbind get_dim3 (\<lambda>mHostOrigin.
    dbind get_dim3 (\<lambda>mRegion.
    dbind get_u32 (\<lambda>mBufferRowPitch.
    dbind get_u32 (\<lambda>mBufferSlicePitch.
    dbind get_u32 (\<lambda>mHostRowPitch.
    dbind get_u32 (\<lambda>mHostSlicePitch.
    dbind get_bool (\<lambda>mWantEvent.
    dbind get_bool (\<lambda>mExpectEventList.
    dbind get_bool (\<lambda>mBlock.
    DRet \<lparr>brr_mBufferID = mBufferID, brr_mQueueID = mQueueID, brr_mBufferOrigin = mBufferOrigin,
      brr_mHostOrigin = mHostOrigin, brr_mRegion = mRegion,
      brr_mBufferRowPitch = mBufferRowPitch, brr_mBufferSlicePitch = mBufferSlicePitch,
      brr_mHostRowPitch = mHostRowPitch, brr_mHostSlicePitch = mHostSlicePitch,
      brr_mWantEvent = mWantEvent, brr_mExpectEventList = mExpectEventList, brr_mBlock = mBlock\<rparr>))))))))))))"

interpretation BufferRectRW_codec:
  codec put_BufferRectRW get_BufferRectRW "\<lambda>_. True"
  by unfold_locales
    (simp add: put_BufferRectRW_def get_BufferRectRW_def codec_simps)

record FillBuffer =
  fb_mBufferID :: IDType
  fb_mQueueID :: IDType
  fb_mOffset :: u32
  fb_mSize :: u32
  fb_mPatternSize :: byte
  fb_mWantEvent :: bool
  fb_mExpectEventList :: bool
  fb_mPattern :: "byte list"

definition put_FillBuffer :: "FillBuffer \<Rightarrow> byte list" where
  "put_FillBuffer p =
    put_u16 (fb_mBufferID p) @ put_u16 (fb_mQueueID p) @ put_u32 (fb_mSize p) @
    put_u32 (fb_mOffset p) @ put_u8 (fb_mPatternSize p) @ put_bool (fb_mWantEvent p) @
    put_bool (fb_mExpectEventList p) @ put_array put_u8 (fb_mPattern p)"

definition get_FillBuffer :: "FillBuffer dec" where
  "get_FillBuffer =
    dbind get_u16 (\<lambda>mBufferID.
    dbind get_u16 (\<lambda>mQueueID.
    dbind get_u32 (\<lambda>mSize.
    dbind get_u32 (\<lambda>mOffset.
    dbind get_u8 (\<lambda>mPatternSize.
    dbind get_bool (\<lambda>mWantEvent.
    dbind get_bool (\<lambda>mExpectEventList.
    dbind (get_array 128 get_u8) (\<lambda>mPattern.
    DRet \<lparr>fb_mBufferID = mBufferID, fb_mQueueID = mQueueID, fb_mOffset = mOffset,
      fb_mSize = mSize, fb_mPatternSize = mPatternSize, fb_mWantEvent = mWantEvent,
      fb_mExpectEventList = mExpectEventList, fb_mPattern = mPattern\<rparr>))))))))"

definition ok_FillBuffer :: "FillBuffer \<Rightarrow> bool" where
  "ok_FillBuffer p \<longleftrightarrow> length (fb_mPattern p) = 128"

interpretation FillBuffer_codec:
  codec put_FillBuffer get_FillBuffer ok_FillBuffer
  by unfold_locales
    (simp add: put_FillBuffer_def get_FillBuffer_def ok_FillBuffer_def codec_simps)

section \<open>memory.h, image.h\<close>

record CreateBuffer =
  cb_mFlags :: u32
  cb_mSize :: u32
  cb_mContextID :: IDType
  cb_mExpectPayload :: bool

definition put_CreateBuffer :: "CreateBuffer \<Rightarrow> byte list" where
  "put_CreateBuffer p =
    put_u32 (cb_mFlags p) @ put_u32 (cb_mSize p) @ put_u16 (cb_mContextID p) @
    put_bool (cb_mExpectPayload p)"

definition get_CreateBuffer :: "CreateBuffer dec" where
  "get_CreateBuffer =
    dbind get_u32 (\<lambda>mFlags.
    dbind get_u32 (\<lambda>mSize.
    dbind get_u16 (\<lambda>mContextID.
    dbind get_bool (\<lambda>mExpectPayload.
    DRet \<lparr>cb_mFlags = mFlags, cb_mSize = mSize, cb_mContextID = mContextID,
      cb_mExpectPayload = mExpectPayload\<rparr>))))"

interpretation CreateBuffer_codec:
  codec put_CreateBuffer get_CreateBuffer "\<lambda>_. True"
  by unfold_locales
    (simp add: put_CreateBuffer_def get_CreateBuffer_def codec_simps)

record CreateSubBuffer =
  csb_mFlags :: u32
  csb_mSize :: u32
  csb_mOffset :: u32
  csb_mCreateType :: u32
  csb_mBufferID :: IDType

definition put_CreateSubBuffer :: "CreateSubBuffer \<Rightarrow> byte list" where
  "put_CreateSubBuffer p =
    put_u32 (csb_mFlags p) @ put_u32 (csb_mSize p) @ put_u32 (csb_mOffset p) @
    put_u32 (csb_mCreateType p) @ put_u16 (csb_mBufferID p)"

definition get_CreateSubBuffer :: "CreateSubBuffer dec" where
  "get_CreateSubBuffer =
    dbind get_u32 (\<lambda>mFlags.
    dbind get_u32 (\<lambda>mSize.
    dbind get_u32 (\<lambda>mOffset.
    dbind get_u32 (\<lambda>mCreateType.
    dbind get_u16 (\<lambda>mBufferID.
    DRet \<lparr>csb_mFlags = mFlags, csb_mSize = mSize, csb_mOffset = mOffset,
      csb_mCreateType = mCreateType, csb_mBufferID = mBufferID\<rparr>)))))"

interpretation CreateSubBuffer_codec:
  codec put_CreateSubBuffer get_CreateSubBuffer "\<lambda>_. True"
  by unfold_locales
    (simp add: put_CreateSubBuffer_def get_CreateSubBuffer_def codec_simps)

record CreateImage =
  ci_mFlags :: u32
  ci_mChannelOrder :: u32
  ci_mChannelType :: u32
  ci_mImageType :: u32
  ci_mWidth :: u32
  ci_mHeight :: u32
  ci_mDepth :: u32
  ci_mArraySize :: u32
  ci_mRowPitch :: u32
  ci_mSlicePitch :: u32
  ci_mMipLevels :: u32
  ci_mSamples :: u32
  ci_mContextID :: IDType

definition put_CreateImage :: "CreateImage \<Rightarrow> byte list" where
  "put_CreateImage p =
    put_u32 (ci_mFlags p) @ put_u32 (ci_mChannelOrder p) @ put_u32 (ci_mChannelType p) @
    put_u32 (ci_mImageType p) @ put_u32 (ci_mWidth p) @ put_u32 (ci_mHeight p) @
    put_u32 (ci_mDepth p) @ put_u32 (ci_mArraySize p) @ put_u32 (ci_mRowPitch p) @
    put_u32 (ci_mSlicePitch p) @ put_u32 (ci_mMipLevels p) @ put_u32 (ci_mSamples p) @
    put_u16 (ci_mContextID p)"

definition get_CreateImage :: "CreateImage dec" where
  "get_CreateImage =
    dbind get_u32 (\<lambda>mFlags.
    dbind get_u32 (\<lambda>mChannelOrder.
    dbind get_u32 (\<lambda>mChannelType.
    dbind get_u32 (\<lambda>mImageType.
    dbind get_u32 (\<lambda>mWidth.
    dbind get_u32 (\<lambda>mHeight.
    dbind get_u32 (\<lambda>mDepth.
    dbind get_u32 (\<lambda>mArraySize.
    dbind get_u32 (\<lambda>mRowPitch.
    dbind get_u32 (\<lambda>mSlicePitch.
    dbind get_u32 (\<lambda>mMipLevels.
    dbind get_u32 (\<lambda>mSamples.
    dbind get_u16 (\<lambda>mContextID.
    DRet \<lparr>ci_mFlags = mFlags, ci_mChannelOrder = mChannelOrder, ci_mChannelType = mChannelType,
      ci_mImageType = mImageType, ci_mWidth = mWidth, ci_mHeight = mHeight, ci_mDepth = mDepth,
      ci_mArraySize = mArraySize, ci_mRowPitch = mRowPitch, ci_mSlicePitch = mSlicePitch,
      ci_mMipLevels = mMipLevels, ci_mSamples = mSamples, ci_mContextID = mContextID\<rparr>)))))))))))))"

interpretation CreateImage_codec:
  codec put_CreateImage get_CreateImage "\<lambda>_. True"
  by unfold_locales
    (simp add: put_CreateImage_def get_CreateImage_def codec_simps)

lemmas commands_round_trip [codec_simps] =
  EnqueueKernel_codec.decode_enc ImageRW_codec.decode_enc BufferRW_codec.decode_enc
  BufferRectRW_codec.decode_enc FillBuffer_codec.decode_enc CreateBuffer_codec.decode_enc
  CreateSubBuffer_codec.decode_enc CreateImage_codec.decode_enc

end
