(* ===== verification/RCL_PacketsProgram.thy ===== *)
theory RCL_PacketsProgram
  imports RCL_PacketType
begin

text \<open>
  The packets of \<open>common/packets/program.h\<close>: programs and kernels. The layout per packet is
  that of \<open>RCL_Packets\<close>.
\<close>

record IDStringPair =
  isp_mID :: IDType
  isp_mString :: "byte list"

definition put_IDStringPair :: "IDStringPair \<Rightarrow> byte list" where
  "put_IDStringPair p =
    put_u16 (isp_mID p) @ put_string (isp_mString p)"

definition get_IDStringPair :: "IDStringPair dec" where
  "get_IDStringPair =
    dbind get_u16 (\<lambda>mID.
    dbind get_string (\<lambda>mString.
    DRet \<lparr>isp_mID = mID, isp_mString = mString\<rparr>))"

definition ok_IDStringPair :: "IDStringPair \<Rightarrow> bool" where
  "ok_IDStringPair p \<longleftrightarrow> string_ok (isp_mString p)"

interpretation IDStringPair_codec:
  codec put_IDStringPair get_IDStringPair ok_IDStringPair
  by unfold_locales
    (simp add: put_IDStringPair_def get_IDStringPair_def ok_IDStringPair_def codec_simps)

record KernelArg =
  ka_mArgIndex :: u32
  ka_mKernelID :: IDType

definition put_KernelArg :: "KernelArg \<Rightarrow> byte list" where
  "put_KernelArg p =
    put_u16 (ka_mKernelID p) @ put_u32 (ka_mArgIndex p)"

definition get_KernelArg :: "KernelArg dec" where
  "get_KernelArg =
    dbind get_u16 (\<lambda>mKernelID.
    dbind get_u32 (\<lambda>mArgIndex.
    DRet \<lparr>ka_mArgIndex = mArgIndex, ka_mKernelID = mKernelID\<rparr>))"

interpretation KernelArg_codec:
  codec put_KernelArg get_KernelArg "\<lambda>_. True"
  by unfold_locales
    (simp add: put_KernelArg_def get_KernelArg_def codec_simps)

record KernelArgInfo =
  kai_mArgIndex :: u32
  kai_mParam :: u32
  kai_mKernelID :: IDType

definition put_KernelArgInfo :: "KernelArgInfo \<Rightarrow> byte list" where
  "put_KernelArgInfo p =
    put_u16 (kai_mKernelID p) @ put_u32 (kai_mArgIndex p) @ put_u32 (kai_mParam p)"

definition get_KernelArgInfo :: "KernelArgInfo dec" where
  "get_KernelArgInfo =
    dbind get_u16 (\<lambda>mKernelID.
    dbind get_u32 (\<lambda>mArgIndex.
    dbind get_u32 (\<lambda>mParam.
    DRet \<lparr>kai_mArgIndex = mArgIndex, kai_mParam = mParam, kai_mKernelID = mKernelID\<rparr>)))"

interpretation KernelArgInfo_codec:
  codec put_KernelArgInfo get_KernelArgInfo "\<lambda>_. True"
  by unfold_locales
    (simp add: put_KernelArgInfo_def get_KernelArgInfo_def codec_simps)

record KernelWGInfo =
  kwg_mKernelID :: IDType
  kwg_mDeviceID :: IDType
  kwg_mParam :: u32

definition put_KernelWGInfo :: "KernelWGInfo \<Rightarrow> byte list" where
  "put_KernelWGInfo p =
    put_u16 (kwg_mKernelID p) @ put_u16 (kwg_mDeviceID p) @ put_u32 (kwg_mParam p)"

definition get_KernelWGInfo :: "KernelWGInfo dec" where
  "get_KernelWGInfo =
    dbind get_u16 (\<lambda>mKernelID.
    dbind get_u16 (\<lambda>mDeviceID.
    dbind get_u32 (\<lambda>mParam.
    DRet \<lparr>kwg_mKernelID = mKernelID, kwg_mDeviceID = mDeviceID, kwg_mParam = mParam\<rparr>)))"

interpretation KernelWGInfo_codec:
  codec put_KernelWGInfo get_KernelWGInfo "\<lambda>_. True"
  by unfold_locales
    (simp add: put_KernelWGInfo_def get_KernelWGInfo_def codec_simps)

record CreateKernels =
  ck_mProgramID :: IDType
  ck_mKernelCount :: u32

definition put_CreateKernels :: "CreateKernels \<Rightarrow> byte list" where
  "put_CreateKernels p =
    put_u16 (ck_mProgramID p) @ put_u32 (ck_mKernelCount p)"

definition get_CreateKernels :: "CreateKernels dec" where
  "get_CreateKernels =
    dbind get_u16 (\<lambda>mProgramID.
    dbind get_u32 (\<lambda>mKernelCount.
    DRet \<lparr>ck_mProgramID = mProgramID, ck_mKernelCount = mKernelCount\<rparr>))"

interpretation CreateKernels_codec:
  codec put_CreateKernels get_CreateKernels "\<lambda>_. True"
  by unfold_locales
    (simp add: put_CreateKernels_def get_CreateKernels_def codec_simps)

record ProgramBuildInfo =
  pbi_mParam :: u32
  pbi_mProgramID :: IDType
  pbi_mDeviceID :: IDType

definition put_ProgramBuildInfo :: "ProgramBuildInfo \<Rightarrow> byte list" where
  "put_ProgramBuildInfo p =
    put_u32 (pbi_mParam p) @ put_u16 (pbi_mProgramID p) @ put_u16 (pbi_mDeviceID p)"

definition get_ProgramBuildInfo :: "ProgramBuildInfo dec" where
  "get_ProgramBuildInfo =
    dbind get_u32 (\<lambda>mParam.
    dbind get_u16 (\<lambda>mProgramID.
    dbind get_u16 (\<lambda>mDeviceID.
    DRet \<lparr>pbi_mParam = mParam, pbi_mProgramID = mProgramID, pbi_mDeviceID = mDeviceID\<rparr>)))"

interpretation ProgramBuildInfo_codec:
  codec put_ProgramBuildInfo get_ProgramBuildInfo "\<lambda>_. True"
  by unfold_locales
    (simp add: put_ProgramBuildInfo_def get_ProgramBuildInfo_def codec_simps)

record LinkProgram =
  lp_mContext :: IDType
  lp_mProgramIDs :: "IDType list"
  lp_mDeviceIDs :: "IDType list"
  lp_mOptions :: "byte list"

definition put_LinkProgram :: "LinkProgram \<Rightarrow> byte list" where
  "put_LinkProgram p =
    put_u16 (lp_mContext p) @ put_string (lp_mOptions p) @
    put_container 1 put_u16 (lp_mDeviceIDs p) @ put_container 1 put_u16 (lp_mProgramIDs p)"

definition get_LinkProgram :: "LinkProgram dec" where
  "get_LinkProgram =
    dbind get_u16 (\<lambda>mContext.
    dbind get_string (\<lambda>mOptions.
    dbind (get_container 1 get_u16) (\<lambda>mDeviceIDs.
    dbind (get_container 1 get_u16) (\<lambda>mProgramIDs.
    DRet \<lparr>lp_mContext = mContext, lp_mProgramIDs = mProgramIDs, lp_mDeviceIDs = mDeviceIDs,
      lp_mOptions = mOptions\<rparr>))))"

definition ok_LinkProgram :: "LinkProgram \<Rightarrow> bool" where
  "ok_LinkProgram p \<longleftrightarrow> container_ok 1 (lp_mProgramIDs p)
     \<and> container_ok 1 (lp_mDeviceIDs p)
     \<and> string_ok (lp_mOptions p)"

interpretation LinkProgram_codec:
  codec put_LinkProgram get_LinkProgram ok_LinkProgram
  by unfold_locales
    (simp add: put_LinkProgram_def get_LinkProgram_def ok_LinkProgram_def codec_simps)

text \<open>
  \<open>CompileProgram\<close>: the callback ID is on the wire only when a callback was registered. The
  member has no initialiser, so a packet read without one holds an indeterminate ID, the
  parameter of \<open>get_CompileProgram\<close>.
\<close>

record CompileProgram =
  cp_mProgramID :: IDType
  cp_mOptions :: "byte list"
  cp_mDeviceIDs :: "IDType list"
  cp_mHeaderIDs :: "IDType list"
  cp_mHeaderNames :: "byte list list"
  cp_mHasCallback :: bool
  cp_mCallbackID :: IDType

definition put_CompileProgram :: "CompileProgram \<Rightarrow> byte list" where
  "put_CompileProgram p =
    put_u16 (cp_mProgramID p) @ put_string (cp_mOptions p) @
    put_container 1 put_u16 (cp_mDeviceIDs p) @ put_container 1 put_u16 (cp_mHeaderIDs p) @
    put_container 1 put_string (cp_mHeaderNames p) @ put_bool (cp_mHasCallback p) @
    (if cp_mHasCallback p then put_u16 (cp_mCallbackID p) else [])"

definition get_CompileProgram :: "IDType \<Rightarrow> CompileProgram dec" where
  "get_CompileProgram uninit =
    dbind get_u16 (\<lambda>mProgramID.
    dbind get_string (\<lambda>mOptions.
    dbind (get_container 1 get_u16) (\<lambda>mDeviceIDs.
    dbind (get_container 1 get_u16) (\<lambda>mHeaderIDs.
    dbind (get_container 1 get_string) (\<lambda>mHeaderNames.
    dbind get_bool (\<lambda>mHasCallback.
    dbind (if mHasCallback then get_u16 else DRet uninit) (\<lambda>mCallbackID.
    DRet \<lparr>cp_mProgramID = mProgramID, cp_mOptions = mOptions, cp_mDeviceIDs = mDeviceIDs,
      cp_mHeaderIDs = mHeaderIDs, cp_mHeaderNames = mHeaderNames, cp_mHasCallback = mHasCallback,
      cp_mCallbackID = mCallbackID\<rparr>)))))))"

definition ok_CompileProgram :: "CompileProgram \<Rightarrow> bool" where
  "ok_CompileProgram p \<longleftrightarrow> string_ok (cp_mOptions p) \<and> container_ok 1 (cp_mDeviceIDs p)
     \<and> container_ok 1 (cp_mHeaderIDs p) \<and> container_ok 1 (cp_mHeaderNames p)
     \<and> list_all string_ok (cp_mHeaderNames p)"

lemma get_CompileProgram_put:
  "ok_CompileProgram p \<Longrightarrow>
   decode (get_CompileProgram u) (put_CompileProgram p @ rest)
     = (Ok (if cp_mHasCallback p then p else p\<lparr>cp_mCallbackID := u\<rparr>), rest)"
  by (simp add: put_CompileProgram_def get_CompileProgram_def ok_CompileProgram_def codec_simps)

text \<open>So the pair is a codec on the packets that carry a callback, for any indeterminate ID.\<close>

interpretation CompileProgram_codec:
  codec put_CompileProgram "get_CompileProgram u" "\<lambda>p. ok_CompileProgram p \<and> cp_mHasCallback p"
  for u
  by unfold_locales (simp add: get_CompileProgram_put)

lemmas program_round_trip [codec_simps] =
  IDStringPair_codec.decode_enc KernelArg_codec.decode_enc KernelArgInfo_codec.decode_enc
  KernelWGInfo_codec.decode_enc CreateKernels_codec.decode_enc
  ProgramBuildInfo_codec.decode_enc LinkProgram_codec.decode_enc get_CompileProgram_put

end
