(* ===== verification/RCL_Version.thy ===== *)
theory RCL_Version
  imports RCL_PacketType
begin

text \<open>
  The version handshake, \<open>common/packets/version.h\<close> and \<open>version.cpp\<close>.

  A build fixes the major and minor version, whether ZLib is compiled in and whether the
  asynchronous event stream is (\<open>build_config\<close>); the constructor of \<open>VersionPacket\<close> turns them
  into 64 bytes. Both ends compare the packets.
\<close>

record build_config =
  cfg_maj :: byte
  cfg_min :: byte
  cfg_zlib :: bool
  cfg_async :: bool

definition SWVersionSize :: nat where
  "SWVersionSize = 4"

text \<open>The constructor: four fixed bytes, the enabled features, a terminating zero, zeros.\<close>

definition VersionPacket :: "build_config \<Rightarrow> byte list" where
  "VersionPacket c =
     (let used = [cfg_maj c, cfg_min c, 32, 2]
                 @ (if cfg_zlib c then [122] else [])
                 @ (if cfg_async c then [101] else [])
                 @ [0]
      in used @ replicate (64 - length used) 0)"

text \<open>\<open>std::find\<close> over the bytes after the software version.\<close>

definition has_feature :: "byte \<Rightarrow> byte list \<Rightarrow> bool" where
  "has_feature f mVersion = List.member (drop SWVersionSize mVersion) f"

definition eventEnabled :: "byte list \<Rightarrow> bool" where
  "eventEnabled mVersion = has_feature 101 mVersion"

definition compressionEnabled :: "byte list \<Rightarrow> bool" where
  "compressionEnabled mVersion = has_feature 122 mVersion"

definition isCompatibleWith :: "byte list \<Rightarrow> byte list \<Rightarrow> bool" where
  "isCompatibleWith mVersion v =
     (if take SWVersionSize mVersion \<noteq> take SWVersionSize v then False
      else if compressionEnabled v \<noteq> compressionEnabled mVersion then False
      else True)"

definition put_Version :: "byte list \<Rightarrow> byte list" where
  "put_Version mVersion = mVersion"

definition get_Version :: "byte list dec" where
  "get_Version = DRead 64 DRet"

definition ok_Version :: "byte list \<Rightarrow> bool" where
  "ok_Version mVersion \<longleftrightarrow> length mVersion = 64"

interpretation Version_codec: codec put_Version get_Version ok_Version
  by unfold_locales
    (simp add: put_Version_def get_Version_def ok_Version_def decode_DRead codec_simps)

lemmas version_round_trip [codec_simps] = Version_codec.decode_enc

lemma length_VersionPacket [simp]: "length (VersionPacket c) = 64"
  by (simp add: VersionPacket_def Let_def)

lemma ok_VersionPacket [simp]: "ok_Version (VersionPacket c)"
  by (simp add: ok_Version_def)

lemma compressionEnabled_VersionPacket [simp]:
  "compressionEnabled (VersionPacket c) = cfg_zlib c"
  by (auto simp: compressionEnabled_def has_feature_def VersionPacket_def Let_def SWVersionSize_def)

lemma eventEnabled_VersionPacket [simp]: "eventEnabled (VersionPacket c) = cfg_async c"
  by (auto simp: eventEnabled_def has_feature_def VersionPacket_def Let_def SWVersionSize_def)

lemma take_VersionPacket:
  "take SWVersionSize (VersionPacket c) = [cfg_maj c, cfg_min c, 32, 2]"
  by (simp add: VersionPacket_def Let_def SWVersionSize_def)

lemma isCompatibleWith_VersionPacket:
  "isCompatibleWith (VersionPacket c) (VersionPacket d) \<longleftrightarrow>
     cfg_maj c = cfg_maj d \<and> cfg_min c = cfg_min d \<and> cfg_zlib c = cfg_zlib d"
  by (auto simp: isCompatibleWith_def take_VersionPacket)

end
