(* ===== verification/RCL_PacketStream.thy ===== *)
theory RCL_PacketStream
  imports RCL_Interaction RCL_Payload RCL_Packets RCL_PacketsCommands RCL_PacketsProgram RCL_Version
begin

text \<open>
  \<open>PacketStream\<close> of \<open>common/packetstream.h\<close>: reading, writing and previewing whole packets.

  A packet on the wire is its type byte followed by what its \<open>operator<<\<close> writes.
  \<open>readPacket\<close> has the three outcomes of the source: the expected packet, the \<open>ErrorPacket\<close>
  it throws, or \<open>Socket::Error\<close> for a terminate packet; any other type fails the \<open>assert\<close>.
\<close>

section \<open>The operations\<close>

definition readPacket :: "packet_type \<Rightarrow> ('s, 'a) prog \<Rightarrow> ('s, 'a) prog" where
  "readPacket mType payload =
     pbind (pdec get_PacketType) (\<lambda>ty.
     if ty = pt_code PT_Error then pbind (pdec get_u32) (\<lambda>e. PThrow (ErrorPacketExn e))
     else if ty = pt_code PT_Terminate then PThrow SocketError
     else pbind (passert (ty = pt_code mType)) (\<lambda>_. payload))"

text \<open>
  \<open>ok\<close> is the conjunction of the size assertions of the packet's \<open>operator<<\<close>, \<open>bs\<close> what it
  writes.
\<close>

definition writePacket :: "packet_type \<Rightarrow> bool \<Rightarrow> byte list \<Rightarrow> ('s, unit) prog" where
  "writePacket mType ok bs =
     pbind (pwrite (put_PacketType mType)) (\<lambda>_.
     pbind (passert ok) (\<lambda>_. pwrite bs))"

text \<open>\<open>nextPacketTy\<close>: a byte of value \<open>-1\<close> is the terminate packet, as is the end of the stream.\<close>

definition nextPacketTy :: "('s, byte) prog" where
  "nextPacketTy = pbind ppeek (\<lambda>ty. if ty = 255 then PRet (pt_code PT_Terminate) else PRet ty)"

text \<open>A \<open>noexcept\<close> function: an exception that leaves it ends the process.\<close>

definition pnoexcept :: "('s, 'a) prog \<Rightarrow> ('s, 'a) prog" where
  "pnoexcept p = pcatch p (\<lambda>_. PFail Terminated)"

section \<open>Packets as values\<close>

text \<open>
  The packets a server sends in reply. \<open>R_Payload w\<close> is a \<open>Payload<SizeT>\<close> or
  \<open>PayloadPtr<SizeT>\<close> of \<open>w\<close> bytes size width; \<open>R_Data8\<close> to \<open>R_Data64\<close> are the
  \<open>SimplePacket<PacketType::Payload, T>\<close>.
\<close>

datatype reply =
    R_Success
  | R_Error u32
  | R_ID IDType
  | R_IDList "IDType list"
  | R_Data8 byte
  | R_Data16 u16
  | R_Data32 u32
  | R_Data64 u64
  | R_Payload nat "byte list"
  | R_Version "byte list"

fun reply_type :: "reply \<Rightarrow> packet_type" where
  "reply_type R_Success = PT_Success"
| "reply_type (R_Error e) = PT_Error"
| "reply_type (R_ID i) = PT_ID"
| "reply_type (R_IDList is) = PT_IDList"
| "reply_type (R_Version v) = PT_Version"
| "reply_type _ = PT_Payload"

fun reply_ok :: "reply \<Rightarrow> bool" where
  "reply_ok (R_IDList is) = ok_IDList is"
| "reply_ok (R_Version v) = ok_Version v"
| "reply_ok _ = True"

fun put_reply :: "zlib option \<Rightarrow> reply \<Rightarrow> byte list" where
  "put_reply z R_Success = put_Signal ()"
| "put_reply z (R_Error e) = put_u32 e"
| "put_reply z (R_ID i) = put_u16 i"
| "put_reply z (R_IDList is) = put_IDList is"
| "put_reply z (R_Data8 b) = put_u8 b"
| "put_reply z (R_Data16 w) = put_u16 w"
| "put_reply z (R_Data32 w) = put_u32 w"
| "put_reply z (R_Data64 w) = put_u64 w"
| "put_reply z (R_Payload w d) = put_Payload w z d"
| "put_reply z (R_Version v) = put_Version v"

definition writeReply :: "zlib option \<Rightarrow> reply \<Rightarrow> ('s, unit) prog" where
  "writeReply z r = writePacket (reply_type r) (reply_ok r) (put_reply z r)"

text \<open>
  \<open>write(PayloadPtr<SizeT>(ptr, size))\<close> for a pointer to \<open>mem\<close>: sending more than there is
  behind the pointer is undefined behaviour.
\<close>

definition writePayloadPtr :: "nat \<Rightarrow> zlib option \<Rightarrow> byte list \<Rightarrow> nat \<Rightarrow> ('s, unit) prog" where
  "writePayloadPtr w z mem len =
     (if length mem < len mod 256 ^ w then PFail UndefinedBehaviour
      else writePacket PT_Payload True (put_PayloadPtr w z mem len))"

definition enc_packet :: "packet_type \<Rightarrow> byte list \<Rightarrow> byte list" where
  "enc_packet ty bs = put_PacketType ty @ bs"

definition enc_reply :: "zlib option \<Rightarrow> reply \<Rightarrow> byte list" where
  "enc_reply z r = enc_packet (reply_type r) (put_reply z r)"

section \<open>Evaluation\<close>

abbreviation st_put :: "byte list \<Rightarrow> stream \<Rightarrow> stream" where
  "st_put bs st \<equiv> st\<lparr>s_pending := s_pending st @ bs\<rparr>"

lemma exec_writePacket [prog_simps]:
  "exec (writePacket ty ok bs) s st =
     (if ok then (Ok (), s, st_put (enc_packet ty bs) st)
      else (Fail AssertionFailed, s, st_put (put_PacketType ty) st))"
  by (simp add: writePacket_def enc_packet_def prog_simps)

lemma exec_writeReply [prog_simps]:
  "reply_ok r \<Longrightarrow> exec (writeReply z r) s st = (Ok (), s, st_put (enc_reply z r) st)"
  by (simp add: writeReply_def enc_reply_def prog_simps)

lemma exec_writePayloadPtr [prog_simps]:
  "len \<le> length mem \<Longrightarrow>
   exec (writePayloadPtr w z mem len) s st
     = (Ok (), s, st_put (enc_packet PT_Payload (put_PayloadPtr w z mem len)) st)"
  using le_trans [OF mod_less_eq_dividend [of len "256 ^ w"], of "length mem"]
  by (simp add: writePayloadPtr_def prog_simps not_less)

lemma pt_code_Error: "pt_code ty = 3 \<longleftrightarrow> ty = PT_Error"
  using pt_code_inj [of ty PT_Error] by simp

lemma pt_code_Terminate: "pt_code ty = 255 \<longleftrightarrow> ty = PT_Terminate"
  using pt_code_inj [of ty PT_Terminate] by simp

lemma enc_packet_Cons: "enc_packet ty bs = pt_code ty # bs"
  by (simp add: enc_packet_def put_PacketType_single)

lemma exec_get_PacketType:
  "s_in st = b # bs \<Longrightarrow> exec (pdec get_PacketType) s st = (Ok b, s, st\<lparr>s_in := bs\<rparr>)"
  using exec_pdec_Ok [of get_PacketType st b bs s] get_u8_put [of b bs]
  by (simp add: get_PacketType_def put_u8_single)

text \<open>Reading the packet that is next on the stream.\<close>

lemma exec_readPacket:
  "s_in st = enc_packet ty bs @ rest \<Longrightarrow> ty \<noteq> PT_Error \<Longrightarrow> ty \<noteq> PT_Terminate \<Longrightarrow>
   exec (readPacket ty p) s st = exec p s (st\<lparr>s_in := bs @ rest\<rparr>)"
  by (simp add: readPacket_def prog_simps exec_get_PacketType enc_packet_Cons pt_code_Error
      pt_code_Terminate)

lemma exec_readPacket_Ok:
  assumes "s_in st = enc_packet ty bs @ rest" and "ty \<noteq> PT_Error" and "ty \<noteq> PT_Terminate"
    and "decode d (bs @ rest) = (Ok x, rest)"
  shows "exec (readPacket ty (pdec d)) s st = (Ok x, s, st\<lparr>s_in := rest\<rparr>)"
  using exec_readPacket [OF assms(1-3), of "pdec d" s] exec_pdec_Ok [of d "st\<lparr>s_in := bs @ rest\<rparr>" x rest s]
    assms(4)
  by simp

text \<open>
  The same as a rewrite rule: what is read is computed from the bytes on the stream
  (\<open>wire_is\<close>, \<open>wire_rest\<close>: the type byte and what follows it).
\<close>

definition wire_is :: "packet_type \<Rightarrow> byte list \<Rightarrow> bool" where
  "wire_is ty bs \<longleftrightarrow> take 1 bs = [pt_code ty]"

definition wire_rest :: "byte list \<Rightarrow> byte list" where
  "wire_rest bs = drop 1 bs"

lemma wire_enc_packet [prog_simps]:
  "wire_is ty (enc_packet ty bs @ rest)" "wire_is ty (enc_packet ty bs)"
  "wire_rest (enc_packet ty bs @ rest) = bs @ rest" "wire_rest (enc_packet ty bs) = bs"
  by (simp_all add: wire_is_def wire_rest_def enc_packet_Cons)

lemma wire_split: "wire_is ty bs \<longleftrightarrow> bs = enc_packet ty (wire_rest bs)"
  by (cases bs) (auto simp: wire_is_def wire_rest_def enc_packet_Cons)

lemma exec_readPacket_eval [prog_simps]:
  assumes "wire_is ty (s_in st)" and "ty \<noteq> PT_Error" and "ty \<noteq> PT_Terminate"
    and "is_Ok (fst (decode d (wire_rest (s_in st))))"
  shows "exec (readPacket ty (pdec d)) s st = (fst (decode d (wire_rest (s_in st))), s,
           st\<lparr>s_in := snd (decode d (wire_rest (s_in st)))\<rparr>)"
proof -
  obtain x rest where d: "decode d (wire_rest (s_in st)) = (Ok x, rest)"
    using assms(4) by (cases "decode d (wire_rest (s_in st))") (auto simp: is_Ok_iff)
  from assms(1) have "s_in st = enc_packet ty (wire_rest (s_in st)) @ []"
    by (simp add: wire_split)
  from exec_readPacket [OF this assms(2,3), of "pdec d" s]
    exec_pdec_Ok [of d "st\<lparr>s_in := wire_rest (s_in st) @ []\<rparr>" x rest s] d
  show ?thesis by simp
qed

lemma exec_readPacket_Error:
  assumes "s_in st = enc_packet PT_Error (put_u32 e) @ rest"
  shows "exec (readPacket ty p) s st = (Throw (ErrorPacketExn e), s, st\<lparr>s_in := rest\<rparr>)"
  using assms exec_pdec_Ok [of get_u32 "st\<lparr>s_in := put_u32 e @ rest\<rparr>" e rest s]
  by (simp add: readPacket_def prog_simps exec_get_PacketType enc_packet_Cons codec_simps)

lemma exec_readPacket_Terminate:
  "s_in st = enc_packet PT_Terminate bs @ rest \<Longrightarrow>
   exec (readPacket ty p) s st = (Throw SocketError, s, st\<lparr>s_in := bs @ rest\<rparr>)"
  by (simp add: readPacket_def prog_simps exec_get_PacketType enc_packet_Cons)

lemma exec_readPacket_wrong:
  "s_in st = enc_packet ty' bs @ rest \<Longrightarrow> ty' \<noteq> PT_Error \<Longrightarrow> ty' \<noteq> PT_Terminate \<Longrightarrow> ty' \<noteq> ty \<Longrightarrow>
   exec (readPacket ty p) s st = (Fail AssertionFailed, s, st\<lparr>s_in := bs @ rest\<rparr>)"
  by (simp add: readPacket_def prog_simps exec_get_PacketType enc_packet_Cons pt_code_Error
      pt_code_Terminate)

text \<open>\<open>nextPacketTy\<close> previews: it changes nothing.\<close>

lemma exec_nextPacketTy:
  "s_in st = b # bs \<Longrightarrow> exec nextPacketTy s st = (Ok b, s, st)"
  by (simp add: nextPacketTy_def prog_simps st_peek_def)

lemma exec_nextPacketTy_packet:
  "s_in st = enc_packet ty bs @ rest \<Longrightarrow> exec nextPacketTy s st = (Ok (pt_code ty), s, st)"
  by (simp add: exec_nextPacketTy enc_packet_Cons)

lemma exec_nextPacketTy_eof:
  "s_in st = [] \<Longrightarrow> s_closed st \<Longrightarrow> exec nextPacketTy s st = (Ok (pt_code PT_Terminate), s, st)"
  by (simp add: nextPacketTy_def prog_simps st_peek_def)

section \<open>Round trips over the stream\<close>

text \<open>A codec that meets its contract carries a value from \<open>writePacket\<close> to \<open>readPacket\<close>.\<close>

context codec
begin

lemma read_of_written:
  assumes "ok x" and "ty \<noteq> PT_Error" and "ty \<noteq> PT_Terminate"
    and "exec (writePacket ty (ok x) (enc x)) s st = (Ok (), s', st')"
    and "s_pending st = []" and "s_in st2 = s_pending st' @ rest"
  shows "exec (readPacket ty (pdec dec)) s2 st2 = (Ok x, s2, st2\<lparr>s_in := rest\<rparr>)"
proof -
  from assms have "s_in st2 = enc_packet ty (enc x) @ rest" by (auto simp: prog_simps)
  from exec_readPacket_Ok [OF this assms(2,3) decode_enc [OF assms(1)]] show ?thesis .
qed

end

end
