(* ===== verification/RCL_OpenCL.thy ===== *)
theory RCL_OpenCL
  imports RCL_Prelude
begin

text \<open>
  The OpenCL implementation the server calls (\<open>CL/cl.h\<close> and the library behind it). It is not
  part of the repository: an implementation is a parameter \<open>cl :: cl_call \<Rightarrow> 'w \<Rightarrow> cl_ret \<times> 'w\<close>
  over a state \<open>'w\<close> of its own, and nothing is assumed of what it computes. A \<open>cl_call\<close> is one
  call with its arguments; a null output pointer is a size of 0 and a null input pointer
  \<open>None\<close> or an empty list.

  A \<open>cl_ret\<close> is what a call leaves with its caller: the status, the object or event it returned,
  the bytes and the object handles it stored in the output buffer, and the size or count it stored
  through the size pointer (\<open>None\<close> when it stored none).
\<close>

datatype obj_kind = K_Device | K_Context | K_Queue | K_Program | K_Kernel | K_MemObject | K_Event

datatype info_kind =
    I_Platform | I_Device | I_Context | I_CommandQueue | I_MemObject | I_Image | I_Program
  | I_Kernel | I_Event | I_EventProfiling

type_synonym size3 = "nat \<times> nat \<times> nat"

text \<open>\<open>cl_image_format\<close> and \<open>cl_image_desc\<close>\<close>

record cl_image_format =
  image_channel_order :: u32
  image_channel_data_type :: u32

record cl_image_desc =
  image_type :: u32
  image_width :: nat
  image_height :: nat
  image_depth :: nat
  image_array_size :: nat
  image_row_pitch :: nat
  image_slice_pitch :: nat
  num_mip_levels :: u32
  num_samples :: u32

datatype (plugins only: code size) cl_call =
    clRetain obj_kind ptr
  | clRelease obj_kind ptr
  | clGetInfo info_kind ptr u32 nat
  | clGetProgramBuildInfo ptr ptr u32 nat
  | clGetKernelArgInfo ptr u32 u32 nat
  | clGetKernelWorkGroupInfo ptr ptr u32 nat
  | clGetPlatformIDs nat
  | clGetDeviceIDs ptr u64 nat
  | clCreateContext "u64 list" "ptr list"
  | clCreateContextFromType "u64 list" u64
  | clGetSupportedImageFormats ptr u64 u32 nat
  | clCreateCommandQueue ptr ptr u64
  | clCreateCommandQueueWithProperties ptr ptr "u64 list"
  | clFlush ptr
  | clFinish ptr
  | clCreateBuffer ptr u64 nat "byte list option"
  | clCreateSubBuffer ptr u64 u32 nat nat
  | clEnqueueReadBuffer ptr ptr bool nat nat "ptr list" bool
  | clEnqueueReadBufferRect ptr ptr bool size3 size3 size3 nat nat nat nat "ptr list" bool
  | clEnqueueWriteBuffer ptr ptr bool nat "byte list" "ptr list" bool
  | clEnqueueFillBuffer ptr ptr "byte list" nat nat nat "ptr list" bool
  | clCreateImage ptr u64 cl_image_format cl_image_desc "byte list option"
  | clEnqueueReadImage ptr ptr bool size3 size3 nat nat "ptr list" bool
  | clEnqueueWriteImage ptr ptr bool size3 size3 nat nat "byte list" "ptr list" bool
  | clBuildProgram ptr "ptr list" "byte list"
  | clCompileProgram ptr "ptr list" "byte list" "ptr list" "byte list list" "nat option"
  | clLinkProgram ptr "ptr list" "byte list" "ptr list"
  | clCreateProgramWithSource ptr "byte list"
  | clCreateProgramWithBinary ptr "ptr list" "byte list list"
  | clGetProgramBinaries ptr "nat list"
  | clCreateKernel ptr "byte list"
  | clCreateKernelsInProgram ptr nat
  | clCloneKernel ptr
  | clSetKernelArg ptr u32 nat "byte list option"
  | clEnqueueNDRangeKernel ptr ptr u32 size3 size3 "size3 option" "ptr list" bool
  | clCreateUserEvent ptr
  | clSetUserEventStatus ptr u32
  | clWaitForEvents "ptr list"
  | clSetEventCallback ptr u32 nat

record cl_ret =
  r_err :: u32
  r_obj :: ptr
  r_bytes :: "byte list"
  r_objs :: "ptr list"
  r_bins :: "byte list list"
  r_size :: "nat option"

text \<open>A call that returns status \<open>e\<close> and stores nothing; one that succeeds and returns \<open>p\<close>.\<close>

definition cl_status :: "u32 \<Rightarrow> cl_ret" where
  "cl_status e = \<lparr>r_err = e, r_obj = 0, r_bytes = [], r_objs = [], r_bins = [], r_size = None\<rparr>"

definition cl_object :: "ptr \<Rightarrow> cl_ret" where
  "cl_object p = (cl_status 0)\<lparr>r_obj := p\<rparr>"

lemma cl_status_simps [simp]:
  "r_err (cl_status e) = e" "r_obj (cl_status e) = 0" "r_bytes (cl_status e) = []"
  "r_objs (cl_status e) = []" "r_bins (cl_status e) = []" "r_size (cl_status e) = None"
  by (simp_all add: cl_status_def)

lemma cl_object_simps [simp]:
  "r_err (cl_object p) = 0" "r_obj (cl_object p) = p" "r_bytes (cl_object p) = []"
  "r_objs (cl_object p) = []" "r_bins (cl_object p) = []" "r_size (cl_object p) = None"
  by (simp_all add: cl_object_def)

type_synonym 'w opencl = "cl_call \<Rightarrow> 'w \<Rightarrow> cl_ret \<times> 'w"

text \<open>
  What a call with an output buffer of \<open>length buf\<close> bytes leaves in it, and the value of a size
  variable that held \<open>n\<close>. Bytes an implementation would write past the buffer (for an image with pitches of the host, or
  a rectangle with an origin there, the handlers may make it too small) are dropped: that this is undefined behaviour is
  not modelled.
\<close>

definition out_bytes :: "byte list \<Rightarrow> cl_ret \<Rightarrow> byte list" where
  "out_bytes buf r = memcpy_at buf 0 (take (length buf) (r_bytes r))"

definition out_objs :: "ptr list \<Rightarrow> cl_ret \<Rightarrow> ptr list" where
  "out_objs buf r = take (length buf) (r_objs r) @ drop (length (r_objs r)) buf"

definition out_size :: "nat \<Rightarrow> cl_ret \<Rightarrow> nat" where
  "out_size n r = (case r_size r of None \<Rightarrow> n | Some m \<Rightarrow> m)"

lemma length_out_bytes [simp]: "length (out_bytes buf r) = length buf"
  unfolding out_bytes_def by (rule length_memcpy_at) simp

lemma length_out_objs [simp]: "length (out_objs buf r) = length buf"
  by (simp add: out_objs_def)

lemma out_size_simps [simp]:
  "r_size r = Some m \<Longrightarrow> out_size n r = m"
  "r_size r = None \<Longrightarrow> out_size n r = n"
  by (simp_all add: out_size_def)

section \<open>Constants of the OpenCL headers\<close>

abbreviation CL_SUCCESS :: u32 where "CL_SUCCESS \<equiv> 0"
abbreviation CL_OUT_OF_HOST_MEMORY :: u32 where "CL_OUT_OF_HOST_MEMORY \<equiv> - 6"
abbreviation CL_INVALID_OPERATION :: u32 where "CL_INVALID_OPERATION \<equiv> - 59"

abbreviation CL_CONTEXT_DEVICES :: u32 where "CL_CONTEXT_DEVICES \<equiv> 0x1081"
abbreviation CL_CONTEXT_PLATFORM :: u64 where "CL_CONTEXT_PLATFORM \<equiv> 0x1084"

abbreviation CL_DEVICE_MAX_WORK_GROUP_SIZE :: u32 where "CL_DEVICE_MAX_WORK_GROUP_SIZE \<equiv> 0x1004"
abbreviation CL_DEVICE_MAX_WORK_ITEM_SIZES :: u32 where "CL_DEVICE_MAX_WORK_ITEM_SIZES \<equiv> 0x1005"
abbreviation CL_DEVICE_IMAGE2D_MAX_WIDTH :: u32 where "CL_DEVICE_IMAGE2D_MAX_WIDTH \<equiv> 0x1011"
abbreviation CL_DEVICE_IMAGE2D_MAX_HEIGHT :: u32 where "CL_DEVICE_IMAGE2D_MAX_HEIGHT \<equiv> 0x1012"
abbreviation CL_DEVICE_IMAGE3D_MAX_WIDTH :: u32 where "CL_DEVICE_IMAGE3D_MAX_WIDTH \<equiv> 0x1013"
abbreviation CL_DEVICE_IMAGE3D_MAX_HEIGHT :: u32 where "CL_DEVICE_IMAGE3D_MAX_HEIGHT \<equiv> 0x1014"
abbreviation CL_DEVICE_IMAGE3D_MAX_DEPTH :: u32 where "CL_DEVICE_IMAGE3D_MAX_DEPTH \<equiv> 0x1015"
abbreviation CL_DEVICE_MAX_PARAMETER_SIZE :: u32 where "CL_DEVICE_MAX_PARAMETER_SIZE \<equiv> 0x1017"
abbreviation CL_DEVICE_PROFILING_TIMER_RESOLUTION :: u32 where
  "CL_DEVICE_PROFILING_TIMER_RESOLUTION \<equiv> 0x1025"
abbreviation CL_DEVICE_PLATFORM :: u32 where "CL_DEVICE_PLATFORM \<equiv> 0x1031"
abbreviation CL_DEVICE_IMAGE_MAX_BUFFER_SIZE :: u32 where
  "CL_DEVICE_IMAGE_MAX_BUFFER_SIZE \<equiv> 0x1040"
abbreviation CL_DEVICE_IMAGE_MAX_ARRAY_SIZE :: u32 where "CL_DEVICE_IMAGE_MAX_ARRAY_SIZE \<equiv> 0x1041"
abbreviation CL_DEVICE_PARENT_DEVICE :: u32 where "CL_DEVICE_PARENT_DEVICE \<equiv> 0x1042"
abbreviation CL_DEVICE_PRINTF_BUFFER_SIZE :: u32 where "CL_DEVICE_PRINTF_BUFFER_SIZE \<equiv> 0x1049"
abbreviation CL_DEVICE_IMAGE_PITCH_ALIGNMENT :: u32 where
  "CL_DEVICE_IMAGE_PITCH_ALIGNMENT \<equiv> 0x104A"
abbreviation CL_DEVICE_IMAGE_BASE_ADDRESS_ALIGNMENT :: u32 where
  "CL_DEVICE_IMAGE_BASE_ADDRESS_ALIGNMENT \<equiv> 0x104B"
abbreviation CL_DEVICE_MAX_GLOBAL_VARIABLE_SIZE :: u32 where
  "CL_DEVICE_MAX_GLOBAL_VARIABLE_SIZE \<equiv> 0x104D"
abbreviation CL_DEVICE_GLOBAL_VARIABLE_PREFERRED_TOTAL_SIZE :: u32 where
  "CL_DEVICE_GLOBAL_VARIABLE_PREFERRED_TOTAL_SIZE \<equiv> 0x1054"

abbreviation CL_QUEUE_CONTEXT :: u32 where "CL_QUEUE_CONTEXT \<equiv> 0x1090"
abbreviation CL_QUEUE_DEVICE :: u32 where "CL_QUEUE_DEVICE \<equiv> 0x1091"

abbreviation CL_MEM_CONTEXT :: u32 where "CL_MEM_CONTEXT \<equiv> 0x1106"
abbreviation CL_MEM_ASSOCIATED_MEMOBJECT :: u32 where "CL_MEM_ASSOCIATED_MEMOBJECT \<equiv> 0x1107"
abbreviation CL_MEM_COPY_HOST_PTR :: u64 where "CL_MEM_COPY_HOST_PTR \<equiv> 0x20"
abbreviation CL_IMAGE_ELEMENT_SIZE :: u32 where "CL_IMAGE_ELEMENT_SIZE \<equiv> 0x1111"
abbreviation CL_IMAGE_BUFFER :: u32 where "CL_IMAGE_BUFFER \<equiv> 0x1118"

abbreviation CL_PROGRAM_CONTEXT :: u32 where "CL_PROGRAM_CONTEXT \<equiv> 0x1161"
abbreviation CL_PROGRAM_DEVICES :: u32 where "CL_PROGRAM_DEVICES \<equiv> 0x1163"
abbreviation CL_PROGRAM_BINARY_SIZES :: u32 where "CL_PROGRAM_BINARY_SIZES \<equiv> 0x1165"
abbreviation CL_PROGRAM_BINARIES :: u32 where "CL_PROGRAM_BINARIES \<equiv> 0x1166"

abbreviation CL_KERNEL_NUM_ARGS :: u32 where "CL_KERNEL_NUM_ARGS \<equiv> 0x1191"
abbreviation CL_KERNEL_REFERENCE_COUNT :: u32 where "CL_KERNEL_REFERENCE_COUNT \<equiv> 0x1192"
abbreviation CL_KERNEL_CONTEXT :: u32 where "CL_KERNEL_CONTEXT \<equiv> 0x1193"
abbreviation CL_KERNEL_PROGRAM :: u32 where "CL_KERNEL_PROGRAM \<equiv> 0x1194"
abbreviation CL_KERNEL_ARG_ADDRESS_QUALIFIER :: u32 where
  "CL_KERNEL_ARG_ADDRESS_QUALIFIER \<equiv> 0x1196"
abbreviation CL_KERNEL_ARG_ACCESS_QUALIFIER :: u32 where
  "CL_KERNEL_ARG_ACCESS_QUALIFIER \<equiv> 0x1197"
abbreviation CL_KERNEL_ARG_TYPE_QUALIFIER :: u32 where "CL_KERNEL_ARG_TYPE_QUALIFIER \<equiv> 0x1199"
abbreviation CL_KERNEL_ARG_ADDRESS_GLOBAL :: u32 where "CL_KERNEL_ARG_ADDRESS_GLOBAL \<equiv> 0x119B"
abbreviation CL_KERNEL_ARG_ADDRESS_LOCAL :: u32 where "CL_KERNEL_ARG_ADDRESS_LOCAL \<equiv> 0x119C"
abbreviation CL_KERNEL_ARG_ADDRESS_CONSTANT :: u32 where
  "CL_KERNEL_ARG_ADDRESS_CONSTANT \<equiv> 0x119D"
abbreviation CL_KERNEL_WORK_GROUP_SIZE :: u32 where "CL_KERNEL_WORK_GROUP_SIZE \<equiv> 0x11B0"
abbreviation CL_KERNEL_COMPILE_WORK_GROUP_SIZE :: u32 where
  "CL_KERNEL_COMPILE_WORK_GROUP_SIZE \<equiv> 0x11B1"
abbreviation CL_KERNEL_LOCAL_MEM_SIZE :: u32 where "CL_KERNEL_LOCAL_MEM_SIZE \<equiv> 0x11B2"
abbreviation CL_KERNEL_PREFERRED_WORK_GROUP_SIZE_MULTIPLE :: u32 where
  "CL_KERNEL_PREFERRED_WORK_GROUP_SIZE_MULTIPLE \<equiv> 0x11B3"

abbreviation CL_EVENT_COMMAND_QUEUE :: u32 where "CL_EVENT_COMMAND_QUEUE \<equiv> 0x11D0"
abbreviation CL_EVENT_COMMAND_TYPE :: u32 where "CL_EVENT_COMMAND_TYPE \<equiv> 0x11D1"
abbreviation CL_EVENT_REFERENCE_COUNT :: u32 where "CL_EVENT_REFERENCE_COUNT \<equiv> 0x11D2"
abbreviation CL_EVENT_COMMAND_EXECUTION_STATUS :: u32 where
  "CL_EVENT_COMMAND_EXECUTION_STATUS \<equiv> 0x11D3"
abbreviation CL_EVENT_CONTEXT :: u32 where "CL_EVENT_CONTEXT \<equiv> 0x11D4"

end
