(* ===== verification/RCL_ServerObjects.thy ===== *)
theory RCL_ServerObjects
  imports RCL_Prelude
begin

text \<open>
  The object table of a server instance, \<open>getIDFor\<close> and \<open>getObj\<close> of \<open>server/instance.h\<close>:
  a vector of object pointers whose positions are the 16-bit IDs the client sees.

  The search of \<open>getIDFor\<close> counts a 16-bit \<open>id\<close> up to \<open>mObjects.size()\<close>. It is a partial
  function into \<open>option\<close>: with 65536 objects the counter wraps before it reaches the size, and
  looking up an object that is not in the table never ends (\<open>getIDFor_full\<close>).
\<close>

section \<open>The operations\<close>

partial_function (option) getIDFor_loop :: "ptr list \<Rightarrow> ptr \<Rightarrow> IDType \<Rightarrow> (IDType \<times> ptr list) option"
  where
  "getIDFor_loop mObjects obj oid =
     (if unat oid < length mObjects then
        (if mObjects ! unat oid = obj then Some (oid, mObjects)
         else getIDFor_loop mObjects obj (oid + 1))
      else Some (oid, mObjects @ [obj]))"

definition getIDFor :: "ptr list \<Rightarrow> ptr \<Rightarrow> (IDType \<times> ptr list) option" where
  "getIDFor mObjects obj = getIDFor_loop mObjects obj 0"

definition getObj :: "ptr list \<Rightarrow> IDType \<Rightarrow> ptr" where
  "getObj mObjects oid = (if length mObjects \<le> unat oid then nullptr else mObjects ! unat oid)"

section \<open>What the search finds\<close>

lemma unat_id_less: "unat (oid :: IDType) < 65536"
  using unsigned_less [of oid, where ?'a = nat] by simp

lemma unat_id_Suc: "unat (oid :: IDType) < 65535 \<Longrightarrow> unat (oid + 1) = Suc (unat oid)"
  by (simp add: unat_word_ariths)

text \<open>The loop skips the positions that do not hold the object.\<close>

lemma getIDFor_loop_skip:
  "unat oid + n < 65536 \<Longrightarrow> unat oid + n \<le> length objs \<Longrightarrow>
   (\<forall>i<n. objs ! (unat oid + i) \<noteq> obj) \<Longrightarrow>
   getIDFor_loop objs obj oid = getIDFor_loop objs obj (oid + word_of_nat n)"
proof (induction n arbitrary: oid)
  case 0
  then show ?case by simp
next
  case (Suc n)
  then have oid: "unat (oid + 1) = Suc (unat oid)" by (intro unat_id_Suc) simp
  from Suc.prems have "objs ! unat oid \<noteq> obj" by force
  with Suc.prems have "getIDFor_loop objs obj oid = getIDFor_loop objs obj (oid + 1)"
    by (subst getIDFor_loop.simps) simp
  also have "\<dots> = getIDFor_loop objs obj (oid + 1 + word_of_nat n)"
  proof (rule Suc.IH)
    show "unat (oid + 1) + n < 65536" and "unat (oid + 1) + n \<le> length objs"
      using Suc.prems by (simp_all add: oid)
    show "\<forall>i<n. objs ! (unat (oid + 1) + i) \<noteq> obj"
    proof (intro allI impI)
      fix i assume "i < n"
      with Suc.prems(3) have "objs ! (unat oid + Suc i) \<noteq> obj" by blast
      then show "objs ! (unat (oid + 1) + i) \<noteq> obj" by (simp add: oid)
    qed
  qed
  finally show ?case by (simp add: add.assoc)
qed

text \<open>An object of the table keeps the ID of its first position, and the table does not change.\<close>

lemma getIDFor_present:
  assumes "i < length objs" and "i < 65536" and "objs ! i = obj" and "\<forall>j<i. objs ! j \<noteq> obj"
  shows "getIDFor objs obj = Some (word_of_nat i, objs)"
proof -
  have "getIDFor objs obj = getIDFor_loop objs obj (0 + word_of_nat i)"
    unfolding getIDFor_def using assms by (intro getIDFor_loop_skip) simp_all
  also have "\<dots> = Some (word_of_nat i, objs)"
    using assms by (subst getIDFor_loop.simps) (simp add: unat_of_nat)
  finally show ?thesis .
qed

text \<open>A new object is appended and gets the old size as its ID.\<close>

lemma getIDFor_absent:
  assumes "obj \<notin> set objs" and "length objs < 65536"
  shows "getIDFor objs obj = Some (word_of_nat (length objs), objs @ [obj])"
proof -
  have "getIDFor objs obj = getIDFor_loop objs obj (0 + word_of_nat (length objs))"
    unfolding getIDFor_def using assms by (intro getIDFor_loop_skip) (auto simp: in_set_conv_nth)
  also have "\<dots> = Some (word_of_nat (length objs), objs @ [obj])"
    using assms by (subst getIDFor_loop.simps) (simp add: unat_of_nat)
  finally show ?thesis .
qed

text \<open>
  In a full table the search for an object that is not there runs in a circle: the loop has no
  result.
\<close>

lemma getIDFor_loop_result:
  assumes "getIDFor_loop objs obj oid = Some r"
  shows "length objs < 65536 \<or> obj \<in> set objs"
proof (rule getIDFor_loop.raw_induct
    [where P = "\<lambda>objs obj oid r. length objs < 65536 \<or> obj \<in> set objs", OF _ assms])
  fix loop :: "ptr list \<Rightarrow> ptr \<Rightarrow> IDType \<Rightarrow> (IDType \<times> ptr list) option"
  fix objs :: "ptr list" and obj and oid :: IDType and r
  assume IH: "\<And>objs obj oid r. loop objs obj oid = Some r \<Longrightarrow> length objs < 65536 \<or> obj \<in> set objs"
    and r: "(if unat oid < length objs then
        (if objs ! unat oid = obj then Some (oid, objs) else loop objs obj (oid + 1))
      else Some (oid, objs @ [obj])) = Some r"
  show "length objs < 65536 \<or> obj \<in> set objs"
  proof (cases "unat oid < length objs \<and> objs ! unat oid \<noteq> obj")
    case True
    with IH r show ?thesis by simp
  next
    case False
    with unat_id_less [of oid] show ?thesis by (cases "unat oid < length objs") auto
  qed
qed

lemma getIDFor_full: "65536 \<le> length objs \<Longrightarrow> obj \<notin> set objs \<Longrightarrow> getIDFor objs obj = None"
  unfolding getIDFor_def using getIDFor_loop_result [of objs obj 0]
  by (cases "getIDFor_loop objs obj 0") auto

text \<open>An object of the table has a first position.\<close>

lemma first_position:
  assumes "obj \<in> set objs"
  obtains i where "i < length objs" and "objs ! i = obj" and "\<forall>j<i. objs ! j \<noteq> obj"
proof -
  define i where "i = (LEAST i. i < length objs \<and> objs ! i = obj)"
  from assms obtain k where "k < length objs \<and> objs ! k = obj" by (auto simp: in_set_conv_nth)
  then have i: "i < length objs \<and> objs ! i = obj" unfolding i_def by (rule LeastI)
  moreover have "objs ! j \<noteq> obj" if "j < i" for j
  proof -
    from that have "\<not> (j < length objs \<and> objs ! j = obj)" unfolding i_def by (rule not_less_Least)
    with that i show ?thesis by simp
  qed
  ultimately show thesis using that by blast
qed

section \<open>The table as an interface\<close>

text \<open>
  What the handlers rely on: the ID they are given resolves to the object, IDs that have been
  handed out stay valid, the table never forgets or repeats an object.
\<close>

definition objs_ok :: "ptr list \<Rightarrow> bool" where
  "objs_ok objs \<longleftrightarrow> distinct objs \<and> length objs \<le> 65536"

definition has_id :: "ptr list \<Rightarrow> IDType \<Rightarrow> bool" where
  "has_id objs oid \<longleftrightarrow> unat oid < length objs"

lemma getIDFor_found:
  assumes "obj \<in> set objs" and "length objs \<le> 65536"
  shows "\<exists>oid. getIDFor objs obj = Some (oid, objs) \<and> unat oid < length objs \<and> objs ! unat oid = obj"
proof -
  from first_position [OF assms(1)] obtain i
    where i: "i < length objs" "objs ! i = obj" "\<forall>j<i. objs ! j \<noteq> obj" .
  with assms(2) have "i < 65536" by simp
  with getIDFor_present [OF i(1) _ i(2,3)] i show ?thesis by (simp add: unat_of_nat)
qed

lemma getIDFor_cases:
  assumes "getIDFor objs obj = Some (oid, objs')" and "length objs \<le> 65536"
  shows "(obj \<in> set objs \<and> objs' = objs \<and> unat oid < length objs \<and> objs ! unat oid = obj)
    \<or> (obj \<notin> set objs \<and> length objs < 65536 \<and> objs' = objs @ [obj] \<and> unat oid = length objs)"
proof (cases "obj \<in> set objs")
  case True
  with getIDFor_found [OF True assms(2)] assms(1) show ?thesis by auto
next
  case False
  with assms(1) getIDFor_full [of objs obj] have "length objs < 65536"
    by (cases "65536 \<le> length objs") simp_all
  with getIDFor_absent [OF False this] assms(1) False show ?thesis by (auto simp: unat_of_nat)
qed

lemma getIDFor_total:
  assumes "length objs < 65536 \<or> obj \<in> set objs" and "length objs \<le> 65536"
  shows "\<exists>oid objs'. getIDFor objs obj = Some (oid, objs')"
  using getIDFor_found [OF _ assms(2), of obj] getIDFor_absent [of obj objs] assms(1)
  by (cases "obj \<in> set objs") auto

text \<open>Assigning IDs to several objects in a row; the handlers do it for lists of handles.\<close>

fun assign_all :: "('t \<Rightarrow> 'o \<Rightarrow> ('i \<times> 't) option) \<Rightarrow> 't \<Rightarrow> 'o list \<Rightarrow> ('i list \<times> 't) option" where
  "assign_all assign t [] = Some ([], t)"
| "assign_all assign t (p # ps) = (case assign t p of
      None \<Rightarrow> None
    | Some (i, t1) \<Rightarrow> (case assign_all assign t1 ps of
          None \<Rightarrow> None | Some (is, t2) \<Rightarrow> Some (i # is, t2)))"

lemma length_assign_all: "assign_all assign t ps = Some (is, t') \<Longrightarrow> length is = length ps"
  by (induction ps arbitrary: t "is") (auto split: option.splits)

locale object_table =
  fixes look :: "'t \<Rightarrow> 'i \<Rightarrow> 'o"
    and assign :: "'t \<Rightarrow> 'o \<Rightarrow> ('i \<times> 't) option"
    and known :: "'t \<Rightarrow> 'i \<Rightarrow> bool"
    and tinv :: "'t \<Rightarrow> bool"
  assumes assign_look: "tinv t \<Longrightarrow> assign t p = Some (i, t') \<Longrightarrow> known t' i \<and> look t' i = p"
    and assign_keeps: "tinv t \<Longrightarrow> assign t p = Some (i, t') \<Longrightarrow> known t j \<Longrightarrow>
      known t' j \<and> look t' j = look t j"
    and assign_inv: "tinv t \<Longrightarrow> assign t p = Some (i, t') \<Longrightarrow> tinv t'"
    and assign_again: "tinv t \<Longrightarrow> known t i \<Longrightarrow> assign t (look t i) = Some (i, t)"
begin

lemma assign_all_keeps:
  "tinv t \<Longrightarrow> assign_all assign t ps = Some (is, t') \<Longrightarrow> known t j \<Longrightarrow>
   known t' j \<and> look t' j = look t j"
proof (induction ps arbitrary: t "is")
  case (Cons p ps)
  then obtain i t1 is1 where "assign t p = Some (i, t1)" "assign_all assign t1 ps = Some (is1, t')"
    by (auto split: option.splits)
  with Cons.IH [of t1 is1] assign_keeps [of t p i t1 j] assign_inv [of t p i t1] Cons.prems
  show ?case by simp
qed simp

lemma assign_all_look:
  "tinv t \<Longrightarrow> assign_all assign t ps = Some (is, t') \<Longrightarrow>
   tinv t' \<and> map (look t') is = ps \<and> list_all (known t') is"
proof (induction ps arbitrary: t "is")
  case (Cons p ps)
  then obtain i t1 is1 where s: "assign t p = Some (i, t1)" "assign_all assign t1 ps = Some (is1, t')"
    and [simp]: "is = i # is1"
    by (auto split: option.splits)
  from s assign_inv [of t p i t1] Cons.prems have inv1: "tinv t1" by simp
  with assign_all_keeps [OF inv1 s(2), of i] assign_look [OF Cons.prems(1) s(1)] Cons.IH [OF inv1 s(2)]
  show ?case by simp
qed simp

text \<open>Two objects that get the same ID are the same.\<close>

lemma assign_inj:
  assumes "tinv t" and "assign t p = Some (i, t1)" and "assign t1 q = Some (i, t2)"
  shows "p = q"
proof -
  from assign_look [OF assms(1,2)] have "known t1 i" "look t1 i = p" by auto
  with assign_keeps [OF assign_inv [OF assms(1,2)] assms(3), of i]
    assign_look [OF assign_inv [OF assms(1,2)] assms(3)]
  show ?thesis by simp
qed

end

interpretation server_table: object_table getObj getIDFor has_id objs_ok
proof
  fix t :: "ptr list" and p i t'
  assume inv: "objs_ok t" and a: "getIDFor t p = Some (i, t')"
  then have len: "length t \<le> 65536" by (simp add: objs_ok_def)
  note c = getIDFor_cases [OF a len]
  from c show "has_id t' i \<and> getObj t' i = p" by (auto simp: has_id_def getObj_def)
  from c show "has_id t' j \<and> getObj t' j = getObj t j" if "has_id t j" for j
    using that by (auto simp: has_id_def getObj_def nth_append)
  from c inv show "objs_ok t'" by (auto simp: objs_ok_def)
next
  fix t :: "ptr list" and i
  assume inv: "objs_ok t" and k: "has_id t i"
  have "\<forall>j<unat i. t ! j \<noteq> t ! unat i"
    using inv k by (auto simp: objs_ok_def has_id_def nth_eq_iff_index_eq)
  with getIDFor_present [of "unat i" t "t ! unat i"] k unat_id_less [of i]
  show "getIDFor t (getObj t i) = Some (i, t)" by (simp add: has_id_def getObj_def)
qed

end
