(* ===== verification/RCL_Server.thy ===== *)
theory RCL_Server
  imports RCL_PacketStream RCL_OpenCL RCL_ServerObjects "HOL-Library.Sublist"
begin

text \<open>
  The state of a \<open>ServerInstance\<close> (\<open>server/instance.h\<close>), what it uses of its host, and the steps
  its handlers share.

  A handler is a program over the client's \<open>PacketStream\<close> and this state. \<open>'w host\<close> collects
  what is not in the repository or is fixed by the build: the OpenCL implementation, ZLib, the
  target version of the headers, which allocations succeed, and the socket calls of
  \<open>createEventStream\<close>; \<open>'w\<close> is the state of that outside world.

  \<open>mEventStream\<close> is written but never read by the server; it is an abstract stream here. The
  callback blocks a handler allocates are never freed: \<open>sv_blocks\<close> is the list of them, and a
  block's address is its position. \<open>cb_instance\<close> tells whether the member \<open>instance\<close> was set.
\<close>

record CallbackBlock =
  cb_instance :: bool
  cb_ID :: IDType

record 'w server =
  mEventStream :: "stream option"
  mObjects :: "ptr list"
  sv_blocks :: "CallbackBlock list"
  sv_world :: 'w

record 'w host =
  h_cl :: "'w opencl"
  h_zlib :: "zlib option"
  h_cfg :: build_config
  h_target :: nat
  h_cl_2_0 :: bool
  h_new :: "nat \<Rightarrow> bool"
  h_rand :: "'w \<Rightarrow> nat \<times> 'w"
  h_bind :: "u16 \<Rightarrow> 'w \<Rightarrow> bool \<times> 'w"
  h_accept :: "u16 \<Rightarrow> 'w \<Rightarrow> exn option \<times> 'w"

section \<open>Shared steps\<close>

text \<open>A call into the OpenCL implementation.\<close>

definition call :: "'w host \<Rightarrow> cl_call \<Rightarrow> ('w server, cl_ret) prog" where
  "call h c = pstate (\<lambda>sv. case h_cl h c (sv_world sv) of (r, w) \<Rightarrow> (r, sv\<lparr>sv_world := w\<rparr>))"

definition objFor :: "IDType \<Rightarrow> ('w server, ptr) prog" where
  "objFor i = pget (\<lambda>sv. getObj (mObjects sv) i)"

definition objsFor :: "IDType list \<Rightarrow> ('w server, ptr list) prog" where
  "objsFor is = pmap objFor is"

definition idFor :: "ptr \<Rightarrow> ('w server, IDType) prog" where
  "idFor p = PGet (\<lambda>sv. case getIDFor (mObjects sv) p of
       None \<Rightarrow> PFail Nontermination
     | Some (i, objs) \<Rightarrow> PPut (sv\<lparr>mObjects := objs\<rparr>) (PRet i))"

definition reply :: "'w host \<Rightarrow> reply \<Rightarrow> ('w server, unit) prog" where
  "reply h r = writeReply (h_zlib h) r"

text \<open>
  \<open>if (Unlikely(err != CL_SUCCESS)) { mStream.write<ErrorPacket>(err); return; }\<close> followed by the
  rest of the handler.
\<close>

definition checked :: "'w host \<Rightarrow> u32 \<Rightarrow> ('w server, unit) prog \<Rightarrow> ('w server, unit) prog" where
  "checked h err rest = (if err \<noteq> CL_SUCCESS then reply h (R_Error err) else rest)"

text \<open>Writing the ID of an object, assigning one if need be.\<close>

definition replyID :: "'w host \<Rightarrow> ptr \<Rightarrow> ('w server, unit) prog" where
  "replyID h p = pbind (idFor p) (\<lambda>i. reply h (R_ID i))"

text \<open>
  \<open>std::vector::resize\<close> of a fresh vector of \<open>esz\<close>-byte elements: it throws \<open>std::length_error\<close>
  beyond \<open>max_size()\<close> and \<open>std::bad_alloc\<close> when the allocation fails.
\<close>

definition resize :: "'w host \<Rightarrow> nat \<Rightarrow> nat \<Rightarrow> ('w server, unit) prog" where
  "resize h esz n =
     (if (2 ^ 63 - 1) div esz < n then PThrow LengthError
      else if h_new h (n * esz) then PRet () else PThrow BadAlloc)"

text \<open>
  A variable of \<open>n\<close> bytes that a query stores its answer in. Without an initial value, an answer
  of fewer bytes leaves part of it indeterminate.
\<close>

definition query_var ::
  "'w host \<Rightarrow> nat \<Rightarrow> nat option \<Rightarrow> (nat \<Rightarrow> cl_call) \<Rightarrow> (nat \<Rightarrow> ('w server, unit) prog)
   \<Rightarrow> ('w server, unit) prog" where
  "query_var h n init q k =
     pbind (call h (q n)) (\<lambda>r.
     checked h (r_err r)
       (case init of
          None \<Rightarrow> if length (r_bytes r) < n then PFail UndefinedBehaviour
                  else k (le_decode (take n (r_bytes r)))
        | Some v \<Rightarrow> k (le_decode (out_bytes (le_encode n v) r))))"

text \<open>A query whose answer is an object.\<close>

definition query_object ::
  "'w host \<Rightarrow> nat option \<Rightarrow> (nat \<Rightarrow> cl_call) \<Rightarrow> ('w server, unit) prog" where
  "query_object h init q = query_var h 8 init q (\<lambda>v. replyID h (word_of_nat v))"

text \<open>
  The default of the \<open>get*Info\<close> handlers: ask for the size, allocate, ask for the data, send it.
  \<open>check\<close> tells whether the status of the first call is looked at; \<open>w\<close> is the width of the
  payload's size.
\<close>

definition query_data ::
  "'w host \<Rightarrow> nat \<Rightarrow> bool \<Rightarrow> (nat \<Rightarrow> cl_call) \<Rightarrow> ('w server, unit) prog" where
  "query_data h w check q =
     pbind (call h (q 0)) (\<lambda>r1.
     if check \<and> r_err r1 \<noteq> CL_SUCCESS then reply h (R_Error (r_err r1))
     else
       let retSize = out_size 0 r1 in
       pbind (resize h 1 retSize) (\<lambda>_.
       pbind (call h (q retSize)) (\<lambda>r2.
       checked h (r_err r2)
         (writePayloadPtr w (h_zlib h) (out_bytes (replicate retSize 0) r2)
            (out_size retSize r2)))))"

text \<open>The optional event list in front of a command.\<close>

definition readEventList :: "bool \<Rightarrow> ('w server, ptr list) prog" where
  "readEventList mExpectEventList =
     (if mExpectEventList
      then pbind (readPacket PT_IDList (pdec get_IDList)) objsFor
      else PRet [])"

section \<open>Evaluation\<close>

lemma exec_call [prog_simps]:
  "exec (call h c) sv st = (case h_cl h c (sv_world sv) of (r, w) \<Rightarrow> (Ok r, sv\<lparr>sv_world := w\<rparr>, st))"
  by (simp add: call_def prog_simps split: prod.splits)

lemma exec_objFor [prog_simps]: "exec (objFor i) sv st = (Ok (getObj (mObjects sv) i), sv, st)"
  by (simp add: objFor_def prog_simps)

lemma exec_objsFor [prog_simps]:
  "exec (objsFor is) sv st = (Ok (map (getObj (mObjects sv)) is), sv, st)"
  unfolding objsFor_def by (induction "is") (simp_all add: prog_simps)

lemma exec_idFor [prog_simps]:
  "exec (idFor p) sv st = (case getIDFor (mObjects sv) p of
       None \<Rightarrow> (Fail Nontermination, sv, st)
     | Some (i, objs) \<Rightarrow> (Ok i, sv\<lparr>mObjects := objs\<rparr>, st))"
  by (simp add: idFor_def split: option.splits prod.splits)

lemma exec_reply [prog_simps]:
  "reply_ok r \<Longrightarrow> exec (reply h r) sv st = (Ok (), sv, st_put (enc_reply (h_zlib h) r) st)"
  by (simp add: reply_def prog_simps)

lemma exec_checked [prog_simps]:
  "exec (checked h err rest) sv st =
     (if err = CL_SUCCESS then exec rest sv st
      else (Ok (), sv, st_put (enc_reply (h_zlib h) (R_Error err)) st))"
  by (simp add: checked_def prog_simps)

lemma exec_replyID [prog_simps]:
  "exec (replyID h p) sv st = (case getIDFor (mObjects sv) p of
       None \<Rightarrow> (Fail Nontermination, sv, st)
     | Some (i, objs) \<Rightarrow>
         (Ok (), sv\<lparr>mObjects := objs\<rparr>, st_put (enc_reply (h_zlib h) (R_ID i)) st))"
  by (simp add: replyID_def prog_simps split: option.splits prod.splits)

lemma exec_resize [prog_simps]:
  "exec (resize h esz n) sv st =
     (if (2 ^ 63 - 1) div esz < n then (Throw LengthError, sv, st)
      else if h_new h (n * esz) then (Ok (), sv, st) else (Throw BadAlloc, sv, st))"
  by (simp add: resize_def)

section \<open>The table only grows\<close>

text \<open>
  What every handler keeps, whatever the client sends and the OpenCL implementation answers: the
  objects that have an ID keep it, no object gets two, and callback blocks stay where they are.
\<close>

definition sv_ok :: "'w server \<Rightarrow> bool" where
  "sv_ok sv \<longleftrightarrow> objs_ok (mObjects sv)"

definition sv_grows :: "'w server \<Rightarrow> 'w server \<Rightarrow> bool" where
  "sv_grows sv sv' \<longleftrightarrow>
     (sv_ok sv \<longrightarrow> sv_ok sv' \<and> prefix (mObjects sv) (mObjects sv') \<and> prefix (sv_blocks sv) (sv_blocks sv'))"

lemma sv_grows_refl: "reflp sv_grows"
  by (simp add: reflp_def sv_grows_def)

lemma sv_grows_trans: "transp sv_grows"
  unfolding transp_def sv_grows_def by (blast intro: prefix_order.trans)

lemma preserves_call [preserves_intros]: "preserves sv_grows (call h c)"
  unfolding call_def by (rule preserves_pstate) (simp add: sv_grows_def sv_ok_def split: prod.split)

lemma preserves_objFor [preserves_intros]: "preserves Q (objFor i)"
  by (simp add: objFor_def preserves_intros)

lemma preserves_objsFor [preserves_intros]: "preserves Q (objsFor is)"
  by (simp add: objsFor_def preserves_intros)

lemma getIDFor_grows:
  "objs_ok objs \<Longrightarrow> getIDFor objs p = Some (i, objs') \<Longrightarrow> objs_ok objs' \<and> prefix objs objs'"
  using getIDFor_cases [of objs p i objs'] server_table.assign_inv [of objs p i objs']
  by (auto simp: objs_ok_def)

lemma preserves_idFor [preserves_intros]: "preserves sv_grows (idFor p)"
  using getIDFor_grows [of _ p]
  by (auto simp: idFor_def preserves_def sv_grows_def sv_ok_def split: option.splits prod.splits)

lemma preserves_writePacket [preserves_intros]: "preserves Q (writePacket ty ok bs)"
  by (simp add: writePacket_def preserves_intros)

lemma preserves_writeReply [preserves_intros]: "preserves Q (writeReply z r)"
  by (simp add: writeReply_def preserves_intros)

lemma preserves_writePayloadPtr [preserves_intros]: "preserves Q (writePayloadPtr w z mem len)"
  by (simp add: writePayloadPtr_def preserves_intros)

lemma preserves_readPacket [preserves_intros]:
  "preserves Q p \<Longrightarrow> preserves Q (readPacket ty p)"
  by (simp add: readPacket_def preserves_intros)

lemma preserves_nextPacketTy [preserves_intros]: "preserves Q nextPacketTy"
  by (simp add: nextPacketTy_def preserves_intros)

lemma preserves_reply [preserves_intros]: "preserves Q (reply h r)"
  by (simp add: reply_def preserves_intros)

lemma preserves_checked [preserves_intros]: "preserves Q p \<Longrightarrow> preserves Q (checked h e p)"
  by (simp add: checked_def preserves_intros)

lemma preserves_replyID [preserves_intros]: "preserves sv_grows (replyID h p)"
  by (simp add: replyID_def preserves_intros)

lemma preserves_resize [preserves_intros]: "preserves Q (resize h esz n)"
  by (simp add: resize_def preserves_intros)

lemma preserves_query_var [preserves_intros]:
  "(\<And>v. preserves sv_grows (k v)) \<Longrightarrow> preserves sv_grows (query_var h n init q k)"
  by (simp add: query_var_def preserves_intros)

lemma preserves_query_object [preserves_intros]: "preserves sv_grows (query_object h init q)"
  by (simp add: query_object_def preserves_intros)

lemma preserves_query_data [preserves_intros]: "preserves sv_grows (query_data h w check q)"
  by (simp add: query_data_def preserves_intros)

lemma preserves_readEventList [preserves_intros]: "preserves Q (readEventList b)"
  by (simp add: readEventList_def preserves_intros)

end
