(* ===== verification/RCL_ServerQueue.thy ===== *)
theory RCL_ServerQueue
  imports RCL_Server
begin

text \<open>
  The handlers of \<open>server/refcount.cpp\<close> (reference counts of remote objects) and
  \<open>server/queue.cpp\<close> (command queues).
\<close>

section \<open>refcount.cpp\<close>

text \<open>The letters of \<open>mObjTy\<close>.\<close>

definition obj_kind_of :: "byte \<Rightarrow> obj_kind option" where
  "obj_kind_of c =
     (if c = 68 then Some K_Device
      else if c = 67 then Some K_Context
      else if c = 81 then Some K_Queue
      else if c = 80 then Some K_Program
      else if c = 75 then Some K_Kernel
      else if c = 77 then Some K_MemObject
      else if c = 69 then Some K_Event
      else None)"

definition handleRelease :: "'w host \<Rightarrow> ('w server, unit) prog" where
  "handleRelease h =
     pbind (readPacket PT_Release (pdec get_RefCount)) (\<lambda>packet.
     case obj_kind_of (rc_mObjTy packet) of
       None \<Rightarrow> PFail AssertionFailed
     | Some kind \<Rightarrow>
         pbind (objFor (rc_mID packet)) (\<lambda>p.
         pbind (call h (clRelease kind p)) (\<lambda>r.
         checked h (r_err r) (reply h R_Success))))"

definition handleRetain :: "'w host \<Rightarrow> ('w server, unit) prog" where
  "handleRetain h =
     pbind (readPacket PT_Retain (pdec get_RefCount)) (\<lambda>packet.
     case obj_kind_of (rc_mObjTy packet) of
       None \<Rightarrow> PFail AssertionFailed
     | Some kind \<Rightarrow>
         pbind (objFor (rc_mID packet)) (\<lambda>p.
         pbind (call h (clRetain kind p)) (\<lambda>r.
         checked h (r_err r) (reply h R_Success))))"

section \<open>queue.cpp\<close>

definition createQueue :: "'w host \<Rightarrow> ('w server, unit) prog" where
  "createQueue h =
     pbind (readPacket PT_CreateQueue (pdec get_CreateQueue)) (\<lambda>packet.
     pbind (objFor (cq_mContext packet)) (\<lambda>ctx.
     pbind (objFor (cq_mDevice packet)) (\<lambda>device.
     pbind (call h (clCreateCommandQueue ctx device (ucast (cq_mProp packet)))) (\<lambda>r.
     checked h (r_err r) (replyID h (r_obj r))))))"

text \<open>
  The property list gets its terminating 0 back. Built against an older OpenCL the handler answers
  without having read the request.
\<close>

definition terminated :: "u64 list \<Rightarrow> u64 list" where
  "terminated props = (if props = [] then [] else props @ [0])"

definition createQueueWithProp :: "'w host \<Rightarrow> ('w server, unit) prog" where
  "createQueueWithProp h =
     (if 200 \<le> h_target h then
        pbind (readPacket PT_CreateQueueWithProp (pdec get_CreateQueueWithProp)) (\<lambda>packet.
        pbind (objFor (cqp_mContext packet)) (\<lambda>ctx.
        pbind (objFor (cqp_mDevice packet)) (\<lambda>device.
        pbind (call h (clCreateCommandQueueWithProperties ctx device
                         (terminated (cqp_mProperties packet)))) (\<lambda>r.
        checked h (r_err r) (replyID h (r_obj r))))))
      else reply h (R_Error CL_INVALID_OPERATION))"

definition getQueueInfo :: "'w host \<Rightarrow> ('w server, unit) prog" where
  "getQueueInfo h =
     pbind (readPacket PT_GetQueueInfo (pdec get_IDParamPair)) (\<lambda>query.
     pbind (objFor (idp_mID query)) (\<lambda>queue.
     let param = idp_mData query in
     if param = CL_QUEUE_CONTEXT then query_object h None (clGetInfo I_CommandQueue queue param)
     else if param = CL_QUEUE_DEVICE then query_object h None (clGetInfo I_CommandQueue queue param)
     else query_data h 1 True (clGetInfo I_CommandQueue queue param)))"

definition flushQueue :: "'w host \<Rightarrow> ('w server, unit) prog" where
  "flushQueue h =
     pbind (readPacket PT_Flush (pdec get_u16)) (\<lambda>finish.
     pbind (objFor finish) (\<lambda>queue.
     pbind (call h (clFlush queue)) (\<lambda>r.
     checked h (r_err r) (reply h R_Success))))"

definition finishQueue :: "'w host \<Rightarrow> ('w server, unit) prog" where
  "finishQueue h =
     pbind (readPacket PT_Finish (pdec get_u16)) (\<lambda>finish.
     pbind (objFor finish) (\<lambda>queue.
     pbind (call h (clFinish queue)) (\<lambda>r.
     checked h (r_err r) (reply h R_Success))))"

section \<open>The table only grows\<close>

lemma preserves_handleRelease [preserves_intros]: "preserves sv_grows (handleRelease h)"
  by (simp add: handleRelease_def preserves_intros)

lemma preserves_handleRetain [preserves_intros]: "preserves sv_grows (handleRetain h)"
  by (simp add: handleRetain_def preserves_intros)

lemma preserves_createQueue [preserves_intros]: "preserves sv_grows (createQueue h)"
  by (simp add: createQueue_def preserves_intros)

lemma preserves_createQueueWithProp [preserves_intros]: "preserves sv_grows (createQueueWithProp h)"
  by (simp add: createQueueWithProp_def preserves_intros)

lemma preserves_getQueueInfo [preserves_intros]: "preserves sv_grows (getQueueInfo h)"
  by (simp add: getQueueInfo_def Let_def preserves_intros)

lemma preserves_flushQueue [preserves_intros]: "preserves sv_grows (flushQueue h)"
  by (simp add: flushQueue_def preserves_intros)

lemma preserves_finishQueue [preserves_intros]: "preserves sv_grows (finishQueue h)"
  by (simp add: finishQueue_def preserves_intros)

end
