(* ===== verification/RCL_ServerEvent.thy ===== *)
theory RCL_ServerEvent
  imports RCL_Server
begin

text \<open>
  The handlers of \<open>server/event.cpp\<close>: kernels, events, event callbacks and the trigger that runs
  when a callback fires.
\<close>

section \<open>Callbacks\<close>

text \<open>
  Writing packets on the event stream. \<open>mEventStream->write\<close> cannot fail before the flush on the
  abstract stream.
\<close>

definition es_put :: "byte list \<Rightarrow> 'w server \<Rightarrow> 'w server" where
  "es_put bs sv = sv\<lparr>mEventStream := map_option (st_put bs) (mEventStream sv)\<rparr>"

definition es_flush :: "'w server \<Rightarrow> 'w server" where
  "es_flush sv = sv\<lparr>mEventStream := map_option (snd \<circ> st_flush) (mEventStream sv)\<rparr>"

text \<open>
  \<open>triggerEventCallback\<close>; \<open>TriggerEventCallback\<close> is declared with an \<open>IDType\<close> payload, so the
  status keeps its low 16 bits only. \<open>triggerProgramCallback\<close> (\<open>server/program.cpp\<close>) does not
  flush.
\<close>

definition triggerEventCallback :: "u32 \<Rightarrow> IDType \<Rightarrow> 'w server \<Rightarrow> 'w server" where
  "triggerEventCallback code callbackID sv =
     (if mEventStream sv = None then sv
      else es_flush (es_put (enc_packet PT_EventCallbackTrigger (put_u16 (ucast code)))
             (es_put (enc_packet PT_CallbackTrigger (put_u32 (ucast callbackID))) sv)))"

definition triggerProgramCallback :: "IDType \<Rightarrow> 'w server \<Rightarrow> 'w server" where
  "triggerProgramCallback callbackID sv =
     (if mEventStream sv = None then sv
      else es_put (enc_packet PT_CallbackTrigger (put_u32 (ucast callbackID))) sv)"

text \<open>
  The functions handed to OpenCL, called with the address of a block. A block whose \<open>instance\<close>
  was never set makes the call undefined.
\<close>

definition EventCallback :: "u32 \<Rightarrow> nat \<Rightarrow> 'w server \<Rightarrow> 'w server res" where
  "EventCallback code data sv =
     (if length (sv_blocks sv) \<le> data then Fail UndefinedBehaviour
      else let block = sv_blocks sv ! data in
        if cb_instance block then Ok (triggerEventCallback code (cb_ID block) sv)
        else Fail UndefinedBehaviour)"

definition ProgramCallback :: "nat \<Rightarrow> 'w server \<Rightarrow> 'w server res" where
  "ProgramCallback data sv =
     (if length (sv_blocks sv) \<le> data then Fail UndefinedBehaviour
      else let block = sv_blocks sv ! data in
        if cb_instance block then Ok (triggerProgramCallback (cb_ID block) sv)
        else Fail UndefinedBehaviour)"

text \<open>\<open>new CallbackBlock\<close>: the address of a block that holds \<open>b\<close>.\<close>

definition newBlock :: "CallbackBlock \<Rightarrow> ('w server, nat) prog" where
  "newBlock b = pstate (\<lambda>sv. (length (sv_blocks sv), sv\<lparr>sv_blocks := sv_blocks sv @ [b]\<rparr>))"

text \<open>
  \<open>operator>>(RegisterEventCallback&)\<close> is \<open>noexcept\<close>. A failed call is answered twice: there is
  no \<open>return\<close> after the error packet.
\<close>

definition registerEventCallback :: "'w host \<Rightarrow> ('w server, unit) prog" where
  "registerEventCallback h =
     pcatch
       (pbind (readPacket PT_RegisterEventCallback (pnoexcept (pdec get_RegisterEventCallback))) (\<lambda>P.
        pbind (objFor (rec_mEventID P)) (\<lambda>event.
        pbind (newBlock \<lparr>cb_instance = True, cb_ID = rec_mCallbackID P\<rparr>) (\<lambda>block.
        pbind (call h (clSetEventCallback event (rec_mCBType P) block)) (\<lambda>r.
        pbind (if r_err r \<noteq> CL_SUCCESS then reply h (R_Error (r_err r)) else PRet ()) (\<lambda>_.
        reply h R_Success))))))
       (\<lambda>_. reply h (R_Error CL_OUT_OF_HOST_MEMORY))"

section \<open>Kernels and events\<close>

definition size3_of :: "dim3 \<Rightarrow> size3" where
  "size3_of d = (case d of (x, y, z) \<Rightarrow> (unat x, unat y, unat z))"

definition enqueueKernel :: "'w host \<Rightarrow> ('w server, unit) prog" where
  "enqueueKernel h =
     pbind (readPacket PT_EnqueueKernel (pdec get_EnqueueKernel)) (\<lambda>E.
     pbind (readEventList (ek_mExpectEventList E)) (\<lambda>events.
     pbind (objFor (ek_mKernelID E)) (\<lambda>kernel.
     pbind (objFor (ek_mQueueID E)) (\<lambda>queue.
     let localSize = (if fst (ek_mLocalSize E) = 0 then None else Some (size3_of (ek_mLocalSize E)))
     in
     pbind (call h (clEnqueueNDRangeKernel queue kernel (ucast (ek_mWorkDim E))
                      (size3_of (ek_mGlobalOffset E)) (size3_of (ek_mGlobalSize E)) localSize
                      events (ek_mWantEvent E))) (\<lambda>r.
     checked h (r_err r)
       (pbind (if ek_mWantEvent E then replyID h (r_obj r) else PRet ()) (\<lambda>_.
        reply h R_Success)))))))"

definition createUserEvent :: "'w host \<Rightarrow> ('w server, unit) prog" where
  "createUserEvent h =
     pbind (readPacket PT_CreateUserEvent (pdec get_u16)) (\<lambda>P.
     pbind (objFor P) (\<lambda>ctx.
     pbind (call h (clCreateUserEvent ctx)) (\<lambda>r.
     checked h (r_err r) (replyID h (r_obj r)))))"

definition setUserEventStatus :: "'w host \<Rightarrow> ('w server, unit) prog" where
  "setUserEventStatus h =
     pbind (readPacket PT_SetUserEventStatus (pdec get_IDParamPair)) (\<lambda>packet.
     pbind (objFor (idp_mID packet)) (\<lambda>event.
     pbind (call h (clSetUserEventStatus event (idp_mData packet))) (\<lambda>r.
     checked h (r_err r) (reply h R_Success))))"

text \<open>
  The answer goes to a union of a pointer and three 32-bit members, without an initial value.
\<close>

definition union_member :: "nat \<Rightarrow> cl_ret \<Rightarrow> (nat \<Rightarrow> ('w server, unit) prog) \<Rightarrow> ('w server, unit) prog"
  where
  "union_member n r k =
     (if length (r_bytes r) < n then PFail UndefinedBehaviour
      else k (le_decode (take n (r_bytes r))))"

definition getEventInfo :: "'w host \<Rightarrow> ('w server, unit) prog" where
  "getEventInfo h =
     pbind (readPacket PT_GetEventInfo (pdec get_IDParamPair)) (\<lambda>packet.
     pbind (objFor (idp_mID packet)) (\<lambda>event.
     let param = idp_mData packet in
     pbind (call h (clGetInfo I_Event event param 8)) (\<lambda>r.
     checked h (r_err r)
       (if param = CL_EVENT_CONTEXT then union_member 8 r (\<lambda>v. replyID h (word_of_nat v))
        else if param = CL_EVENT_COMMAND_QUEUE then
          union_member 8 r (\<lambda>v. replyID h (word_of_nat v))
        else if param = CL_EVENT_COMMAND_TYPE \<or> param = CL_EVENT_COMMAND_EXECUTION_STATUS
                \<or> param = CL_EVENT_REFERENCE_COUNT then
          union_member 4 r (\<lambda>v. reply h (R_Data32 (word_of_nat v)))
        else reply h (R_Error CL_INVALID_OPERATION)))))"

definition getEventProfilingInfo :: "'w host \<Rightarrow> ('w server, unit) prog" where
  "getEventProfilingInfo h =
     pbind (readPacket PT_GetEventProfilingInfo (pdec get_IDParamPair)) (\<lambda>packet.
     pbind (objFor (idp_mID packet)) (\<lambda>event.
     query_var h 8 None (clGetInfo I_EventProfiling event (idp_mData packet))
       (\<lambda>v. reply h (R_Data64 (word_of_nat v)))))"

definition waitForEvents :: "'w host \<Rightarrow> ('w server, unit) prog" where
  "waitForEvents h =
     pbind (readPacket PT_WaitEvents (pdec get_Signal)) (\<lambda>_.
     pbind (readPacket PT_IDList (pdec get_IDList)) (\<lambda>eventList.
     pbind (objsFor eventList) (\<lambda>events.
     pbind (call h (clWaitForEvents events)) (\<lambda>r.
     checked h (r_err r) (reply h R_Success)))))"

section \<open>The table only grows\<close>

lemma preserves_newBlock [preserves_intros]: "preserves sv_grows (newBlock b)"
  unfolding newBlock_def by (rule preserves_pstate) (simp add: sv_grows_def sv_ok_def)

lemma preserves_pnoexcept [preserves_intros]: "preserves Q p \<Longrightarrow> preserves Q (pnoexcept p)"
  by (simp add: pnoexcept_def preserves_intros)

lemma preserves_registerEventCallback [preserves_intros]:
  "preserves sv_grows (registerEventCallback h)"
  by (simp add: registerEventCallback_def preserves_intros)

lemma preserves_enqueueKernel [preserves_intros]: "preserves sv_grows (enqueueKernel h)"
  by (simp add: enqueueKernel_def Let_def preserves_intros)

lemma preserves_createUserEvent [preserves_intros]: "preserves sv_grows (createUserEvent h)"
  by (simp add: createUserEvent_def preserves_intros)

lemma preserves_setUserEventStatus [preserves_intros]: "preserves sv_grows (setUserEventStatus h)"
  by (simp add: setUserEventStatus_def preserves_intros)

lemma preserves_union_member [preserves_intros]:
  "(\<And>v. preserves Q (k v)) \<Longrightarrow> preserves Q (union_member n r k)"
  by (simp add: union_member_def preserves_intros)

lemma preserves_getEventInfo [preserves_intros]: "preserves sv_grows (getEventInfo h)"
  by (simp add: getEventInfo_def Let_def preserves_intros)

lemma preserves_getEventProfilingInfo [preserves_intros]:
  "preserves sv_grows (getEventProfilingInfo h)"
  by (simp add: getEventProfilingInfo_def preserves_intros)

lemma preserves_waitForEvents [preserves_intros]: "preserves sv_grows (waitForEvents h)"
  by (simp add: waitForEvents_def preserves_intros)

end
