(* ===== verification/RCL_ServerMemory.thy ===== *)
theory RCL_ServerMemory
  imports RCL_ServerEvent
begin

text \<open>
  The handlers of \<open>server/memory.cpp\<close> (buffers) and \<open>server/image.cpp\<close> (images).

  The data of a transfer is the vector the handler allocates; the size arithmetic on \<open>size_t\<close>
  wraps at 64 bits, and sizes sent as \<open>uint32_t\<close> keep 32.
\<close>

section \<open>memory.cpp\<close>

definition createBuffer :: "'w host \<Rightarrow> ('w server, unit) prog" where
  "createBuffer h =
     pbind (readPacket PT_CreateBuffer (pdec get_CreateBuffer)) (\<lambda>packet.
     pbind (objFor (cb_mContextID packet)) (\<lambda>ctx.
     pbind (if cb_mExpectPayload packet
            then pbind (readPacket PT_Payload (pdec (get_Payload 4 (h_zlib h)))) (\<lambda>d. PRet (Some d))
            else PRet None) (\<lambda>hostData.
     pbind (call h (clCreateBuffer ctx (ucast (cb_mFlags packet)) (unat (cb_mSize packet)) hostData)) (\<lambda>r.
     checked h (r_err r) (replyID h (r_obj r))))))"

definition createSubBuffer :: "'w host \<Rightarrow> ('w server, unit) prog" where
  "createSubBuffer h =
     pbind (readPacket PT_CreateSubBuffer (pdec get_CreateSubBuffer)) (\<lambda>packet.
     pbind (objFor (csb_mBufferID packet)) (\<lambda>buffer.
     pbind (call h (clCreateSubBuffer buffer (ucast (csb_mFlags packet)) (csb_mCreateType packet)
                      (unat (csb_mOffset packet)) (unat (csb_mSize packet)))) (\<lambda>r.
     checked h (r_err r) (replyID h (r_obj r)))))"

text \<open>The event's ID goes first when one is wanted, then the rest of the answer.\<close>

definition eventThen :: "'w host \<Rightarrow> bool \<Rightarrow> ptr \<Rightarrow> ('w server, unit) prog \<Rightarrow> ('w server, unit) prog" where
  "eventThen h mWantEvent retEvent rest =
     pbind (if mWantEvent then replyID h retEvent else PRet ()) (\<lambda>_. rest)"

definition readBuffer :: "'w host \<Rightarrow> ('w server, unit) prog" where
  "readBuffer h =
     pbind (readPacket PT_ReadBuffer (pdec get_BufferRW)) (\<lambda>packet.
     pbind (readEventList (brw_mExpectEventList packet)) (\<lambda>events.
     let n = unat (brw_mSize packet) in
     pbind (resize h 1 n) (\<lambda>_.
     pbind (objFor (brw_mBufferID packet)) (\<lambda>buffer.
     pbind (objFor (brw_mQueueID packet)) (\<lambda>queue.
     pbind (call h (clEnqueueReadBuffer queue buffer True (unat (brw_mOffset packet)) n events
                      (brw_mWantEvent packet))) (\<lambda>r.
     checked h (r_err r)
       (eventThen h (brw_mWantEvent packet) (r_obj r)
          (writePayloadPtr 4 (h_zlib h) (out_bytes (replicate n 0) r) n))))))))"

text \<open>The size of the host data of a rectangular read.\<close>

definition rect_size :: "BufferRectRW \<Rightarrow> nat" where
  "rect_size packet =
     (case brr_mRegion packet of (r0, r1, r2) \<Rightarrow>
        let row_pitch = (if 0 < unat (brr_mHostRowPitch packet)
                         then unat (brr_mHostRowPitch packet) else unat r0);
            slice_pitch = (if 0 < unat (brr_mHostSlicePitch packet)
                           then unat (brr_mHostSlicePitch packet)
                           else unat r1 * row_pitch mod 2 ^ 64)
        in slice_pitch * unat r2 mod 2 ^ 64)"

definition readBufferRect :: "'w host \<Rightarrow> ('w server, unit) prog" where
  "readBufferRect h =
     pbind (readPacket PT_ReadBufferRect (pdec get_BufferRectRW)) (\<lambda>packet.
     pbind (readEventList (brr_mExpectEventList packet)) (\<lambda>events.
     let dataSize = rect_size packet in
     pbind (resize h 1 dataSize) (\<lambda>_.
     pbind (objFor (brr_mBufferID packet)) (\<lambda>buffer.
     pbind (objFor (brr_mQueueID packet)) (\<lambda>queue.
     pbind (call h (clEnqueueReadBufferRect queue buffer True (size3_of (brr_mBufferOrigin packet))
                      (size3_of (brr_mHostOrigin packet)) (size3_of (brr_mRegion packet))
                      (unat (brr_mBufferRowPitch packet)) (unat (brr_mBufferSlicePitch packet))
                      (unat (brr_mHostRowPitch packet)) (unat (brr_mHostSlicePitch packet)) events
                      (brr_mWantEvent packet))) (\<lambda>r.
     checked h (r_err r)
       (eventThen h (brr_mWantEvent packet) (r_obj r)
          (writePayloadPtr 4 (h_zlib h) (out_bytes (replicate dataSize 0) r) dataSize))))))))"

definition writeBuffer :: "'w host \<Rightarrow> ('w server, unit) prog" where
  "writeBuffer h =
     pbind (readPacket PT_WriteBuffer (pdec get_BufferRW)) (\<lambda>packet.
     pbind (readEventList (brw_mExpectEventList packet)) (\<lambda>events.
     pbind (readPacket PT_Payload (pdec (get_Payload 4 (h_zlib h)))) (\<lambda>mData.
     pbind (objFor (brw_mBufferID packet)) (\<lambda>buffer.
     pbind (objFor (brw_mQueueID packet)) (\<lambda>queue.
     pbind (call h (clEnqueueWriteBuffer queue buffer (brw_mBlock packet) (unat (brw_mOffset packet))
                      mData events (brw_mWantEvent packet))) (\<lambda>r.
     checked h (r_err r)
       (eventThen h (brw_mWantEvent packet) (r_obj r) (reply h R_Success))))))))"

definition fillBuffer :: "'w host \<Rightarrow> ('w server, unit) prog" where
  "fillBuffer h =
     pbind (readPacket PT_FillBuffer (pdec get_FillBuffer)) (\<lambda>packet.
     pbind (readEventList (fb_mExpectEventList packet)) (\<lambda>events.
     pbind (objFor (fb_mBufferID packet)) (\<lambda>buffer.
     pbind (objFor (fb_mQueueID packet)) (\<lambda>queue.
     pbind (call h (clEnqueueFillBuffer queue buffer (fb_mPattern packet)
                      (unat (fb_mPatternSize packet)) (unat (fb_mOffset packet))
                      (unat (fb_mSize packet)) events (fb_mWantEvent packet))) (\<lambda>r.
     checked h (r_err r)
       (eventThen h (fb_mWantEvent packet) (r_obj r) (reply h R_Success)))))))"

definition getMemObjInfo :: "'w host \<Rightarrow> ('w server, unit) prog" where
  "getMemObjInfo h =
     pbind (readPacket PT_GetMemObjInfo (pdec get_IDParamPair)) (\<lambda>query.
     pbind (objFor (idp_mID query)) (\<lambda>obj.
     let param = idp_mData query; q = clGetInfo I_MemObject obj param in
     if param = CL_MEM_CONTEXT then query_object h None q
     else if param = CL_MEM_ASSOCIATED_MEMOBJECT then query_object h None q
     else query_data h 1 True q))"

section \<open>image.cpp\<close>

definition image_format_of :: "CreateImage \<Rightarrow> cl_image_format" where
  "image_format_of packet =
     \<lparr>image_channel_order = ci_mChannelOrder packet, image_channel_data_type = ci_mChannelType packet\<rparr>"

definition image_desc_of :: "CreateImage \<Rightarrow> cl_image_desc" where
  "image_desc_of packet =
     \<lparr>image_type = ci_mImageType packet, image_width = unat (ci_mWidth packet),
      image_height = unat (ci_mHeight packet), image_depth = unat (ci_mDepth packet),
      image_array_size = unat (ci_mArraySize packet), image_row_pitch = unat (ci_mRowPitch packet),
      image_slice_pitch = unat (ci_mSlicePitch packet), num_mip_levels = ci_mMipLevels packet,
      num_samples = ci_mSamples packet\<rparr>"

text \<open>The bytes the server asks for: a dimension of 0 counts as 1.\<close>

definition image_data_size :: "nat \<Rightarrow> CreateImage \<Rightarrow> u32" where
  "image_data_size pixelSize packet =
     (let dim = (\<lambda>d. if d = 0 then 1 else unat d) in
      word_of_nat (pixelSize * dim (ci_mWidth packet) * dim (ci_mHeight packet)
                     * dim (ci_mDepth packet)))"

definition createImage :: "'w host \<Rightarrow> ('w server, unit) prog" where
  "createImage h =
     pbind (readPacket PT_CreateImage (pdec get_CreateImage)) (\<lambda>packet.
     pbind (objFor (ci_mContextID packet)) (\<lambda>ctx.
     let format = image_format_of packet; desc = image_desc_of packet;
         mFlags = ucast (ci_mFlags packet) :: u64;
         expectPayload = (and mFlags CL_MEM_COPY_HOST_PTR \<noteq> 0);
         flags = and mFlags (not CL_MEM_COPY_HOST_PTR)
     in
     pbind (call h (clCreateImage ctx flags format desc None)) (\<lambda>r.
     checked h (r_err r)
       (if expectPayload then
          query_var h 8 (Some 0) (clGetInfo I_Image (r_obj r) CL_IMAGE_ELEMENT_SIZE) (\<lambda>pixelSize.
          pbind (reply h (R_Data32 (image_data_size pixelSize packet))) (\<lambda>_.
          pbind pflush (\<lambda>_.
          pbind (readPacket PT_Payload (pdec (get_Payload 4 (h_zlib h)))) (\<lambda>imageData.
          pbind (call h (clRelease K_MemObject (r_obj r))) (\<lambda>_.
          pbind (call h (clCreateImage ctx (or flags CL_MEM_COPY_HOST_PTR) format desc
                           (Some imageData))) (\<lambda>r'.
          checked h (r_err r') (replyID h (r_obj r'))))))))
        else replyID h (r_obj r)))))"

definition transfer_size :: "nat \<Rightarrow> dim3 \<Rightarrow> nat" where
  "transfer_size pixelSize region =
     (case size3_of region of (r0, r1, r2) \<Rightarrow> pixelSize * r0 * r1 * r2 mod 2 ^ 64)"

text \<open>
  The size of a pixel is asked for before the event list is read; when that fails, the event list
  stays unread.
\<close>

definition readImage :: "'w host \<Rightarrow> ('w server, unit) prog" where
  "readImage h =
     pbind (readPacket PT_ReadImage (pdec get_ImageRW)) (\<lambda>packet.
     pbind (objFor (irw_mImageID packet)) (\<lambda>image.
     query_var h 8 (Some 0) (clGetInfo I_Image image CL_IMAGE_ELEMENT_SIZE) (\<lambda>pixelSize.
     pbind (readEventList (irw_mExpectEventList packet)) (\<lambda>events.
     pbind (objFor (irw_mQueueID packet)) (\<lambda>queue.
     let n = transfer_size pixelSize (irw_mRegion packet) in
     pbind (resize h 1 n) (\<lambda>_.
     pbind (call h (clEnqueueReadImage queue image (irw_mBlock packet)
                      (size3_of (irw_mOrigin packet)) (size3_of (irw_mRegion packet))
                      (unat (irw_mRowPitch packet)) (unat (irw_mSlicePitch packet)) events
                      (irw_mWantEvent packet))) (\<lambda>r.
     checked h (r_err r)
       (eventThen h (irw_mWantEvent packet) (r_obj r)
          (reply h (R_Payload 4 (out_bytes (replicate n 0) r))))))))))) "

definition writeImage :: "'w host \<Rightarrow> ('w server, unit) prog" where
  "writeImage h =
     pbind (readPacket PT_WriteImage (pdec get_ImageRW)) (\<lambda>packet.
     pbind (objFor (irw_mImageID packet)) (\<lambda>image.
     query_var h 8 (Some 0) (clGetInfo I_Image image CL_IMAGE_ELEMENT_SIZE) (\<lambda>pixelSize.
     pbind (readEventList (irw_mExpectEventList packet)) (\<lambda>events.
     pbind (objFor (irw_mQueueID packet)) (\<lambda>queue.
     pbind (reply h (R_Data32 (word_of_nat (transfer_size pixelSize (irw_mRegion packet))))) (\<lambda>_.
     pbind pflush (\<lambda>_.
     pbind (readPacket PT_Payload (pdec (get_Payload 4 (h_zlib h)))) (\<lambda>imageData.
     pbind (call h (clEnqueueWriteImage queue image (irw_mBlock packet)
                      (size3_of (irw_mOrigin packet)) (size3_of (irw_mRegion packet))
                      (unat (irw_mRowPitch packet)) (unat (irw_mSlicePitch packet)) imageData events
                      (irw_mWantEvent packet))) (\<lambda>r.
     checked h (r_err r)
       (if irw_mWantEvent packet then replyID h (r_obj r) else reply h R_Success))))))))))"

text \<open>No associated buffer is the ID with all bits set.\<close>

definition getImageInfo :: "'w host \<Rightarrow> ('w server, unit) prog" where
  "getImageInfo h =
     pbind (readPacket PT_GetImageInfo (pdec get_IDParamPair)) (\<lambda>query.
     pbind (objFor (idp_mID query)) (\<lambda>image.
     let param = idp_mData query; q = clGetInfo I_Image image param in
     if param = CL_IMAGE_BUFFER then
       query_var h 8 None q (\<lambda>parent.
         if parent \<noteq> 0 then replyID h (word_of_nat parent) else reply h (R_ID (not 0)))
     else query_data h 1 True q))"

section \<open>The table only grows\<close>

lemma preserves_createBuffer [preserves_intros]: "preserves sv_grows (createBuffer h)"
  by (simp add: createBuffer_def preserves_intros)

lemma preserves_createSubBuffer [preserves_intros]: "preserves sv_grows (createSubBuffer h)"
  by (simp add: createSubBuffer_def preserves_intros)

lemma preserves_eventThen [preserves_intros]:
  "preserves sv_grows p \<Longrightarrow> preserves sv_grows (eventThen h b e p)"
  by (simp add: eventThen_def preserves_intros)

lemma preserves_readBuffer [preserves_intros]: "preserves sv_grows (readBuffer h)"
  by (simp add: readBuffer_def Let_def preserves_intros)

lemma preserves_readBufferRect [preserves_intros]: "preserves sv_grows (readBufferRect h)"
  by (simp add: readBufferRect_def Let_def preserves_intros)

lemma preserves_writeBuffer [preserves_intros]: "preserves sv_grows (writeBuffer h)"
  by (simp add: writeBuffer_def preserves_intros)

lemma preserves_fillBuffer [preserves_intros]: "preserves sv_grows (fillBuffer h)"
  by (simp add: fillBuffer_def preserves_intros)

lemma preserves_getMemObjInfo [preserves_intros]: "preserves sv_grows (getMemObjInfo h)"
  by (simp add: getMemObjInfo_def Let_def preserves_intros)

lemma preserves_createImage [preserves_intros]: "preserves sv_grows (createImage h)"
  by (simp add: createImage_def Let_def preserves_intros)

lemma preserves_readImage [preserves_intros]: "preserves sv_grows (readImage h)"
  by (simp add: readImage_def Let_def preserves_intros)

lemma preserves_writeImage [preserves_intros]: "preserves sv_grows (writeImage h)"
  by (simp add: writeImage_def preserves_intros)

lemma preserves_getImageInfo [preserves_intros]: "preserves sv_grows (getImageInfo h)"
  by (simp add: getImageInfo_def Let_def preserves_intros)

end
