(* ===== verification/RCL_ServerContext.thy ===== *)
theory RCL_ServerContext
  imports RCL_Server
begin

text \<open>
  The handlers of \<open>server/context.cpp\<close>, \<open>server/device.cpp\<close> and the platform handlers of
  \<open>server/instance.cpp\<close>.
\<close>

section \<open>Platforms (instance.cpp)\<close>

definition idsFor :: "ptr list \<Rightarrow> ('w server, IDType list) prog" where
  "idsFor ps = pmap idFor ps"

lemma exec_idsFor:
  "assign_all getIDFor (mObjects sv) ps = Some (is, objs) \<Longrightarrow>
   exec (idsFor ps) sv st = (Ok is, sv\<lparr>mObjects := objs\<rparr>, st)"
  unfolding idsFor_def
proof (induction ps arbitrary: sv "is")
  case (Cons p ps)
  from Cons.prems obtain i t1 is1 where "getIDFor (mObjects sv) p = Some (i, t1)"
    "assign_all getIDFor t1 ps = Some (is1, objs)" "is = i # is1"
    by (auto split: option.splits)
  with Cons.IH [of "sv\<lparr>mObjects := t1\<rparr>" is1] show ?case by (simp add: prog_simps)
qed (simp add: prog_simps)

text \<open>The status of the second \<open>clGetPlatformIDs\<close> is not looked at.\<close>

definition sendPlatformList :: "'w host \<Rightarrow> ('w server, unit) prog" where
  "sendPlatformList h =
     pbind (readPacket PT_GetPlatformIDs (pdec get_Signal)) (\<lambda>_.
     pbind (call h (clGetPlatformIDs 0)) (\<lambda>r1.
     checked h (r_err r1)
       (let platformCount = out_size 0 r1 in
        pbind (resize h 8 platformCount) (\<lambda>_.
        pbind (call h (clGetPlatformIDs platformCount)) (\<lambda>r2.
        pbind (idsFor (out_objs (replicate platformCount nullptr) r2)) (\<lambda>list.
        reply h (R_IDList list)))))))"

definition getPlatformInfo :: "'w host \<Rightarrow> ('w server, unit) prog" where
  "getPlatformInfo h =
     pbind (readPacket PT_GetPlatformInfo (pdec get_IDParamPair)) (\<lambda>packet.
     pbind (objFor (idp_mID packet)) (\<lambda>platform.
     pbind (call h (clGetInfo I_Platform platform (idp_mData packet) 0)) (\<lambda>r1.
     checked h (r_err r1)
       (let replySize = out_size 0 r1 in
        pbind (resize h 1 replySize) (\<lambda>_.
        pbind (call h (clGetInfo I_Platform platform (idp_mData packet) replySize)) (\<lambda>r2.
        checked h (r_err r2)
          (reply h (R_Payload 1 (out_bytes (replicate replySize 0) r2)))))))))"

section \<open>context.cpp\<close>

text \<open>
  Rebuilding the property list: pairs of a name and a value, where the value of
  \<open>CL_CONTEXT_PLATFORM\<close> is an ID. \<open>None\<close> is the iterator running past the end of a list of odd
  length.
\<close>

fun ctx_properties :: "ptr list \<Rightarrow> u64 list \<Rightarrow> u64 list option" where
  "ctx_properties objs [] = Some []"
| "ctx_properties objs [k] = None"
| "ctx_properties objs (k # v # props) =
     (case ctx_properties objs props of
        None \<Rightarrow> None
      | Some rest \<Rightarrow>
          Some (k # (if k = CL_CONTEXT_PLATFORM then getObj objs (ucast v) else v) # rest))"

definition rebuildProperties :: "u64 list \<Rightarrow> ('w server, u64 list) prog" where
  "rebuildProperties props =
     pbind (pget mObjects) (\<lambda>objs.
     case ctx_properties objs props of
       None \<Rightarrow> PFail UndefinedBehaviour
     | Some properties \<Rightarrow> PRet (if properties = [] then [] else properties @ [0]))"

definition createContext :: "'w host \<Rightarrow> ('w server, unit) prog" where
  "createContext h =
     pbind (readPacket PT_CreateContext (pdec get_CreateContext)) (\<lambda>packet.
     pbind (objsFor (cc_mDevices packet)) (\<lambda>devices.
     pbind (rebuildProperties (cc_mProperties packet)) (\<lambda>p.
     pbind (call h (clCreateContext p devices)) (\<lambda>r.
     checked h (r_err r) (replyID h (r_obj r))))))"

definition createContextFromType :: "'w host \<Rightarrow> ('w server, unit) prog" where
  "createContextFromType h =
     pbind (readPacket PT_CreateContextFromType (pdec get_CreateContextFromType)) (\<lambda>packet.
     pbind (rebuildProperties (cct_mProperties packet)) (\<lambda>p.
     pbind (call h (clCreateContextFromType p (cct_mDeviceType packet))) (\<lambda>r.
     checked h (r_err r) (replyID h (r_obj r)))))"

text \<open>The handles in a buffer of 8-byte pointers.\<close>

fun handles :: "nat \<Rightarrow> byte list \<Rightarrow> ptr list" where
  "handles 0 bs = []"
| "handles (Suc n) bs = word_of_nat (le_decode (take 8 bs)) # handles n (drop 8 bs)"

text \<open>
  The first call guesses 32 bytes; a longer answer is asked for again.
\<close>

definition getContextInfo :: "'w host \<Rightarrow> ('w server, unit) prog" where
  "getContextInfo h =
     pbind (readPacket PT_GetContextInfo (pdec get_IDParamPair)) (\<lambda>info.
     pbind (objFor (idp_mID info)) (\<lambda>ctx.
     let name = idp_mData info in
     pbind (resize h 1 32) (\<lambda>_.
     pbind (call h (clGetInfo I_Context ctx name 32)) (\<lambda>r1.
     checked h (r_err r1)
       (pbind
          (let replySize = out_size 0 r1; mData = out_bytes (replicate 32 0) r1 in
           if 32 < replySize then
             pbind (resize h 1 replySize) (\<lambda>_.
             pbind (call h (clGetInfo I_Context ctx name replySize)) (\<lambda>r2.
             pbind (passert (r_err r2 = CL_SUCCESS)) (\<lambda>_.
             pbind (passert (out_size replySize r2 = replySize)) (\<lambda>_.
             PRet (replySize, out_bytes (mData @ replicate (replySize - 32) 0) r2)))))
           else PRet (replySize, mData)) (\<lambda>(replySize, mData).
        if name = CL_CONTEXT_DEVICES then
          pbind (pmap idFor (handles (replySize div 8) mData)) (\<lambda>mapped.
          reply h (R_Payload 1 (concat (map put_u16 mapped))))
        else reply h (R_Payload 1 (take replySize mData))))))))"

text \<open>The second call's status is not looked at, and the answer is sent with a 16-bit size.\<close>

definition getImageFormats :: "'w host \<Rightarrow> ('w server, unit) prog" where
  "getImageFormats h =
     pbind (readPacket PT_GetImageFormats (pdec get_GetImageFormats)) (\<lambda>query.
     pbind (objFor (gif_mContextID query)) (\<lambda>ctx.
     let flags = ucast (gif_mFlags query) in
     pbind (call h (clGetSupportedImageFormats ctx flags (gif_mImageType query) 0)) (\<lambda>r1.
     checked h (r_err r1)
       (let formatCount = out_size 0 r1 in
        pbind (resize h 8 formatCount) (\<lambda>_.
        pbind (call h (clGetSupportedImageFormats ctx flags (gif_mImageType query) formatCount)) (\<lambda>r2.
        let formats = out_bytes (replicate (8 * formatCount) 0) r2 in
        writePayloadPtr 2 (h_zlib h) formats (length formats)))))))"

section \<open>device.cpp\<close>

text \<open>The vector has room for 16 devices; shrinking it allocates nothing.\<close>

definition sendDeviceList :: "'w host \<Rightarrow> ('w server, unit) prog" where
  "sendDeviceList h =
     pbind (readPacket PT_GetDeviceIDs (pdec get_GetDeviceIDs)) (\<lambda>packet.
     pbind (resize h 8 16) (\<lambda>_.
     let devTy = gdi_mDeviceType packet in
     pbind (objFor (gdi_mPlatformID packet)) (\<lambda>platform.
     pbind (call h (clGetDeviceIDs platform devTy 0)) (\<lambda>r1.
     checked h (r_err r1)
       (let deviceCount = out_size 0 r1 in
        pbind (if deviceCount \<le> 16 then PRet () else resize h 8 deviceCount) (\<lambda>_.
        pbind (call h (clGetDeviceIDs platform devTy deviceCount)) (\<lambda>r2.
        checked h (r_err r2)
          (pbind (idsFor (out_objs (replicate deviceCount nullptr) r2)) (\<lambda>list.
           reply h (R_IDList list))))))))))"

text \<open>The parameters whose value is a \<open>size_t\<close>.\<close>

definition device_size_params :: "'w host \<Rightarrow> u32 list" where
  "device_size_params h =
     [CL_DEVICE_PRINTF_BUFFER_SIZE, CL_DEVICE_IMAGE2D_MAX_WIDTH, CL_DEVICE_IMAGE3D_MAX_WIDTH,
      CL_DEVICE_IMAGE_MAX_BUFFER_SIZE, CL_DEVICE_IMAGE2D_MAX_HEIGHT, CL_DEVICE_IMAGE3D_MAX_HEIGHT,
      CL_DEVICE_IMAGE_MAX_ARRAY_SIZE, CL_DEVICE_IMAGE3D_MAX_DEPTH,
      CL_DEVICE_PROFILING_TIMER_RESOLUTION]
     @ (if h_cl_2_0 h then
          [CL_DEVICE_IMAGE_PITCH_ALIGNMENT, CL_DEVICE_IMAGE_BASE_ADDRESS_ALIGNMENT,
           CL_DEVICE_MAX_GLOBAL_VARIABLE_SIZE, CL_DEVICE_GLOBAL_VARIABLE_PREFERRED_TOTAL_SIZE]
        else [])
     @ [CL_DEVICE_MAX_PARAMETER_SIZE, CL_DEVICE_MAX_WORK_GROUP_SIZE]"

text \<open>
  Three sizes, translated to \<open>uint64_t translated[3]\<close> and sent as
  \<open>PayloadPtr<uint8_t>(translated, 3)\<close>: the second argument counts bytes, so 3 of the 24 go out.
\<close>

definition query_sizes3 :: "'w host \<Rightarrow> (nat \<Rightarrow> cl_call) \<Rightarrow> ('w server, unit) prog" where
  "query_sizes3 h q =
     query_var h 24 None q (\<lambda>v. writePayloadPtr 1 (h_zlib h) (le_encode 24 v) 3)"

definition getDeviceInfo :: "'w host \<Rightarrow> ('w server, unit) prog" where
  "getDeviceInfo h =
     pbind (readPacket PT_GetDeviceInfo (pdec get_IDParamPair)) (\<lambda>query.
     pbind (objFor (idp_mID query)) (\<lambda>device.
     let param = idp_mData query; q = clGetInfo I_Device device param in
     if param = CL_DEVICE_PLATFORM then query_object h (Some 0) q
     else if param = CL_DEVICE_PARENT_DEVICE then query_object h (Some 0) q
     else if List.member (device_size_params h) param then
       query_var h 8 (Some 0) q (\<lambda>v. reply h (R_Data64 (word_of_nat v)))
     else if param = CL_DEVICE_MAX_WORK_ITEM_SIZES then query_sizes3 h q
     else query_data h 4 False q))"

section \<open>The table only grows\<close>

lemma preserves_idsFor [preserves_intros]: "preserves sv_grows (idsFor ps)"
  by (simp add: idsFor_def preserves_intros)

lemma preserves_sendPlatformList [preserves_intros]: "preserves sv_grows (sendPlatformList h)"
  by (simp add: sendPlatformList_def Let_def preserves_intros)

lemma preserves_getPlatformInfo [preserves_intros]: "preserves sv_grows (getPlatformInfo h)"
  by (simp add: getPlatformInfo_def Let_def preserves_intros)

lemma preserves_rebuildProperties [preserves_intros]: "preserves Q (rebuildProperties ps)"
  by (simp add: rebuildProperties_def preserves_intros)

lemma preserves_createContext [preserves_intros]: "preserves sv_grows (createContext h)"
  by (simp add: createContext_def preserves_intros)

lemma preserves_createContextFromType [preserves_intros]:
  "preserves sv_grows (createContextFromType h)"
  by (simp add: createContextFromType_def preserves_intros)

lemma preserves_getContextInfo [preserves_intros]: "preserves sv_grows (getContextInfo h)"
  by (simp add: getContextInfo_def Let_def preserves_intros)

lemma preserves_getImageFormats [preserves_intros]: "preserves sv_grows (getImageFormats h)"
  by (simp add: getImageFormats_def Let_def preserves_intros)

lemma preserves_sendDeviceList [preserves_intros]: "preserves sv_grows (sendDeviceList h)"
  by (simp add: sendDeviceList_def Let_def preserves_intros)

lemma preserves_query_sizes3 [preserves_intros]: "preserves sv_grows (query_sizes3 h q)"
  by (simp add: query_sizes3_def preserves_intros)

lemma preserves_getDeviceInfo [preserves_intros]: "preserves sv_grows (getDeviceInfo h)"
  by (simp add: getDeviceInfo_def Let_def preserves_intros)

end
