(* ===== verification/RCL_ServerProgram.thy ===== *)
theory RCL_ServerProgram
  imports RCL_ServerEvent RCL_ServerContext
begin

text \<open>
  The handlers of \<open>server/program.cpp\<close>: programs and kernels.

  Strings that are passed on with \<open>c_str()\<close> end at their first zero byte (\<open>c_str\<close>).
\<close>

definition c_str :: "byte list \<Rightarrow> byte list" where
  "c_str s = takeWhile (\<lambda>c. c \<noteq> 0) s"

section \<open>Building programs\<close>

text \<open>The block of a compilation callback gets an ID; its \<open>instance\<close> is left unset.\<close>

definition compileProgram :: "'w host \<Rightarrow> ('w server, unit) prog" where
  "compileProgram h =
     pbind (readPacket PT_CompileProgram (pdec (get_CompileProgram 0))) (\<lambda>packet.
     pbind (objFor (cp_mProgramID packet)) (\<lambda>program.
     pbind (objsFor (cp_mDeviceIDs packet)) (\<lambda>devices.
     pbind (objsFor (cp_mHeaderIDs packet)) (\<lambda>headers.
     pbind (if cp_mHasCallback packet
            then pbind (newBlock \<lparr>cb_instance = False, cb_ID = cp_mCallbackID packet\<rparr>)
                   (\<lambda>block. PRet (Some block))
            else PRet None) (\<lambda>userData.
     pbind (call h (clCompileProgram program devices (c_str (cp_mOptions packet)) headers
                      (map c_str (cp_mHeaderNames packet)) userData)) (\<lambda>r.
     checked h (r_err r) (reply h R_Success)))))))"

definition linkProgram :: "'w host \<Rightarrow> ('w server, unit) prog" where
  "linkProgram h =
     pbind (readPacket PT_LinkProgram (pdec get_LinkProgram)) (\<lambda>packet.
     pbind (objFor (lp_mContext packet)) (\<lambda>ctx.
     pbind (objsFor (lp_mDeviceIDs packet)) (\<lambda>devices.
     pbind (objsFor (lp_mProgramIDs packet)) (\<lambda>programs.
     pbind (call h (clLinkProgram ctx devices (c_str (lp_mOptions packet)) programs)) (\<lambda>r.
     checked h (r_err r) (replyID h (r_obj r)))))))"

text \<open>\<open>std::string::find(pat) != npos\<close>\<close>

fun contains :: "byte list \<Rightarrow> byte list \<Rightarrow> bool" where
  "contains pat [] = (pat = [])"
| "contains pat (c # s) = (take (length pat) (c # s) = pat \<or> contains pat s)"

lemma contains_append: "contains pat (s @ pat)"
  by (induction s) (cases pat; auto)+

text \<open>The option \<open>-cl-kernel-arg-info\<close> is appended unless the string has it.\<close>

definition arg_info_option :: "byte list" where
  "arg_info_option =
     [45, 99, 108, 45, 107, 101, 114, 110, 101, 108, 45, 97, 114, 103, 45, 105, 110, 102, 111]"

definition build_options :: "byte list \<Rightarrow> byte list" where
  "build_options s = (if contains arg_info_option s then s else s @ 32 # arg_info_option)"

definition buildProgram :: "'w host \<Rightarrow> ('w server, unit) prog" where
  "buildProgram h =
     pbind (readPacket PT_BuildProgram (pdec get_IDStringPair)) (\<lambda>build.
     pbind (readPacket PT_IDList (pdec get_IDList)) (\<lambda>idspc.
     pbind (objsFor idspc) (\<lambda>ids.
     pbind (objFor (isp_mID build)) (\<lambda>program.
     pbind (call h (clBuildProgram program ids (c_str (build_options (isp_mString build))))) (\<lambda>r.
     checked h (r_err r) (reply h R_Success))))))"

definition createProgramFromSource :: "'w host \<Rightarrow> ('w server, unit) prog" where
  "createProgramFromSource h =
     pbind (readPacket PT_CreateSourceProgram (pdec get_IDStringPair)) (\<lambda>source.
     pbind (objFor (isp_mID source)) (\<lambda>ctx.
     pbind (call h (clCreateProgramWithSource ctx (isp_mString source))) (\<lambda>r.
     checked h (r_err r) (replyID h (r_obj r)))))"

text \<open>One payload per device follows the device list.\<close>

definition createProgramFromBinary :: "'w host \<Rightarrow> ('w server, unit) prog" where
  "createProgramFromBinary h =
     pbind (readPacket PT_CreateBinaryProgram (pdec get_u16)) (\<lambda>packet.
     pbind (objFor packet) (\<lambda>ctx.
     pbind (readPacket PT_IDList (pdec get_IDList)) (\<lambda>listPacket.
     pbind (objsFor listPacket) (\<lambda>deviceList.
     pbind (pmap (\<lambda>_. readPacket PT_Payload (pdec (get_Payload 4 (h_zlib h)))) deviceList) (\<lambda>binaries.
     let n = 4 * length binaries in
     pbind (resize h 4 (length binaries)) (\<lambda>_.
     pbind (call h (clCreateProgramWithBinary ctx deviceList binaries)) (\<lambda>r.
     checked h (r_err r)
       (pbind (replyID h (r_obj r)) (\<lambda>_.
        writePayloadPtr 2 (h_zlib h) (out_bytes (replicate n 0) r) n)))))))))"

section \<open>Queries about programs\<close>

text \<open>
  A longer answer than the 1024 bytes of the first call is asked for again, with the same 1024
  bytes; what is sent is padded with zeros to the size reported.
\<close>

definition getProgramBuildInfo :: "'w host \<Rightarrow> ('w server, unit) prog" where
  "getProgramBuildInfo h =
     pbind (readPacket PT_BuildInfo (pdec get_ProgramBuildInfo)) (\<lambda>request.
     pbind (objFor (pbi_mProgramID request)) (\<lambda>program.
     pbind (objFor (pbi_mDeviceID request)) (\<lambda>device.
     let q = clGetProgramBuildInfo program device (pbi_mParam request) 1024 in
     pbind (resize h 1 1024) (\<lambda>_.
     pbind (call h q) (\<lambda>r1.
     checked h (r_err r1)
       (pbind
          (let replySize = out_size 0 r1; mData = out_bytes (replicate 1024 0) r1 in
           if 1024 < replySize then
             pbind (call h q) (\<lambda>r2.
             pbind (passert (r_err r2 = CL_SUCCESS)) (\<lambda>_.
             PRet (out_size replySize r2, out_bytes mData r2)))
           else PRet (replySize, mData)) (\<lambda>(replySize, mData).
        pbind (if replySize \<le> 1024 then PRet () else resize h 1 replySize) (\<lambda>_.
        reply h (R_Payload 4 (take replySize mData @ replicate (replySize - length mData) 0))))))))))"

text \<open>
  \<open>CL_PROGRAM_CONTEXT\<close>, \<open>CL_PROGRAM_DEVICES\<close> and \<open>CL_PROGRAM_BINARIES\<close> each have their own
  encoding, any other parameter is sent as it is. \<open>buf_sizes\<close> reads the 8-byte sizes of a
  buffer.
\<close>

definition buf_sizes :: "nat \<Rightarrow> byte list \<Rightarrow> nat list" where
  "buf_sizes n bs = map unat (handles n bs)"

definition program_binaries :: "nat list \<Rightarrow> cl_ret \<Rightarrow> byte list list" where
  "program_binaries sizes r =
     map (\<lambda>i. let n = sizes ! i in
              memcpy_at (replicate n 0) 0
                (if i < length (r_bins r) then take n (r_bins r ! i) else []))
       [0..<length sizes]"

definition getProgramBinaries :: "'w host \<Rightarrow> ptr \<Rightarrow> nat \<Rightarrow> ('w server, unit) prog" where
  "getProgramBinaries h program retSize =
     (let count = retSize div 8 in
      pbind (resize h 8 count) (\<lambda>_.
      pbind (call h (clGetInfo I_Program program CL_PROGRAM_BINARY_SIZES (8 * count))) (\<lambda>r.
      checked h (r_err r)
        (let sizes = buf_sizes count (out_bytes (replicate (8 * count) 0) r) in
         pbind (pmap (resize h 1) sizes) (\<lambda>_.
         pbind (call h (clGetProgramBinaries program sizes)) (\<lambda>r'.
         pbind (reply h (R_Data8 (word_of_nat count))) (\<lambda>_.
         pbind (pmap (\<lambda>b. reply h (R_Payload 2 b)) (program_binaries sizes r')) (\<lambda>_.
         PRet ()))))))))"

definition getProgramInfo :: "'w host \<Rightarrow> ('w server, unit) prog" where
  "getProgramInfo h =
     pbind (readPacket PT_ProgramInfo (pdec get_IDParamPair)) (\<lambda>info.
     pbind (objFor (idp_mID info)) (\<lambda>program.
     let param = idp_mData info; q = clGetInfo I_Program program param in
     pbind (call h (q 0)) (\<lambda>r1.
     checked h (r_err r1)
       (let retSize = out_size 0 r1 in
        if param = CL_PROGRAM_CONTEXT then
          pbind (passert (retSize = 8)) (\<lambda>_.
          pbind (call h (q 8)) (\<lambda>r2.
          replyID h (word_of_nat (le_decode (out_bytes (le_encode 8 0) r2)))))
        else if param = CL_PROGRAM_DEVICES then
          pbind (passert (retSize mod 8 = 0)) (\<lambda>_.
          pbind (resize h 8 (retSize div 8)) (\<lambda>_.
          pbind (call h (q retSize)) (\<lambda>r2.
          pbind (idsFor (handles (retSize div 8) (out_bytes (replicate retSize 0) r2))) (\<lambda>list.
          reply h (R_IDList list)))))
        else if param = CL_PROGRAM_BINARIES then getProgramBinaries h program retSize
        else
          pbind (resize h 1 retSize) (\<lambda>_.
          pbind (call h (q retSize)) (\<lambda>r2.
          checked h (r_err r2)
            (reply h (R_Payload 4 (out_bytes (replicate retSize 0) r2)))))))))"

section \<open>Kernels\<close>

definition createKernel :: "'w host \<Rightarrow> ('w server, unit) prog" where
  "createKernel h =
     pbind (readPacket PT_CreateKernel (pdec get_IDStringPair)) (\<lambda>name.
     pbind (objFor (isp_mID name)) (\<lambda>program.
     pbind (call h (clCreateKernel program (c_str (isp_mString name)))) (\<lambda>r.
     checked h (r_err r) (replyID h (r_obj r)))))"

definition createKernels :: "'w host \<Rightarrow> ('w server, unit) prog" where
  "createKernels h =
     pbind (readPacket PT_CreateKernels (pdec get_CreateKernels)) (\<lambda>packet.
     pbind (objFor (ck_mProgramID packet)) (\<lambda>program.
     let n = unat (ck_mKernelCount packet) in
     if n = 0 then
       pbind (call h (clCreateKernelsInProgram program 0)) (\<lambda>r.
       checked h (r_err r) (reply h (R_Data32 (word_of_nat (out_size 0 r)))))
     else
       pbind (resize h 8 n) (\<lambda>_.
       pbind (call h (clCreateKernelsInProgram program n)) (\<lambda>r.
       checked h (r_err r)
         (let kernelCount = out_size 0 r in
          pbind (passert (kernelCount \<le> n)) (\<lambda>_.
          pbind (idsFor (take kernelCount (out_objs (replicate n nullptr) r))) (\<lambda>ids.
          reply h (R_IDList ids))))))))"

text \<open>Built against an older OpenCL the handler answers without having read the request.\<close>

definition cloneKernel :: "'w host \<Rightarrow> ('w server, unit) prog" where
  "cloneKernel h =
     (if 210 \<le> h_target h then
        pbind (readPacket PT_CloneKernel (pdec get_u16)) (\<lambda>ID.
        pbind (objFor ID) (\<lambda>kernel.
        pbind (call h (clCloneKernel kernel)) (\<lambda>r.
        checked h (r_err r) (replyID h (r_obj r)))))
      else reply h (R_Error CL_INVALID_OPERATION))"

text \<open>
  The server looks at the address space of the argument and asks the client for an ID (\<open>'I'\<close>),
  a size (\<open>'S'\<close>) or the data (\<open>'P'\<close>).
\<close>

definition setKernelArg :: "'w host \<Rightarrow> ('w server, unit) prog" where
  "setKernelArg h =
     pbind (readPacket PT_SetKernelArg (pdec get_KernelArg)) (\<lambda>arg.
     let argIndex = ka_mArgIndex arg in
     pbind (objFor (ka_mKernelID arg)) (\<lambda>kernel.
     query_var h 4 None (clGetKernelArgInfo kernel argIndex CL_KERNEL_ARG_ADDRESS_QUALIFIER) (\<lambda>v.
     let AS = word_of_nat v :: u32 in
     pbind
       (if AS = CL_KERNEL_ARG_ADDRESS_GLOBAL \<or> AS = CL_KERNEL_ARG_ADDRESS_CONSTANT then
          pbind (reply h (R_Data8 73)) (\<lambda>_.
          pbind pflush (\<lambda>_.
          pbind (readPacket PT_ID (pdec get_u16)) (\<lambda>argID.
          pbind (objFor argID) (\<lambda>memObj.
          call h (clSetKernelArg kernel argIndex 8 (Some (put_u64 memObj)))))))
        else if AS = CL_KERNEL_ARG_ADDRESS_LOCAL then
          pbind (reply h (R_Data8 83)) (\<lambda>_.
          pbind pflush (\<lambda>_.
          pbind (readPacket PT_Payload (pdec get_u32)) (\<lambda>n.
          call h (clSetKernelArg kernel argIndex (unat n) None))))
        else
          pbind (reply h (R_Data8 80)) (\<lambda>_.
          pbind pflush (\<lambda>_.
          pbind (readPacket PT_Payload (pdec (get_Payload 4 (h_zlib h)))) (\<lambda>payload.
          call h (clSetKernelArg kernel argIndex (length payload) (Some payload)))))) (\<lambda>r.
     checked h (r_err r) (reply h R_Success)))))"

definition getKernelInfo :: "'w host \<Rightarrow> ('w server, unit) prog" where
  "getKernelInfo h =
     pbind (readPacket PT_KernelInfo (pdec get_IDParamPair)) (\<lambda>query.
     pbind (objFor (idp_mID query)) (\<lambda>kernel.
     let param = idp_mData query; q = clGetInfo I_Kernel kernel param in
     if param = CL_KERNEL_CONTEXT then query_object h None q
     else if param = CL_KERNEL_PROGRAM then query_object h None q
     else if param = CL_KERNEL_REFERENCE_COUNT \<or> param = CL_KERNEL_NUM_ARGS then
       query_var h 4 None q (\<lambda>v. reply h (R_Data32 (word_of_nat v)))
     else query_data h 4 False q))"

definition getKernelArgInfo :: "'w host \<Rightarrow> ('w server, unit) prog" where
  "getKernelArgInfo h =
     pbind (readPacket PT_KernelArgInfo (pdec get_KernelArgInfo)) (\<lambda>query.
     pbind (objFor (kai_mKernelID query)) (\<lambda>kernel.
     let param = kai_mParam query; q = clGetKernelArgInfo kernel (kai_mArgIndex query) param in
     if param = CL_KERNEL_ARG_ACCESS_QUALIFIER \<or> param = CL_KERNEL_ARG_TYPE_QUALIFIER
        \<or> param = CL_KERNEL_ARG_ADDRESS_QUALIFIER then
       query_var h 4 None q (\<lambda>v. reply h (R_Data32 (word_of_nat v)))
     else query_data h 4 False q))"

definition getKernelWGInfo :: "'w host \<Rightarrow> ('w server, unit) prog" where
  "getKernelWGInfo h =
     pbind (readPacket PT_KernelWGInfo (pdec get_KernelWGInfo)) (\<lambda>query.
     pbind (objFor (kwg_mDeviceID query)) (\<lambda>device.
     pbind (objFor (kwg_mKernelID query)) (\<lambda>kernel.
     let param = kwg_mParam query; q = clGetKernelWorkGroupInfo kernel device param in
     if param = CL_KERNEL_COMPILE_WORK_GROUP_SIZE then query_sizes3 h q
     else if param = CL_KERNEL_LOCAL_MEM_SIZE
        \<or> param = CL_KERNEL_PREFERRED_WORK_GROUP_SIZE_MULTIPLE
        \<or> param = CL_KERNEL_WORK_GROUP_SIZE then
       query_var h 8 (Some 0) q (\<lambda>v. reply h (R_Data64 (word_of_nat v)))
     else query_data h 4 False q)))"

section \<open>The table only grows\<close>

lemma preserves_compileProgram [preserves_intros]: "preserves sv_grows (compileProgram h)"
  by (simp add: compileProgram_def preserves_intros)

lemma preserves_linkProgram [preserves_intros]: "preserves sv_grows (linkProgram h)"
  by (simp add: linkProgram_def preserves_intros)

lemma preserves_buildProgram [preserves_intros]: "preserves sv_grows (buildProgram h)"
  by (simp add: buildProgram_def preserves_intros)

lemma preserves_createProgramFromSource [preserves_intros]:
  "preserves sv_grows (createProgramFromSource h)"
  by (simp add: createProgramFromSource_def preserves_intros)

lemma preserves_createProgramFromBinary [preserves_intros]:
  "preserves sv_grows (createProgramFromBinary h)"
  by (simp add: createProgramFromBinary_def Let_def preserves_intros)

lemma preserves_getProgramBuildInfo [preserves_intros]:
  "preserves sv_grows (getProgramBuildInfo h)"
  by (simp add: getProgramBuildInfo_def Let_def preserves_intros)

lemma preserves_getProgramBinaries [preserves_intros]:
  "preserves sv_grows (getProgramBinaries h p n)"
  by (simp add: getProgramBinaries_def Let_def preserves_intros)

lemma preserves_getProgramInfo [preserves_intros]: "preserves sv_grows (getProgramInfo h)"
  by (simp add: getProgramInfo_def Let_def preserves_intros)

lemma preserves_createKernel [preserves_intros]: "preserves sv_grows (createKernel h)"
  by (simp add: createKernel_def preserves_intros)

lemma preserves_createKernels [preserves_intros]: "preserves sv_grows (createKernels h)"
  by (simp add: createKernels_def Let_def preserves_intros)

lemma preserves_cloneKernel [preserves_intros]: "preserves sv_grows (cloneKernel h)"
  by (simp add: cloneKernel_def preserves_intros)

lemma preserves_setKernelArg [preserves_intros]: "preserves sv_grows (setKernelArg h)"
  by (simp add: setKernelArg_def Let_def preserves_intros)

lemma preserves_getKernelInfo [preserves_intros]: "preserves sv_grows (getKernelInfo h)"
  by (simp add: getKernelInfo_def Let_def preserves_intros)

lemma preserves_getKernelArgInfo [preserves_intros]: "preserves sv_grows (getKernelArgInfo h)"
  by (simp add: getKernelArgInfo_def Let_def preserves_intros)

lemma preserves_getKernelWGInfo [preserves_intros]: "preserves sv_grows (getKernelWGInfo h)"
  by (simp add: getKernelWGInfo_def Let_def preserves_intros)

end
