(* ===== verification/RCL_ServerInstance.thy ===== *)
theory RCL_ServerInstance
  imports RCL_ServerQueue RCL_ServerMemory RCL_ServerProgram
begin

text \<open>
  The life of a \<open>ServerInstance\<close>, \<open>server/instance.cpp\<close>: the version packet it opens with, the
  event stream, the dispatch on the type of the next packet and the loop around it.

  The loop may run forever, so \<open>serverRun\<close> is a partial function into \<open>option\<close>; \<open>None\<close> is a loop
  that never ends. Its body \<open>serverStep\<close> is a program like the handlers.
\<close>

section \<open>Start and event stream\<close>

definition ServerInstance :: "'w host \<Rightarrow> ('w server, unit) prog" where
  "ServerInstance h =
     pbind (reply h (R_Version (VersionPacket (h_cfg h)))) (\<lambda>_. pflush)"

text \<open>The instance a new connection starts with.\<close>

definition server_init :: "'w \<Rightarrow> 'w server" where
  "server_init w = \<lparr>mEventStream = None, mObjects = [], sv_blocks = [], sv_world = w\<rparr>"

definition fresh_stream :: stream where
  "fresh_stream = \<lparr>s_in = [], s_closed = False, s_pending = [], s_sent = []\<rparr>"

definition world :: "('w \<Rightarrow> 'a \<times> 'w) \<Rightarrow> ('w server, 'a) prog" where
  "world f = pstate (\<lambda>sv. case f (sv_world sv) of (a, w) \<Rightarrow> (a, sv\<lparr>sv_world := w\<rparr>))"

text \<open>
  At most 16 ports are tried. Once the client has been told a port, an error sends it a second
  answer, the port 0.
\<close>

fun event_stream_tries :: "'w host \<Rightarrow> nat \<Rightarrow> ('w server, unit) prog" where
  "event_stream_tries h 0 = reply h (R_Data16 0)"
| "event_stream_tries h (Suc triesLeft) =
     pbind (world (h_rand h)) (\<lambda>rand.
     let port = word_of_nat (rand mod 16384 + 49152) in
     pbind (world (h_bind h port)) (\<lambda>bound.
     if \<not> bound then event_stream_tries h triesLeft
     else
       pcatch
         (pbind (reply h (R_Data16 port)) (\<lambda>_.
          pbind pflush (\<lambda>_.
          pbind (world (h_accept h port)) (\<lambda>failed.
          case failed of
            Some e \<Rightarrow> PThrow e
          | None \<Rightarrow> pupd (\<lambda>sv. sv\<lparr>mEventStream := Some fresh_stream\<rparr>)))))
         (\<lambda>_. reply h (R_Data16 0))))"

definition createEventStream :: "'w host \<Rightarrow> ('w server, unit) prog" where
  "createEventStream h =
     pbind (readPacket PT_EventStreamOpen (pdec get_Signal)) (\<lambda>_. event_stream_tries h 16)"

text \<open>One try, for any number of tries left.\<close>

lemma event_stream_tries_first:
  "0 < n \<Longrightarrow> event_stream_tries h n =
     pbind (world (h_rand h)) (\<lambda>rand.
     let port = word_of_nat (rand mod 16384 + 49152) in
     pbind (world (h_bind h port)) (\<lambda>bound.
     if \<not> bound then event_stream_tries h (n - 1)
     else
       pcatch
         (pbind (reply h (R_Data16 port)) (\<lambda>_.
          pbind pflush (\<lambda>_.
          pbind (world (h_accept h port)) (\<lambda>failed.
          case failed of
            Some e \<Rightarrow> PThrow e
          | None \<Rightarrow> pupd (\<lambda>sv. sv\<lparr>mEventStream := Some fresh_stream\<rparr>)))))
         (\<lambda>_. reply h (R_Data16 0))))"
  by (cases n) (simp, simp only: event_stream_tries.simps diff_Suc_1)

section \<open>Dispatch\<close>

text \<open>
  The event stream is destroyed right after the terminate packet is put in its buffer: nothing
  flushes it.
\<close>

definition terminateConnection :: "('w server, bool) prog" where
  "terminateConnection = pbind (pupd (\<lambda>sv. sv\<lparr>mEventStream := None\<rparr>)) (\<lambda>_. PRet False)"

definition pthen_continue :: "('s, unit) prog \<Rightarrow> ('s, bool) prog" where
  "pthen_continue p = pbind p (\<lambda>_. PRet True)"

primrec dispatch :: "packet_type \<Rightarrow> 'w host \<Rightarrow> ('w server, bool) prog" where
  "dispatch PT_Version h = PRet False"
| "dispatch PT_Payload h = PFail AssertionFailed"
| "dispatch PT_Success h = PRet False"
| "dispatch PT_Error h = PRet False"
| "dispatch PT_Retain h = pthen_continue (handleRetain h)"
| "dispatch PT_Release h = pthen_continue (handleRelease h)"
| "dispatch PT_CreateContext h = pthen_continue (createContext h)"
| "dispatch PT_CreateContextFromType h = pthen_continue (createContextFromType h)"
| "dispatch PT_GetContextInfo h = pthen_continue (getContextInfo h)"
| "dispatch PT_GetImageFormats h = pthen_continue (getImageFormats h)"
| "dispatch PT_CreateQueue h = pthen_continue (createQueue h)"
| "dispatch PT_CreateQueueWithProp h = pthen_continue (createQueueWithProp h)"
| "dispatch PT_GetQueueInfo h = pthen_continue (getQueueInfo h)"
| "dispatch PT_Flush h = pthen_continue (flushQueue h)"
| "dispatch PT_Finish h = pthen_continue (finishQueue h)"
| "dispatch PT_CreateSourceProgram h = pthen_continue (createProgramFromSource h)"
| "dispatch PT_CreateBinaryProgram h = pthen_continue (createProgramFromBinary h)"
| "dispatch PT_CompileProgram h = pthen_continue (compileProgram h)"
| "dispatch PT_BuildProgram h = pthen_continue (buildProgram h)"
| "dispatch PT_LinkProgram h = pthen_continue (linkProgram h)"
| "dispatch PT_BuildInfo h = pthen_continue (getProgramBuildInfo h)"
| "dispatch PT_ProgramInfo h = pthen_continue (getProgramInfo h)"
| "dispatch PT_CreateKernel h = pthen_continue (createKernel h)"
| "dispatch PT_CreateKernels h = pthen_continue (createKernels h)"
| "dispatch PT_CloneKernel h = pthen_continue (cloneKernel h)"
| "dispatch PT_SetKernelArg h = pthen_continue (setKernelArg h)"
| "dispatch PT_KernelWGInfo h = pthen_continue (getKernelWGInfo h)"
| "dispatch PT_KernelInfo h = pthen_continue (getKernelInfo h)"
| "dispatch PT_KernelArgInfo h = pthen_continue (getKernelArgInfo h)"
| "dispatch PT_CreateBuffer h = pthen_continue (createBuffer h)"
| "dispatch PT_CreateSubBuffer h = pthen_continue (createSubBuffer h)"
| "dispatch PT_ReadBuffer h = pthen_continue (readBuffer h)"
| "dispatch PT_ReadBufferRect h = pthen_continue (readBufferRect h)"
| "dispatch PT_WriteBuffer h = pthen_continue (writeBuffer h)"
| "dispatch PT_FillBuffer h = pthen_continue (fillBuffer h)"
| "dispatch PT_GetMemObjInfo h = pthen_continue (getMemObjInfo h)"
| "dispatch PT_CreateImage h = pthen_continue (createImage h)"
| "dispatch PT_ReadImage h = pthen_continue (readImage h)"
| "dispatch PT_WriteImage h = pthen_continue (writeImage h)"
| "dispatch PT_GetImageInfo h = pthen_continue (getImageInfo h)"
| "dispatch PT_EnqueueKernel h = pthen_continue (enqueueKernel h)"
| "dispatch PT_CreateUserEvent h = pthen_continue (createUserEvent h)"
| "dispatch PT_SetUserEventStatus h = pthen_continue (setUserEventStatus h)"
| "dispatch PT_GetEventInfo h = pthen_continue (getEventInfo h)"
| "dispatch PT_GetEventProfilingInfo h = pthen_continue (getEventProfilingInfo h)"
| "dispatch PT_WaitEvents h = pthen_continue (waitForEvents h)"
| "dispatch PT_GetPlatformInfo h = pthen_continue (getPlatformInfo h)"
| "dispatch PT_GetPlatformIDs h = pthen_continue (sendPlatformList h)"
| "dispatch PT_GetDeviceIDs h = pthen_continue (sendDeviceList h)"
| "dispatch PT_GetDeviceInfo h = pthen_continue (getDeviceInfo h)"
| "dispatch PT_ID h = PRet False"
| "dispatch PT_IDList h = PRet False"
| "dispatch PT_EventStreamOpen h = pthen_continue (createEventStream h)"
| "dispatch PT_CallbackTrigger h = PRet False"
| "dispatch PT_RegisterEventCallback h = pthen_continue (registerEventCallback h)"
| "dispatch PT_EventCallbackTrigger h = PRet False"
| "dispatch PT_Terminate h = terminateConnection"

text \<open>The types that end the connection without being read.\<close>

definition server_only_types :: "packet_type list" where
  "server_only_types = [PT_ID, PT_Success, PT_Error, PT_IDList, PT_Version, PT_CallbackTrigger,
     PT_EventCallbackTrigger]"

text \<open>A byte that is the value of no enumerator matches no \<open>case\<close>; it is not consumed.\<close>

definition handleNextPacket :: "'w host \<Rightarrow> ('w server, bool) prog" where
  "handleNextPacket h =
     pbind nextPacketTy (\<lambda>b.
     case pt_of_byte b of None \<Rightarrow> PRet True | Some ty \<Rightarrow> dispatch ty h)"

section \<open>The loop\<close>

text \<open>
  A turn of the loop, and the loop. A handler that never returns (a read at the end of the stream, the search for an ID
  in a full table) makes the outcome \<open>Fail Nontermination\<close>; turns without end make it \<open>None\<close>.
\<close>

definition serverStep :: "'w host \<Rightarrow> ('w server, bool) prog" where
  "serverStep h =
     pbind
       (pcatch (handleNextPacket h)
          (\<lambda>e. if e = BadAlloc then pbind (reply h (R_Error CL_OUT_OF_HOST_MEMORY)) (\<lambda>_. PRet True)
               else PThrow e))
       (\<lambda>shouldContinue. pbind pflush (\<lambda>_. PRet shouldContinue))"

partial_function (option) serverRun ::
  "'c stream_ops \<Rightarrow> 'w host \<Rightarrow> 'w server \<Rightarrow> 'c \<Rightarrow> (unit res \<times> 'w server \<times> 'c) option" where
  "serverRun ops h sv c =
     (case run ops (serverStep h) sv c of
        (Ok shouldContinue, sv', c') \<Rightarrow>
          (if shouldContinue then serverRun ops h sv' c' else Some (Ok (), sv', c'))
      | (Throw e, sv', c') \<Rightarrow> Some (Throw e, sv', c')
      | (Fail x, sv', c') \<Rightarrow> Some (Fail x, sv', c'))"

text \<open>\<open>ServerInstance(std::move(client)).run()\<close>, one connection from start to end.\<close>

definition serverConnection ::
  "'c stream_ops \<Rightarrow> 'w host \<Rightarrow> 'w \<Rightarrow> 'c \<Rightarrow> (unit res \<times> 'w server \<times> 'c) option" where
  "serverConnection ops h w c =
     (case run ops (ServerInstance h) (server_init w) c of
        (Ok _, sv, c') \<Rightarrow> serverRun ops h sv c'
      | (Throw e, sv, c') \<Rightarrow> Some (Throw e, sv, c')
      | (Fail x, sv, c') \<Rightarrow> Some (Fail x, sv, c'))"

section \<open>The table only grows\<close>

lemma preserves_world [preserves_intros]: "preserves sv_grows (world f)"
  unfolding world_def by (rule preserves_pstate) (simp add: sv_grows_def sv_ok_def split: prod.split)

lemma preserves_set_event_stream [preserves_intros]:
  "preserves sv_grows (pupd (\<lambda>sv. sv\<lparr>mEventStream := es\<rparr>))"
  by (rule preserves_pupd) (simp add: sv_grows_def sv_ok_def)

lemma preserves_event_stream_tries [preserves_intros]:
  "preserves sv_grows (event_stream_tries h n)"
  by (induction n) (simp_all add: Let_def preserves_intros)

lemma preserves_createEventStream [preserves_intros]: "preserves sv_grows (createEventStream h)"
  by (simp add: createEventStream_def preserves_intros)

lemma preserves_pthen_continue [preserves_intros]:
  "preserves Q p \<Longrightarrow> preserves Q (pthen_continue p)"
  by (simp add: pthen_continue_def preserves_intros)

lemma preserves_dispatch [preserves_intros]: "preserves sv_grows (dispatch ty h)"
  by (cases ty) (simp_all add: preserves_intros terminateConnection_def)

lemma preserves_handleNextPacket [preserves_intros]: "preserves sv_grows (handleNextPacket h)"
  by (simp add: handleNextPacket_def preserves_intros)

lemma preserves_serverStep [preserves_intros]: "preserves sv_grows (serverStep h)"
  by (simp add: serverStep_def preserves_intros)

text \<open>The handlers that neither open nor end the event stream.\<close>

lemmas handler_defs =
  handleRetain_def handleRelease_def createQueue_def createQueueWithProp_def getQueueInfo_def
  flushQueue_def finishQueue_def sendPlatformList_def getPlatformInfo_def createContext_def
  createContextFromType_def getContextInfo_def getImageFormats_def sendDeviceList_def
  getDeviceInfo_def registerEventCallback_def enqueueKernel_def createUserEvent_def
  setUserEventStatus_def getEventInfo_def getEventProfilingInfo_def waitForEvents_def
  createBuffer_def createSubBuffer_def readBuffer_def readBufferRect_def writeBuffer_def
  fillBuffer_def getMemObjInfo_def createImage_def readImage_def writeImage_def getImageInfo_def
  compileProgram_def linkProgram_def buildProgram_def createProgramFromSource_def
  createProgramFromBinary_def getProgramBuildInfo_def getProgramInfo_def createKernel_def
  createKernels_def cloneKernel_def setKernelArg_def getKernelInfo_def getKernelArgInfo_def
  getKernelWGInfo_def

end
