(* ===== verification/RCL_Rpc.thy ===== *)
theory RCL_Rpc
  imports RCL_ServerInstance
begin

text \<open>
  What the server promises its client: a request is performed as one OpenCL call with the IDs
  replaced by the objects they stand for, and answered by the status, the ID of the object
  created, or the data.

  \<open>request\<close> lists the requests whose handler makes one call, with everything the client sends
  for it (the packet, the event list, the data). \<open>remote_call\<close> is the call, \<open>answer\<close> what goes
  back when it succeeds, \<open>serve\<close> the two together on the server's state: no bytes, no packets, no
  streams. The handlers implement it (\<open>exec_handleNextPacket_serves\<close>), one after the other for any
  number of requests sent ahead (\<open>serverRun_serves_all\<close>).
\<close>

section \<open>The specification\<close>

datatype (plugins only: code size) request =
    Q_Retain RefCount
  | Q_Release RefCount
  | Q_CreateQueue CreateQueue
  | Q_CreateQueueWithProp CreateQueueWithProp
  | Q_Flush IDType
  | Q_Finish IDType
  | Q_CreateContext CreateContext
  | Q_CreateContextFromType CreateContextFromType
  | Q_EnqueueKernel EnqueueKernel "IDType list"
  | Q_CreateUserEvent IDType
  | Q_SetUserEventStatus IDParamPair
  | Q_WaitEvents "IDType list"
  | Q_CreateBuffer CreateBuffer "byte list"
  | Q_CreateSubBuffer CreateSubBuffer
  | Q_ReadBuffer BufferRW "IDType list"
  | Q_ReadBufferRect BufferRectRW "IDType list"
  | Q_WriteBuffer BufferRW "IDType list" "byte list"
  | Q_FillBuffer FillBuffer "IDType list"
  | Q_CompileProgram CompileProgram
  | Q_LinkProgram LinkProgram
  | Q_BuildProgram IDStringPair "IDType list"
  | Q_CreateSourceProgram IDStringPair
  | Q_CreateKernel IDStringPair
  | Q_CloneKernel IDType

text \<open>What the client sends.\<close>

definition enc_IDList :: "IDType list \<Rightarrow> byte list" where
  "enc_IDList is = enc_packet PT_IDList (put_IDList is)"

definition enc_data :: "zlib option \<Rightarrow> byte list \<Rightarrow> byte list" where
  "enc_data z d = enc_packet PT_Payload (put_Payload 4 z d)"

definition enc_opt :: "bool \<Rightarrow> byte list \<Rightarrow> byte list" where
  "enc_opt b bs = (if b then bs else [])"

primrec enc_request :: "zlib option \<Rightarrow> request \<Rightarrow> byte list" where
  "enc_request z (Q_Retain p) = enc_packet PT_Retain (put_RefCount p)"
| "enc_request z (Q_Release p) = enc_packet PT_Release (put_RefCount p)"
| "enc_request z (Q_CreateQueue p) = enc_packet PT_CreateQueue (put_CreateQueue p)"
| "enc_request z (Q_CreateQueueWithProp p) =
     enc_packet PT_CreateQueueWithProp (put_CreateQueueWithProp p)"
| "enc_request z (Q_Flush i) = enc_packet PT_Flush (put_u16 i)"
| "enc_request z (Q_Finish i) = enc_packet PT_Finish (put_u16 i)"
| "enc_request z (Q_CreateContext p) = enc_packet PT_CreateContext (put_CreateContext p)"
| "enc_request z (Q_CreateContextFromType p) =
     enc_packet PT_CreateContextFromType (put_CreateContextFromType p)"
| "enc_request z (Q_EnqueueKernel p is) =
     enc_packet PT_EnqueueKernel (put_EnqueueKernel p) @ enc_opt (ek_mExpectEventList p) (enc_IDList is)"
| "enc_request z (Q_CreateUserEvent i) = enc_packet PT_CreateUserEvent (put_u16 i)"
| "enc_request z (Q_SetUserEventStatus p) = enc_packet PT_SetUserEventStatus (put_IDParamPair p)"
| "enc_request z (Q_WaitEvents is) = enc_packet PT_WaitEvents (put_Signal ()) @ enc_IDList is"
| "enc_request z (Q_CreateBuffer p d) =
     enc_packet PT_CreateBuffer (put_CreateBuffer p) @ enc_opt (cb_mExpectPayload p) (enc_data z d)"
| "enc_request z (Q_CreateSubBuffer p) = enc_packet PT_CreateSubBuffer (put_CreateSubBuffer p)"
| "enc_request z (Q_ReadBuffer p is) =
     enc_packet PT_ReadBuffer (put_BufferRW p) @ enc_opt (brw_mExpectEventList p) (enc_IDList is)"
| "enc_request z (Q_ReadBufferRect p is) =
     enc_packet PT_ReadBufferRect (put_BufferRectRW p)
       @ enc_opt (brr_mExpectEventList p) (enc_IDList is)"
| "enc_request z (Q_WriteBuffer p is d) =
     enc_packet PT_WriteBuffer (put_BufferRW p) @ enc_opt (brw_mExpectEventList p) (enc_IDList is)
       @ enc_data z d"
| "enc_request z (Q_FillBuffer p is) =
     enc_packet PT_FillBuffer (put_FillBuffer p) @ enc_opt (fb_mExpectEventList p) (enc_IDList is)"
| "enc_request z (Q_CompileProgram p) = enc_packet PT_CompileProgram (put_CompileProgram p)"
| "enc_request z (Q_LinkProgram p) = enc_packet PT_LinkProgram (put_LinkProgram p)"
| "enc_request z (Q_BuildProgram p is) =
     enc_packet PT_BuildProgram (put_IDStringPair p) @ enc_IDList is"
| "enc_request z (Q_CreateSourceProgram p) =
     enc_packet PT_CreateSourceProgram (put_IDStringPair p)"
| "enc_request z (Q_CreateKernel p) = enc_packet PT_CreateKernel (put_IDStringPair p)"
| "enc_request z (Q_CloneKernel i) = enc_packet PT_CloneKernel (put_u16 i)"

text \<open>
  The requests a client can send: what the assertions of the serialisers require, a letter that
  is an object type, property lists made of pairs, and, on the server's side, a new enough OpenCL
  and memory for the data it reads back.
\<close>

definition can_alloc :: "'w host \<Rightarrow> nat \<Rightarrow> bool" where
  "can_alloc h n \<longleftrightarrow> n \<le> 2 ^ 63 - 1 \<and> h_new h n"

primrec request_ok :: "'w host \<Rightarrow> request \<Rightarrow> bool" where
  "request_ok h (Q_Retain p) \<longleftrightarrow> obj_kind_of (rc_mObjTy p) \<noteq> None"
| "request_ok h (Q_Release p) \<longleftrightarrow> obj_kind_of (rc_mObjTy p) \<noteq> None"
| "request_ok h (Q_CreateQueue p) \<longleftrightarrow> True"
| "request_ok h (Q_CreateQueueWithProp p) \<longleftrightarrow> ok_CreateQueueWithProp p \<and> 200 \<le> h_target h"
| "request_ok h (Q_Flush i) \<longleftrightarrow> True"
| "request_ok h (Q_Finish i) \<longleftrightarrow> True"
| "request_ok h (Q_CreateContext p) \<longleftrightarrow> ok_CreateContext p \<and> even (length (cc_mProperties p))"
| "request_ok h (Q_CreateContextFromType p) \<longleftrightarrow>
     ok_CreateContextFromType p \<and> even (length (cct_mProperties p))"
| "request_ok h (Q_EnqueueKernel p is) \<longleftrightarrow> ok_IDList is"
| "request_ok h (Q_CreateUserEvent i) \<longleftrightarrow> True"
| "request_ok h (Q_SetUserEventStatus p) \<longleftrightarrow> True"
| "request_ok h (Q_WaitEvents is) \<longleftrightarrow> ok_IDList is"
| "request_ok h (Q_CreateBuffer p d) \<longleftrightarrow> payload_fits 4 d"
| "request_ok h (Q_CreateSubBuffer p) \<longleftrightarrow> True"
| "request_ok h (Q_ReadBuffer p is) \<longleftrightarrow> ok_IDList is \<and> can_alloc h (unat (brw_mSize p))"
| "request_ok h (Q_ReadBufferRect p is) \<longleftrightarrow>
     ok_IDList is \<and> rect_size p < 2 ^ 32 \<and> can_alloc h (rect_size p)"
| "request_ok h (Q_WriteBuffer p is d) \<longleftrightarrow> ok_IDList is \<and> payload_fits 4 d"
| "request_ok h (Q_FillBuffer p is) \<longleftrightarrow> ok_IDList is \<and> ok_FillBuffer p"
| "request_ok h (Q_CompileProgram p) \<longleftrightarrow> ok_CompileProgram p \<and> \<not> cp_mHasCallback p"
| "request_ok h (Q_LinkProgram p) \<longleftrightarrow> ok_LinkProgram p"
| "request_ok h (Q_BuildProgram p is) \<longleftrightarrow> ok_IDStringPair p \<and> ok_IDList is"
| "request_ok h (Q_CreateSourceProgram p) \<longleftrightarrow> ok_IDStringPair p"
| "request_ok h (Q_CreateKernel p) \<longleftrightarrow> ok_IDStringPair p"
| "request_ok h (Q_CloneKernel i) \<longleftrightarrow> 210 \<le> h_target h"

text \<open>The call a request stands for, given the object table.\<close>

definition opt_events :: "(IDType \<Rightarrow> ptr) \<Rightarrow> bool \<Rightarrow> IDType list \<Rightarrow> ptr list" where
  "opt_events obj b is = (if b then map obj is else [])"

definition rebuilt :: "ptr list \<Rightarrow> u64 list \<Rightarrow> u64 list" where
  "rebuilt objs props = terminated (the (ctx_properties objs props))"

primrec remote_call :: "ptr list \<Rightarrow> request \<Rightarrow> cl_call" where
  "remote_call t (Q_Retain p) = clRetain (the (obj_kind_of (rc_mObjTy p))) (getObj t (rc_mID p))"
| "remote_call t (Q_Release p) = clRelease (the (obj_kind_of (rc_mObjTy p))) (getObj t (rc_mID p))"
| "remote_call t (Q_CreateQueue p) =
     clCreateCommandQueue (getObj t (cq_mContext p)) (getObj t (cq_mDevice p)) (ucast (cq_mProp p))"
| "remote_call t (Q_CreateQueueWithProp p) =
     clCreateCommandQueueWithProperties (getObj t (cqp_mContext p)) (getObj t (cqp_mDevice p))
       (terminated (cqp_mProperties p))"
| "remote_call t (Q_Flush i) = clFlush (getObj t i)"
| "remote_call t (Q_Finish i) = clFinish (getObj t i)"
| "remote_call t (Q_CreateContext p) =
     clCreateContext (rebuilt t (cc_mProperties p)) (map (getObj t) (cc_mDevices p))"
| "remote_call t (Q_CreateContextFromType p) =
     clCreateContextFromType (rebuilt t (cct_mProperties p)) (cct_mDeviceType p)"
| "remote_call t (Q_EnqueueKernel p is) =
     clEnqueueNDRangeKernel (getObj t (ek_mQueueID p)) (getObj t (ek_mKernelID p))
       (ucast (ek_mWorkDim p)) (size3_of (ek_mGlobalOffset p)) (size3_of (ek_mGlobalSize p))
       (if fst (ek_mLocalSize p) = 0 then None else Some (size3_of (ek_mLocalSize p)))
       (opt_events (getObj t) (ek_mExpectEventList p) is) (ek_mWantEvent p)"
| "remote_call t (Q_CreateUserEvent i) = clCreateUserEvent (getObj t i)"
| "remote_call t (Q_SetUserEventStatus p) = clSetUserEventStatus (getObj t (idp_mID p)) (idp_mData p)"
| "remote_call t (Q_WaitEvents is) = clWaitForEvents (map (getObj t) is)"
| "remote_call t (Q_CreateBuffer p d) =
     clCreateBuffer (getObj t (cb_mContextID p)) (ucast (cb_mFlags p)) (unat (cb_mSize p))
       (if cb_mExpectPayload p then Some d else None)"
| "remote_call t (Q_CreateSubBuffer p) =
     clCreateSubBuffer (getObj t (csb_mBufferID p)) (ucast (csb_mFlags p)) (csb_mCreateType p)
       (unat (csb_mOffset p)) (unat (csb_mSize p))"
| "remote_call t (Q_ReadBuffer p is) =
     clEnqueueReadBuffer (getObj t (brw_mQueueID p)) (getObj t (brw_mBufferID p)) True
       (unat (brw_mOffset p)) (unat (brw_mSize p))
       (opt_events (getObj t) (brw_mExpectEventList p) is) (brw_mWantEvent p)"
| "remote_call t (Q_ReadBufferRect p is) =
     clEnqueueReadBufferRect (getObj t (brr_mQueueID p)) (getObj t (brr_mBufferID p)) True
       (size3_of (brr_mBufferOrigin p)) (size3_of (brr_mHostOrigin p)) (size3_of (brr_mRegion p))
       (unat (brr_mBufferRowPitch p)) (unat (brr_mBufferSlicePitch p))
       (unat (brr_mHostRowPitch p)) (unat (brr_mHostSlicePitch p))
       (opt_events (getObj t) (brr_mExpectEventList p) is) (brr_mWantEvent p)"
| "remote_call t (Q_WriteBuffer p is d) =
     clEnqueueWriteBuffer (getObj t (brw_mQueueID p)) (getObj t (brw_mBufferID p)) (brw_mBlock p)
       (unat (brw_mOffset p)) d (opt_events (getObj t) (brw_mExpectEventList p) is)
       (brw_mWantEvent p)"
| "remote_call t (Q_FillBuffer p is) =
     clEnqueueFillBuffer (getObj t (fb_mQueueID p)) (getObj t (fb_mBufferID p)) (fb_mPattern p)
       (unat (fb_mPatternSize p)) (unat (fb_mOffset p)) (unat (fb_mSize p))
       (opt_events (getObj t) (fb_mExpectEventList p) is) (fb_mWantEvent p)"
| "remote_call t (Q_CompileProgram p) =
     clCompileProgram (getObj t (cp_mProgramID p)) (map (getObj t) (cp_mDeviceIDs p))
       (c_str (cp_mOptions p)) (map (getObj t) (cp_mHeaderIDs p)) (map c_str (cp_mHeaderNames p)) None"
| "remote_call t (Q_LinkProgram p) =
     clLinkProgram (getObj t (lp_mContext p)) (map (getObj t) (lp_mDeviceIDs p))
       (c_str (lp_mOptions p)) (map (getObj t) (lp_mProgramIDs p))"
| "remote_call t (Q_BuildProgram p is) =
     clBuildProgram (getObj t (isp_mID p)) (map (getObj t) is) (c_str (build_options (isp_mString p)))"
| "remote_call t (Q_CreateSourceProgram p) =
     clCreateProgramWithSource (getObj t (isp_mID p)) (isp_mString p)"
| "remote_call t (Q_CreateKernel p) = clCreateKernel (getObj t (isp_mID p)) (c_str (isp_mString p))"
| "remote_call t (Q_CloneKernel i) = clCloneKernel (getObj t i)"

text \<open>
  The answer to a call that succeeded: whether the ID of the object or event it returned goes back
  first, and what follows.
\<close>

primrec answer :: "request \<Rightarrow> cl_ret \<Rightarrow> bool \<times> reply list" where
  "answer (Q_Retain p) r = (False, [R_Success])"
| "answer (Q_Release p) r = (False, [R_Success])"
| "answer (Q_CreateQueue p) r = (True, [])"
| "answer (Q_CreateQueueWithProp p) r = (True, [])"
| "answer (Q_Flush i) r = (False, [R_Success])"
| "answer (Q_Finish i) r = (False, [R_Success])"
| "answer (Q_CreateContext p) r = (True, [])"
| "answer (Q_CreateContextFromType p) r = (True, [])"
| "answer (Q_EnqueueKernel p is) r = (ek_mWantEvent p, [R_Success])"
| "answer (Q_CreateUserEvent i) r = (True, [])"
| "answer (Q_SetUserEventStatus p) r = (False, [R_Success])"
| "answer (Q_WaitEvents is) r = (False, [R_Success])"
| "answer (Q_CreateBuffer p d) r = (True, [])"
| "answer (Q_CreateSubBuffer p) r = (True, [])"
| "answer (Q_ReadBuffer p is) r =
     (brw_mWantEvent p, [R_Payload 4 (out_bytes (replicate (unat (brw_mSize p)) 0) r)])"
| "answer (Q_ReadBufferRect p is) r =
     (brr_mWantEvent p, [R_Payload 4 (out_bytes (replicate (rect_size p) 0) r)])"
| "answer (Q_WriteBuffer p is d) r = (brw_mWantEvent p, [R_Success])"
| "answer (Q_FillBuffer p is) r = (fb_mWantEvent p, [R_Success])"
| "answer (Q_CompileProgram p) r = (False, [R_Success])"
| "answer (Q_LinkProgram p) r = (True, [])"
| "answer (Q_BuildProgram p is) r = (False, [R_Success])"
| "answer (Q_CreateSourceProgram p) r = (True, [])"
| "answer (Q_CreateKernel p) r = (True, [])"
| "answer (Q_CloneKernel i) r = (True, [])"

definition serve :: "'w host \<Rightarrow> request \<Rightarrow> 'w server \<Rightarrow> (reply list \<times> 'w server) option" where
  "serve h q sv =
     (let (r, w) = h_cl h (remote_call (mObjects sv) q) (sv_world sv);
          sv1 = sv\<lparr>sv_world := w\<rparr>
      in if r_err r \<noteq> CL_SUCCESS then Some ([R_Error (r_err r)], sv1)
         else case answer q r of (wantID, rest) \<Rightarrow>
           if wantID then
             (case getIDFor (mObjects sv) (r_obj r) of
                None \<Rightarrow> None
              | Some (i, objs) \<Rightarrow> Some (R_ID i # rest, sv1\<lparr>mObjects := objs\<rparr>))
           else Some (rest, sv1))"

definition enc_replies :: "zlib option \<Rightarrow> reply list \<Rightarrow> byte list" where
  "enc_replies z rs = concat (map (enc_reply z) rs)"

section \<open>The handlers implement it\<close>

text \<open>
  \<open>serves h q p\<close>: with the request \<open>q\<close> next on the stream, \<open>p\<close> reads exactly that, leaves the
  server in the state \<open>serve\<close> gives and writes exactly the replies.
\<close>

definition serves :: "'w host \<Rightarrow> request \<Rightarrow> ('w server, unit) prog \<Rightarrow> bool" where
  "serves h q p \<longleftrightarrow> (\<forall>sv st rest rs sv'.
     s_in st = enc_request (h_zlib h) q @ rest \<longrightarrow> serve h q sv = Some (rs, sv') \<longrightarrow>
     exec p sv st =
       (Ok (), sv', st\<lparr>s_in := rest, s_pending := s_pending st @ enc_replies (h_zlib h) rs\<rparr>))"

named_theorems serve_simps "definitions opened to compare a handler with its specification"

lemmas [serve_simps] = serve_def enc_replies_def opt_events_def Let_def enc_IDList_def enc_data_def
  enc_opt_def

lemma serves_handleRetain:
  "request_ok h (Q_Retain p) \<Longrightarrow> serves h (Q_Retain p) (handleRetain h)"
  unfolding serves_def
  by (auto simp: handleRetain_def codec_simps prog_simps serve_simps split: prod.splits if_splits)

lemma serves_handleRelease:
  "request_ok h (Q_Release p) \<Longrightarrow> serves h (Q_Release p) (handleRelease h)"
  unfolding serves_def
  by (auto simp: handleRelease_def codec_simps prog_simps serve_simps split: prod.splits if_splits)

lemma serves_createQueue: "serves h (Q_CreateQueue p) (createQueue h)"
  unfolding serves_def
  by (auto simp: createQueue_def codec_simps prog_simps serve_simps
      split: prod.splits if_splits option.splits)

lemma serves_createQueueWithProp:
  "request_ok h (Q_CreateQueueWithProp p) \<Longrightarrow>
   serves h (Q_CreateQueueWithProp p) (createQueueWithProp h)"
  unfolding serves_def
  by (auto simp: createQueueWithProp_def codec_simps prog_simps serve_simps
      split: prod.splits if_splits option.splits)

lemma serves_flushQueue: "serves h (Q_Flush i) (flushQueue h)"
  unfolding serves_def
  by (auto simp: flushQueue_def codec_simps prog_simps serve_simps split: prod.splits if_splits)

lemma serves_finishQueue: "serves h (Q_Finish i) (finishQueue h)"
  unfolding serves_def
  by (auto simp: finishQueue_def codec_simps prog_simps serve_simps split: prod.splits if_splits)

lemma ctx_properties_even: "even (length ps) \<Longrightarrow> \<exists>qs. ctx_properties objs ps = Some qs"
  by (induction objs ps rule: ctx_properties.induct) auto

lemma exec_rebuildProperties [prog_simps]:
  "even (length ps) \<Longrightarrow>
   exec (rebuildProperties ps) sv st = (Ok (rebuilt (mObjects sv) ps), sv, st)"
  using ctx_properties_even [of ps "mObjects sv"]
  by (auto simp: rebuildProperties_def rebuilt_def terminated_def prog_simps)

lemma serves_createContext:
  "request_ok h (Q_CreateContext p) \<Longrightarrow> serves h (Q_CreateContext p) (createContext h)"
  unfolding serves_def
  by (auto simp: createContext_def codec_simps prog_simps serve_simps
      split: prod.splits if_splits option.splits)

lemma serves_createContextFromType:
  "request_ok h (Q_CreateContextFromType p) \<Longrightarrow>
   serves h (Q_CreateContextFromType p) (createContextFromType h)"
  unfolding serves_def
  by (auto simp: createContextFromType_def codec_simps prog_simps serve_simps
      split: prod.splits if_splits option.splits)

lemma serves_enqueueKernel:
  "request_ok h (Q_EnqueueKernel p is) \<Longrightarrow> serves h (Q_EnqueueKernel p is) (enqueueKernel h)"
  unfolding serves_def
  by (cases "ek_mExpectEventList p")
    (auto simp: enqueueKernel_def readEventList_def codec_simps prog_simps serve_simps
      split: prod.splits if_splits option.splits)

lemma serves_createUserEvent: "serves h (Q_CreateUserEvent i) (createUserEvent h)"
  unfolding serves_def
  by (auto simp: createUserEvent_def codec_simps prog_simps serve_simps
      split: prod.splits if_splits option.splits)

lemma serves_setUserEventStatus: "serves h (Q_SetUserEventStatus p) (setUserEventStatus h)"
  unfolding serves_def
  by (auto simp: setUserEventStatus_def codec_simps prog_simps serve_simps
      split: prod.splits if_splits)

lemma serves_waitForEvents:
  "request_ok h (Q_WaitEvents is) \<Longrightarrow> serves h (Q_WaitEvents is) (waitForEvents h)"
  unfolding serves_def
  by (auto simp: waitForEvents_def codec_simps prog_simps serve_simps split: prod.splits if_splits)

text \<open>Requests that carry or return data rest on ZLib's contract, when ZLib is in use.\<close>

lemma serves_createBuffer:
  "request_ok h (Q_CreateBuffer p d) \<Longrightarrow> zlib_opt_ok (h_zlib h) \<Longrightarrow>
   serves h (Q_CreateBuffer p d) (createBuffer h)"
  unfolding serves_def
  by (cases "cb_mExpectPayload p")
    (auto simp: createBuffer_def codec_simps prog_simps serve_simps get_Payload_put
      split: prod.splits if_splits option.splits)

lemma serves_createSubBuffer: "serves h (Q_CreateSubBuffer p) (createSubBuffer h)"
  unfolding serves_def
  by (auto simp: createSubBuffer_def codec_simps prog_simps serve_simps
      split: prod.splits if_splits option.splits)

text \<open>Data read back is sent by pointer; for a size that fits that is a payload.\<close>

lemma enc_PayloadPtr_all [serve_simps]:
  "length mem = len \<Longrightarrow> payload_fits w mem \<Longrightarrow>
   enc_packet PT_Payload (put_PayloadPtr w z mem len) = enc_reply z (R_Payload w mem)"
  by (auto simp: enc_reply_def put_PayloadPtr_eq)

lemma payload_fits_4: "payload_fits 4 d \<longleftrightarrow> length d < 2 ^ 32"
  by (simp add: payload_fits_less)

lemma serves_readBuffer:
  assumes "request_ok h (Q_ReadBuffer p is)"
  shows "serves h (Q_ReadBuffer p is) (readBuffer h)"
proof -
  have "unat (brw_mSize p) < 2 ^ 32" using unsigned_less [of "brw_mSize p", where ?'a = nat] by simp
  with assms show ?thesis
    unfolding serves_def
    by (cases "brw_mExpectEventList p")
      (auto simp: readBuffer_def readEventList_def eventThen_def can_alloc_def payload_fits_4
        codec_simps prog_simps serve_simps split: prod.splits if_splits option.splits)
qed

lemma serves_readBufferRect:
  "request_ok h (Q_ReadBufferRect p is) \<Longrightarrow> serves h (Q_ReadBufferRect p is) (readBufferRect h)"
  unfolding serves_def
  by (cases "brr_mExpectEventList p")
    (auto simp: readBufferRect_def readEventList_def eventThen_def can_alloc_def payload_fits_4
      codec_simps prog_simps serve_simps split: prod.splits if_splits option.splits)

lemma serves_writeBuffer:
  "request_ok h (Q_WriteBuffer p is d) \<Longrightarrow> zlib_opt_ok (h_zlib h) \<Longrightarrow>
   serves h (Q_WriteBuffer p is d) (writeBuffer h)"
  unfolding serves_def
  by (cases "brw_mExpectEventList p")
    (auto simp: writeBuffer_def readEventList_def eventThen_def get_Payload_put
      codec_simps prog_simps serve_simps split: prod.splits if_splits option.splits)

lemma serves_fillBuffer:
  "request_ok h (Q_FillBuffer p is) \<Longrightarrow> serves h (Q_FillBuffer p is) (fillBuffer h)"
  unfolding serves_def
  by (cases "fb_mExpectEventList p")
    (auto simp: fillBuffer_def readEventList_def eventThen_def
      codec_simps prog_simps serve_simps split: prod.splits if_splits option.splits)

lemma serves_compileProgram:
  "request_ok h (Q_CompileProgram p) \<Longrightarrow> serves h (Q_CompileProgram p) (compileProgram h)"
  unfolding serves_def
  by (auto simp: compileProgram_def codec_simps prog_simps serve_simps split: prod.splits if_splits)

lemma serves_linkProgram:
  "request_ok h (Q_LinkProgram p) \<Longrightarrow> serves h (Q_LinkProgram p) (linkProgram h)"
  unfolding serves_def
  by (auto simp: linkProgram_def codec_simps prog_simps serve_simps
      split: prod.splits if_splits option.splits)

lemma serves_buildProgram:
  "request_ok h (Q_BuildProgram p is) \<Longrightarrow> serves h (Q_BuildProgram p is) (buildProgram h)"
  unfolding serves_def
  by (auto simp: buildProgram_def codec_simps prog_simps serve_simps split: prod.splits if_splits)

lemma serves_createProgramFromSource:
  "request_ok h (Q_CreateSourceProgram p) \<Longrightarrow>
   serves h (Q_CreateSourceProgram p) (createProgramFromSource h)"
  unfolding serves_def
  by (auto simp: createProgramFromSource_def codec_simps prog_simps serve_simps
      split: prod.splits if_splits option.splits)

lemma serves_createKernel:
  "request_ok h (Q_CreateKernel p) \<Longrightarrow> serves h (Q_CreateKernel p) (createKernel h)"
  unfolding serves_def
  by (auto simp: createKernel_def codec_simps prog_simps serve_simps
      split: prod.splits if_splits option.splits)

lemma serves_cloneKernel:
  "request_ok h (Q_CloneKernel i) \<Longrightarrow> serves h (Q_CloneKernel i) (cloneKernel h)"
  unfolding serves_def
  by (auto simp: cloneKernel_def codec_simps prog_simps serve_simps
      split: prod.splits if_splits option.splits)

section \<open>Dispatch and loop\<close>

definition request_type :: "request \<Rightarrow> packet_type" where
  "request_type q = (case q of
       Q_Retain _ \<Rightarrow> PT_Retain | Q_Release _ \<Rightarrow> PT_Release | Q_CreateQueue _ \<Rightarrow> PT_CreateQueue
     | Q_CreateQueueWithProp _ \<Rightarrow> PT_CreateQueueWithProp | Q_Flush _ \<Rightarrow> PT_Flush
     | Q_Finish _ \<Rightarrow> PT_Finish | Q_CreateContext _ \<Rightarrow> PT_CreateContext
     | Q_CreateContextFromType _ \<Rightarrow> PT_CreateContextFromType
     | Q_EnqueueKernel _ _ \<Rightarrow> PT_EnqueueKernel | Q_CreateUserEvent _ \<Rightarrow> PT_CreateUserEvent
     | Q_SetUserEventStatus _ \<Rightarrow> PT_SetUserEventStatus | Q_WaitEvents _ \<Rightarrow> PT_WaitEvents
     | Q_CreateBuffer _ _ \<Rightarrow> PT_CreateBuffer | Q_CreateSubBuffer _ \<Rightarrow> PT_CreateSubBuffer
     | Q_ReadBuffer _ _ \<Rightarrow> PT_ReadBuffer | Q_ReadBufferRect _ _ \<Rightarrow> PT_ReadBufferRect
     | Q_WriteBuffer _ _ _ \<Rightarrow> PT_WriteBuffer | Q_FillBuffer _ _ \<Rightarrow> PT_FillBuffer
     | Q_CompileProgram _ \<Rightarrow> PT_CompileProgram | Q_LinkProgram _ \<Rightarrow> PT_LinkProgram
     | Q_BuildProgram _ _ \<Rightarrow> PT_BuildProgram | Q_CreateSourceProgram _ \<Rightarrow> PT_CreateSourceProgram
     | Q_CreateKernel _ \<Rightarrow> PT_CreateKernel | Q_CloneKernel _ \<Rightarrow> PT_CloneKernel)"

lemma enc_request_type: "\<exists>bs. enc_request z q = enc_packet (request_type q) bs"
  by (cases q) (auto simp: request_type_def enc_packet_def)

lemma exec_handleNextPacket:
  "s_in st = enc_packet ty bs @ rest \<Longrightarrow>
   exec (handleNextPacket h) sv st = exec (dispatch ty h) sv st"
  by (simp add: handleNextPacket_def prog_simps exec_nextPacketTy_packet)

lemmas serves_handlers =
  serves_handleRetain serves_handleRelease serves_createQueue serves_createQueueWithProp
  serves_flushQueue serves_finishQueue serves_createContext serves_createContextFromType
  serves_enqueueKernel serves_createUserEvent serves_setUserEventStatus serves_waitForEvents
  serves_createBuffer serves_createSubBuffer serves_readBuffer serves_readBufferRect
  serves_writeBuffer serves_fillBuffer serves_compileProgram serves_linkProgram
  serves_buildProgram serves_createProgramFromSource serves_createKernel serves_cloneKernel

lemma dispatch_serves:
  "request_ok h q \<Longrightarrow> zlib_opt_ok (h_zlib h) \<Longrightarrow>
   \<exists>p. dispatch (request_type q) h = pthen_continue p \<and> serves h q p"
  by (cases q) (auto simp: request_type_def simp del: request_ok.simps intro!: serves_handlers)

lemma exec_handleNextPacket_serves:
  assumes "request_ok h q" and "zlib_opt_ok (h_zlib h)"
    and "s_in st = enc_request (h_zlib h) q @ rest" and "serve h q sv = Some (rs, sv')"
  shows "exec (handleNextPacket h) sv st =
    (Ok True, sv', st\<lparr>s_in := rest, s_pending := s_pending st @ enc_replies (h_zlib h) rs\<rparr>)"
proof -
  from enc_request_type obtain bs where b: "enc_request (h_zlib h) q = enc_packet (request_type q) bs"
    by blast
  from dispatch_serves [OF assms(1,2)] obtain p
    where p: "dispatch (request_type q) h = pthen_continue p" "serves h q p" by blast
  from p(2) assms(3,4) have "exec p sv st =
      (Ok (), sv', st\<lparr>s_in := rest, s_pending := s_pending st @ enc_replies (h_zlib h) rs\<rparr>)"
    unfolding serves_def by blast
  with exec_handleNextPacket [of st "request_type q" bs rest h sv] assms(3) b p(1) show ?thesis
    by (simp add: pthen_continue_def prog_simps)
qed

text \<open>One turn of the loop also flushes the replies.\<close>

lemma exec_serverStep_serves:
  assumes "request_ok h q" and "zlib_opt_ok (h_zlib h)"
    and "s_in st = enc_request (h_zlib h) q @ rest" and "serve h q sv = Some (rs, sv')"
    and "s_pending st = []"
  shows "exec (serverStep h) sv st =
    (Ok True, sv', st\<lparr>s_in := rest, s_sent := s_sent st @ enc_replies (h_zlib h) rs\<rparr>)"
  using exec_handleNextPacket_serves [OF assms(1-4)] assms(5)
  by (simp add: serverStep_def prog_simps)

text \<open>Serving requests one after the other.\<close>

fun serve_all :: "'w host \<Rightarrow> request list \<Rightarrow> 'w server \<Rightarrow> (reply list \<times> 'w server) option" where
  "serve_all h [] sv = Some ([], sv)"
| "serve_all h (q # qs) sv =
     (case serve h q sv of
        None \<Rightarrow> None
      | Some (rs, sv1) \<Rightarrow>
          (case serve_all h qs sv1 of
             None \<Rightarrow> None
           | Some (rs', sv2) \<Rightarrow> Some (rs @ rs', sv2)))"

lemma serverRun_step_Ok:
  "exec (serverStep h) sv st = (Ok True, sv', st') \<Longrightarrow>
   serverRun st_ops h sv st = serverRun st_ops h sv' st'"
  by (subst serverRun.simps) simp

text \<open>The client closes its end, or sends a terminate packet, after its last request.\<close>

lemma exec_serverStep_end:
  assumes "s_in st = [] \<and> s_closed st \<or> s_in st = enc_packet PT_Terminate bs" and "s_pending st = []"
  shows "exec (serverStep h) sv st = (Ok False, sv\<lparr>mEventStream := None\<rparr>, st)"
proof -
  have "exec nextPacketTy sv st = (Ok (pt_code PT_Terminate), sv, st)"
    using assms(1) exec_nextPacketTy_eof [of st sv] exec_nextPacketTy_packet [of st PT_Terminate bs "[]" sv]
    by auto
  then have "exec (handleNextPacket h) sv st = (Ok False, sv\<lparr>mEventStream := None\<rparr>, st)"
    using pt_of_code [of PT_Terminate]
    by (simp add: handleNextPacket_def terminateConnection_def prog_simps del: pt_of_code)
  with assms(2) show ?thesis by (simp add: serverStep_def prog_simps)
qed

lemma serverRun_serves_all:
  "list_all (request_ok h) qs \<Longrightarrow> zlib_opt_ok (h_zlib h) \<Longrightarrow>
   s_in st = concat (map (enc_request (h_zlib h)) qs) @ fin \<Longrightarrow>
   fin = [] \<and> s_closed st \<or> fin = enc_packet PT_Terminate bs \<Longrightarrow>
   s_pending st = [] \<Longrightarrow> serve_all h qs sv = Some (rs, sv') \<Longrightarrow>
   serverRun st_ops h sv st = Some (Ok (), sv'\<lparr>mEventStream := None\<rparr>,
     st\<lparr>s_in := fin, s_sent := s_sent st @ enc_replies (h_zlib h) rs\<rparr>)"
proof (induction qs arbitrary: st sv rs)
  case Nil
  with exec_serverStep_end [of st bs h sv] show ?case
    by (subst serverRun.simps) (auto simp: enc_replies_def)
next
  case (Cons q qs)
  from Cons.prems(6) obtain rs1 sv1 rs2 where s: "serve h q sv = Some (rs1, sv1)"
    "serve_all h qs sv1 = Some (rs2, sv')" "rs = rs1 @ rs2"
    by (auto split: option.splits)
  let ?st1 = "st\<lparr>s_in := concat (map (enc_request (h_zlib h)) qs) @ fin,
                  s_sent := s_sent st @ enc_replies (h_zlib h) rs1\<rparr>"
  from Cons.prems have "exec (serverStep h) sv st = (Ok True, sv1, ?st1)"
    by (intro exec_serverStep_serves [OF _ _ _ s(1)]) simp_all
  from serverRun_step_Ok [OF this] Cons.IH [of ?st1 sv1 rs2] Cons.prems s show ?case
    by (simp add: enc_replies_def)
qed

end
