(* ===== verification/RCL_ServerLoop.thy ===== *)
theory RCL_ServerLoop
  imports RCL_Rpc
begin

text \<open>
  The whole run of an instance: what it keeps whatever happens, that it is the same over a socket
  as over the abstract stream, and when it ends.

  \<open>server_ends\<close> is the loop as a relation, \<open>server_turns\<close> the turns after which it goes on. The
  loop fails to end exactly when turns lead to a byte, at the start of a packet, that is no
  packet type (\<open>serverRun_None_iff_stuck\<close>); it is never left when, besides, a turn itself never ends
  (\<open>runs_forever_iff\<close>).
\<close>

section \<open>The loop as a relation\<close>

inductive server_ends ::
  "'c stream_ops \<Rightarrow> 'w host \<Rightarrow> 'w server \<Rightarrow> 'c \<Rightarrow> unit res \<times> 'w server \<times> 'c \<Rightarrow> bool"
  for ops :: "'c stream_ops" and h :: "'w host" where
  stop: "run ops (serverStep h) sv c = (Ok False, sv', c') \<Longrightarrow>
     server_ends ops h sv c (Ok (), sv', c')"
| throw: "run ops (serverStep h) sv c = (Throw e, sv', c') \<Longrightarrow>
     server_ends ops h sv c (Throw e, sv', c')"
| fail: "run ops (serverStep h) sv c = (Fail x, sv', c') \<Longrightarrow>
     server_ends ops h sv c (Fail x, sv', c')"
| turn: "run ops (serverStep h) sv c = (Ok True, sv', c') \<Longrightarrow> server_ends ops h sv' c' q \<Longrightarrow>
     server_ends ops h sv c q"

inductive server_turns ::
  "'c stream_ops \<Rightarrow> 'w host \<Rightarrow> 'w server \<Rightarrow> 'c \<Rightarrow> 'w server \<Rightarrow> 'c \<Rightarrow> bool"
  for ops :: "'c stream_ops" and h :: "'w host" where
  here: "server_turns ops h sv c sv c"
| more: "run ops (serverStep h) sv c = (Ok True, sv1, c1) \<Longrightarrow> server_turns ops h sv1 c1 sv' c' \<Longrightarrow>
     server_turns ops h sv c sv' c'"

inductive_cases server_endsE: "server_ends ops h sv c q"

inductive_simps server_turns_simps: "server_turns ops h sv c sv' c'"

lemma serverRun_Some_ends:
  fixes ops :: "'c stream_ops" and h :: "'w host"
  assumes "serverRun ops h sv c = Some q"
  shows "server_ends ops h sv c q"
proof (rule serverRun.raw_induct [where P = "\<lambda>ops h sv c q. server_ends ops h sv c q", OF _ assms])
  fix f :: "'c stream_ops \<Rightarrow> 'w host \<Rightarrow> 'w server \<Rightarrow> 'c \<Rightarrow> (unit res \<times> 'w server \<times> 'c) option"
  fix ops :: "'c stream_ops" and h :: "'w host" and sv c q
  assume IH: "\<And>ops h sv c q. f ops h sv c = Some q \<Longrightarrow> server_ends ops h sv c q"
    and q: "(case run ops (serverStep h) sv c of
        (Ok shouldContinue, sv', c') \<Rightarrow>
          (if shouldContinue then f ops h sv' c' else Some (Ok (), sv', c'))
      | (Throw e, sv', c') \<Rightarrow> Some (Throw e, sv', c')
      | (Fail x, sv', c') \<Rightarrow> Some (Fail x, sv', c')) = Some q"
  obtain r sv' c' where r: "run ops (serverStep h) sv c = (r, sv', c')"
    by (cases "run ops (serverStep h) sv c") auto
  show "server_ends ops h sv c q"
  proof (cases "r = Ok True")
    case True
    with q r have "f ops h sv' c' = Some q" by simp
    from IH [OF this] r True show ?thesis by (auto intro: server_ends.turn)
  next
    case False
    with q r show ?thesis by (cases r) (auto intro: server_ends.intros)
  qed
qed

lemma serverRun_iff_ends: "serverRun ops h sv c = Some q \<longleftrightarrow> server_ends ops h sv c q"
proof
  assume "server_ends ops h sv c q"
  then show "serverRun ops h sv c = Some q"
    by induction (simp_all add: serverRun.simps)
qed (rule serverRun_Some_ends)

lemma serverRun_turns:
  "server_turns ops h sv c sv' c' \<Longrightarrow> serverRun ops h sv c = serverRun ops h sv' c'"
  by (induction rule: server_turns.induct) (simp_all add: serverRun.simps [of _ _ "_ :: 'b server"])

section \<open>Any stream, any client: the table only grows\<close>

lemma serverStep_grows: "run ops (serverStep h) sv c = (r, sv', c') \<Longrightarrow> sv_grows sv sv'"
  by (rule preserves_run [OF preserves_serverStep sv_grows_refl sv_grows_trans])

lemma server_ends_grows: "server_ends ops h sv c q \<Longrightarrow> sv_grows sv (fst (snd q))"
proof (induction rule: server_ends.induct)
  case (turn sv c sv' c' q)
  with serverStep_grows [OF turn.hyps(1)] show ?case using transpD [OF sv_grows_trans] by blast
qed (auto dest: serverStep_grows)

lemma prefix_getObj:
  "prefix objs objs' \<Longrightarrow> has_id objs i \<Longrightarrow> getObj objs' i = getObj objs i"
  by (auto simp: prefix_def has_id_def getObj_def nth_append)

section \<open>The same over a socket\<close>

context stream_refinement
begin

lemma server_ends_refines:
  "server_ends st_ops h sv st q \<Longrightarrow> R c st \<Longrightarrow> fst q \<noteq> Fail Blocked \<Longrightarrow>
   \<exists>c'. server_ends ops h sv c (fst q, fst (snd q), c')
      \<and> (fst q = Fail Nontermination \<or> R c' (snd (snd q)))"
proof (induction arbitrary: c rule: server_ends.induct)
  case (stop sv st sv' st')
  from run_refines [OF stop.prems(1) stop.hyps] show ?case by (auto intro: server_ends.stop)
next
  case (throw sv st e sv' st')
  from run_refines [OF throw.prems(1) throw.hyps] show ?case by (auto intro: server_ends.throw)
next
  case (fail sv st x sv' st')
  from run_refines [OF fail.prems(1) fail.hyps] fail.prems(2) show ?case
    by (auto intro: server_ends.fail)
next
  case (turn sv st sv1 st1 q)
  from run_refines [OF turn.prems(1) turn.hyps(1)] obtain c1
    where c1: "run ops (serverStep h) sv c = (Ok True, sv1, c1)" "R c1 st1" by auto
  from turn.IH [OF c1(2) turn.prems(2)] c1(1) show ?case by (blast intro: server_ends.turn)
qed

lemma serverRun_refines:
  assumes "serverRun st_ops h sv st = Some (r, sv', st')" and "R c st" and "r \<noteq> Fail Blocked"
  shows "\<exists>c'. serverRun ops h sv c = Some (r, sv', c') \<and> (r = Fail Nontermination \<or> R c' st')"
  using server_ends_refines [of h sv st "(r, sv', st')" c] assms by (simp add: serverRun_iff_ends)

end

text \<open>A whole connection: the version packet first, then the loop.\<close>

lemma exec_ServerInstance:
  "s_pending st = [] \<Longrightarrow>
   exec (ServerInstance h) sv st
     = (Ok (), sv, st\<lparr>s_sent := s_sent st @ enc_reply (h_zlib h) (R_Version (VersionPacket (h_cfg h)))\<rparr>)"
  by (simp add: ServerInstance_def prog_simps)

lemma serverConnection_abstract:
  "s_pending st = [] \<Longrightarrow>
   serverConnection st_ops h w st = serverRun st_ops h (server_init w)
     (st\<lparr>s_sent := s_sent st @ enc_reply (h_zlib h) (R_Version (VersionPacket (h_cfg h)))\<rparr>)"
  by (simp add: serverConnection_def exec_ServerInstance)

context stream_refinement
begin

lemma serverConnection_refines:
  assumes "serverConnection st_ops h w st = Some (r, sv', st')" and "R c st" and "s_pending st = []"
    and "r \<noteq> Fail Blocked"
  shows "\<exists>c'. serverConnection ops h w c = Some (r, sv', c') \<and> (r = Fail Nontermination \<or> R c' st')"
proof -
  let ?st1 = "st\<lparr>s_sent := s_sent st @ enc_reply (h_zlib h) (R_Version (VersionPacket (h_cfg h)))\<rparr>"
  from run_refines [OF assms(2) exec_ServerInstance [OF assms(3)]] obtain c1
    where c1: "run ops (ServerInstance h) (server_init w) c = (Ok (), server_init w, c1)" "R c1 ?st1"
    by auto
  from assms(1,3) have "serverRun st_ops h (server_init w) ?st1 = Some (r, sv', st')"
    by (simp add: serverConnection_abstract)
  from serverRun_refines [OF this c1(2) assms(4)] c1(1) show ?thesis
    by (simp add: serverConnection_def)
qed

end

section \<open>When the loop ends\<close>

text \<open>A program never puts bytes back, and one that starts with a read consumes some.\<close>

definition st_after :: "stream \<Rightarrow> stream \<Rightarrow> bool" where
  "st_after st' st \<longleftrightarrow> suffix (s_in st') (s_in st) \<and> s_closed st' = s_closed st"

lemma st_after_trans: "st_after st2 st1 \<Longrightarrow> st_after st1 st \<Longrightarrow> st_after st2 st"
  unfolding st_after_def using suffix_order.trans by blast

lemma st_after_ops:
  "st_read n st = (q, st') \<Longrightarrow> st_after st' st"
  "st_peek st = (b, st') \<Longrightarrow> st_after st' st"
  by (auto simp: st_after_def st_read_def st_peek_def Let_def suffix_drop
      split: if_splits list.splits)

lemma exec_st_after: "exec p s st = (r, s', st') \<Longrightarrow> st_after st' st"
proof (induction p arbitrary: s st)
  case (PRead n k)
  obtain q st1 where q: "st_read n st = (q, st1)" by (cases "st_read n st")
  note st1 = st_after_ops(1) [OF q]
  show ?case
  proof (cases q)
    case (Ok bs)
    with PRead.prems q have "exec (k (Inr bs)) s st1 = (r, s', st')" by (simp add: st_ops_def)
    from st_after_trans [OF PRead.IH [OF rangeI this] st1] show ?thesis .
  next
    case (Throw e)
    with PRead.prems q have "exec (k (Inl e)) s st1 = (r, s', st')" by (simp add: st_ops_def)
    from st_after_trans [OF PRead.IH [OF rangeI this] st1] show ?thesis .
  qed (use PRead.prems q st1 in \<open>auto simp: st_ops_def\<close>)
next
  case (PPeek k)
  obtain q st1 where q: "st_peek st = (q, st1)" by (cases "st_peek st")
  note st1 = st_after_ops(2) [OF q]
  show ?case
  proof (cases q)
    case (Ok b)
    with PPeek.prems q have "exec (k b) s st1 = (r, s', st')" by (simp add: st_ops_def)
    from st_after_trans [OF PPeek.IH [OF rangeI this] st1] show ?thesis .
  qed (use PPeek.prems q st1 in \<open>auto simp: st_ops_def\<close>)
next
  case (PWrite bs k)
  from PWrite.prems have "exec (k None) s (st_put bs st) = (r, s', st')"
    by (simp add: st_ops_def st_write_def)
  from PWrite.IH [OF rangeI this] show ?case by (simp add: st_after_def)
next
  case (PFlush k)
  from PFlush.prems have
    "exec (k None) s (st\<lparr>s_sent := s_sent st @ s_pending st, s_pending := []\<rparr>) = (r, s', st')"
    by (simp add: st_ops_def st_flush_def)
  from PFlush.IH [OF rangeI this] show ?case by (simp add: st_after_def)
next
  case (PGet k)
  then show ?case by (metis rangeI run.simps(4))
qed (auto simp: st_after_def)

definition reads_first :: "('s, 'a) prog \<Rightarrow> bool" where
  "reads_first p \<longleftrightarrow> (\<exists>k. p = PRead 1 k)"

named_theorems reads_first_intros

lemma reads_first_pbind [reads_first_intros]: "reads_first p \<Longrightarrow> reads_first (pbind p f)"
  by (auto simp: reads_first_def)

lemma reads_first_pcatch [reads_first_intros]: "reads_first p \<Longrightarrow> reads_first (pcatch p h)"
  by (auto simp: reads_first_def)

lemma reads_first_readPacket [reads_first_intros]: "reads_first (readPacket ty p)"
  by (simp add: readPacket_def get_PacketType_def get_u8_def reads_first_def)

lemma reads_first_consumes:
  assumes "reads_first p" and "exec p s st = (r, s', st')" and "s_in st \<noteq> []"
  shows "length (s_in st') < length (s_in st)"
proof -
  from assms(1) obtain k where p: "p = PRead 1 k" by (auto simp: reads_first_def)
  from assms(3) obtain b bs where i: "s_in st = b # bs" by (cases "s_in st") auto
  then have "st_read 1 st = (Ok [b], st\<lparr>s_in := bs\<rparr>)" by (simp add: st_read_def)
  with assms(2) p have "exec (k (Inr [b])) s (st\<lparr>s_in := bs\<rparr>) = (r, s', st')"
    by (simp add: st_ops_def del: One_nat_def)
  from exec_st_after [OF this] i show ?thesis by (auto simp: st_after_def dest: suffix_length_le)
qed

lemma reads_first_dispatch:
  assumes "210 \<le> h_target h" and "exec (dispatch ty h) sv st = (r, sv', st')"
    and "r = Ok True \<or> r = Throw BadAlloc" 
  shows "reads_first (dispatch ty h)"
proof (cases "reads_first (dispatch ty h)")
  case False
  then have "r = Ok False \<or> (\<exists>x. r = Fail x)"
    using assms(1,2)
    by (cases ty)
      (auto simp: pthen_continue_def terminateConnection_def prog_simps reads_first_intros
        handler_defs createEventStream_def)
  with assms(3) show ?thesis by auto
qed simp

text \<open>A turn after which the loop goes on, at a byte that is a packet type, consumes input.\<close>

lemma serverStep_consumes:
  assumes "210 \<le> h_target h" and "s_in st = pt_code ty # bs"
    and step: "exec (serverStep h) sv st = (Ok True, sv', st')"
  shows "length (s_in st') < length (s_in st)"
proof -
  have next_ty: "exec (handleNextPacket h) sv st = exec (dispatch ty h) sv st"
    using exec_handleNextPacket [of st ty bs "[]" h sv] assms(2) by (simp add: enc_packet_Cons)
  obtain r sv1 st1 where d: "exec (dispatch ty h) sv st = (r, sv1, st1)"
    by (cases "exec (dispatch ty h) sv st") auto
  with step next_ty have r: "r = Ok True \<or> r = Throw BadAlloc" and "s_in st' = s_in st1"
    by (cases r; auto simp: serverStep_def prog_simps split: if_splits)+
  moreover from reads_first_dispatch [OF assms(1) d r] reads_first_consumes [OF _ d] assms(2)
  have "length (s_in st1) < length (s_in st)" by simp
  ultimately show ?thesis by simp
qed

text \<open>The packet type at the head of the stream, when the loop is stuck on it.\<close>

definition stuck :: "stream \<Rightarrow> bool" where
  "stuck st \<longleftrightarrow> (\<exists>b bs. s_in st = b # bs \<and> pt_of_byte b = None)"

lemma exec_serverStep_stuck:
  assumes "stuck st"
  shows "exec (serverStep h) sv st
    = (Ok True, sv, st\<lparr>s_sent := s_sent st @ s_pending st, s_pending := []\<rparr>)"
proof -
  from assms obtain b bs where "s_in st = b # bs" "pt_of_byte b = None" by (auto simp: stuck_def)
  then show ?thesis
    by (simp add: serverStep_def handleNextPacket_def prog_simps exec_nextPacketTy)
qed

lemma server_ends_not_stuck: "server_ends st_ops h sv st q \<Longrightarrow> \<not> stuck st"
proof (induction rule: server_ends.induct)
  case (turn sv st sv' st' q)
  show ?case
  proof
    assume "stuck st"
    with turn.hyps(1) exec_serverStep_stuck [of st h sv] have "stuck st'" by (auto simp: stuck_def)
    with turn.IH show False ..
  qed
qed (auto simp: exec_serverStep_stuck)

lemma serverRun_stuck: "stuck st \<Longrightarrow> serverRun st_ops h sv st = None"
  using server_ends_not_stuck [of h sv st] serverRun_Some_ends [of st_ops h sv st]
  by (cases "serverRun st_ops h sv st") auto

lemma serverRun_ends_or_stuck:
  assumes "210 \<le> h_target h" and "s_closed st"
  shows "(\<exists>q. server_ends st_ops h sv st q)
     \<or> (\<exists>sv1 st1. server_turns st_ops h sv st sv1 st1 \<and> stuck st1)"
  using assms(2)
proof (induction "length (s_in st)" arbitrary: sv st rule: less_induct)
  case less
  obtain r sv1 st1 where step: "exec (serverStep h) sv st = (r, sv1, st1)"
    by (cases "exec (serverStep h) sv st") auto
  show ?case
  proof (cases "r = Ok True \<and> \<not> stuck st")
    case True
    have "s_in st \<noteq> []"
    proof
      assume "s_in st = []"
      with less.prems step True show False
        using exec_nextPacketTy_eof [of st sv] pt_of_code [of PT_Terminate]
        by (simp add: serverStep_def handleNextPacket_def terminateConnection_def prog_simps
            del: pt_of_code)
    qed
    with True obtain b bs ty where "s_in st = b # bs" "pt_of_byte b = Some ty"
      by (cases "s_in st"; cases "pt_of_byte (hd (s_in st))") (auto simp: stuck_def)
    then have "length (s_in st1) < length (s_in st)"
      using serverStep_consumes [OF assms(1), of st ty bs sv sv1 st1] step True
      by (simp add: pt_of_byte_Some)
    from less.hyps [OF this, of sv1] less.prems exec_st_after [OF step]
    have "(\<exists>q. server_ends st_ops h sv1 st1 q)
       \<or> (\<exists>sv2 st2. server_turns st_ops h sv1 st1 sv2 st2 \<and> stuck st2)"
      by (simp add: st_after_def)
    with step True show ?thesis by (blast intro: server_ends.turn server_turns.more)
  next
    case False
    show ?thesis
    proof (cases "stuck st")
      case True
      then show ?thesis by (blast intro: server_turns.here)
    next
      case False
      with \<open>\<not> (r = Ok True \<and> \<not> stuck st)\<close> have "r \<noteq> Ok True" by simp
      with step have "\<exists>q. server_ends st_ops h sv st q"
        by (cases r) (fastforce intro: server_ends.stop server_ends.throw server_ends.fail)+
      then show ?thesis by blast
    qed
  qed
qed

lemma serverRun_None_iff_stuck:
  assumes "210 \<le> h_target h" and "s_closed st"
  shows "serverRun st_ops h sv st = None
     \<longleftrightarrow> (\<exists>sv1 st1. server_turns st_ops h sv st sv1 st1 \<and> stuck st1)"
proof
  assume "serverRun st_ops h sv st = None"
  then have "\<not> server_ends st_ops h sv st q" for q
    using serverRun_iff_ends [of st_ops h sv st q] by simp
  with serverRun_ends_or_stuck [OF assms]
  show "\<exists>sv1 st1. server_turns st_ops h sv st sv1 st1 \<and> stuck st1" by blast
next
  assume "\<exists>sv1 st1. server_turns st_ops h sv st sv1 st1 \<and> stuck st1"
  then obtain sv1 st1 where "server_turns st_ops h sv st sv1 st1" "stuck st1" by blast
  with serverRun_turns [of st_ops h sv st sv1 st1] serverRun_stuck [of st1 h sv1]
  show "serverRun st_ops h sv st = None" by simp
qed

text \<open>
  A turn may also never end itself: \<open>Nontermination\<close> is its outcome when a read spins on the closed stream or
  \<open>getIDFor\<close> on a full table. Either way the server never leaves the loop.
\<close>

definition runs_forever :: "'c stream_ops \<Rightarrow> 'w host \<Rightarrow> 'w server \<Rightarrow> 'c \<Rightarrow> bool" where
  "runs_forever ops h sv c \<longleftrightarrow> (case serverRun ops h sv c of
     None \<Rightarrow> True | Some (r, sv', c') \<Rightarrow> r = Fail Nontermination)"

definition turn_spins :: "'c stream_ops \<Rightarrow> 'w host \<Rightarrow> 'w server \<Rightarrow> 'c \<Rightarrow> bool" where
  "turn_spins ops h sv c \<longleftrightarrow> fst (run ops (serverStep h) sv c) = Fail Nontermination"

lemma server_ends_spins:
  "server_ends ops h sv c q \<Longrightarrow> fst q = Fail Nontermination \<Longrightarrow>
   \<exists>sv1 c1. server_turns ops h sv c sv1 c1 \<and> turn_spins ops h sv1 c1"
proof (induction rule: server_ends.induct)
  case (fail sv c x sv' c')
  then have "turn_spins ops h sv c" by (simp add: turn_spins_def)
  then show ?case by (blast intro: server_turns.here)
next
  case (turn sv c sv' c' q)
  then show ?case by (blast intro: server_turns.more)
qed simp_all

lemma runs_forever_iff:
  assumes "210 \<le> h_target h" and "s_closed st"
  shows "runs_forever st_ops h sv st
     \<longleftrightarrow> (\<exists>sv1 st1. server_turns st_ops h sv st sv1 st1 \<and> (stuck st1 \<or> turn_spins st_ops h sv1 st1))"
proof (cases "serverRun st_ops h sv st")
  case None
  then have "runs_forever st_ops h sv st" by (simp add: runs_forever_def)
  moreover obtain sv1 st1 where "server_turns st_ops h sv st sv1 st1" "stuck st1"
    using serverRun_None_iff_stuck [OF assms, of sv] None by blast
  ultimately show ?thesis by blast
next
  case (Some q)
  have "fst q = Fail Nontermination" if t: "server_turns st_ops h sv st sv1 st1" "stuck st1 \<or> turn_spins st_ops h sv1 st1"
    for sv1 st1
  proof -
    have run: "serverRun st_ops h sv1 st1 = Some q" using serverRun_turns [OF t(1)] Some by simp
    then have "\<not> stuck st1" using serverRun_stuck [of st1 h sv1] by auto
    with t(2) obtain sv2 st2 where "run st_ops (serverStep h) sv1 st1 = (Fail Nontermination, sv2, st2)"
      unfolding turn_spins_def by (metis fst_conv surj_pair)
    with run show ?thesis by (subst (asm) serverRun.simps) auto
  qed
  with server_ends_spins [of st_ops h sv st q] Some serverRun_iff_ends [of st_ops h sv st q] show ?thesis
    unfolding runs_forever_def by (auto split: prod.splits) blast+
qed

end
