(* ===== verification/RCL_Example.thy ===== *)
theory RCL_Example
  imports RCL_ServerLoop
begin

text \<open>
  Concrete hosts on which the theorems are applied: an OpenCL implementation whose calls all
  succeed and return a fresh handle, and one whose calls all fail.
\<close>

definition fresh_cl :: "nat opencl" where
  "fresh_cl c w = (cl_object (word_of_nat (4096 + w)), w + 1)"

definition failing_cl :: "nat opencl" where
  "failing_cl c w = (cl_status (- 5), w)"

definition example_host :: "nat opencl \<Rightarrow> nat host" where
  "example_host cl =
     \<lparr>h_cl = cl, h_zlib = None,
      h_cfg = \<lparr>cfg_maj = 48, cfg_min = 49, cfg_zlib = False, cfg_async = True\<rparr>,
      h_target = 220, h_cl_2_0 = True, h_new = (\<lambda>n. n < 2 ^ 30),
      h_rand = (\<lambda>w. (7, w)), h_bind = (\<lambda>p w. (True, w)), h_accept = (\<lambda>p w. (None, w))\<rparr>"

lemma example_host_simps [simp]:
  "h_cl (example_host cl) = cl" "h_zlib (example_host cl) = None" "h_target (example_host cl) = 220"
  "h_new (example_host cl) = (\<lambda>n. n < 2 ^ 30)" "h_cl_2_0 (example_host cl)"
  by (simp_all add: example_host_def)

text \<open>
  An implementation with two devices, whose queries all answer with the 3000 bytes 1, 1, 1, and so on as
  far as the buffer has room; creating anything fails.
\<close>

definition query_cl :: "nat opencl" where
  "query_cl c w = (case c of
       clGetDeviceIDs p t n \<Rightarrow>
         ((cl_status 0)\<lparr>r_size := Some 2, r_objs := take n [77, 88]\<rparr>, w + 1)
     | clGetInfo k p param n \<Rightarrow>
         ((cl_status 0)\<lparr>r_size := Some 3000, r_bytes := replicate (min n 3000) 1\<rparr>, w + 1)
     | clGetProgramBuildInfo p d param n \<Rightarrow>
         ((cl_status 0)\<lparr>r_size := Some 3000, r_bytes := replicate (min n 3000) 1\<rparr>, w + 1)
     | clGetKernelArgInfo k i param n \<Rightarrow>
         ((cl_status 0)\<lparr>r_size := Some 4, r_bytes := le_encode 4 0x119B\<rparr>, w + 1)
     | clSetKernelArg k i n d \<Rightarrow> (cl_status 0, w + 1)
     | clSetEventCallback e t d \<Rightarrow> (cl_status 0, w + 1)
     | clCompileProgram p ds opts hs ns d \<Rightarrow> (cl_status 0, w + 1)
     | _ \<Rightarrow> (cl_status (- 30), w))"

text \<open>Fresh handles as above, and images of 4 bytes per element.\<close>

definition image_cl :: "nat opencl" where
  "image_cl c w = (case c of
       clGetInfo k p param n \<Rightarrow> ((cl_status 0)\<lparr>r_size := Some 8, r_bytes := le_encode 8 4\<rparr>, w + 1)
     | _ \<Rightarrow> fresh_cl c w)"

definition example_image :: CreateImage where
  "example_image = \<lparr>ci_mFlags = 0x21, ci_mChannelOrder = 1, ci_mChannelType = 2, ci_mImageType = 3,
     ci_mWidth = 2, ci_mHeight = 1, ci_mDepth = 0, ci_mArraySize = 0, ci_mRowPitch = 0,
     ci_mSlicePitch = 0, ci_mMipLevels = 0, ci_mSamples = 0, ci_mContextID = 0\<rparr>"

definition example_image_read :: ImageRW where
  "example_image_read = \<lparr>irw_mImageID = 0, irw_mQueueID = 1, irw_mRowPitch = 0, irw_mSlicePitch = 0,
     irw_mOrigin = (0, 0, 0), irw_mRegion = (1, 1, 1), irw_mWantEvent = False,
     irw_mExpectEventList = True, irw_mBlock = True\<rparr>"

definition example_compile :: CompileProgram where
  "example_compile = \<lparr>cp_mProgramID = 0, cp_mOptions = [], cp_mDeviceIDs = [], cp_mHeaderIDs = [],
     cp_mHeaderNames = [], cp_mHasCallback = True, cp_mCallbackID = 5\<rparr>"

definition example_buffer_read :: BufferRW where
  "example_buffer_read = \<lparr>brw_mBufferID = 0, brw_mQueueID = 1, brw_mSize = 0x40000000, brw_mOffset = 0,
     brw_mWantEvent = False, brw_mExpectEventList = False, brw_mBlock = True\<rparr>"

text \<open>The bytes \<open>bs\<close> arriving in three segments, and then the end of the stream.\<close>

definition segments3 :: "byte list \<Rightarrow> seg_net" where
  "segments3 bs = ([take 1 bs, take 5 (drop 1 bs), drop 5 (drop 1 bs)], [])"

lemma segments3_content [simp]: "concat (fst (segments3 bs)) = bs" "snd (segments3 bs) = []"
  by (simp_all add: segments3_def del: drop_drop)

text \<open>A closed abstract stream that holds \<open>bs\<close>.\<close>

definition closed_stream :: "byte list \<Rightarrow> stream" where
  "closed_stream bs = \<lparr>s_in = bs, s_closed = True, s_pending = [], s_sent = []\<rparr>"

lemma closed_stream_simps [simp]:
  "s_in (closed_stream bs) = bs" "s_closed (closed_stream bs)" "s_pending (closed_stream bs) = []"
  "s_sent (closed_stream bs) = []"
  by (simp_all add: closed_stream_def)

text \<open>A toy ZLib that compresses runs of zeros to one byte.\<close>

definition zeros_zlib :: zlib where
  "zeros_zlib = \<lparr>z_compress = (\<lambda>d. if d = replicate (length d) 0 then Some [0] else None),
     z_uncompress = (\<lambda>c n. replicate n 0)\<rparr>"

definition example_kernel :: EnqueueKernel where
  "example_kernel = \<lparr>ek_mGlobalSize = (64, 1, 1), ek_mGlobalOffset = (0, 0, 0), ek_mLocalSize = (8, 1, 1),
     ek_mKernelID = 5, ek_mQueueID = 2, ek_mWorkDim = 1, ek_mWantEvent = True,
     ek_mExpectEventList = False\<rparr>"

lemma example_serve_all:
  "serve_all (example_host fresh_cl) [Q_CreateUserEvent 9, Q_Flush 0] (server_init 0)
     = Some ([R_ID 0, R_Success], \<lparr>mEventStream = None, mObjects = [4096], sv_blocks = [], sv_world = 2\<rparr>)"
  by (simp add: serve_def server_init_def fresh_cl_def getIDFor_absent)

end
