(* ===== verification/RCL_CText.thy ===== *)
theory RCL_CText
  imports RCL_Prelude "HOL-Library.Char_ord"
begin

text \<open>
  The functions of the C library for text that the two programs parse their settings with. A C string
  is the bytes before its terminating zero.
\<close>

definition c_bytes :: "string \<Rightarrow> byte list" where
  "c_bytes str = map (\<lambda>c. word_of_nat (of_char c)) str"

text \<open>\<open>strstr\<close> gives what follows the first occurrence of a word.\<close>

fun strstr :: "byte list \<Rightarrow> byte list \<Rightarrow> byte list option" where
  "strstr word [] = (if word = [] then Some [] else None)"
| "strstr word (c # cs) =
     (if take (length word) (c # cs) = word then Some (drop (length word) (c # cs)) else strstr word cs)"

text \<open>
  \<open>strtoul\<close> in base 10 with a 64-bit \<open>unsigned long\<close>: white space, a sign, digits. The result is the
  number and what follows the digits (\<open>end\<close>); \<open>None\<close> when there are no digits. A number that is too
  large gives the largest one.
\<close>

definition digit :: "byte \<Rightarrow> bool" where
  "digit b \<longleftrightarrow> 48 \<le> b \<and> b \<le> 57"

definition decimal :: "byte list \<Rightarrow> nat" where
  "decimal ds = foldl (\<lambda>n d. 10 * n + (unat d - 48)) 0 ds"

definition strtoul :: "byte list \<Rightarrow> (u64 \<times> byte list) option" where
  "strtoul str =
     (let s = dropWhile (\<lambda>b. b = 32 \<or> 9 \<le> b \<and> b \<le> 13) str;
          negative = (take 1 s = [45]);
          s' = (if negative \<or> take 1 s = [43] then drop 1 s else s);
          digits = takeWhile digit s';
          n = decimal digits
      in if digits = [] then None
         else Some (if 2 ^ 64 \<le> n then not 0 else if negative then - word_of_nat n else word_of_nat n,
                    dropWhile digit s'))"

section \<open>Numbers and their digits\<close>

text \<open>How a number is written in base 10.\<close>

fun digits :: "nat \<Rightarrow> byte list" where
  "digits n = (if n < 10 then [word_of_nat (48 + n)] else digits (n div 10) @ [word_of_nat (48 + n mod 10)])"

declare digits.simps [simp del]

lemma unat_digit: "n < 10 \<Longrightarrow> unat (word_of_nat (48 + n) :: byte) = 48 + n"
  unfolding unat_of_nat by simp

lemma decimal_snoc [simp]: "decimal (ds @ [d]) = 10 * decimal ds + (unat d - 48)"
  by (simp add: decimal_def)

lemma decimal_digits [simp]: "decimal (digits n) = n"
proof (induction n rule: digits.induct)
  case (1 n)
  show ?case
  proof (cases "n < 10")
    case True
    then show ?thesis using unat_digit [of n] by (subst digits.simps) (simp add: decimal_def)
  next
    case False
    with 1 show ?thesis using unat_digit [of "n mod 10"] by (subst digits.simps) simp
  qed
qed

lemma digit_digits: "d \<in> set (digits n) \<Longrightarrow> digit d"
proof (induction n rule: digits.induct)
  case (1 n)
  have d: "digit (word_of_nat (48 + k))" if "k < 10" for k
    using unat_digit [OF that] that by (simp add: digit_def word_le_nat_alt)
  show ?case
  proof (cases "n < 10")
    case True
    with 1(2) d [of n] show ?thesis by (subst (asm) digits.simps) simp
  next
    case False
    with 1 d [of "n mod 10"] show ?thesis by (subst (asm) digits.simps) auto
  qed
qed

lemma digits_nonempty [simp]: "digits n \<noteq> []"
  by (subst digits.simps) simp

lemma digit_no_space: "digit d \<Longrightarrow> d \<noteq> 32 \<and> \<not> (9 \<le> d \<and> d \<le> 13) \<and> d \<noteq> 45 \<and> d \<noteq> 43"
  by (auto simp: digit_def word_le_nat_alt)

text \<open>Reading a number back, with anything after it that is not a digit.\<close>

lemma strtoul_digits:
  assumes "n < 2 ^ 64" and "rest = [] \<or> \<not> digit (hd rest)"
  shows "strtoul (digits n @ rest) = Some (word_of_nat n, rest)"
proof -
  obtain d ds where ds: "digits n = d # ds" by (cases "digits n") auto
  then have d: "digit d" using digit_digits [of d n] by simp
  have "takeWhile digit (digits n @ rest) = digits n @ takeWhile digit rest"
    "dropWhile digit (digits n @ rest) = dropWhile digit rest"
    using digit_digits by (auto intro: takeWhile_append2 dropWhile_append2)
  moreover have "takeWhile digit rest = []" "dropWhile digit rest = rest"
    using assms(2) by (cases rest; simp)+
  moreover have "dropWhile (\<lambda>b. b = 32 \<or> 9 \<le> b \<and> b \<le> 13) (digits n @ rest) = digits n @ rest"
    "take 1 (digits n @ rest) = [d]"
    using ds digit_no_space [OF d] by auto
  ultimately show ?thesis
    using assms(1) digit_no_space [OF d] unfolding strtoul_def Let_def by simp
qed

text \<open>A word is found where its first character comes up for the first time.\<close>

lemma strstr_first: "c \<notin> set xs \<Longrightarrow> strstr (c # w) (xs @ c # w @ ys) = Some ys"
  by (induction xs) auto

text \<open>A word with a last character that does not come up before is found at that character, or not at all.\<close>

lemma strstr_here: "w \<noteq> [] \<Longrightarrow> strstr w (w @ ys) = Some ys"
  by (cases w) simp_all

lemma strstr_last: "c \<notin> set xs \<Longrightarrow> c \<notin> set w \<Longrightarrow> strstr (w @ [c]) (xs @ w @ c # ys) = Some ys"
proof (induction xs)
  case Nil
  then show ?case using strstr_here [of "w @ [c]" ys] by simp
next
  case (Cons x xs)
  have "take (Suc (length w)) (x # xs @ w @ c # ys) = take (Suc (length w)) (x # xs @ w)" by simp
  then have "c \<notin> set (take (Suc (length w)) (x # xs @ w @ c # ys))" using Cons.prems by (auto dest: in_set_takeD)
  moreover have "c \<in> set (w @ [c])" by simp
  ultimately have "take (length (w @ [c])) (x # xs @ w @ c # ys) \<noteq> w @ [c]" by (metis length_append_singleton)
  with Cons show ?case by simp
qed

lemma strstr_none: "c \<notin> set xs \<Longrightarrow> strstr (w @ [c]) xs = None"
proof (induction xs)
  case (Cons x xs)
  then have "take (length (w @ [c])) (x # xs) \<noteq> w @ [c]"
    by (metis in_set_takeD last_in_set snoc_eq_iff_butlast)
  with Cons show ?case by simp
qed simp

end
