(* ===== verification/RCL_Client.thy ===== *)
theory RCL_Client
  imports RCL_PacketStream RCL_OpenCL RCL_CText
begin

text \<open>
  The client's side of a connection: \<open>client/connection.h\<close>, \<open>client/connection.cpp\<close>,
  \<open>client/objects.h\<close> and \<open>client/apiutil.h\<close>.

  An OpenCL handle of the application is the address of a client object, which holds the 16-bit
  ID under which the server knows it. \<open>cl_heap\<close> is the memory the live objects occupy: an address
  that is not in it belongs to no object (it was never allocated, or the object was destroyed), and
  reading an ID through it is undefined behaviour. The vector \<open>mObjects\<close> owns the objects; an
  empty \<open>unique_ptr\<close> is the address 0. All object classes look alike, so the \<open>static_cast\<close>s of
  the source do nothing here. Allocations succeed.

  A function of the API is a program over the connection's stream and this state. The callbacks of
  the application are not part of the program: \<open>cl_calls\<close> records how they were called.
\<close>

type_synonym handle = nat

text \<open>
  The two classes of callbacks, \<open>EventCallback\<close> of \<open>event.cpp\<close> and \<open>ProgramCallback\<close> of
  \<open>program.cpp\<close>: the object, the function of the application (a number) and its user data. An
  \<open>app_call\<close> is one call of such a function.
\<close>

datatype Callback =
    CB_Event (cb_mObject: handle) (cb_mCallback: nat) (cb_mUserData: ptr)
  | CB_Program (cb_mObject: handle) (cb_mCallback: nat) (cb_mUserData: ptr)

datatype app_call =
    EventNotify nat handle u32 ptr
  | ProgramNotify nat handle ptr

text \<open>
  A mapping of a memory object: a block of memory the client allocates (\<open>mp_data\<close>), and what it
  maps. \<open>cl_bytes\<close> is the memory of these blocks, byte by byte; a fresh block holds anything.
\<close>

record Mapping =
  mp_data :: handle
  mp_size :: u64
  mp_offset :: u64
  mp_flags :: u64

record client =
  cl_mStream :: bool
  cl_mEventStream :: bool
  cl_mCallbacks :: "Callback option list"
  cl_mObjects :: "handle list"
  cl_heap :: "handle \<rightharpoonup> IDType"
  cl_next :: handle
  cl_mMappings :: "handle \<Rightarrow> Mapping list"
  cl_bytes :: "handle \<Rightarrow> nat \<Rightarrow> byte"
  cl_calls :: "app_call list"

section \<open>Objects (objects.h, connection.h)\<close>

text \<open>\<open>GetID\<close>: through the dispatchable structure behind the handle to the object.\<close>

definition GetID :: "handle \<Rightarrow> (client, IDType) prog" where
  "GetID t = PGet (\<lambda>c. case cl_heap c t of None \<Rightarrow> PFail UndefinedBehaviour | Some i \<Rightarrow> PRet i)"

text \<open>\<open>gConnection.get()\<close>; the lock it takes is not modelled.\<close>

definition LockedConnection :: "(client, unit) prog" where
  "LockedConnection = PGet (\<lambda>c. if \<not> cl_mStream c then PThrow SocketError else PRet ())"

text \<open>\<open>getObject\<close> neither checks the index nor whether the slot is in use.\<close>

definition getObject :: "IDType \<Rightarrow> (client, handle) prog" where
  "getObject oid = PGet (\<lambda>c.
     if length (cl_mObjects c) \<le> unat oid then PFail UndefinedBehaviour
     else PRet (cl_mObjects c ! unat oid))"

text \<open>
  \<open>registerID\<close> always makes a new object. When the slot of the ID is in use the object in it is
  destroyed, and with it the handle the application may have. A handle is never used twice here; in memory the address of
  an object that was destroyed may be, and \<open>RCL_ClientObjects\<close> shows that the handles here stand for those.
\<close>

definition register_object :: "IDType \<Rightarrow> client \<Rightarrow> handle \<times> client" where
  "register_object oid c =
     (let p = cl_next c; n = unat oid;
          objs = (if length (cl_mObjects c) \<le> n
                  then cl_mObjects c @ replicate (n + 1 - length (cl_mObjects c)) 0
                  else cl_mObjects c)
      in (p, c\<lparr>cl_next := p + 1, cl_mObjects := objs[n := p],
               cl_heap := ((cl_heap c)(objs ! n := None))(p \<mapsto> oid)\<rparr>))"

definition registerID :: "IDType \<Rightarrow> (client, handle) prog" where
  "registerID oid = pstate (register_object oid)"

text \<open>An ID within the vector whose slot was never filled makes a reference to no object.\<close>

definition getOrInsertObject :: "IDType \<Rightarrow> (client, handle) prog" where
  "getOrInsertObject oid = PGet (\<lambda>c.
     if unat oid < length (cl_mObjects c) then
       (if cl_mObjects c ! unat oid = 0 then PFail UndefinedBehaviour
        else PRet (cl_mObjects c ! unat oid))
     else registerID oid)"

definition registerCallback :: "Callback \<Rightarrow> (client, u32) prog" where
  "registerCallback callback = pstate (\<lambda>c.
     (word_of_nat (length (cl_mCallbacks c)), c\<lparr>cl_mCallbacks := cl_mCallbacks c @ [Some callback]\<rparr>))"

text \<open>\<open>MemObject::getMapping\<close>, in both forms, and \<open>dropMapping\<close>.\<close>

definition newMapping :: "handle \<Rightarrow> u64 \<Rightarrow> u64 \<Rightarrow> u64 \<Rightarrow> (client, Mapping) prog" where
  "newMapping t sz offset flags = pstate (\<lambda>c.
     let m = \<lparr>mp_data = cl_next c, mp_size = sz, mp_offset = offset, mp_flags = flags\<rparr>
     in (m, c\<lparr>cl_next := cl_next c + 1,
              cl_mMappings := (cl_mMappings c)(t := cl_mMappings c t @ [m])\<rparr>))"

definition getMapping :: "handle \<Rightarrow> handle \<Rightarrow> (client, Mapping) prog" where
  "getMapping t p = PGet (\<lambda>c.
     case List.find (\<lambda>m. mp_data m = p) (cl_mMappings c t) of
       None \<Rightarrow> PThrow (ClStatusExn (- 30)) | Some m \<Rightarrow> PRet m)"

fun remove_mapping :: "handle \<Rightarrow> Mapping list \<Rightarrow> Mapping list option" where
  "remove_mapping p [] = None"
| "remove_mapping p (m # ms) =
     (if mp_data m = p then Some ms else map_option (Cons m) (remove_mapping p ms))"

definition dropMapping :: "handle \<Rightarrow> handle \<Rightarrow> (client, unit) prog" where
  "dropMapping t p = PGet (\<lambda>c.
     case remove_mapping p (cl_mMappings c t) of
       None \<Rightarrow> PThrow (ClStatusExn (- 30))
     | Some ms \<Rightarrow> PPut (c\<lparr>cl_mMappings := (cl_mMappings c)(t := ms)\<rparr>) (PRet ()))"

text \<open>Reading and writing the first bytes of a block.\<close>

definition block_bytes :: "client \<Rightarrow> handle \<Rightarrow> nat \<Rightarrow> byte list" where
  "block_bytes c p n = map (cl_bytes c p) [0..<n]"

definition store_block :: "handle \<Rightarrow> byte list \<Rightarrow> client \<Rightarrow> client" where
  "store_block p d c = c\<lparr>cl_bytes := (cl_bytes c)(p :=
     (\<lambda>k. if k < length d then d ! k else cl_bytes c p k))\<rparr>"

text \<open>
  The objects a client has: every slot in use owns a live object that has the slot's ID, and the
  allocator's next address is new.
\<close>

definition client_ok :: "client \<Rightarrow> bool" where
  "client_ok c \<longleftrightarrow> length (cl_mObjects c) \<le> 65536 \<and> 0 < cl_next c
     \<and> (\<forall>t i. cl_heap c t = Some i \<longleftrightarrow> t \<noteq> 0 \<and> unat i < length (cl_mObjects c)
           \<and> cl_mObjects c ! unat i = t)
     \<and> (\<forall>t \<in> set (cl_mObjects c). t < cl_next c)"

section \<open>Callbacks (connection.cpp, event.cpp)\<close>

text \<open>
  \<open>trigger\<close> of the two classes; it is \<open>noexcept\<close>. The one for events reads the status of the
  event first.
\<close>

definition notify :: "app_call \<Rightarrow> (client, unit) prog" where
  "notify call = pupd (\<lambda>c. c\<lparr>cl_calls := cl_calls c @ [call]\<rparr>)"

primrec trigger :: "Callback \<Rightarrow> (client, unit) prog" where
  "trigger (CB_Event event fn data) = pnoexcept
     (pbind (readPacket PT_EventCallbackTrigger (pdec get_u16)) (\<lambda>code.
      notify (EventNotify fn event (ucast code) data)))"
| "trigger (CB_Program program fn data) = pnoexcept (notify (ProgramNotify fn program data))"

definition HandleCallbacks :: "(client, bool) prog" where
  "HandleCallbacks =
     pbind nextPacketTy (\<lambda>ty.
     if ty = pt_code PT_Terminate then PRet False
     else if ty = pt_code PT_CallbackTrigger then
       pbind (readPacket PT_CallbackTrigger (pdec get_u32)) (\<lambda>index.
       PGet (\<lambda>c.
         if length (cl_mCallbacks c) \<le> unat index then PRet True
         else case cl_mCallbacks c ! unat index of
             None \<Rightarrow> PRet True
           | Some cb \<Rightarrow> pbind (trigger cb) (\<lambda>_. PRet True)))
     else PRet False)"

text \<open>The thread of the event stream. An exception resets the stream.\<close>

partial_function (option) CallbackThreadMain ::
  "'c stream_ops \<Rightarrow> client \<Rightarrow> 'c \<Rightarrow> (unit res \<times> client \<times> 'c) option" where
  "CallbackThreadMain ops c es =
     (case run ops HandleCallbacks c es of
        (Ok again, c', es') \<Rightarrow>
          (if again then CallbackThreadMain ops c' es' else Some (Ok (), c', es'))
      | (Throw e, c', es') \<Rightarrow> Some (Ok (), c'\<lparr>cl_mEventStream := False\<rparr>, es')
      | (Fail x, c', es') \<Rightarrow> Some (Fail x, c', es'))"

section \<open>Starting a connection (connection.cpp)\<close>

text \<open>
  \<open>ParseServerName\<close> on the characters before the terminating zero. \<open>None\<close> is a search that runs
  past the terminator: the \<open>do\<close> loop moves on before it looks. The name it returns starts at
  \<open>name\<close>, so that a quoted name keeps its opening quotation mark.
\<close>

definition ParseServerName :: "byte list \<Rightarrow> byte list option" where
  "ParseServerName name =
     (case name of
        [] \<Rightarrow> None
      | c # rest \<Rightarrow>
          if c = 34 then
            Some (if List.member rest 34 then c # takeWhile (\<lambda>b. b \<noteq> 34) rest else [])
          else Some (c # takeWhile (\<lambda>b. b \<noteq> 59) rest))"

text \<open>
  The server's name and port, from the environment variable \<open>REMOTECL\<close>; \<open>None\<close> when the name is
  read past its end.
\<close>

definition server_address ::
  "byte list \<Rightarrow> u16 \<Rightarrow> byte list option \<Rightarrow> (byte list \<times> u16) option" where
  "server_address defaultHost defaultPort envVar =
     (case envVar of
        None \<Rightarrow> Some (defaultHost, defaultPort)
      | Some env \<Rightarrow>
          let port = (case strstr (c_bytes ''port='') env of
                None \<Rightarrow> defaultPort
              | Some portStr \<Rightarrow>
                  (case strtoul portStr of
                     None \<Rightarrow> defaultPort
                   | Some (n, _) \<Rightarrow> let newPort = ucast n in if newPort \<noteq> 0 then newPort else defaultPort))
          in case strstr (c_bytes ''host='') env of
               None \<Rightarrow> Some (defaultHost, port)
             | Some hostStr \<Rightarrow> map_option (\<lambda>name. (name, port)) (ParseServerName hostStr))"

text \<open>
  The constructor of \<open>Connection\<close> from the attempt to connect on: \<open>connected\<close> is its outcome,
  \<open>connect\<close> that of connecting to an event port. Whatever goes wrong after the stream has been
  set leaves it set, but for versions that do not match.
\<close>

definition negotiate :: "build_config \<Rightarrow> (u16 \<Rightarrow> bool) \<Rightarrow> byte list \<Rightarrow> (client, unit) prog" where
  "negotiate cfg connect serverVersion =
     (if \<not> isCompatibleWith (VersionPacket cfg) serverVersion then
        pupd (\<lambda>c. c\<lparr>cl_mStream := False\<rparr>)
      else if cfg_async cfg \<and> eventEnabled serverVersion then
        pbind (writePacket PT_EventStreamOpen True (put_Signal ())) (\<lambda>_.
        pbind pflush (\<lambda>_.
        pbind (readPacket PT_Payload (pdec get_u16)) (\<lambda>eventPort.
        if eventPort \<noteq> 0 \<and> connect eventPort then
          pupd (\<lambda>c. c\<lparr>cl_mEventStream := True\<rparr>)
        else PRet ())))
      else PRet ())"

definition Connection :: "build_config \<Rightarrow> bool \<Rightarrow> (u16 \<Rightarrow> bool) \<Rightarrow> (client, unit) prog" where
  "Connection cfg connected connect =
     pcatch
       (if \<not> connected then PThrow SocketError
        else
          pbind (pupd (\<lambda>c. c\<lparr>cl_mStream := True\<rparr>)) (\<lambda>_.
          pbind (readPacket PT_Version (pdec get_Version)) (negotiate cfg connect)))
       (\<lambda>_. PRet ())"

text \<open>
  The destructor: the objects go, then the server is told. \<open>Terminate\<close> is a signal packet.
\<close>

definition Connection_dtor :: "(client, unit) prog" where
  "Connection_dtor =
     pbind (pupd (\<lambda>c. c\<lparr>cl_mObjects := [], cl_heap := Map.empty\<rparr>)) (\<lambda>_.
     PGet (\<lambda>c.
       if \<not> cl_mStream c then PRet ()
       else pcatch (pbind (writePacket PT_Terminate True (put_Signal ())) (\<lambda>_. pflush)) (\<lambda>_. PRet ())))"

definition client_init :: client where
  "client_init = \<lparr>cl_mStream = False, cl_mEventStream = False, cl_mCallbacks = [],
     cl_mObjects = [], cl_heap = Map.empty, cl_next = 1, cl_mMappings = (\<lambda>_. []),
     cl_bytes = (\<lambda>_ _. 0), cl_calls = []\<rparr>"

section \<open>What the functions of the API share (apiutil.h)\<close>

text \<open>
  The buffer an application passes to a query: its size and whether the pointer to it is not null.
  What a query leaves is the bytes stored in the buffer, if any, and the size it reports
  (dropped when the pointer for it is null).
\<close>

type_synonym buffer = "nat \<times> bool"
type_synonym query_out = "byte list option \<times> nat option"

text \<open>\<open>Store\<close> of an 8-byte value: it checks the size of the buffer but not the pointer.\<close>

definition Store64 :: "byte list \<Rightarrow> buffer \<Rightarrow> ('s, query_out) prog" where
  "Store64 data buf =
     (if 8 \<le> fst buf then
        (if snd buf then PRet (Some data, Some 8) else PFail UndefinedBehaviour)
      else PRet (None, Some 8))"

text \<open>The same for a 4-byte value.\<close>

definition Store32 :: "byte list \<Rightarrow> buffer \<Rightarrow> ('s, query_out) prog" where
  "Store32 data buf =
     (if 4 \<le> fst buf then
        (if snd buf then PRet (Some data, Some 4) else PFail UndefinedBehaviour)
      else PRet (None, Some 4))"

text \<open>\<open>std::memcpy(param_value, data, std::min(param_value_size, n))\<close>, if the pointer is not null.\<close>

definition copy_min :: "byte list \<Rightarrow> buffer \<Rightarrow> query_out" where
  "copy_min data buf = (if snd buf then Some (take (fst buf) data) else None, Some (length data))"

definition handle_bytes :: "handle \<Rightarrow> byte list" where
  "handle_bytes t = le_encode 8 t"

text \<open>\<open>if (param_value && param_value_size >= n) std::memcpy(param_value, data, n)\<close>\<close>

definition copy_out :: "byte list \<Rightarrow> buffer \<Rightarrow> query_out" where
  "copy_out data buf = (if snd buf \<and> length data \<le> fst buf then Some data else None, Some (length data))"

text \<open>
  The \<open>catch\<close> clauses of a function: \<open>oom\<close> for \<open>std::bad_alloc\<close>, the status an error packet
  carries, \<open>lost\<close> for everything else.
\<close>

definition on_error :: "'a \<Rightarrow> 'a \<Rightarrow> (u32 \<Rightarrow> 'a) \<Rightarrow> exn \<Rightarrow> ('s, 'a) prog" where
  "on_error oom lost err e =
     PRet (case e of ErrorPacketExn code \<Rightarrow> err code | BadAlloc \<Rightarrow> oom | _ \<Rightarrow> lost)"

text \<open>\<open>conn->read<SuccessPacket>()\<close> and \<open>conn->read<IDPacket>()\<close>.\<close>

definition readSuccess :: "('s, unit) prog" where
  "readSuccess = readPacket PT_Success (pdec get_Signal)"

definition readID :: "('s, IDType) prog" where
  "readID = readPacket PT_ID (pdec get_u16)"

abbreviation CL_DEVICE_NOT_AVAILABLE :: u32 where "CL_DEVICE_NOT_AVAILABLE \<equiv> - 2"
abbreviation CL_INVALID_VALUE :: u32 where "CL_INVALID_VALUE \<equiv> - 30"
abbreviation CL_INVALID_PLATFORM :: u32 where "CL_INVALID_PLATFORM \<equiv> - 32"
abbreviation CL_INVALID_DEVICE :: u32 where "CL_INVALID_DEVICE \<equiv> - 33"
abbreviation CL_INVALID_CONTEXT :: u32 where "CL_INVALID_CONTEXT \<equiv> - 34"
abbreviation CL_INVALID_COMMAND_QUEUE :: u32 where "CL_INVALID_COMMAND_QUEUE \<equiv> - 36"
abbreviation CL_INVALID_PROGRAM :: u32 where "CL_INVALID_PROGRAM \<equiv> - 44"
abbreviation CL_INVALID_KERNEL :: u32 where "CL_INVALID_KERNEL \<equiv> - 48"
abbreviation CL_INVALID_WORK_GROUP_SIZE :: u32 where "CL_INVALID_WORK_GROUP_SIZE \<equiv> - 54"
abbreviation CL_INVALID_EVENT_WAIT_LIST :: u32 where "CL_INVALID_EVENT_WAIT_LIST \<equiv> - 57"
abbreviation CL_INVALID_EVENT :: u32 where "CL_INVALID_EVENT \<equiv> - 58"

section \<open>The registry\<close>

lemma client_ok_init [simp]: "client_ok client_init"
  by (simp add: client_ok_def client_init_def)

lemma client_ok_heap:
  "client_ok c \<Longrightarrow> cl_heap c t = Some i \<longleftrightarrow>
     t \<noteq> 0 \<and> unat i < length (cl_mObjects c) \<and> cl_mObjects c ! unat i = t"
  by (simp add: client_ok_def)

lemma client_ok_next: "client_ok c \<Longrightarrow> cl_heap c (cl_next c) = None"
  unfolding client_ok_def by (metis nth_mem less_irrefl option.exhaust)

text \<open>The slots of the vector after \<open>registerID\<close>: growing it fills the gap with empty slots.\<close>

lemma register_object_slot:
  assumes "register_object oid c = (p, c')"
  shows "length (cl_mObjects c') = max (length (cl_mObjects c)) (Suc (unat oid))"
    and "j < length (cl_mObjects c') \<Longrightarrow> cl_mObjects c' ! j =
      (if j = unat oid then cl_next c
       else if j < length (cl_mObjects c) then cl_mObjects c ! j else 0)"
  using assms by (auto simp: register_object_def Let_def nth_append)

lemma register_object_heap:
  assumes "register_object oid c = (p, c')"
  shows "p = cl_next c" and "cl_next c' = cl_next c + 1"
    and "cl_heap c' t = (if t = cl_next c then Some oid
       else if t = (if unat oid < length (cl_mObjects c) then cl_mObjects c ! unat oid else 0)
       then None else cl_heap c t)"
  using assms by (auto simp: register_object_def Let_def nth_append)

lemma register_object_ok:
  assumes "client_ok c" and r: "register_object oid c = (p, c')"
  shows "client_ok c'"
  unfolding client_ok_def
proof (intro conjI allI ballI)
  note slot = register_object_slot [OF r] and heap = register_object_heap [OF r]
  from assms(1) have next0: "0 < cl_next c" and len: "length (cl_mObjects c) \<le> 65536"
    and small: "\<And>t. t \<in> set (cl_mObjects c) \<Longrightarrow> t < cl_next c"
    by (auto simp: client_ok_def)
  have "unat oid < 65536" using unsigned_less [of oid, where ?'a = nat] by simp
  with slot(1) len show "length (cl_mObjects c') \<le> 65536" by simp
  show "0 < cl_next c'" using heap(2) by simp
  show "t < cl_next c'" if "t \<in> set (cl_mObjects c')" for t
  proof -
    from that obtain j where j: "j < length (cl_mObjects c')" "cl_mObjects c' ! j = t"
      by (auto simp: in_set_conv_nth)
    show ?thesis
    proof (cases "j = unat oid \<or> length (cl_mObjects c) \<le> j")
      case True
      with slot(2) [OF j(1)] j(2) heap(2) next0 show ?thesis by (auto split: if_splits)
    next
      case False
      with slot(2) [OF j(1)] j(2) heap(2) small [of t] nth_mem [of j "cl_mObjects c"]
      show ?thesis by simp
    qed
  qed
  have nx: "cl_mObjects c ! j \<noteq> cl_next c" if "j < length (cl_mObjects c)" for j
    using small [of "cl_mObjects c ! j"] that by auto
  show "(cl_heap c' t = Some i) \<longleftrightarrow>
      t \<noteq> 0 \<and> unat i < length (cl_mObjects c') \<and> cl_mObjects c' ! unat i = t" for t i
  proof (cases "i = oid")
    case True
    with heap(3) [of t] slot(1) slot(2) [of "unat oid"] client_ok_heap [OF assms(1), of t oid] next0
    show ?thesis by (auto split: if_splits)
  next
    case False
    then have "unat i \<noteq> unat oid" by (auto dest: unsigned_word_eqI)
    with heap(3) [of t] slot(1) slot(2) [of "unat i"] client_ok_heap [OF assms(1), of t i] nx [of "unat i"]
      client_ok_heap [OF assms(1), of t oid] next0 False
    show ?thesis by (auto split: if_splits)
  qed
qed

text \<open>Handles of other objects survive.\<close>

lemma register_object_keeps:
  assumes "client_ok c" and "register_object oid c = (p, c')" and "cl_heap c t = Some i" and "i \<noteq> oid"
  shows "cl_heap c' t = Some i"
  using register_object_heap(3) [OF assms(2), of t] client_ok_next [OF assms(1)]
    client_ok_heap [OF assms(1), of t i] client_ok_heap [OF assms(1), of t oid] assms(3,4)
  by (auto split: if_splits)

section \<open>Evaluation\<close>

lemma exec_GetID [prog_simps]:
  "cl_heap c t = Some i \<Longrightarrow> run ops (GetID t) c st = (Ok i, c, st)"
  by (simp add: GetID_def)

lemma exec_LockedConnection [prog_simps]:
  "cl_mStream c \<Longrightarrow> run ops LockedConnection c st = (Ok (), c, st)"
  "\<not> cl_mStream c \<Longrightarrow> run ops LockedConnection c st = (Throw SocketError, c, st)"
  by (simp_all add: LockedConnection_def)

lemma exec_registerID [prog_simps]:
  "run ops (registerID i) c st = (Ok (fst (register_object i c)), snd (register_object i c), st)"
  by (simp add: registerID_def prog_simps)

lemma run_on_error [prog_simps]:
  "run ops (on_error oom lost err e) s st =
     (Ok (case e of ErrorPacketExn code \<Rightarrow> err code | BadAlloc \<Rightarrow> oom | _ \<Rightarrow> lost), s, st)"
  by (simp add: on_error_def)

end
