(* ===== verification/RCL_Dialog.thy ===== *)
theory RCL_Dialog
  imports RCL_Client RCL_ServerLoop
begin

text \<open>
  Client and server together: two programs that talk to each other over a pair of streams.

  \<open>advance\<close> runs a program as far as the data it has received goes; what is left is a program that
  waits for more. \<open>dialog\<close> lets the client run until it waits, hands what it has sent to the server,
  lets the server run until it waits (through as many turns of its loop as there is data for), hands
  back what it has sent, and so on until the call of the client is over.
\<close>

section \<open>Running until data is missing\<close>

primrec advance :: "('s, 'a) prog \<Rightarrow> 's \<Rightarrow> stream \<Rightarrow> ('s, 'a) prog \<times> 's \<times> stream" where
  "advance (PRet a) s st = (PRet a, s, st)"
| "advance (PThrow e) s st = (PThrow e, s, st)"
| "advance (PFail x) s st = (PFail x, s, st)"
| "advance (PGet k) s st = advance (k s) s st"
| "advance (PPut s' p) s st = advance p s' st"
| "advance (PRead n k) s st =
     (if n \<le> length (s_in st)
      then advance (k (Inr (take n (s_in st)))) s (st\<lparr>s_in := drop n (s_in st)\<rparr>)
      else (PRead n k, s, st))"
| "advance (PPeek k) s st =
     (if s_in st = [] then (PPeek k, s, st) else advance (k (hd (s_in st))) s st)"
| "advance (PWrite bs k) s st = advance (k None) s (st\<lparr>s_pending := s_pending st @ bs\<rparr>)"
| "advance (PFlush k) s st =
     advance (k None) s (st\<lparr>s_sent := s_sent st @ s_pending st, s_pending := []\<rparr>)"

fun outcome :: "('s, 'a) prog \<Rightarrow> 'a res option" where
  "outcome (PRet a) = Some (Ok a)"
| "outcome (PThrow e) = Some (Throw e)"
| "outcome (PFail x) = Some (Fail x)"
| "outcome _ = None"

fun finished :: "'a res \<Rightarrow> ('s, 'a) prog" where
  "finished (Ok a) = PRet a"
| "finished (Throw e) = PThrow e"
| "finished (Fail x) = PFail x"

lemma outcome_finished [simp]: "outcome (finished r) = Some r"
  by (cases r) auto

lemma outcome_pbind [simp]: "outcome p = None \<Longrightarrow> outcome (pbind p f) = None"
  by (cases p) auto

lemma outcome_pcatch [simp]: "outcome p = None \<Longrightarrow> outcome (pcatch p h) = None"
  by (cases p) auto

named_theorems advance_simps "running a program until data is missing"

lemma advance_pbind [advance_simps]:
  "advance (pbind p f) s st = (case advance p s st of (p', s', st') \<Rightarrow>
     (case outcome p' of
        Some (Ok a) \<Rightarrow> advance (f a) s' st'
      | Some (Throw e) \<Rightarrow> (PThrow e, s', st')
      | Some (Fail x) \<Rightarrow> (PFail x, s', st')
      | None \<Rightarrow> (pbind p' f, s', st')))"
  by (induction p arbitrary: s st) auto

lemma advance_pcatch [advance_simps]:
  "advance (pcatch p h) s st = (case advance p s st of (p', s', st') \<Rightarrow>
     (case outcome p' of
        Some (Throw e) \<Rightarrow> advance (h e) s' st'
      | Some _ \<Rightarrow> (p', s', st')
      | None \<Rightarrow> (pcatch p' h, s', st')))"
  by (induction p arbitrary: s st) auto

text \<open>A run that does not block is a run to the end.\<close>

lemma advance_exec:
  "exec p s st = (r, s', st') \<Longrightarrow> r \<noteq> Fail Blocked \<Longrightarrow> \<not> s_closed st \<Longrightarrow>
   advance p s st = (finished r, s', st')"
proof (induction p arbitrary: s st)
  case (PRead n k)
  then show ?case by (auto simp: st_ops_def st_read_def Let_def split: if_splits)
next
  case (PPeek k)
  then show ?case by (cases "s_in st") (auto simp: st_ops_def st_peek_def)
qed (auto simp: st_ops_def st_write_def st_flush_def)

lemma advance_pwrite [advance_simps]:
  "advance (pwrite bs) s st = (PRet (), s, st\<lparr>s_pending := s_pending st @ bs\<rparr>)"
  by (simp add: pwrite_def)

lemma advance_pflush [advance_simps]:
  "advance pflush s st = (PRet (), s, st\<lparr>s_sent := s_sent st @ s_pending st, s_pending := []\<rparr>)"
  by (simp add: pflush_def)

lemma advance_pupd [advance_simps]: "advance (pupd g) s st = (PRet (), g s, st)"
  by (simp add: pupd_def)

lemma advance_pget [advance_simps]: "advance (pget g) s st = (PRet (g s), s, st)"
  by (simp add: pget_def)

lemma advance_writePacket [advance_simps]:
  "ok \<Longrightarrow> advance (writePacket ty ok bs) s st = (PRet (), s, st_put (enc_packet ty bs) st)"
  by (simp add: writePacket_def enc_packet_def passert_def advance_simps)

lemma advance_readPacket_waits [advance_simps]:
  "s_in st = [] \<Longrightarrow> advance (readPacket ty p) s st = (readPacket ty p, s, st)"
  by (simp add: readPacket_def get_PacketType_def get_u8_def)

lemma outcome_readPacket [simp]: "outcome (readPacket ty p) = None"
  by (simp add: readPacket_def get_PacketType_def get_u8_def)

lemma advance_GetID [advance_simps]:
  "cl_heap c t = Some i \<Longrightarrow> advance (GetID t) c st = (PRet i, c, st)"
  by (simp add: GetID_def)

lemma advance_LockedConnection [advance_simps]:
  "cl_mStream c \<Longrightarrow> advance LockedConnection c st = (PRet (), c, st)"
  by (simp add: LockedConnection_def)

section \<open>The dialog\<close>

partial_function (option) serverTurn ::
  "'w host \<Rightarrow> ('w server, bool) prog \<Rightarrow> 'w server \<Rightarrow> stream
   \<Rightarrow> (('w server, bool) prog \<times> 'w server \<times> stream) option" where
  "serverTurn h q sv sst =
     (case advance q sv sst of (q', sv', sst') \<Rightarrow>
        if outcome q' = Some (Ok True) then serverTurn h (serverStep h) sv' sst'
        else Some (q', sv', sst'))"

text \<open>When both ends wait the call never returns; when the server has ended the client reads on to
  the end of the stream.\<close>

partial_function (option) dialog ::
  "'w host \<Rightarrow> (client, 'a) prog \<Rightarrow> client \<Rightarrow> stream \<Rightarrow> ('w server, bool) prog \<Rightarrow> 'w server \<Rightarrow> stream
   \<Rightarrow> ('a res \<times> client \<times> stream \<times> ('w server, bool) prog \<times> 'w server \<times> stream) option" where
  "dialog h p c cst q sv sst =
     (case advance p c cst of (p', c', cst') \<Rightarrow>
        (case outcome p' of
           Some r \<Rightarrow> Some (r, c', cst', q, sv, sst)
         | None \<Rightarrow>
             (case serverTurn h q sv (sst\<lparr>s_in := s_in sst @ s_sent cst'\<rparr>) of
                None \<Rightarrow> None
              | Some (q', sv', sst') \<Rightarrow>
                  if s_sent sst' \<noteq> [] then
                    dialog h p' c' (cst'\<lparr>s_in := s_in cst' @ s_sent sst', s_sent := []\<rparr>)
                      q' sv' (sst'\<lparr>s_sent := []\<rparr>)
                  else if outcome q' = None then Some (Fail Blocked, c', cst', q', sv', sst')
                  else
                    (case exec p' c' (cst'\<lparr>s_closed := True\<rparr>) of
                       (r, c'', cst'') \<Rightarrow> Some (r, c'', cst'', q', sv', sst')))))"

definition idle :: stream where
  "idle = \<lparr>s_in = [], s_closed = False, s_pending = [], s_sent = []\<rparr>"

lemma idle_simps [simp]:
  "s_in idle = []" "\<not> s_closed idle" "s_pending idle = []" "s_sent idle = []"
  by (simp_all add: idle_def)

text \<open>
  \<open>remote h p c sv r c' sv'\<close>: with the server waiting for a request, the call \<open>p\<close> returns \<open>r\<close>, and
  afterwards the server waits for the next request and nothing is left on the streams.
\<close>

definition remote ::
  "'w host \<Rightarrow> (client, 'a) prog \<Rightarrow> client \<Rightarrow> 'w server \<Rightarrow> 'a res \<Rightarrow> client \<Rightarrow> 'w server \<Rightarrow> bool" where
  "remote h p c sv r c' sv' \<longleftrightarrow>
     dialog h p c idle (serverStep h) sv idle = Some (r, c', idle, serverStep h, sv', idle)"

lemma serverStep_waits: "\<exists>k. serverStep h = PPeek k"
  by (simp add: serverStep_def handleNextPacket_def nextPacketTy_def ppeek_def)

lemma serverTurn_waits: "s_in sst = [] \<Longrightarrow> serverTurn h (serverStep h) sv sst = Some (serverStep h, sv, sst)"
  using serverStep_waits [of h] by (subst serverTurn.simps) auto

text \<open>One turn of the server's loop.\<close>

lemma serverTurn_step:
  assumes "exec (serverStep h) sv (idle\<lparr>s_in := bs\<rparr>) = (Ok True, sv', idle\<lparr>s_sent := resp\<rparr>)"
  shows "serverTurn h (serverStep h) sv (idle\<lparr>s_in := bs\<rparr>) = Some (serverStep h, sv', idle\<lparr>s_sent := resp\<rparr>)"
  using advance_exec [OF assms] by (subst serverTurn.simps) (simp add: serverTurn_waits)

lemma enc_reply_not_Nil: "enc_reply z r \<noteq> []"
  by (simp add: enc_reply_def enc_packet_Cons)

lemma enc_replies_not_Nil: "rs \<noteq> [] \<Longrightarrow> enc_replies z rs \<noteq> []"
  by (cases rs) (simp_all add: enc_replies_def enc_reply_not_Nil)

lemma serve_replies: "serve h q sv = Some (rs, sv') \<Longrightarrow> rs \<noteq> []"
  by (cases q) (auto simp: serve_def Let_def split: prod.splits if_splits option.splits)

text \<open>
  A call that sends \<open>bs\<close> and then waits: what it does with the answer of the server is what it does
  with it on a stream that holds it already.
\<close>

lemma remote_exchange:
  assumes adv: "advance p c idle = (p', c1, idle\<lparr>s_sent := bs\<rparr>)"
    and wait: "outcome p' = None"
    and srv: "exec (serverStep h) sv (idle\<lparr>s_in := bs\<rparr>) = (Ok True, sv', idle\<lparr>s_sent := resp\<rparr>)" "resp \<noteq> []"
    and rest: "exec p' c1 (idle\<lparr>s_in := resp\<rparr>) = (r, c2, idle)"
    and "r \<noteq> Fail Blocked"
  shows "remote h p c sv r c2 sv'"
proof -
  have sent: "idle\<lparr>s_in := bs, s_sent := []\<rparr> = idle\<lparr>s_in := bs\<rparr>" "idle\<lparr>s_sent := []\<rparr> = idle" for bs
    by (simp_all add: idle_def)
  from advance_exec [OF rest assms(6)]
  have "advance p' c1 (idle\<lparr>s_in := resp\<rparr>) = (finished r, c2, idle)" by simp
  then have "dialog h p' c1 (idle\<lparr>s_in := resp\<rparr>) (serverStep h) sv' idle
      = Some (r, c2, idle, serverStep h, sv', idle)"
    by (subst dialog.simps) simp
  with adv wait serverTurn_step [OF srv(1)] srv(2) show ?thesis
    unfolding remote_def by (subst dialog.simps) (simp add: sent)
qed

lemma remote_request:
  assumes adv: "advance p c idle = (p', c1, idle\<lparr>s_sent := enc_request (h_zlib h) q\<rparr>)"
    and wait: "outcome p' = None"
    and srv: "request_ok h q" "zlib_opt_ok (h_zlib h)" "serve h q sv = Some (rs, sv')"
    and rest: "exec p' c1 (idle\<lparr>s_in := enc_replies (h_zlib h) rs\<rparr>) = (r, c2, idle)"
    and "r \<noteq> Fail Blocked"
  shows "remote h p c sv r c2 sv'"
proof (rule remote_exchange [OF adv wait _ _ rest assms(7)])
  show "exec (serverStep h) sv (idle\<lparr>s_in := enc_request (h_zlib h) q\<rparr>)
      = (Ok True, sv', idle\<lparr>s_sent := enc_replies (h_zlib h) rs\<rparr>)"
    using exec_serverStep_serves [OF srv(1,2) _ srv(3), of "idle\<lparr>s_in := enc_request (h_zlib h) q\<rparr>" "[]"]
    by (simp add: idle_def)
qed (rule enc_replies_not_Nil [OF serve_replies [OF srv(3)]])

section \<open>Calls one after the other\<close>

lemma exec_keeps_closed: "exec p s st = (r, s', st') \<Longrightarrow> s_closed st' = s_closed st"
  using exec_st_after [of p s st r s' st'] by (simp add: st_after_def)

lemma dialog_context:
  fixes h :: "'w host" and p :: "(client, 'a) prog" and C :: "(client, 'a) prog \<Rightarrow> (client, 'b) prog"
  assumes finish: "\<And>p c st p1 c1 st1 a. advance p c st = (p1, c1, st1) \<Longrightarrow> outcome p1 = Some (Ok a) \<Longrightarrow>
      advance (C p) c st = advance (f a) c1 st1"
    and waits: "\<And>p c st p1 c1 st1. advance p c st = (p1, c1, st1) \<Longrightarrow> outcome p1 = None \<Longrightarrow>
      advance (C p) c st = (C p1, c1, st1) \<and> outcome (C p1) = None"
    and run: "dialog h p c cst q sv sst = Some (Ok a, c', cst', q', sv', sst')" and "\<not> s_closed cst'"
  shows "dialog h (C p) c cst q sv sst = dialog h (f a) c' cst' q' sv' sst'"
proof -
  let ?P = "\<lambda>h p c cst q sv sst x. \<forall>a c' cst' q' sv' sst'. x = (Ok a, c', cst', q', sv', sst') \<longrightarrow> \<not> s_closed cst'
    \<longrightarrow> dialog h (C p) c cst q sv sst = dialog h (f a) c' cst' q' sv' sst'"
  have "?P h p c cst q sv sst (Ok a, c', cst', q', sv', sst')"
  proof (rule dialog.raw_induct [where P = ?P, OF _ run])
    fix dia :: "'w host \<Rightarrow> (client, 'a) prog \<Rightarrow> client \<Rightarrow> stream \<Rightarrow> ('w server, bool) prog \<Rightarrow> 'w server \<Rightarrow> stream
      \<Rightarrow> ('a res \<times> client \<times> stream \<times> ('w server, bool) prog \<times> 'w server \<times> stream) option"
    fix h :: "'w host" and p c cst q and sv :: "'w server" and sst x
    assume IH: "\<And>h p c cst q sv sst x. dia h p c cst q sv sst = Some x \<Longrightarrow> ?P h p c cst q sv sst x"
    assume body: "(case advance p c cst of (p', c', cst') \<Rightarrow>
        (case outcome p' of
           None \<Rightarrow>
             (case serverTurn h q sv (sst\<lparr>s_in := s_in sst @ s_sent cst'\<rparr>) of
                None \<Rightarrow> None
              | Some (q', sv', sst') \<Rightarrow>
                  if s_sent sst' \<noteq> [] then
                    dia h p' c' (cst'\<lparr>s_in := s_in cst' @ s_sent sst', s_sent := []\<rparr>)
                      q' sv' (sst'\<lparr>s_sent := []\<rparr>)
                  else if outcome q' = None then Some (Fail Blocked, c', cst', q', sv', sst')
                  else
                    (case exec p' c' (cst'\<lparr>s_closed := True\<rparr>) of
                       (r, c'', cst'') \<Rightarrow> Some (r, c'', cst'', q', sv', sst')))
         | Some r \<Rightarrow> Some (r, c', cst', q, sv, sst))) = Some x"
    obtain p1 c1 cst1 where adv: "advance p c cst = (p1, c1, cst1)" by (cases "advance p c cst") auto
    show "?P h p c cst q sv sst x"
    proof (intro allI impI)
      fix a c' cst' q' sv' sst'
      assume x: "x = (Ok a, c', cst', q', sv', sst')" and open': "\<not> s_closed cst'"
      show "dialog h (C p) c cst q sv sst = dialog h (f a) c' cst' q' sv' sst'"
      proof (cases "outcome p1")
        case (Some r)
        with body adv x have "r = Ok a" "c' = c1" "cst' = cst1" "q' = q" "sv' = sv" "sst' = sst" by auto
        with finish [OF adv] Some have "advance (C p) c cst = advance (f a) c' cst'" by simp
        with \<open>q' = q\<close> \<open>sv' = sv\<close> \<open>sst' = sst\<close> show ?thesis
          by (simp only: dialog.simps [of h "C p"] dialog.simps [of h "f a"])
      next
        case None
        with body adv obtain q1 sv1 sst1
          where turn: "serverTurn h q sv (sst\<lparr>s_in := s_in sst @ s_sent cst1\<rparr>) = Some (q1, sv1, sst1)"
          by (auto split: option.splits)
        have "s_sent sst1 \<noteq> []"
          using body adv None turn x open' exec_keeps_closed [of p1 c1 "cst1\<lparr>s_closed := True\<rparr>"]
          by (auto split: if_splits prod.splits)
        with body adv None turn x
        have "dia h p1 c1 (cst1\<lparr>s_in := s_in cst1 @ s_sent sst1, s_sent := []\<rparr>) q1 sv1 (sst1\<lparr>s_sent := []\<rparr>)
            = Some (Ok a, c', cst', q', sv', sst')" by simp
        from IH [rule_format, OF this refl open']
        have "dialog h (C p1) c1 (cst1\<lparr>s_in := s_in cst1 @ s_sent sst1, s_sent := []\<rparr>) q1 sv1
            (sst1\<lparr>s_sent := []\<rparr>) = dialog h (f a) c' cst' q' sv' sst'" .
        with waits [OF adv None] turn \<open>s_sent sst1 \<noteq> []\<close> show ?thesis
          by (simp add: dialog.simps [of h "C p"])
      qed
    qed
  qed
  with assms(4) show ?thesis by blast
qed

lemma outcome_Ok: "outcome p = Some (Ok a) \<Longrightarrow> p = PRet a"
  by (cases p) auto

lemma remote_pcatch:
  assumes "remote h p c sv (Ok a) c1 sv1"
  shows "remote h (pcatch p err) c sv (Ok a) c1 sv1"
  using assms dialog_context [of "\<lambda>p. pcatch p err" PRet h p c idle "serverStep h" sv idle a c1 idle "serverStep h" sv1 idle]
  by (auto simp: remote_def advance_simps dialog.simps [of h "PRet a"] dest: outcome_Ok)

text \<open>A function that does not talk to the server.\<close>

lemma remote_local: "advance p c idle = (finished r, c', idle) \<Longrightarrow> remote h p c sv r c' sv"
  unfolding remote_def by (subst dialog.simps) simp

lemma remote_pbind_eq:
  "remote h p c sv (Ok a) c1 sv1 \<Longrightarrow>
   remote h (pbind p f) c sv r c2 sv2 \<longleftrightarrow> remote h (f a) c1 sv1 r c2 sv2"
  using dialog_context [of "\<lambda>p. pbind p f" f h p c idle "serverStep h" sv idle a c1 idle "serverStep h" sv1 idle]
  by (simp add: remote_def advance_simps)

lemma remote_step_eq:
  "advance p c idle = (PRet a, c1, idle) \<Longrightarrow>
   remote h (pbind p f) c sv r c2 sv2 \<longleftrightarrow> remote h (f a) c1 sv r c2 sv2"
  by (rule remote_pbind_eq, rule remote_local) simp

named_theorems remote_simps "evaluating a function that calls others"

lemma remote_PRet [remote_simps]: "remote h (PRet a) c sv (Ok a) c sv"
  by (rule remote_local) simp

lemma remote_GetID [remote_simps]:
  "cl_heap c t = Some i \<Longrightarrow>
   remote h (pbind (GetID t) f) c sv r c2 sv2 \<longleftrightarrow> remote h (f i) c sv r c2 sv2"
  by (rule remote_step_eq) (simp add: advance_simps)

lemma remote_pupd [remote_simps]:
  "remote h (pbind (pupd g) f) c sv r c2 sv2 \<longleftrightarrow> remote h (f ()) (g c) sv r c2 sv2"
  by (rule remote_step_eq) (simp add: advance_simps)

lemma remote_pget [remote_simps]:
  "remote h (pbind (pget g) f) c sv r c2 sv2 \<longleftrightarrow> remote h (f (g c)) c sv r c2 sv2"
  by (rule remote_step_eq) (simp add: advance_simps)

end
