(* ===== verification/RCL_ClientApi.thy ===== *)
theory RCL_ClientApi
  imports RCL_Client
begin

text \<open>
  The functions of the OpenCL API of \<open>client/platform.cpp\<close>, \<open>client/device.cpp\<close>,
  \<open>client/queue.cpp\<close> and \<open>client/event.cpp\<close>, as programs over the connection. A function \<open>clXxx\<close> is
  \<open>api_clXxx\<close> here; the bare names are the calls the server makes.

  What a function returns through pointers is part of its result. A function that returns an
  object gives the handle and the status it stores at \<open>errcode_ret\<close>.
\<close>

section \<open>Shapes the functions share\<close>

text \<open>Retain and release of every class of object, but for the status on a lost connection.\<close>

definition refcount_exchange :: "packet_type \<Rightarrow> byte \<Rightarrow> handle \<Rightarrow> (client, u32) prog" where
  "refcount_exchange ty letter t =
     pbind (GetID t) (\<lambda>i.
     pbind (writePacket ty True (put_RefCount \<lparr>rc_mID = i, rc_mObjTy = letter\<rparr>)) (\<lambda>_.
     pbind pflush (\<lambda>_.
     pbind readSuccess (\<lambda>_. PRet CL_SUCCESS))))"

definition refcount_call :: "packet_type \<Rightarrow> byte \<Rightarrow> u32 \<Rightarrow> handle \<Rightarrow> (client, u32) prog" where
  "refcount_call ty letter lost t =
     pcatch (pbind LockedConnection (\<lambda>_. refcount_exchange ty letter t))
       (on_error lost lost (\<lambda>code. code))"

text \<open>The end of a function that creates an object: its ID arrives and is registered.\<close>

definition newObject :: "(client, handle \<times> u32) prog" where
  "newObject = pbind readID (\<lambda>i. pbind (registerID i) (\<lambda>t. PRet (t, CL_SUCCESS)))"

definition create_error :: "exn \<Rightarrow> (client, handle \<times> u32) prog" where
  "create_error =
     on_error (0, CL_OUT_OF_HOST_MEMORY) (0, CL_DEVICE_NOT_AVAILABLE) (\<lambda>code. (0, code))"

definition query_error :: "u32 \<Rightarrow> exn \<Rightarrow> (client, u32 \<times> query_out) prog" where
  "query_error oom =
     on_error (oom, None, None) (CL_DEVICE_NOT_AVAILABLE, None, None) (\<lambda>code. (code, None, None))"

definition query_ok :: "query_out \<Rightarrow> (client, u32 \<times> query_out) prog" where
  "query_ok out = PRet (CL_SUCCESS, out)"

text \<open>A data burst copied to the buffer; \<open>w\<close> is the width of its size.\<close>

definition query_payload :: "nat \<Rightarrow> zlib option \<Rightarrow> buffer \<Rightarrow> (client, u32 \<times> query_out) prog" where
  "query_payload w z buf =
     pbind (readPacket PT_Payload (pdec (get_Payload w z))) (\<lambda>payload. query_ok (copy_out payload buf))"

text \<open>An ID turned into a handle and stored.\<close>

definition query_handle :: "buffer \<Rightarrow> (client, u32 \<times> query_out) prog" where
  "query_handle buf =
     pbind readID (\<lambda>i. pbind (getOrInsertObject i) (\<lambda>t.
     pbind (Store64 (handle_bytes t) buf) query_ok))"

text \<open>
  The IDs of the first \<open>n\<close> objects of an array of handles; \<open>None\<close> when one of them is null. A
  shorter array is read past its end.
\<close>

fun handleIDs :: "nat \<Rightarrow> handle list \<Rightarrow> (client, IDType list option) prog" where
  "handleIDs 0 ts = PRet (Some [])"
| "handleIDs (Suc n) [] = PFail UndefinedBehaviour"
| "handleIDs (Suc n) (t # ts) =
     (if t = 0 then PRet None
      else pbind (GetID t) (\<lambda>i. pbind (handleIDs n ts) (\<lambda>r. PRet (map_option (Cons i) r))))"

section \<open>platform.cpp, device.cpp\<close>

text \<open>
  The loop that makes handles of a list of IDs. It stores the first \<open>num_entries\<close> of them; it
  does not look whether the pointer it stores them at is null.
\<close>

fun store_handles :: "nat \<Rightarrow> bool \<Rightarrow> IDType list \<Rightarrow> (client, handle list) prog" where
  "store_handles room present [] = PRet []"
| "store_handles room present (i # is) =
     pbind (getOrInsertObject i) (\<lambda>t.
     if room = 0 then store_handles 0 present is
     else if \<not> present then PFail UndefinedBehaviour
     else pbind (store_handles (room - 1) present is) (\<lambda>ts. PRet (t # ts)))"

text \<open>
  \<open>clGetPlatformIDs(num_entries, platforms, num_platforms)\<close>: \<open>platforms\<close> and \<open>num_platforms\<close> tell
  which pointers are not null. The result is the status, the count and the handles stored. An
  exception other than an error packet leaves a count of 0 and the status \<open>CL_SUCCESS\<close>.
\<close>

definition api_clGetPlatformIDs :: "nat \<Rightarrow> bool \<Rightarrow> bool \<Rightarrow> (client, u32 \<times> nat \<times> handle list) prog" where
  "api_clGetPlatformIDs num_entries platforms num_platforms =
     (if \<not> platforms \<and> \<not> num_platforms then PRet (CL_INVALID_VALUE, 0, [])
      else if platforms \<and> num_entries = 0 then PRet (CL_INVALID_VALUE, 0, [])
      else
        pcatch
          (pbind LockedConnection (\<lambda>_.
           pbind (writePacket PT_GetPlatformIDs True (put_Signal ())) (\<lambda>_.
           pbind pflush (\<lambda>_.
           pbind (readPacket PT_IDList (pdec get_IDList)) (\<lambda>list.
           pbind (store_handles num_entries platforms list) (\<lambda>ts.
           PRet (CL_SUCCESS, length list, ts)))))))
          (on_error (CL_OUT_OF_HOST_MEMORY, 0, []) (CL_SUCCESS, 0, []) (\<lambda>code. (code, 0, []))))"

definition api_clGetPlatformInfo ::
  "zlib option \<Rightarrow> handle \<Rightarrow> u32 \<Rightarrow> buffer \<Rightarrow> (client, u32 \<times> query_out) prog" where
  "api_clGetPlatformInfo z platform param_name buf =
     (if platform = 0 then PRet (CL_INVALID_PLATFORM, None, None)
      else
        pcatch
          (pbind (GetID platform) (\<lambda>i.
           pbind LockedConnection (\<lambda>_.
           pbind (writePacket PT_GetPlatformInfo True
                    (put_IDParamPair \<lparr>idp_mData = param_name, idp_mID = i\<rparr>)) (\<lambda>_.
           pbind pflush (\<lambda>_. query_payload 1 z buf)))))
          (query_error CL_DEVICE_NOT_AVAILABLE))"

definition api_clRetainDevice :: "handle \<Rightarrow> (client, u32) prog" where
  "api_clRetainDevice = refcount_call PT_Retain 68 CL_DEVICE_NOT_AVAILABLE"

definition api_clReleaseDevice :: "handle \<Rightarrow> (client, u32) prog" where
  "api_clReleaseDevice = refcount_call PT_Release 68 CL_DEVICE_NOT_AVAILABLE"

definition api_clGetDeviceIDs ::
  "handle \<Rightarrow> u64 \<Rightarrow> nat \<Rightarrow> bool \<Rightarrow> bool \<Rightarrow> (client, u32 \<times> nat \<times> handle list) prog" where
  "api_clGetDeviceIDs platform device_type num_entries devices num_devices =
     (if devices \<and> num_entries = 0 then PRet (CL_INVALID_VALUE, 0, [])
      else if \<not> devices \<and> \<not> num_devices then PRet (CL_INVALID_VALUE, 0, [])
      else
        pcatch
          (pbind LockedConnection (\<lambda>_.
           pbind (if platform \<noteq> 0 then GetID platform else PRet 0) (\<lambda>platID.
           pbind (writePacket PT_GetDeviceIDs True
                    (put_GetDeviceIDs \<lparr>gdi_mDeviceType = device_type, gdi_mPlatformID = platID\<rparr>)) (\<lambda>_.
           pbind pflush (\<lambda>_.
           pbind (readPacket PT_IDList (pdec get_IDList)) (\<lambda>list.
           pbind (store_handles num_entries devices list) (\<lambda>ts.
           PRet (CL_SUCCESS, length list, ts))))))))
          (on_error (CL_OUT_OF_HOST_MEMORY, 0, []) (CL_SUCCESS, 0, []) (\<lambda>code. (code, 0, []))))"

text \<open>The parameters whose value is a \<open>size_t\<close>.\<close>

definition size_params :: "u32 list" where
  "size_params =
     [CL_DEVICE_PRINTF_BUFFER_SIZE, CL_DEVICE_IMAGE2D_MAX_WIDTH, CL_DEVICE_IMAGE3D_MAX_WIDTH,
      CL_DEVICE_IMAGE_MAX_BUFFER_SIZE, CL_DEVICE_IMAGE2D_MAX_HEIGHT, CL_DEVICE_IMAGE3D_MAX_HEIGHT,
      CL_DEVICE_IMAGE_MAX_ARRAY_SIZE, CL_DEVICE_IMAGE3D_MAX_DEPTH, CL_DEVICE_IMAGE_PITCH_ALIGNMENT,
      CL_DEVICE_IMAGE_BASE_ADDRESS_ALIGNMENT, CL_DEVICE_PROFILING_TIMER_RESOLUTION,
      CL_DEVICE_MAX_GLOBAL_VARIABLE_SIZE, CL_DEVICE_GLOBAL_VARIABLE_PREFERRED_TOTAL_SIZE,
      CL_DEVICE_MAX_PARAMETER_SIZE, CL_DEVICE_MAX_WORK_GROUP_SIZE]"

text \<open>
  The three sizes are read into an array of 24 bytes that holds \<open>stack\<close> before; more than that
  overruns it, less leaves some of it.
\<close>

definition query_item_sizes ::
  "zlib option \<Rightarrow> byte list \<Rightarrow> buffer \<Rightarrow> (client, u32 \<times> query_out) prog" where
  "query_item_sizes z stack buf =
     pbind (readPacket PT_Payload (pdec (get_PayloadInto 1 z))) (\<lambda>sizes.
     if 24 < length sizes then PFail UndefinedBehaviour
     else query_ok (copy_out (memcpy_at stack 0 sizes) buf))"

definition api_clGetDeviceInfo ::
  "zlib option \<Rightarrow> byte list \<Rightarrow> handle \<Rightarrow> u32 \<Rightarrow> buffer \<Rightarrow> (client, u32 \<times> query_out) prog" where
  "api_clGetDeviceInfo z stack device param_name buf =
     (if device = 0 then PRet (CL_INVALID_DEVICE, None, None)
      else
        pcatch
          (pbind LockedConnection (\<lambda>_.
           pbind (GetID device) (\<lambda>i.
           pbind (writePacket PT_GetDeviceInfo True
                    (put_IDParamPair \<lparr>idp_mData = param_name, idp_mID = i\<rparr>)) (\<lambda>_.
           pbind pflush (\<lambda>_.
           if param_name = CL_DEVICE_PLATFORM \<or> param_name = CL_DEVICE_PARENT_DEVICE then
             query_handle buf
           else if List.member size_params param_name then
             pbind (readPacket PT_Payload (pdec get_u64)) (\<lambda>value.
             pbind (Store64 (put_u64 value) buf) query_ok)
           else if param_name = CL_DEVICE_MAX_WORK_ITEM_SIZES then query_item_sizes z stack buf
           else query_payload 4 z buf)))))
          (query_error CL_OUT_OF_HOST_MEMORY))"

section \<open>queue.cpp\<close>

definition api_clCreateCommandQueue :: "handle \<Rightarrow> handle \<Rightarrow> u64 \<Rightarrow> (client, handle \<times> u32) prog" where
  "api_clCreateCommandQueue ctx device properties =
     (if ctx = 0 then PRet (0, CL_INVALID_CONTEXT)
      else if device = 0 then PRet (0, CL_INVALID_DEVICE)
      else
        pcatch
          (pbind (GetID ctx) (\<lambda>mContext.
           pbind (GetID device) (\<lambda>mDevice.
           pbind LockedConnection (\<lambda>_.
           pbind (writePacket PT_CreateQueue True
                    (put_CreateQueue \<lparr>cq_mProp = ucast properties, cq_mContext = mContext, cq_mDevice = mDevice\<rparr>)) (\<lambda>_.
           pbind pflush (\<lambda>_. newObject))))))
          create_error)"

text \<open>
  The zero-terminated list of properties, as pairs; \<open>None\<close> is a read past the end of the
  memory at \<open>properties\<close>.
\<close>

fun property_list :: "u64 list \<Rightarrow> u64 list option" where
  "property_list [] = None"
| "property_list [k] = (if k = 0 then Some [] else None)"
| "property_list (k # v # props) =
     (if k = 0 then Some [] else map_option (\<lambda>ps. k # v # ps) (property_list props))"

definition api_clCreateCommandQueueWithProperties ::
  "handle \<Rightarrow> handle \<Rightarrow> u64 list option \<Rightarrow> (client, handle \<times> u32) prog" where
  "api_clCreateCommandQueueWithProperties ctx device properties =
     (if ctx = 0 then PRet (0, CL_INVALID_CONTEXT)
      else if device = 0 then PRet (0, CL_INVALID_DEVICE)
      else
        pcatch
          (pbind (GetID ctx) (\<lambda>mContext.
           pbind (GetID device) (\<lambda>mDevice.
           case (case properties of None \<Rightarrow> Some [] | Some ps \<Rightarrow> property_list ps) of
             None \<Rightarrow> PFail UndefinedBehaviour
           | Some mProperties \<Rightarrow>
               let packet = \<lparr>cqp_mContext = mContext, cqp_mDevice = mDevice, cqp_mProperties = mProperties\<rparr> in
               pbind LockedConnection (\<lambda>_.
               pbind (writePacket PT_CreateQueueWithProp (ok_CreateQueueWithProp packet)
                        (put_CreateQueueWithProp packet)) (\<lambda>_.
               pbind pflush (\<lambda>_. newObject))))))
          create_error)"

definition api_clGetCommandQueueInfo ::
  "zlib option \<Rightarrow> handle \<Rightarrow> u32 \<Rightarrow> buffer \<Rightarrow> (client, u32 \<times> query_out) prog" where
  "api_clGetCommandQueueInfo z command_queue param_name buf =
     (if command_queue = 0 then PRet (CL_INVALID_COMMAND_QUEUE, None, None)
      else
        pcatch
          (pbind (GetID command_queue) (\<lambda>queue.
           pbind LockedConnection (\<lambda>_.
           pbind (writePacket PT_GetQueueInfo True
                    (put_IDParamPair \<lparr>idp_mData = param_name, idp_mID = queue\<rparr>)) (\<lambda>_.
           pbind pflush (\<lambda>_.
           if param_name = CL_QUEUE_CONTEXT \<or> param_name = CL_QUEUE_DEVICE then query_handle buf
           else query_payload 1 z buf)))))
          (query_error CL_OUT_OF_HOST_MEMORY))"

definition queue_call :: "packet_type \<Rightarrow> handle \<Rightarrow> (client, u32) prog" where
  "queue_call ty command_queue =
     (if command_queue = 0 then PRet CL_INVALID_COMMAND_QUEUE
      else
        pcatch
          (pbind LockedConnection (\<lambda>_.
           pbind (GetID command_queue) (\<lambda>i.
           pbind (writePacket ty True (put_u16 i)) (\<lambda>_.
           pbind pflush (\<lambda>_.
           pbind readSuccess (\<lambda>_. PRet CL_SUCCESS))))))
          (on_error CL_DEVICE_NOT_AVAILABLE CL_DEVICE_NOT_AVAILABLE (\<lambda>code. code)))"

definition api_clFlush :: "handle \<Rightarrow> (client, u32) prog" where
  "api_clFlush = queue_call PT_Flush"

definition api_clFinish :: "handle \<Rightarrow> (client, u32) prog" where
  "api_clFinish = queue_call PT_Finish"

definition api_clRetainCommandQueue :: "handle \<Rightarrow> (client, u32) prog" where
  "api_clRetainCommandQueue command_queue =
     (if command_queue = 0 then PRet CL_INVALID_COMMAND_QUEUE
      else refcount_call PT_Retain 81 CL_DEVICE_NOT_AVAILABLE command_queue)"

definition api_clReleaseCommandQueue :: "handle \<Rightarrow> (client, u32) prog" where
  "api_clReleaseCommandQueue command_queue =
     (if command_queue = 0 then PRet CL_INVALID_COMMAND_QUEUE
      else refcount_call PT_Release 81 CL_DEVICE_NOT_AVAILABLE command_queue)"

end
