(* ===== verification/RCL_ClientKernel.thy ===== *)
theory RCL_ClientKernel
  imports RCL_ClientApi
begin

text \<open>
  The functions of the OpenCL API of \<open>client/kernel.cpp\<close>. Kernels are launched in
  \<open>client/event.cpp\<close>, see \<open>RCL_ClientEvent\<close>.
\<close>

abbreviation CL_INVALID_KERNEL_NAME :: u32 where "CL_INVALID_KERNEL_NAME \<equiv> - 46"

section \<open>Creating kernels\<close>

definition api_clCreateKernel :: "handle \<Rightarrow> byte list option \<Rightarrow> (client, handle \<times> u32) prog" where
  "api_clCreateKernel program kernel_name =
     (if program = 0 then PRet (0, CL_INVALID_PROGRAM)
      else case kernel_name of None \<Rightarrow> PRet (0, CL_INVALID_KERNEL_NAME) | Some name \<Rightarrow>
        pcatch
          (pbind LockedConnection (\<lambda>_.
           pbind (GetID program) (\<lambda>i.
           let packet = \<lparr>isp_mID = i, isp_mString = name\<rparr> in
           pbind (writePacket PT_CreateKernel (ok_IDStringPair packet) (put_IDStringPair packet)) (\<lambda>_.
           pbind pflush (\<lambda>_. newObject)))))
          create_error)"

text \<open>
  \<open>num_kernels_ret\<close> is the number behind that pointer, \<open>None\<close> if it is null: it is counted up from
  what the caller left there.
\<close>

fun register_kernels :: "IDType list \<Rightarrow> (client, handle list) prog" where
  "register_kernels [] = PRet []"
| "register_kernels (i # is) =
     pbind (registerID i) (\<lambda>t. pbind (register_kernels is) (\<lambda>ts. PRet (t # ts)))"

definition api_clCreateKernelsInProgram ::
  "handle \<Rightarrow> u32 \<Rightarrow> bool \<Rightarrow> u32 option \<Rightarrow> (client, u32 \<times> u32 option \<times> handle list) prog" where
  "api_clCreateKernelsInProgram program num_kernels kernels num_kernels_ret =
     (if program = 0 then PRet (CL_INVALID_PROGRAM, num_kernels_ret, [])
      else if num_kernels \<noteq> 0 \<and> \<not> kernels then PRet (CL_INVALID_VALUE, num_kernels_ret, [])
      else if num_kernels = 0 \<and> kernels then PRet (CL_INVALID_VALUE, num_kernels_ret, [])
      else
        pcatch
          (pbind LockedConnection (\<lambda>_.
           pbind (GetID program) (\<lambda>i.
           pbind (writePacket PT_CreateKernels True
                    (put_CreateKernels \<lparr>ck_mProgramID = i, ck_mKernelCount = num_kernels\<rparr>)) (\<lambda>_.
           pbind pflush (\<lambda>_.
           if num_kernels = 0 then
             pbind (readPacket PT_Payload (pdec get_u32)) (\<lambda>count.
             PRet (CL_SUCCESS, map_option (\<lambda>_. count) num_kernels_ret, []))
           else
             pbind (readPacket PT_IDList (pdec get_IDList)) (\<lambda>list.
             if unat num_kernels < length list then PFail AssertionFailed
             else
               pbind (register_kernels list) (\<lambda>ts.
               PRet (CL_SUCCESS, map_option (\<lambda>n. n + word_of_nat (length list)) num_kernels_ret, ts))))))))
          (on_error (CL_OUT_OF_HOST_MEMORY, num_kernels_ret, []) (CL_DEVICE_NOT_AVAILABLE, num_kernels_ret, [])
             (\<lambda>code. (code, num_kernels_ret, []))))"

definition api_clCloneKernel :: "handle \<Rightarrow> (client, handle \<times> u32) prog" where
  "api_clCloneKernel source_kernel =
     (if source_kernel = 0 then PRet (0, CL_INVALID_KERNEL)
      else
        pcatch
          (pbind LockedConnection (\<lambda>_.
           pbind (GetID source_kernel) (\<lambda>i.
           pbind (writePacket PT_CloneKernel True (put_u16 i)) (\<lambda>_.
           pbind pflush (\<lambda>_. newObject)))))
          create_error)"

section \<open>Arguments\<close>

text \<open>
  The server answers the packet with what it wants: \<open>'I'\<close> (73) an ID, \<open>'S'\<close> (83) a size, anything
  else the data. \<open>arg_value\<close> is the memory behind that pointer, read past its end when it is shorter
  than what is taken from it.
\<close>

definition send_kernel_arg :: "zlib option \<Rightarrow> byte \<Rightarrow> nat \<Rightarrow> byte list \<Rightarrow> (client, unit) prog" where
  "send_kernel_arg z what arg_size arg_value =
     (if what = 73 \<and> arg_size = 8 then
        if length arg_value < 8 then PFail UndefinedBehaviour
        else
          pbind (GetID (le_decode (take 8 arg_value))) (\<lambda>i. writePacket PT_ID True (put_u16 i))
      else if what = 83 then writePacket PT_Payload True (put_u32 (word_of_nat arg_size))
      else if length arg_value < arg_size then PFail UndefinedBehaviour
      else writePacket PT_Payload True (put_Payload 4 z (take arg_size arg_value)))"

definition api_clSetKernelArg ::
  "zlib option \<Rightarrow> handle \<Rightarrow> u32 \<Rightarrow> nat \<Rightarrow> byte list \<Rightarrow> (client, u32) prog" where
  "api_clSetKernelArg z krn arg_index arg_size arg_value =
     (if krn = 0 then PRet CL_INVALID_KERNEL
      else
        pcatch
          (pbind (GetID krn) (\<lambda>i.
           pbind LockedConnection (\<lambda>_.
           pbind (writePacket PT_SetKernelArg True
                    (put_KernelArg \<lparr>ka_mArgIndex = arg_index, ka_mKernelID = i\<rparr>)) (\<lambda>_.
           pbind pflush (\<lambda>_.
           pbind (readPacket PT_Payload (pdec get_u8)) (\<lambda>what.
           pbind (send_kernel_arg z what arg_size arg_value) (\<lambda>_.
           pbind pflush (\<lambda>_.
           pbind readSuccess (\<lambda>_. PRet CL_SUCCESS)))))))))
          (on_error CL_OUT_OF_HOST_MEMORY CL_DEVICE_NOT_AVAILABLE (\<lambda>code. code)))"

section \<open>Queries\<close>

definition query_size :: "buffer \<Rightarrow> (client, u32 \<times> query_out) prog" where
  "query_size buf =
     pbind (readPacket PT_Payload (pdec get_u64)) (\<lambda>value.
     pbind (Store64 (put_u64 value) buf) query_ok)"

definition query_uint :: "buffer \<Rightarrow> (client, u32 \<times> query_out) prog" where
  "query_uint buf =
     pbind (readPacket PT_Payload (pdec get_u32)) (\<lambda>value.
     pbind (Store32 (put_u32 value) buf) query_ok)"

definition api_clGetKernelWorkGroupInfo ::
  "zlib option \<Rightarrow> byte list \<Rightarrow> handle \<Rightarrow> handle \<Rightarrow> u32 \<Rightarrow> buffer \<Rightarrow> (client, u32 \<times> query_out) prog" where
  "api_clGetKernelWorkGroupInfo z stack krn device param_name buf =
     (if krn = 0 then PRet (CL_INVALID_KERNEL, None, None)
      else if device = 0 then PRet (CL_INVALID_DEVICE, None, None)
      else
        pcatch
          (pbind (GetID krn) (\<lambda>mKernelID.
           pbind (GetID device) (\<lambda>mDeviceID.
           pbind LockedConnection (\<lambda>_.
           pbind (writePacket PT_KernelWGInfo True (put_KernelWGInfo
             \<lparr>kwg_mKernelID = mKernelID, kwg_mDeviceID = mDeviceID, kwg_mParam = param_name\<rparr>)) (\<lambda>_.
           pbind pflush (\<lambda>_.
           if param_name = CL_KERNEL_COMPILE_WORK_GROUP_SIZE then query_item_sizes z stack buf
           else if param_name = CL_KERNEL_LOCAL_MEM_SIZE
              \<or> param_name = CL_KERNEL_PREFERRED_WORK_GROUP_SIZE_MULTIPLE
              \<or> param_name = CL_KERNEL_WORK_GROUP_SIZE then query_size buf
           else query_payload 4 z buf))))))
          (query_error CL_OUT_OF_HOST_MEMORY))"

definition api_clGetKernelInfo ::
  "zlib option \<Rightarrow> handle \<Rightarrow> u32 \<Rightarrow> buffer \<Rightarrow> (client, u32 \<times> query_out) prog" where
  "api_clGetKernelInfo z krn param_name buf =
     (if krn = 0 then PRet (CL_INVALID_KERNEL, None, None)
      else
        pcatch
          (pbind (GetID krn) (\<lambda>i.
           pbind LockedConnection (\<lambda>_.
           pbind (writePacket PT_KernelInfo True
                    (put_IDParamPair \<lparr>idp_mData = param_name, idp_mID = i\<rparr>)) (\<lambda>_.
           pbind pflush (\<lambda>_.
           if param_name = CL_KERNEL_CONTEXT then query_handle buf
           else if param_name = CL_KERNEL_PROGRAM then query_handle buf
           else if param_name = CL_KERNEL_REFERENCE_COUNT \<or> param_name = CL_KERNEL_NUM_ARGS then
             query_uint buf
           else query_payload 4 z buf)))))
          (query_error CL_OUT_OF_HOST_MEMORY))"

text \<open>The type qualifier is a bit field of 8 bytes for the caller.\<close>

definition api_clGetKernelArgInfo ::
  "zlib option \<Rightarrow> handle \<Rightarrow> u32 \<Rightarrow> u32 \<Rightarrow> buffer \<Rightarrow> (client, u32 \<times> query_out) prog" where
  "api_clGetKernelArgInfo z krn arg_indx param_name buf =
     (if krn = 0 then PRet (CL_INVALID_KERNEL, None, None)
      else
        pcatch
          (pbind (GetID krn) (\<lambda>i.
           pbind LockedConnection (\<lambda>_.
           pbind (writePacket PT_KernelArgInfo True (put_KernelArgInfo
             \<lparr>kai_mArgIndex = arg_indx, kai_mParam = param_name, kai_mKernelID = i\<rparr>)) (\<lambda>_.
           pbind pflush (\<lambda>_.
           if param_name = CL_KERNEL_ARG_ACCESS_QUALIFIER then query_uint buf
           else if param_name = CL_KERNEL_ARG_TYPE_QUALIFIER then
             pbind (readPacket PT_Payload (pdec get_u32)) (\<lambda>value.
             pbind (Store64 (put_u64 (ucast value)) buf) query_ok)
           else if param_name = CL_KERNEL_ARG_ADDRESS_QUALIFIER then query_uint buf
           else query_payload 4 z buf)))))
          (query_error CL_OUT_OF_HOST_MEMORY))"

section \<open>Reference counts\<close>

definition api_clRetainKernel :: "handle \<Rightarrow> (client, u32) prog" where
  "api_clRetainKernel krn =
     (if krn = 0 then PRet CL_INVALID_KERNEL
      else refcount_call PT_Retain 75 CL_DEVICE_NOT_AVAILABLE krn)"

definition api_clReleaseKernel :: "handle \<Rightarrow> (client, u32) prog" where
  "api_clReleaseKernel krn =
     (if krn = 0 then PRet CL_INVALID_KERNEL
      else refcount_call PT_Release 75 CL_DEVICE_NOT_AVAILABLE krn)"

end
