(* ===== verification/RCL_ClientContext.thy ===== *)
theory RCL_ClientContext
  imports RCL_ClientApi
begin

text \<open>
  The functions of the OpenCL API of \<open>client/context.cpp\<close>.
\<close>

section \<open>Creating contexts\<close>

text \<open>
  The property list up to its terminating zero. The platform is an object of the client, sent as
  its ID; everything else is passed on. Memory that ends before the zero is read past its end.
\<close>

fun context_props :: "u64 list \<Rightarrow> (client, u64 list) prog" where
  "context_props [] = PFail UndefinedBehaviour"
| "context_props [k] = (if k = 0 then PRet [] else PFail UndefinedBehaviour)"
| "context_props (k # v # props) =
     (if k = 0 then PRet []
      else
        pbind (if k = CL_CONTEXT_PLATFORM then pbind (GetID (unat v)) (\<lambda>i. PRet (ucast i)) else PRet v) (\<lambda>v'.
        pbind (context_props props) (\<lambda>rest. PRet (k # v' # rest))))"

definition opt_context_props :: "u64 list option \<Rightarrow> (client, u64 list) prog" where
  "opt_context_props properties =
     (case properties of None \<Rightarrow> PRet [] | Some props \<Rightarrow> context_props props)"

text \<open>Every exception, also the one for an error packet, gives \<open>CL_DEVICE_NOT_AVAILABLE\<close>.\<close>

definition context_error :: "exn \<Rightarrow> (client, handle \<times> u32) prog" where
  "context_error e = PRet (0, CL_DEVICE_NOT_AVAILABLE)"

text \<open>The callback of the application is ignored, with a warning on the console.\<close>

definition api_clCreateContext ::
  "u64 list option \<Rightarrow> nat \<Rightarrow> handle list option \<Rightarrow> (client, handle \<times> u32) prog" where
  "api_clCreateContext properties num_devices devices =
     (if num_devices = 0 then PRet (0, CL_INVALID_PLATFORM)
      else case devices of None \<Rightarrow> PRet (0, CL_INVALID_PLATFORM) | Some ds \<Rightarrow>
        pcatch
          (pbind (opt_context_props properties) (\<lambda>mProperties.
           pbind (handleIDs num_devices ds) (\<lambda>r.
           case r of None \<Rightarrow> PRet (0, CL_INVALID_DEVICE) | Some mDevices \<Rightarrow>
             let packet = \<lparr>cc_mProperties = mProperties, cc_mDevices = mDevices\<rparr> in
             pbind LockedConnection (\<lambda>_.
             pbind (writePacket PT_CreateContext (ok_CreateContext packet) (put_CreateContext packet)) (\<lambda>_.
             pbind pflush (\<lambda>_. newObject))))))
          context_error)"

text \<open>\<open>callback\<close>: \<open>pfn_notify\<close> or \<open>user_data\<close> is not null.\<close>

definition api_clCreateContextFromType ::
  "u64 list option \<Rightarrow> u64 \<Rightarrow> bool \<Rightarrow> (client, handle \<times> u32) prog" where
  "api_clCreateContextFromType properties device_type callback =
     (if callback then PRet (0, CL_INVALID_OPERATION)
      else
        pcatch
          (pbind (opt_context_props properties) (\<lambda>mProperties.
           let packet = \<lparr>cct_mDeviceType = device_type, cct_mProperties = mProperties\<rparr> in
           pbind LockedConnection (\<lambda>_.
           pbind (writePacket PT_CreateContextFromType (ok_CreateContextFromType packet)
                    (put_CreateContextFromType packet)) (\<lambda>_.
           pbind pflush (\<lambda>_. newObject)))))
          context_error)"

section \<open>Queries\<close>

fun ids_of_bytes :: "byte list \<Rightarrow> IDType list" where
  "ids_of_bytes (a # b # bs) = word_of_nat (le_decode [a, b]) # ids_of_bytes bs"
| "ids_of_bytes bs = []"

text \<open>
  The devices come as the bytes of their IDs; as many are stored as there is room for. \<open>size_ret\<close>
  tells whether the caller asks for the size: the assertion on the length of the data is checked
  only when something is to be returned.
\<close>

fun insert_objects :: "IDType list \<Rightarrow> (client, handle list) prog" where
  "insert_objects [] = PRet []"
| "insert_objects (i # is) =
     pbind (getOrInsertObject i) (\<lambda>t. pbind (insert_objects is) (\<lambda>ts. PRet (t # ts)))"

definition context_devices :: "bool \<Rightarrow> byte list \<Rightarrow> buffer \<Rightarrow> (client, u32 \<times> query_out) prog" where
  "context_devices size_ret data buf =
     (if (size_ret \<or> snd buf) \<and> odd (length data) then PFail AssertionFailed
      else
        let size = Some (8 * (length data div 2)) in
        if snd buf then
          pbind (insert_objects (take (fst buf div 8) (ids_of_bytes data))) (\<lambda>ts.
          query_ok (Some (concat (map handle_bytes ts)), size))
        else query_ok (None, size))"

definition lost_error :: "exn \<Rightarrow> (client, u32 \<times> query_out) prog" where
  "lost_error = query_error CL_DEVICE_NOT_AVAILABLE"

definition api_clGetContextInfo ::
  "zlib option \<Rightarrow> handle \<Rightarrow> u32 \<Rightarrow> bool \<Rightarrow> buffer \<Rightarrow> (client, u32 \<times> query_out) prog" where
  "api_clGetContextInfo z ctx param_name size_ret buf =
     (if ctx = 0 then PRet (CL_INVALID_CONTEXT, None, None)
      else
        pbind (GetID ctx) (\<lambda>i.
        pcatch
          (pbind LockedConnection (\<lambda>_.
           pbind (writePacket PT_GetContextInfo True
                    (put_IDParamPair \<lparr>idp_mData = param_name, idp_mID = i\<rparr>)) (\<lambda>_.
           pbind pflush (\<lambda>_.
           pbind (readPacket PT_Payload (pdec (get_Payload 1 z))) (\<lambda>data.
           if param_name = CL_CONTEXT_DEVICES then context_devices size_ret data buf
           else query_ok (copy_min data buf))))))
          lost_error))"

definition api_clGetSupportedImageFormats ::
  "zlib option \<Rightarrow> handle \<Rightarrow> u64 \<Rightarrow> u32 \<Rightarrow> nat \<Rightarrow> bool \<Rightarrow> (client, u32 \<times> query_out) prog" where
  "api_clGetSupportedImageFormats z ctx flags image_ty num_entries image_formats =
     (if ctx = 0 then PRet (CL_INVALID_CONTEXT, None, None)
      else
        pcatch
          (pbind LockedConnection (\<lambda>_.
           pbind (GetID ctx) (\<lambda>i.
           pbind (writePacket PT_GetImageFormats True (put_GetImageFormats
             \<lparr>gif_mContextID = i, gif_mFlags = ucast flags, gif_mImageType = image_ty\<rparr>)) (\<lambda>_.
           pbind pflush (\<lambda>_.
           pbind (readPacket PT_Payload (pdec (get_Payload 2 z))) (\<lambda>data.
           query_ok (if image_formats then Some (take (8 * num_entries) data) else None,
                     Some (length data div 8))))))))
          lost_error)"

section \<open>Reference counts\<close>

definition api_clRetainContext :: "handle \<Rightarrow> (client, u32) prog" where
  "api_clRetainContext ctx =
     (if ctx = 0 then PRet CL_INVALID_CONTEXT
      else refcount_call PT_Retain 67 CL_DEVICE_NOT_AVAILABLE ctx)"

definition api_clReleaseContext :: "handle \<Rightarrow> (client, u32) prog" where
  "api_clReleaseContext ctx =
     (if ctx = 0 then PRet CL_INVALID_CONTEXT
      else refcount_call PT_Release 67 CL_DEVICE_NOT_AVAILABLE ctx)"

end
