(* ===== verification/RCL_ClientEvent.thy ===== *)
theory RCL_ClientEvent
  imports RCL_ClientApi
begin

text \<open>
  The functions of the OpenCL API of \<open>client/event.cpp\<close>: kernels, events and event callbacks.
\<close>

section \<open>Callbacks\<close>

text \<open>
  \<open>pfn_notify\<close> is a number that names a function of the application, 0 the null pointer. The ID
  of a callback is its 32-bit index; the packet has room for 16 bits. \<open>operator<<\<close> of the packet is
  \<open>noexcept\<close>.
\<close>

definition api_clSetEventCallback :: "handle \<Rightarrow> u32 \<Rightarrow> nat \<Rightarrow> ptr \<Rightarrow> (client, u32) prog" where
  "api_clSetEventCallback event callback_type pfn_notify user_data =
     (if event = 0 then PRet CL_INVALID_EVENT
      else if pfn_notify = 0 then PRet CL_INVALID_VALUE
      else PGet (\<lambda>c.
        if \<not> cl_mEventStream c then PRet CL_INVALID_OPERATION
        else
          pcatch
            (pbind LockedConnection (\<lambda>_.
             pbind (registerCallback (CB_Event event pfn_notify user_data))
               (\<lambda>callbackID.
             pbind (GetID event) (\<lambda>i.
             pbind (pwrite (put_PacketType PT_RegisterEventCallback)) (\<lambda>_.
             pbind (pnoexcept (pwrite (put_RegisterEventCallback
                      \<lparr>rec_mEventID = i, rec_mCallbackID = ucast callbackID, rec_mCBType = callback_type\<rparr>))) (\<lambda>_.
             pbind pflush (\<lambda>_.
             pbind readSuccess (\<lambda>_. PRet CL_SUCCESS))))))))
            (on_error CL_OUT_OF_HOST_MEMORY CL_DEVICE_NOT_AVAILABLE (\<lambda>code. code))))"

section \<open>Kernels\<close>

text \<open>
  The wait list of a command: the count, and the array unless its pointer is null. \<open>Inl\<close> is the
  status of an invalid list; a list shorter than the count is read past its end.
\<close>

definition wait_list :: "nat \<Rightarrow> handle list option \<Rightarrow> (client, u32 + IDType list) prog" where
  "wait_list num_events event_wait_list =
     (if num_events = 0 then PRet (Inr [])
      else case event_wait_list of
          None \<Rightarrow> PRet (Inl CL_INVALID_EVENT_WAIT_LIST)
        | Some es \<Rightarrow>
            pbind (handleIDs num_events es) (\<lambda>r.
              PRet (case r of None \<Rightarrow> Inl CL_INVALID_EVENT | Some is \<Rightarrow> Inr is)))"

text \<open>
  \<open>if (event) *event = conn.registerID<Event>(conn->read<IDPacket>());\<close> and what follows; \<open>want\<close>
  tells whether the pointer is not null.
\<close>

definition with_event :: "bool \<Rightarrow> (handle option \<Rightarrow> (client, 'a) prog) \<Rightarrow> (client, 'a) prog" where
  "with_event want k =
     pbind (if want then pbind readID (\<lambda>i. pbind (registerID i) (\<lambda>t. PRet (Some t))) else PRet None) k"

text \<open>
  One array of three dimensions from the caller's array of \<open>work_dim\<close> sizes of 64 bits: the
  packet keeps 32 of them, and \<open>d\<close> stands for the dimensions that are not used. Without an array
  the ones that are used get \<open>missing\<close>.
\<close>

definition dims :: "nat \<Rightarrow> u32 \<Rightarrow> u32 \<Rightarrow> u64 list option \<Rightarrow> dim3" where
  "dims work_dim d missing sizes =
     (let at = (\<lambda>i. if work_dim \<le> i then d
                    else case sizes of None \<Rightarrow> missing | Some xs \<Rightarrow> ucast (xs ! i))
      in (at 0, at 1, at 2))"

text \<open>
  The caller's arrays, dimension by dimension from \<open>i\<close> on: \<open>False\<close> is a local size of 0, and an array
  that is too short is read past its end.
\<close>

fun check_dims :: "nat \<Rightarrow> nat \<Rightarrow> u64 list \<Rightarrow> u64 list option \<Rightarrow> u64 list option \<Rightarrow> (client, bool) prog" where
  "check_dims i 0 global offset loc = PRet True"
| "check_dims i (Suc n) global offset loc =
     (if length global \<le> i \<or> (\<exists>xs \<in> set_option offset. length xs \<le> i)
         \<or> (\<exists>xs \<in> set_option loc. length xs \<le> i)
      then PFail UndefinedBehaviour
      else if \<exists>xs \<in> set_option loc. xs ! i = 0 then PRet False
      else check_dims (Suc i) n global offset loc)"

definition enqueue_error :: "handle option \<Rightarrow> exn \<Rightarrow> (client, u32 \<times> handle option) prog" where
  "enqueue_error event = on_error (CL_SUCCESS, event) (CL_SUCCESS, event) (\<lambda>code. (code, event))"

text \<open>
  \<open>clEnqueueNDRangeKernel\<close>: \<open>want\<close> tells whether the caller asks for an event. A null local size
  is sent as ones. The inner handler keeps
  the event that has been stored when the last read fails.
\<close>

definition api_clEnqueueNDRangeKernel ::
  "handle \<Rightarrow> handle \<Rightarrow> nat \<Rightarrow> u64 list option \<Rightarrow> u64 list \<Rightarrow> u64 list option \<Rightarrow> nat
   \<Rightarrow> handle list option \<Rightarrow> bool \<Rightarrow> (client, u32 \<times> handle option) prog" where
  "api_clEnqueueNDRangeKernel command_queue krn work_dim global_work_offset global_work_size
     local_work_size num_events event_wait_list want =
     (if command_queue = 0 then PRet (CL_INVALID_COMMAND_QUEUE, None)
      else if krn = 0 then PRet (CL_INVALID_KERNEL, None)
      else if work_dim = 0 \<or> 3 < work_dim then PRet (CL_INVALID_VALUE, None)
      else
        pcatch
          (pbind (GetID krn) (\<lambda>mKernelID.
           pbind (GetID command_queue) (\<lambda>mQueueID.
           pbind (check_dims 0 work_dim global_work_size global_work_offset local_work_size) (\<lambda>valid.
           if \<not> valid then PRet (CL_INVALID_WORK_GROUP_SIZE, None)
           else
             pbind (wait_list num_events event_wait_list) (\<lambda>r.
             case r of Inl err \<Rightarrow> PRet (err, None) | Inr eventList \<Rightarrow>
             pbind LockedConnection (\<lambda>_.
             pbind (writePacket PT_EnqueueKernel True (put_EnqueueKernel
               \<lparr>ek_mGlobalSize = dims work_dim 1 1 (Some global_work_size),
                ek_mGlobalOffset = dims work_dim 0 0 global_work_offset,
                ek_mLocalSize = dims work_dim 1 1 local_work_size,
                ek_mKernelID = mKernelID, ek_mQueueID = mQueueID, ek_mWorkDim = word_of_nat work_dim,
                ek_mWantEvent = want, ek_mExpectEventList = (num_events \<noteq> 0)\<rparr>)) (\<lambda>_.
             pbind (if num_events \<noteq> 0
                    then writePacket PT_IDList (ok_IDList eventList) (put_IDList eventList)
                    else PRet ()) (\<lambda>_.
             pbind pflush (\<lambda>_.
             with_event want (\<lambda>event.
             pcatch (pbind readSuccess (\<lambda>_. PRet (CL_SUCCESS, event))) (enqueue_error event)))))))))))
          (enqueue_error None))"

section \<open>Events\<close>

definition api_clCreateUserEvent :: "handle \<Rightarrow> (client, handle \<times> u32) prog" where
  "api_clCreateUserEvent ctx =
     (if ctx = 0 then PRet (0, CL_INVALID_CONTEXT)
      else
        pcatch
          (pbind LockedConnection (\<lambda>_.
           pbind (GetID ctx) (\<lambda>i.
           pbind (writePacket PT_CreateUserEvent True (put_u16 i)) (\<lambda>_.
           pbind pflush (\<lambda>_. newObject)))))
          create_error)"

definition api_clSetUserEventStatus :: "handle \<Rightarrow> u32 \<Rightarrow> (client, u32) prog" where
  "api_clSetUserEventStatus event execution_status =
     (if event = 0 then PRet CL_INVALID_EVENT
      else
        pcatch
          (pbind LockedConnection (\<lambda>_.
           pbind (GetID event) (\<lambda>i.
           pbind (writePacket PT_SetUserEventStatus True
                    (put_IDParamPair \<lparr>idp_mData = execution_status, idp_mID = i\<rparr>)) (\<lambda>_.
           pbind pflush (\<lambda>_.
           pbind readSuccess (\<lambda>_. PRet CL_SUCCESS))))))
          (on_error CL_OUT_OF_HOST_MEMORY CL_DEVICE_NOT_AVAILABLE (\<lambda>code. code)))"

text \<open>
  The handles come from \<open>getObject\<close>, which trusts the ID, and only when there is room for them.
  Of the handle of a queue the first 4 of its 8 bytes (\<open>sizeof(cl_command_type)\<close>) are stored.
\<close>

definition query_event_handle :: "nat \<Rightarrow> buffer \<Rightarrow> (client, u32 \<times> query_out) prog" where
  "query_event_handle n buf =
     pbind readID (\<lambda>i.
     if snd buf \<and> 8 \<le> fst buf then
       pbind (getObject i) (\<lambda>t.
       if t = 0 then PFail UndefinedBehaviour
       else query_ok (Some (take n (handle_bytes t)), Some 8))
     else query_ok (None, Some 8))"

definition api_clGetEventInfo :: "handle \<Rightarrow> u32 \<Rightarrow> buffer \<Rightarrow> (client, u32 \<times> query_out) prog" where
  "api_clGetEventInfo event param_name buf =
     (if event = 0 then PRet (CL_INVALID_EVENT, None, None)
      else
        pcatch
          (pbind (GetID event) (\<lambda>i.
           pbind LockedConnection (\<lambda>_.
           pbind (writePacket PT_GetEventInfo True
                    (put_IDParamPair \<lparr>idp_mData = param_name, idp_mID = i\<rparr>)) (\<lambda>_.
           pbind pflush (\<lambda>_.
           if param_name = CL_EVENT_COMMAND_QUEUE then query_event_handle 4 buf
           else if param_name = CL_EVENT_CONTEXT then query_event_handle 8 buf
           else
             pbind (readPacket PT_Payload (pdec get_u32)) (\<lambda>payload.
             query_ok (copy_out (put_u32 payload) buf)))))))
          (query_error CL_DEVICE_NOT_AVAILABLE))"

definition api_clGetEventProfilingInfo ::
  "handle \<Rightarrow> u32 \<Rightarrow> buffer \<Rightarrow> (client, u32 \<times> query_out) prog" where
  "api_clGetEventProfilingInfo event param_name buf =
     (if event = 0 then PRet (CL_INVALID_EVENT, None, None)
      else
        pcatch
          (pbind (GetID event) (\<lambda>i.
           pbind LockedConnection (\<lambda>_.
           pbind (writePacket PT_GetEventProfilingInfo True
                    (put_IDParamPair \<lparr>idp_mData = param_name, idp_mID = i\<rparr>)) (\<lambda>_.
           pbind pflush (\<lambda>_.
           pbind (readPacket PT_Payload (pdec get_u64)) (\<lambda>payload.
           query_ok (copy_out (put_u64 payload) buf)))))))
          (query_error CL_DEVICE_NOT_AVAILABLE))"

definition api_clWaitForEvents :: "nat \<Rightarrow> handle list option \<Rightarrow> (client, u32) prog" where
  "api_clWaitForEvents num_events event_list =
     (if num_events = 0 then PRet CL_INVALID_VALUE
      else if event_list = None then PRet CL_INVALID_VALUE
      else
        pcatch
          (pbind (wait_list num_events event_list) (\<lambda>r.
           case r of Inl err \<Rightarrow> PRet err | Inr eventList \<Rightarrow>
           pbind LockedConnection (\<lambda>_.
           pbind (writePacket PT_WaitEvents True (put_Signal ())) (\<lambda>_.
           pbind (writePacket PT_IDList (ok_IDList eventList) (put_IDList eventList)) (\<lambda>_.
           pbind pflush (\<lambda>_.
           pbind readSuccess (\<lambda>_. PRet CL_SUCCESS)))))))
          (on_error CL_OUT_OF_HOST_MEMORY CL_DEVICE_NOT_AVAILABLE (\<lambda>code. code)))"

text \<open>A lost connection goes unnoticed.\<close>

definition api_clRetainEvent :: "handle \<Rightarrow> (client, u32) prog" where
  "api_clRetainEvent event =
     (if event = 0 then PRet CL_INVALID_VALUE else refcount_call PT_Retain 69 CL_SUCCESS event)"

definition api_clReleaseEvent :: "handle \<Rightarrow> (client, u32) prog" where
  "api_clReleaseEvent event =
     (if event = 0 then PRet CL_INVALID_VALUE else refcount_call PT_Release 69 CL_SUCCESS event)"

end
