(* ===== verification/RCL_ClientMemory.thy ===== *)
theory RCL_ClientMemory
  imports RCL_ClientEvent
begin

text \<open>
  The functions of the OpenCL API of \<open>client/memory.cpp\<close> (buffers and their mappings) and
  \<open>client/image.cpp\<close> (images).

  A pointer to memory of the application is the bytes behind it, \<open>None\<close> if it is null; for memory a
  function fills it is the number of bytes there is room for, and what is stored is part of the
  result. Sizes are 64-bit words; most packets carry 32 bits of them.
\<close>

abbreviation CL_INVALID_MEM_OBJECT :: u32 where "CL_INVALID_MEM_OBJECT \<equiv> - 38"
abbreviation CL_INVALID_IMAGE_FORMAT_DESCRIPTOR :: u32 where
  "CL_INVALID_IMAGE_FORMAT_DESCRIPTOR \<equiv> - 39"
abbreviation CL_INVALID_IMAGE_DESCRIPTOR :: u32 where "CL_INVALID_IMAGE_DESCRIPTOR \<equiv> - 65"
abbreviation CL_MAP_READ :: u64 where "CL_MAP_READ \<equiv> 1"
abbreviation CL_MAP_WRITE :: u64 where "CL_MAP_WRITE \<equiv> 2"
abbreviation CL_MEM_USE_HOST_PTR :: u64 where "CL_MEM_USE_HOST_PTR \<equiv> 8"
abbreviation CL_MEM_ALLOC_HOST_PTR :: u64 where "CL_MEM_ALLOC_HOST_PTR \<equiv> 16"
abbreviation CL_MEM_OBJECT_IMAGE2D :: u32 where "CL_MEM_OBJECT_IMAGE2D \<equiv> 0x10F1"
abbreviation CL_MEM_OBJECT_IMAGE3D :: u32 where "CL_MEM_OBJECT_IMAGE3D \<equiv> 0x10F2"

section \<open>The shape of a command\<close>

text \<open>
  The wait list is looked at first; an invalid one ends the function with its status. \<open>none\<close> is
  what is stored for the data when there is none.
\<close>

definition with_wait_list ::
  "nat \<Rightarrow> handle list option \<Rightarrow> 'b \<Rightarrow> (IDType list \<Rightarrow> (client, u32 \<times> handle option \<times> 'b) prog)
   \<Rightarrow> (client, u32 \<times> handle option \<times> 'b) prog" where
  "with_wait_list num_events event_wait_list none k =
     pbind (wait_list num_events event_wait_list) (\<lambda>r.
     case r of Inl err \<Rightarrow> PRet (err, None, none) | Inr eventList \<Rightarrow> k eventList)"

text \<open>The packet of the command and, when there are events to wait for, their list.\<close>

definition write_command :: "packet_type \<Rightarrow> bool \<Rightarrow> byte list \<Rightarrow> nat \<Rightarrow> IDType list \<Rightarrow> (client, unit) prog" where
  "write_command ty ok bs num_events eventList =
     pbind (writePacket ty ok bs) (\<lambda>_.
     if num_events \<noteq> 0 then writePacket PT_IDList (ok_IDList eventList) (put_IDList eventList)
     else PRet ())"

definition command_error :: "handle option \<Rightarrow> 'b \<Rightarrow> exn \<Rightarrow> (client, u32 \<times> handle option \<times> 'b) prog" where
  "command_error event none =
     on_error (CL_OUT_OF_HOST_MEMORY, event, none) (CL_DEVICE_NOT_AVAILABLE, event, none)
       (\<lambda>code. (code, event, none))"

text \<open>
  The event and what follows: an exception after that does not take the stored event back.
\<close>

definition after_event ::
  "bool \<Rightarrow> 'b \<Rightarrow> (client, 'b) prog \<Rightarrow> (client, u32 \<times> handle option \<times> 'b) prog" where
  "after_event want none k =
     with_event want (\<lambda>event.
       pcatch (pbind k (\<lambda>d. PRet (CL_SUCCESS, event, d))) (command_error event none))"

text \<open>\<open>conn->read<PayloadInto<>>({ptr})\<close>: data that does not fit where \<open>ptr\<close> points overruns it.\<close>

definition read_into :: "nat \<Rightarrow> zlib option \<Rightarrow> nat \<Rightarrow> (client, byte list option) prog" where
  "read_into w z room =
     pbind (readPacket PT_Payload (pdec (get_PayloadInto w z))) (\<lambda>d.
     if room < length d then PFail UndefinedBehaviour else PRet (Some d))"

section \<open>memory.cpp: commands\<close>

text \<open>The pattern is copied into 128 bytes that hold \<open>stack\<close>; a longer one is refused.\<close>

definition api_clEnqueueFillBuffer ::
  "byte list \<Rightarrow> handle \<Rightarrow> handle \<Rightarrow> byte list \<Rightarrow> u64 \<Rightarrow> u64 \<Rightarrow> u64 \<Rightarrow> nat \<Rightarrow> handle list option \<Rightarrow> bool
   \<Rightarrow> (client, u32 \<times> handle option \<times> unit) prog" where
  "api_clEnqueueFillBuffer stack command_queue buffer pattern pattern_size offset sz
     num_events event_wait_list want =
     (if command_queue = 0 then PRet (CL_INVALID_COMMAND_QUEUE, None, ())
      else if buffer = 0 then PRet (CL_INVALID_MEM_OBJECT, None, ())
      else
        pcatch
          (with_wait_list num_events event_wait_list () (\<lambda>eventList.
           pbind (GetID buffer) (\<lambda>mBufferID.
           pbind (GetID command_queue) (\<lambda>mQueueID.
           if 128 < pattern_size then PRet (CL_INVALID_VALUE, None, ())
           else if length pattern < unat pattern_size then PFail UndefinedBehaviour
           else
             let E = \<lparr>fb_mBufferID = mBufferID, fb_mQueueID = mQueueID, fb_mOffset = ucast offset,
                      fb_mSize = ucast sz, fb_mPatternSize = ucast pattern_size, fb_mWantEvent = want,
                      fb_mExpectEventList = (num_events \<noteq> 0),
                      fb_mPattern = memcpy_at stack 0 (take (unat pattern_size) pattern)\<rparr> in
             pbind LockedConnection (\<lambda>_.
             pbind (write_command PT_FillBuffer (ok_FillBuffer E) (put_FillBuffer E) num_events eventList) (\<lambda>_.
             pbind pflush (\<lambda>_. after_event want () readSuccess)))))))
          (command_error None ()))"

definition api_clEnqueueReadBuffer ::
  "zlib option \<Rightarrow> handle \<Rightarrow> handle \<Rightarrow> bool \<Rightarrow> u64 \<Rightarrow> u64 \<Rightarrow> nat \<Rightarrow> nat \<Rightarrow> handle list option \<Rightarrow> bool
   \<Rightarrow> (client, u32 \<times> handle option \<times> byte list option) prog" where
  "api_clEnqueueReadBuffer z command_queue buffer blocking_read offset sz room
     num_events event_wait_list want =
     (if command_queue = 0 then PRet (CL_INVALID_COMMAND_QUEUE, None, None)
      else if buffer = 0 then PRet (CL_INVALID_MEM_OBJECT, None, None)
      else
        pcatch
          (with_wait_list num_events event_wait_list None (\<lambda>eventList.
           pbind (GetID buffer) (\<lambda>mBufferID.
           pbind (GetID command_queue) (\<lambda>mQueueID.
           pbind LockedConnection (\<lambda>_.
           pbind (write_command PT_ReadBuffer True (put_BufferRW
             \<lparr>brw_mBufferID = mBufferID, brw_mQueueID = mQueueID, brw_mSize = ucast sz,
              brw_mOffset = ucast offset, brw_mWantEvent = want,
              brw_mExpectEventList = (num_events \<noteq> 0), brw_mBlock = blocking_read\<rparr>) num_events eventList) (\<lambda>_.
           pbind pflush (\<lambda>_. after_event want None (read_into 4 z room))))))))
          (command_error None None))"

text \<open>The three sizes of an origin or a region; an array of fewer is read past its end.\<close>

definition dims3 :: "u64 \<times> u64 \<times> u64 \<Rightarrow> dim3" where
  "dims3 s = (case s of (x, y, z) \<Rightarrow> (ucast x, ucast y, ucast z))"

definition api_clEnqueueReadBufferRect ::
  "zlib option \<Rightarrow> handle \<Rightarrow> handle \<Rightarrow> bool \<Rightarrow> u64 \<times> u64 \<times> u64 \<Rightarrow> u64 \<times> u64 \<times> u64 \<Rightarrow> u64 \<times> u64 \<times> u64
   \<Rightarrow> u64 \<Rightarrow> u64 \<Rightarrow> u64 \<Rightarrow> u64 \<Rightarrow> nat \<Rightarrow> nat \<Rightarrow> handle list option \<Rightarrow> bool
   \<Rightarrow> (client, u32 \<times> handle option \<times> byte list option) prog" where
  "api_clEnqueueReadBufferRect z command_queue buffer blocking_read buffer_origin host_origin region
     buffer_row_pitch buffer_slice_pitch host_row_pitch host_slice_pitch room
     num_events event_wait_list want =
     (if command_queue = 0 then PRet (CL_INVALID_COMMAND_QUEUE, None, None)
      else if buffer = 0 then PRet (CL_INVALID_MEM_OBJECT, None, None)
      else
        pcatch
          (with_wait_list num_events event_wait_list None (\<lambda>eventList.
           pbind (GetID buffer) (\<lambda>mBufferID.
           pbind (GetID command_queue) (\<lambda>mQueueID.
           pbind LockedConnection (\<lambda>_.
           pbind (write_command PT_ReadBufferRect True (put_BufferRectRW
             \<lparr>brr_mBufferID = mBufferID, brr_mQueueID = mQueueID,
              brr_mBufferOrigin = dims3 buffer_origin, brr_mHostOrigin = dims3 host_origin,
              brr_mRegion = dims3 region, brr_mBufferRowPitch = ucast buffer_row_pitch,
              brr_mBufferSlicePitch = ucast buffer_slice_pitch,
              brr_mHostRowPitch = ucast host_row_pitch, brr_mHostSlicePitch = ucast host_slice_pitch,
              brr_mWantEvent = want, brr_mExpectEventList = (num_events \<noteq> 0),
              brr_mBlock = blocking_read\<rparr>) num_events eventList) (\<lambda>_.
           pbind pflush (\<lambda>_. after_event want None (read_into 4 z room))))))))
          (command_error None None))"

definition api_clEnqueueWriteBuffer ::
  "zlib option \<Rightarrow> handle \<Rightarrow> handle \<Rightarrow> bool \<Rightarrow> u64 \<Rightarrow> u64 \<Rightarrow> byte list \<Rightarrow> nat \<Rightarrow> handle list option \<Rightarrow> bool
   \<Rightarrow> (client, u32 \<times> handle option \<times> unit) prog" where
  "api_clEnqueueWriteBuffer z command_queue buffer blocking_write offset sz mem
     num_events event_wait_list want =
     (if command_queue = 0 then PRet (CL_INVALID_COMMAND_QUEUE, None, ())
      else if buffer = 0 then PRet (CL_INVALID_MEM_OBJECT, None, ())
      else
        pcatch
          (with_wait_list num_events event_wait_list () (\<lambda>eventList.
           pbind (GetID buffer) (\<lambda>mBufferID.
           pbind (GetID command_queue) (\<lambda>mQueueID.
           pbind LockedConnection (\<lambda>_.
           pbind (write_command PT_WriteBuffer True (put_BufferRW
             \<lparr>brw_mBufferID = mBufferID, brw_mQueueID = mQueueID, brw_mSize = ucast sz,
              brw_mOffset = ucast offset, brw_mWantEvent = want,
              brw_mExpectEventList = (num_events \<noteq> 0), brw_mBlock = blocking_write\<rparr>) num_events eventList) (\<lambda>_.
           pbind (writePayloadPtr 4 z mem (unat sz)) (\<lambda>_.
           pbind pflush (\<lambda>_. after_event want () readSuccess))))))))
          (command_error None ()))"

section \<open>memory.cpp: objects\<close>

text \<open>
  Buffers and images are not registered with \<open>registerID\<close> but looked up and inserted if they are
  not there; a status other than that of an error packet becomes \<open>CL_DEVICE_NOT_AVAILABLE\<close>.
\<close>

definition newMemObject :: "(client, handle \<times> u32) prog" where
  "newMemObject = pbind readID (\<lambda>i. pbind (getOrInsertObject i) (\<lambda>t. PRet (t, CL_SUCCESS)))"

definition create_mem_error :: "exn \<Rightarrow> (client, handle \<times> u32) prog" where
  "create_mem_error =
     on_error (0, CL_DEVICE_NOT_AVAILABLE) (0, CL_DEVICE_NOT_AVAILABLE) (\<lambda>code. (0, code))"

definition api_clCreateBuffer ::
  "zlib option \<Rightarrow> handle \<Rightarrow> u64 \<Rightarrow> u64 \<Rightarrow> byte list option \<Rightarrow> (client, handle \<times> u32) prog" where
  "api_clCreateBuffer z ctx flags sz host_ptr =
     (if ctx = 0 then PRet (0, CL_INVALID_CONTEXT)
      else if and flags CL_MEM_USE_HOST_PTR \<noteq> 0 then PRet (0, CL_INVALID_OPERATION)
      else
        pcatch
          (pbind (GetID ctx) (\<lambda>mContextID.
           pbind LockedConnection (\<lambda>_.
           pbind (writePacket PT_CreateBuffer True (put_CreateBuffer
             \<lparr>cb_mFlags = ucast flags, cb_mSize = ucast sz, cb_mContextID = mContextID,
              cb_mExpectPayload = (host_ptr \<noteq> None)\<rparr>)) (\<lambda>_.
           pbind (case host_ptr of None \<Rightarrow> PRet () | Some mem \<Rightarrow> writePayloadPtr 4 z mem (unat sz)) (\<lambda>_.
           pbind pflush (\<lambda>_. newMemObject))))))
          create_mem_error)"

text \<open>\<open>buffer_create_info\<close> points to the origin and the size of the region.\<close>

definition api_clCreateSubBuffer ::
  "handle \<Rightarrow> u64 \<Rightarrow> u32 \<Rightarrow> (u64 \<times> u64) option \<Rightarrow> (client, handle \<times> u32) prog" where
  "api_clCreateSubBuffer buffer flags buffer_create_type buffer_create_info =
     (if buffer = 0 then PRet (0, CL_INVALID_VALUE)
      else case buffer_create_info of
          None \<Rightarrow> PRet (0, CL_INVALID_VALUE)
        | Some (origin, sz) \<Rightarrow>
            pcatch
              (pbind (GetID buffer) (\<lambda>mBufferID.
               pbind LockedConnection (\<lambda>_.
               pbind (writePacket PT_CreateSubBuffer True (put_CreateSubBuffer
                 \<lparr>csb_mFlags = ucast flags, csb_mSize = ucast sz, csb_mOffset = ucast origin,
                  csb_mCreateType = buffer_create_type, csb_mBufferID = mBufferID\<rparr>)) (\<lambda>_.
               pbind pflush (\<lambda>_. newMemObject)))))
              create_mem_error)"

definition api_clGetMemObjectInfo ::
  "zlib option \<Rightarrow> handle \<Rightarrow> u32 \<Rightarrow> buffer \<Rightarrow> (client, u32 \<times> query_out) prog" where
  "api_clGetMemObjectInfo z memobj param_name buf =
     (if memobj = 0 then PRet (CL_INVALID_MEM_OBJECT, None, None)
      else
        pcatch
          (pbind (GetID memobj) (\<lambda>i.
           pbind LockedConnection (\<lambda>_.
           pbind (writePacket PT_GetMemObjInfo True
                    (put_IDParamPair \<lparr>idp_mData = param_name, idp_mID = i\<rparr>)) (\<lambda>_.
           pbind pflush (\<lambda>_.
           if param_name = CL_MEM_CONTEXT \<or> param_name = CL_MEM_ASSOCIATED_MEMOBJECT then
             query_handle buf
           else query_payload 1 z buf)))))
          (query_error CL_OUT_OF_HOST_MEMORY))"

definition api_clRetainMemObject :: "handle \<Rightarrow> (client, u32) prog" where
  "api_clRetainMemObject memobj =
     (if memobj = 0 then PRet CL_INVALID_VALUE
      else refcount_call PT_Retain 77 CL_DEVICE_NOT_AVAILABLE memobj)"

definition api_clReleaseMemObject :: "handle \<Rightarrow> (client, u32) prog" where
  "api_clReleaseMemObject memobj =
     (if memobj = 0 then PRet CL_INVALID_VALUE
      else refcount_call PT_Release 77 CL_DEVICE_NOT_AVAILABLE memobj)"

section \<open>memory.cpp: mappings\<close>

text \<open>
  The result is the address of the mapping (0 for a null pointer), the status and the event. A
  mapping that is only written does not talk to the server, but for the reference it keeps, and
  stores no event. The statuses of waiting and retaining are ignored.
\<close>

definition api_clEnqueueMapBuffer ::
  "zlib option \<Rightarrow> handle \<Rightarrow> handle \<Rightarrow> bool \<Rightarrow> u64 \<Rightarrow> u64 \<Rightarrow> u64 \<Rightarrow> nat \<Rightarrow> handle list option \<Rightarrow> bool
   \<Rightarrow> (client, handle \<times> u32 \<times> handle option) prog" where
  "api_clEnqueueMapBuffer z command_queue buffer blocking_map map_flags offset sz
     num_events event_wait_list want =
     (if buffer = 0 then PRet (0, CL_INVALID_MEM_OBJECT, None)
      else if and map_flags (not (or CL_MAP_READ CL_MAP_WRITE)) \<noteq> 0 then PRet (0, CL_INVALID_VALUE, None)
      else
        pcatch
          (pbind (GetID buffer) (\<lambda>_.
           pbind (newMapping buffer sz offset map_flags) (\<lambda>mapping.
           pbind
             (if and map_flags CL_MAP_READ \<noteq> 0 then
                pbind (api_clEnqueueReadBuffer z command_queue buffer blocking_map offset sz (unat sz)
                         num_events event_wait_list want) (\<lambda>(ret, event, d).
                pbind (case d of None \<Rightarrow> PRet () | Some bs \<Rightarrow> pupd (store_block (mp_data mapping) bs)) (\<lambda>_.
                if ret \<noteq> CL_SUCCESS then
                  pbind (dropMapping buffer (mp_data mapping)) (\<lambda>_. PRet (False, event))
                else PRet (True, event)))
              else if blocking_map \<and> event_wait_list \<noteq> None \<and> num_events \<noteq> 0 then
                pbind (api_clWaitForEvents num_events event_wait_list) (\<lambda>_. PRet (True, None))
              else PRet (True, None)) (\<lambda>(mapped, event).
           if \<not> mapped then PRet (0, CL_INVALID_VALUE, event)
           else
             pbind (api_clRetainMemObject buffer) (\<lambda>_.
             PRet (mp_data mapping, CL_SUCCESS, event))))))
          (\<lambda>_. PRet (0, CL_OUT_OF_HOST_MEMORY, None)))"

definition api_clEnqueueUnmapMemObject ::
  "zlib option \<Rightarrow> handle \<Rightarrow> handle \<Rightarrow> handle \<Rightarrow> nat \<Rightarrow> handle list option \<Rightarrow> bool
   \<Rightarrow> (client, u32 \<times> handle option) prog" where
  "api_clEnqueueUnmapMemObject z command_queue memobj mapped_ptr num_events event_wait_list want =
     (if memobj = 0 then PRet (CL_INVALID_MEM_OBJECT, None)
      else
        pcatch
          (pbind (GetID memobj) (\<lambda>_.
           pbind (getMapping memobj mapped_ptr) (\<lambda>mapping.
           pbind
             (if and (mp_flags mapping) CL_MAP_WRITE \<noteq> 0 then
                pbind (pget (\<lambda>c. block_bytes c (mp_data mapping) (unat (mp_size mapping)))) (\<lambda>mem.
                pbind (api_clEnqueueWriteBuffer z command_queue memobj True (mp_offset mapping)
                         (mp_size mapping) mem num_events event_wait_list want) (\<lambda>(ret, event, _).
                PRet (ret, event)))
              else if want then PRet (CL_INVALID_OPERATION, None)
              else if num_events \<noteq> 0 \<and> event_wait_list \<noteq> None then
                pbind (api_clWaitForEvents num_events event_wait_list) (\<lambda>_. PRet (CL_SUCCESS, None))
              else PRet (CL_SUCCESS, None)) (\<lambda>(ret, event).
           if ret \<noteq> CL_SUCCESS then PRet (ret, event)
           else
             pbind (dropMapping memobj mapped_ptr) (\<lambda>_.
             pbind (api_clReleaseMemObject memobj) (\<lambda>_.
             PRet (CL_SUCCESS, event)))))))
          (\<lambda>_. PRet (CL_INVALID_VALUE, None)))"

section \<open>image.cpp\<close>

definition image_packet ::
  "IDType \<Rightarrow> IDType \<Rightarrow> bool \<Rightarrow> u64 \<times> u64 \<times> u64 \<Rightarrow> u64 \<times> u64 \<times> u64 \<Rightarrow> u64 \<Rightarrow> u64 \<Rightarrow> nat \<Rightarrow> bool \<Rightarrow> ImageRW" where
  "image_packet mImageID mQueueID blocking origin region row_pitch slice_pitch num_events want =
     \<lparr>irw_mImageID = mImageID, irw_mQueueID = mQueueID, irw_mRowPitch = ucast row_pitch,
      irw_mSlicePitch = ucast slice_pitch, irw_mOrigin = dims3 origin, irw_mRegion = dims3 region,
      irw_mWantEvent = want, irw_mExpectEventList = (num_events \<noteq> 0), irw_mBlock = blocking\<rparr>"

definition api_clEnqueueReadImage ::
  "zlib option \<Rightarrow> handle \<Rightarrow> handle \<Rightarrow> bool \<Rightarrow> u64 \<times> u64 \<times> u64 \<Rightarrow> u64 \<times> u64 \<times> u64 \<Rightarrow> u64 \<Rightarrow> u64 \<Rightarrow> nat
   \<Rightarrow> nat \<Rightarrow> handle list option \<Rightarrow> bool \<Rightarrow> (client, u32 \<times> handle option \<times> byte list option) prog" where
  "api_clEnqueueReadImage z command_queue img blocking_read origin region row_pitch slice_pitch room
     num_events event_wait_list want =
     (if command_queue = 0 then PRet (CL_INVALID_COMMAND_QUEUE, None, None)
      else if img = 0 then PRet (CL_INVALID_MEM_OBJECT, None, None)
      else
        pcatch
          (with_wait_list num_events event_wait_list None (\<lambda>eventList.
           pbind (GetID img) (\<lambda>mImageID.
           pbind (GetID command_queue) (\<lambda>mQueueID.
           pbind LockedConnection (\<lambda>_.
           pbind (write_command PT_ReadImage True
             (put_ImageRW (image_packet mImageID mQueueID blocking_read origin region row_pitch
                slice_pitch num_events want)) num_events eventList) (\<lambda>_.
           pbind pflush (\<lambda>_. after_event want None (read_into 4 z room))))))))
          (command_error None None))"

text \<open>
  The server says how many bytes it wants. Its last answer is the event or, if none is asked for,
  a success packet.
\<close>

definition api_clEnqueueWriteImage ::
  "zlib option \<Rightarrow> handle \<Rightarrow> handle \<Rightarrow> bool \<Rightarrow> u64 \<times> u64 \<times> u64 \<Rightarrow> u64 \<times> u64 \<times> u64 \<Rightarrow> u64 \<Rightarrow> u64
   \<Rightarrow> byte list \<Rightarrow> nat \<Rightarrow> handle list option \<Rightarrow> bool \<Rightarrow> (client, u32 \<times> handle option \<times> unit) prog" where
  "api_clEnqueueWriteImage z command_queue img blocking_write origin region input_row_pitch
     input_slice_pitch mem num_events event_wait_list want =
     (if command_queue = 0 then PRet (CL_INVALID_COMMAND_QUEUE, None, ())
      else if img = 0 then PRet (CL_INVALID_MEM_OBJECT, None, ())
      else
        pcatch
          (with_wait_list num_events event_wait_list () (\<lambda>eventList.
           pbind (GetID img) (\<lambda>mImageID.
           pbind (GetID command_queue) (\<lambda>mQueueID.
           pbind LockedConnection (\<lambda>_.
           pbind (write_command PT_WriteImage True
             (put_ImageRW (image_packet mImageID mQueueID blocking_write origin region
                input_row_pitch input_slice_pitch num_events want)) num_events eventList) (\<lambda>_.
           pbind pflush (\<lambda>_.
           pbind (readPacket PT_Payload (pdec get_u32)) (\<lambda>dataSize.
           pbind (writePayloadPtr 4 z mem (unat dataSize)) (\<lambda>_.
           pbind pflush (\<lambda>_.
           if want then pbind readID (\<lambda>i. pbind (registerID i) (\<lambda>t. PRet (CL_SUCCESS, Some t, ())))
           else pbind readSuccess (\<lambda>_. PRet (CL_SUCCESS, None, ()))))))))))))
          (command_error None ()))"

definition api_clCreateImage ::
  "zlib option \<Rightarrow> handle \<Rightarrow> u64 \<Rightarrow> cl_image_format option \<Rightarrow> cl_image_desc option \<Rightarrow> byte list option
   \<Rightarrow> (client, handle \<times> u32) prog" where
  "api_clCreateImage z ctx flags image_format image_desc host_ptr =
     (if ctx = 0 then PRet (0, CL_INVALID_CONTEXT)
      else case image_desc of None \<Rightarrow> PRet (0, CL_INVALID_IMAGE_DESCRIPTOR) | Some desc \<Rightarrow>
      case image_format of None \<Rightarrow> PRet (0, CL_INVALID_IMAGE_FORMAT_DESCRIPTOR) | Some format \<Rightarrow>
      if host_ptr \<noteq> None \<and> and flags CL_MEM_USE_HOST_PTR \<noteq> 0 then PRet (0, CL_INVALID_OPERATION)
      else if host_ptr \<noteq> None \<and> and flags CL_MEM_ALLOC_HOST_PTR \<noteq> 0 then PRet (0, CL_INVALID_OPERATION)
      else if and flags CL_MEM_COPY_HOST_PTR \<noteq> 0 \<and> host_ptr = None then PRet (0, CL_INVALID_VALUE)
      else
        pcatch
          (pbind (GetID ctx) (\<lambda>mContextID.
           pbind LockedConnection (\<lambda>_.
           pbind (writePacket PT_CreateImage True (put_CreateImage
             \<lparr>ci_mFlags = ucast flags, ci_mChannelOrder = image_channel_order format,
              ci_mChannelType = image_channel_data_type format, ci_mImageType = image_type desc,
              ci_mWidth = word_of_nat (image_width desc), ci_mHeight = word_of_nat (image_height desc),
              ci_mDepth = word_of_nat (image_depth desc),
              ci_mArraySize = word_of_nat (image_array_size desc),
              ci_mRowPitch = word_of_nat (image_row_pitch desc),
              ci_mSlicePitch = word_of_nat (image_slice_pitch desc),
              ci_mMipLevels = num_mip_levels desc, ci_mSamples = num_samples desc,
              ci_mContextID = mContextID\<rparr>)) (\<lambda>_.
           pbind pflush (\<lambda>_.
           pbind
             (if and flags CL_MEM_COPY_HOST_PTR \<noteq> 0 then
                pbind (readPacket PT_Payload (pdec get_u32)) (\<lambda>dataSize.
                pbind (writePayloadPtr 4 z (the host_ptr) (unat dataSize)) (\<lambda>_. pflush))
              else PRet ()) (\<lambda>_. newMemObject))))))
          create_mem_error)"

definition zero_desc :: cl_image_desc where
  "zero_desc = \<lparr>image_type = 0, image_width = 0, image_height = 0, image_depth = 0,
     image_array_size = 0, image_row_pitch = 0, image_slice_pitch = 0, num_mip_levels = 0,
     num_samples = 0\<rparr>"

definition api_clCreateImage2D ::
  "zlib option \<Rightarrow> handle \<Rightarrow> u64 \<Rightarrow> cl_image_format option \<Rightarrow> u64 \<Rightarrow> u64 \<Rightarrow> u64 \<Rightarrow> byte list option
   \<Rightarrow> (client, handle \<times> u32) prog" where
  "api_clCreateImage2D z ctx flags image_format width height row_pitch host_ptr =
     api_clCreateImage z ctx flags image_format
       (Some (zero_desc\<lparr>image_width := unat width, image_height := unat height,
                       image_row_pitch := unat row_pitch, image_type := CL_MEM_OBJECT_IMAGE2D\<rparr>)) host_ptr"

definition api_clCreateImage3D ::
  "zlib option \<Rightarrow> handle \<Rightarrow> u64 \<Rightarrow> cl_image_format option \<Rightarrow> u64 \<Rightarrow> u64 \<Rightarrow> u64 \<Rightarrow> u64 \<Rightarrow> u64
   \<Rightarrow> byte list option \<Rightarrow> (client, handle \<times> u32) prog" where
  "api_clCreateImage3D z ctx flags image_format width height depth row_pitch slice_pitch host_ptr =
     api_clCreateImage z ctx flags image_format
       (Some (zero_desc\<lparr>image_width := unat width, image_height := unat height,
                       image_depth := unat depth, image_row_pitch := unat row_pitch,
                       image_slice_pitch := unat slice_pitch, image_type := CL_MEM_OBJECT_IMAGE3D\<rparr>)) host_ptr"

text \<open>An ID with all bits set is a null handle.\<close>

definition api_clGetImageInfo ::
  "zlib option \<Rightarrow> handle \<Rightarrow> u32 \<Rightarrow> buffer \<Rightarrow> (client, u32 \<times> query_out) prog" where
  "api_clGetImageInfo z img param_name buf =
     (if img = 0 then PRet (CL_INVALID_MEM_OBJECT, None, None)
      else
        pcatch
          (pbind (GetID img) (\<lambda>i.
           pbind LockedConnection (\<lambda>_.
           pbind (writePacket PT_GetImageInfo True
                    (put_IDParamPair \<lparr>idp_mData = param_name, idp_mID = i\<rparr>)) (\<lambda>_.
           pbind pflush (\<lambda>_.
           if param_name = CL_IMAGE_BUFFER then
             pbind readID (\<lambda>result.
             pbind (if result \<noteq> not 0 then getOrInsertObject result else PRet 0) (\<lambda>t.
             pbind (Store64 (handle_bytes t) buf) query_ok))
           else query_payload 1 z buf)))))
          (query_error CL_OUT_OF_HOST_MEMORY))"

end
