(* ===== verification/RCL_ClientProgram.thy ===== *)
theory RCL_ClientProgram
  imports RCL_ClientMemory
begin

text \<open>
  The functions of the OpenCL API of \<open>client/program.cpp\<close>.

  A C string is given by the bytes before its terminating zero, where the function looks for the
  zero; memory whose length is given separately is the bytes behind the pointer.
\<close>

section \<open>Creating programs\<close>

text \<open>
  The source, put together from \<open>n\<close> strings. A length of 0 stands for the length of the C string.
  The result is \<open>None\<close> when memory is read past its end, \<open>Some None\<close> for a null pointer among the
  strings.
\<close>

definition strlen :: "byte list \<Rightarrow> nat option" where
  "strlen mem = (if List.member mem 0 then Some (length (takeWhile (\<lambda>b. b \<noteq> 0) mem)) else None)"

definition source_line :: "byte list \<Rightarrow> nat \<Rightarrow> byte list option" where
  "source_line mem strLen =
     (case (if strLen = 0 then strlen mem else Some strLen) of
        None \<Rightarrow> None
      | Some n \<Rightarrow> if length mem < n then None else Some (take n mem))"

fun source_string :: "nat \<Rightarrow> byte list option list \<Rightarrow> nat list option \<Rightarrow> byte list option option" where
  "source_string 0 strings lengths = Some (Some [])"
| "source_string (Suc n) [] lengths = None"
| "source_string (Suc n) (None # strings) lengths = Some None"
| "source_string (Suc n) (Some mem # strings) lengths =
     (if lengths = Some [] then None
      else
        case source_line mem (case lengths of None \<Rightarrow> 0 | Some ls \<Rightarrow> hd ls) of
          None \<Rightarrow> None
        | Some line \<Rightarrow>
            map_option (map_option (\<lambda>rest. line @ rest)) (source_string n strings (map_option tl lengths)))"

definition api_clCreateProgramWithSource ::
  "handle \<Rightarrow> nat \<Rightarrow> byte list option list option \<Rightarrow> nat list option \<Rightarrow> (client, handle \<times> u32) prog" where
  "api_clCreateProgramWithSource ctx count strings lengths =
     (if ctx = 0 then PRet (0, CL_INVALID_CONTEXT)
      else if count = 0 then PRet (0, CL_INVALID_CONTEXT)
      else case strings of None \<Rightarrow> PRet (0, CL_INVALID_CONTEXT) | Some strs \<Rightarrow>
        pcatch
          (case source_string count strs lengths of
             None \<Rightarrow> PFail UndefinedBehaviour
           | Some None \<Rightarrow> PRet (0, CL_INVALID_VALUE)
           | Some (Some mString) \<Rightarrow>
               pbind LockedConnection (\<lambda>_.
               pbind (GetID ctx) (\<lambda>i.
               let packet = \<lparr>isp_mID = i, isp_mString = mString\<rparr> in
               pbind (writePacket PT_CreateSourceProgram (ok_IDStringPair packet) (put_IDStringPair packet)) (\<lambda>_.
               pbind pflush (\<lambda>_. newObject)))))
          create_error)"

text \<open>
  The binaries, one packet each; a null pointer is an empty one. The status of each device is read
  into memory with room for \<open>binary_status\<close> bytes, or dropped when that pointer is null.
\<close>

fun write_binaries :: "zlib option \<Rightarrow> nat \<Rightarrow> nat list \<Rightarrow> byte list option list \<Rightarrow> (client, unit) prog" where
  "write_binaries z 0 lengths binaries = PRet ()"
| "write_binaries z (Suc n) lengths [] = PFail UndefinedBehaviour"
| "write_binaries z (Suc n) lengths (None # binaries) =
     pbind (writePayloadPtr 4 z [] 0) (\<lambda>_. write_binaries z n (tl lengths) binaries)"
| "write_binaries z (Suc n) lengths (Some mem # binaries) =
     (if lengths = [] then PFail UndefinedBehaviour
      else pbind (writePayloadPtr 4 z mem (hd lengths)) (\<lambda>_. write_binaries z n (tl lengths) binaries))"

definition api_clCreateProgramWithBinary ::
  "zlib option \<Rightarrow> handle \<Rightarrow> nat \<Rightarrow> handle list option \<Rightarrow> nat list option \<Rightarrow> byte list option list option
   \<Rightarrow> nat option \<Rightarrow> (client, handle \<times> u32 \<times> byte list option) prog" where
  "api_clCreateProgramWithBinary z ctx num_devices device_list lengths binaries binary_status =
     (if ctx = 0 then PRet (0, CL_INVALID_CONTEXT, None)
      else if num_devices = 0 then PRet (0, CL_INVALID_VALUE, None)
      else case (device_list, lengths, binaries) of
        (Some devs, Some lens, Some bins) \<Rightarrow>
          pcatch
            (pbind (handleIDs num_devices devs) (\<lambda>r.
             case r of None \<Rightarrow> PRet (0, CL_INVALID_DEVICE, None) | Some deviceList \<Rightarrow>
               pbind LockedConnection (\<lambda>_.
               pbind (GetID ctx) (\<lambda>i.
               pbind (writePacket PT_CreateBinaryProgram True (put_u16 i)) (\<lambda>_.
               pbind (writePacket PT_IDList (ok_IDList deviceList) (put_IDList deviceList)) (\<lambda>_.
               pbind (write_binaries z num_devices lens bins) (\<lambda>_.
               pbind pflush (\<lambda>_.
               pbind readID (\<lambda>p.
               pbind (registerID p) (\<lambda>t.
               pbind
                 (case binary_status of
                    Some room \<Rightarrow> read_into 2 z room
                  | None \<Rightarrow> pbind (readPacket PT_Payload (pdec (get_Payload 2 z))) (\<lambda>_. PRet None)) (\<lambda>statuses.
               PRet (t, CL_SUCCESS, statuses))))))))))))
            (on_error (0, CL_OUT_OF_HOST_MEMORY, None) (0, CL_DEVICE_NOT_AVAILABLE, None)
               (\<lambda>code. (0, code, None)))
      | _ \<Rightarrow> PRet (0, CL_INVALID_VALUE, None))"

section \<open>Compiling, linking and building\<close>

text \<open>A device list that is null has to have length 0, and one that is not another length.\<close>

definition devices_bad :: "nat \<Rightarrow> handle list option \<Rightarrow> bool" where
  "devices_bad num_devices device_list \<longleftrightarrow> (device_list = None) = (0 < num_devices)"

text \<open>
  Header \<open>i\<close> is written to element \<open>i\<close> of vectors for which memory is reserved but which are empty:
  with any header the behaviour is undefined.
\<close>

definition header_loop :: "nat \<Rightarrow> handle list option \<Rightarrow> byte list option list option \<Rightarrow> (client, u32 option) prog" where
  "header_loop num_input_headers input_headers header_include_names =
     (if num_input_headers = 0 then PRet None
      else case input_headers of
        Some (t # _) \<Rightarrow>
          if t = 0 then PRet (Some CL_INVALID_VALUE)
          else (case header_include_names of
                  Some (None # _) \<Rightarrow> PRet (Some CL_INVALID_VALUE)
                | _ \<Rightarrow> PFail UndefinedBehaviour)
      | _ \<Rightarrow> PFail UndefinedBehaviour)"

definition headers_bad :: "nat \<Rightarrow> handle list option \<Rightarrow> byte list option list option \<Rightarrow> bool" where
  "headers_bad num_input_headers input_headers header_include_names \<longleftrightarrow>
     (if num_input_headers = 0 then input_headers \<noteq> None \<or> header_include_names \<noteq> None
      else input_headers = None \<or> header_include_names = None)"

text \<open>
  \<open>pfn_notify\<close> and \<open>user_data\<close> are 0 when null. With an event stream the callback is registered and
  the server asked to trigger it; without, it is called here, while the connection is locked.
\<close>

definition api_clCompileProgram ::
  "handle \<Rightarrow> nat \<Rightarrow> handle list option \<Rightarrow> byte list option \<Rightarrow> nat \<Rightarrow> handle list option
   \<Rightarrow> byte list option list option \<Rightarrow> nat \<Rightarrow> ptr \<Rightarrow> (client, u32) prog" where
  "api_clCompileProgram program num_devices device_list options num_input_headers input_headers
     header_include_names pfn_notify user_data =
     (if program = 0 then PRet CL_INVALID_PROGRAM
      else if devices_bad num_devices device_list then PRet CL_INVALID_VALUE
      else if headers_bad num_input_headers input_headers header_include_names then PRet CL_INVALID_VALUE
      else if pfn_notify = 0 \<and> user_data \<noteq> 0 then PRet CL_INVALID_VALUE
      else
        pcatch
          (pbind (GetID program) (\<lambda>mProgramID.
           pbind (handleIDs num_devices (case device_list of None \<Rightarrow> [] | Some ts \<Rightarrow> ts)) (\<lambda>r.
           case r of None \<Rightarrow> PRet CL_INVALID_DEVICE | Some mDeviceIDs \<Rightarrow>
           pbind (header_loop num_input_headers input_headers header_include_names) (\<lambda>err.
           case err of Some e \<Rightarrow> PRet e | None \<Rightarrow>
           pbind LockedConnection (\<lambda>_.
           pbind (pget cl_mEventStream) (\<lambda>hasEventStream.
           let mHasCallback = (pfn_notify \<noteq> 0 \<and> hasEventStream) in
           pbind (if mHasCallback then registerCallback (CB_Program program pfn_notify user_data) else PRet 0)
             (\<lambda>callbackID.
           let packet = \<lparr>cp_mProgramID = mProgramID,
                 cp_mOptions = (case options of None \<Rightarrow> [] | Some s \<Rightarrow> s), cp_mDeviceIDs = mDeviceIDs,
                 cp_mHeaderIDs = [], cp_mHeaderNames = [], cp_mHasCallback = mHasCallback,
                 cp_mCallbackID = ucast callbackID\<rparr> in
           pbind (writePacket PT_CompileProgram (ok_CompileProgram packet) (put_CompileProgram packet)) (\<lambda>_.
           pbind pflush (\<lambda>_.
           pbind readSuccess (\<lambda>_.
           pbind (if pfn_notify \<noteq> 0 \<and> \<not> mHasCallback
                  then notify (ProgramNotify pfn_notify program user_data) else PRet ()) (\<lambda>_.
           PRet CL_SUCCESS)))))))))))
          (on_error CL_OUT_OF_HOST_MEMORY CL_DEVICE_NOT_AVAILABLE (\<lambda>code. code)))"

text \<open>
  The callback is called at once, on the thread of the caller and while the connection is locked.
  The second part of the result is what is stored at \<open>errcode_ret\<close>: nothing when all went well.
\<close>

definition api_clLinkProgram ::
  "handle \<Rightarrow> nat \<Rightarrow> handle list option \<Rightarrow> byte list option \<Rightarrow> nat \<Rightarrow> handle list option \<Rightarrow> nat \<Rightarrow> ptr
   \<Rightarrow> (client, handle \<times> u32 option) prog" where
  "api_clLinkProgram ctx num_devices device_list options num_input_programs input_programs
     pfn_notify user_data =
     (if ctx = 0 then PRet (0, Some CL_INVALID_CONTEXT)
      else if devices_bad num_devices device_list then PRet (0, Some CL_INVALID_VALUE)
      else if pfn_notify = 0 \<and> user_data \<noteq> 0 then PRet (0, Some CL_INVALID_VALUE)
      else if num_input_programs = 0 then PRet (0, Some CL_INVALID_VALUE)
      else case input_programs of None \<Rightarrow> PRet (0, Some CL_INVALID_VALUE) | Some progs \<Rightarrow>
        pcatch
          (pbind (GetID ctx) (\<lambda>mContext.
           pbind (handleIDs num_devices (case device_list of None \<Rightarrow> [] | Some ts \<Rightarrow> ts)) (\<lambda>r.
           case r of None \<Rightarrow> PRet (0, Some CL_INVALID_DEVICE) | Some mDeviceIDs \<Rightarrow>
           pbind (handleIDs num_input_programs progs) (\<lambda>r'.
           case r' of None \<Rightarrow> PRet (0, Some CL_INVALID_VALUE) | Some mProgramIDs \<Rightarrow>
           let packet = \<lparr>lp_mContext = mContext, lp_mProgramIDs = mProgramIDs, lp_mDeviceIDs = mDeviceIDs,
                 lp_mOptions = (case options of None \<Rightarrow> [] | Some s \<Rightarrow> s)\<rparr> in
           pbind LockedConnection (\<lambda>_.
           pbind (writePacket PT_LinkProgram (ok_LinkProgram packet) (put_LinkProgram packet)) (\<lambda>_.
           pbind pflush (\<lambda>_.
           pbind readID (\<lambda>i.
           pbind (registerID i) (\<lambda>t.
           pbind (if pfn_notify \<noteq> 0 then notify (ProgramNotify pfn_notify t user_data) else PRet ()) (\<lambda>_.
           PRet (t, None)))))))))))
          (on_error (0, Some CL_OUT_OF_HOST_MEMORY) (0, Some CL_DEVICE_NOT_AVAILABLE)
             (\<lambda>code. (0, Some code))))"

text \<open>The callback is not used.\<close>

definition api_clBuildProgram ::
  "handle \<Rightarrow> nat \<Rightarrow> handle list option \<Rightarrow> byte list option \<Rightarrow> nat \<Rightarrow> ptr \<Rightarrow> (client, u32) prog" where
  "api_clBuildProgram program num_devices device_list options pfn_notify user_data =
     (let devs = (case device_list of None \<Rightarrow> [] | Some ts \<Rightarrow> ts) in
      if program = 0 then PRet CL_INVALID_PROGRAM
      else if devices_bad num_devices device_list then PRet CL_INVALID_VALUE
      else if pfn_notify = 0 \<and> user_data \<noteq> 0 then PRet CL_INVALID_VALUE
      else if List.member (take num_devices devs) 0 then PRet CL_INVALID_DEVICE
      else if length devs < num_devices then PFail UndefinedBehaviour
      else
        pcatch
          (pbind LockedConnection (\<lambda>_.
           pbind (GetID program) (\<lambda>i.
           let build = \<lparr>isp_mID = i, isp_mString = (case options of None \<Rightarrow> [] | Some s \<Rightarrow> s)\<rparr> in
           pbind (handleIDs num_devices devs) (\<lambda>r.
           case r of None \<Rightarrow> PRet CL_INVALID_DEVICE | Some ids \<Rightarrow>
           pbind (writePacket PT_BuildProgram (ok_IDStringPair build) (put_IDStringPair build)) (\<lambda>_.
           pbind (writePacket PT_IDList (ok_IDList ids) (put_IDList ids)) (\<lambda>_.
           pbind pflush (\<lambda>_.
           pbind readSuccess (\<lambda>_. PRet CL_SUCCESS))))))))
          (on_error CL_OUT_OF_HOST_MEMORY CL_DEVICE_NOT_AVAILABLE (\<lambda>code. code)))"

section \<open>Queries\<close>

definition api_clGetProgramBuildInfo ::
  "zlib option \<Rightarrow> handle \<Rightarrow> handle \<Rightarrow> u32 \<Rightarrow> buffer \<Rightarrow> (client, u32 \<times> query_out) prog" where
  "api_clGetProgramBuildInfo z program device param_name buf =
     (if program = 0 then PRet (CL_INVALID_PROGRAM, None, None)
      else if device = 0 then PRet (CL_INVALID_DEVICE, None, None)
      else
        pcatch
          (pbind LockedConnection (\<lambda>_.
           pbind (GetID program) (\<lambda>mProgramID.
           pbind (GetID device) (\<lambda>mDeviceID.
           pbind (writePacket PT_BuildInfo True (put_ProgramBuildInfo
             \<lparr>pbi_mParam = param_name, pbi_mProgramID = mProgramID, pbi_mDeviceID = mDeviceID\<rparr>)) (\<lambda>_.
           pbind pflush (\<lambda>_.
           pbind (readPacket PT_Payload (pdec (get_Payload 4 z))) (\<lambda>payload.
           query_ok (copy_min payload buf))))))))
          (query_error CL_OUT_OF_HOST_MEMORY))"

text \<open>
  The context comes from \<open>getObject\<close>, which trusts the ID and has to find an object; the devices
  too, but only when there is room for all of them.
\<close>

fun get_objects :: "IDType list \<Rightarrow> (client, handle list) prog" where
  "get_objects [] = PRet []"
| "get_objects (i # is) =
     pbind (getObject i) (\<lambda>t.
     if t = 0 then PFail UndefinedBehaviour
     else pbind (get_objects is) (\<lambda>ts. PRet (t # ts)))"

definition program_context :: "buffer \<Rightarrow> (client, u32 \<times> query_out) prog" where
  "program_context buf =
     pbind readID (\<lambda>i.
     pbind (getObject i) (\<lambda>t.
     if t = 0 then PFail AssertionFailed
     else query_ok (copy_out (handle_bytes t) buf)))"

definition program_devices :: "buffer \<Rightarrow> (client, u32 \<times> query_out) prog" where
  "program_devices buf =
     pbind (readPacket PT_IDList (pdec get_IDList)) (\<lambda>list.
     let size = 8 * length list in
     if snd buf \<and> size \<le> fst buf then
       pbind (get_objects list) (\<lambda>ts. query_ok (Some (concat (map handle_bytes ts)), Some size))
     else query_ok (None, Some size))"

text \<open>
  \<open>ptrs\<close> is the array at \<open>param_value\<close>: the room behind each of its pointers. It is not compared
  with the number of binaries, nor the room with their sizes.
\<close>

fun read_payloads :: "zlib option \<Rightarrow> nat \<Rightarrow> (client, byte list list) prog" where
  "read_payloads z 0 = PRet []"
| "read_payloads z (Suc n) =
     pbind (readPacket PT_Payload (pdec (get_Payload 2 z))) (\<lambda>d.
     pbind (read_payloads z n) (\<lambda>ds. PRet (d # ds)))"

fun store_binaries :: "nat option list \<Rightarrow> byte list list \<Rightarrow> (client, byte list option list) prog" where
  "store_binaries ptrs [] = PRet []"
| "store_binaries [] (d # ds) = PFail UndefinedBehaviour"
| "store_binaries (None # ptrs) (d # ds) =
     pbind (store_binaries ptrs ds) (\<lambda>outs. PRet (None # outs))"
| "store_binaries (Some room # ptrs) (d # ds) =
     (if room < length d then PFail UndefinedBehaviour
      else pbind (store_binaries ptrs ds) (\<lambda>outs. PRet (Some d # outs)))"

definition api_clGetProgramInfo ::
  "zlib option \<Rightarrow> handle \<Rightarrow> u32 \<Rightarrow> buffer \<Rightarrow> nat option list
   \<Rightarrow> (client, (u32 \<times> query_out) \<times> byte list option list) prog" where
  "api_clGetProgramInfo z program param_name buf ptrs =
     (if program = 0 then PRet ((CL_INVALID_PROGRAM, None, None), [])
      else
        pcatch
          (pbind LockedConnection (\<lambda>_.
           pbind (GetID program) (\<lambda>i.
           pbind (writePacket PT_ProgramInfo True
                    (put_IDParamPair \<lparr>idp_mData = param_name, idp_mID = i\<rparr>)) (\<lambda>_.
           pbind pflush (\<lambda>_.
           if param_name = CL_PROGRAM_CONTEXT then pbind (program_context buf) (\<lambda>q. PRet (q, []))
           else if param_name = CL_PROGRAM_DEVICES then pbind (program_devices buf) (\<lambda>q. PRet (q, []))
           else if param_name = CL_PROGRAM_BINARIES then
             pbind (readPacket PT_Payload (pdec get_u8)) (\<lambda>binaryCount.
             pbind (read_payloads z (unat binaryCount)) (\<lambda>binaries.
             pbind (if snd buf then store_binaries ptrs binaries else PRet []) (\<lambda>outs.
             PRet ((CL_SUCCESS, None, Some (8 * unat binaryCount)), outs))))
           else
             pbind (readPacket PT_Payload (pdec (get_Payload 4 z))) (\<lambda>payload.
             PRet ((CL_SUCCESS, copy_min payload buf), [])))))))
          (on_error ((CL_OUT_OF_HOST_MEMORY, None, None), []) ((CL_DEVICE_NOT_AVAILABLE, None, None), [])
             (\<lambda>code. ((code, None, None), []))))"

section \<open>Reference counts\<close>

text \<open>
  The connection is taken outside of the \<open>try\<close> block: without one the exception leaves the
  function. A connection lost later goes unnoticed.
\<close>

definition program_refcount :: "packet_type \<Rightarrow> handle \<Rightarrow> (client, u32) prog" where
  "program_refcount ty program =
     (if program = 0 then PRet CL_INVALID_PROGRAM
      else
        pbind LockedConnection (\<lambda>_.
        pcatch (refcount_exchange ty 80 program) (on_error CL_SUCCESS CL_SUCCESS (\<lambda>code. code))))"

definition api_clRetainProgram :: "handle \<Rightarrow> (client, u32) prog" where
  "api_clRetainProgram = program_refcount PT_Retain"

definition api_clReleaseProgram :: "handle \<Rightarrow> (client, u32) prog" where
  "api_clReleaseProgram = program_refcount PT_Release"

end
