(* ===== verification/RCL_Remote.thy ===== *)
theory RCL_Remote
  imports RCL_Dialog RCL_ClientKernel RCL_ClientContext RCL_ClientProgram
begin

text \<open>
  The calls of the client's API as remote calls: what a call returns to the application is what the
  OpenCL call with the objects in the place of the handles returns on the server's machine.

  \<open>in_sync\<close> is what both ends keep between two calls. \<open>status_calls\<close> lists the functions that
  return a status, \<open>create_calls\<close> those that return a new object, each with the call of OpenCL it
  stands for.
\<close>

section \<open>Handles and objects\<close>

text \<open>A handle of the client stands for an object of the server's machine.\<close>

definition denotes :: "client \<Rightarrow> 'w server \<Rightarrow> handle \<Rightarrow> ptr \<Rightarrow> bool" where
  "denotes c sv t p \<longleftrightarrow>
     (\<exists>i. cl_heap c t = Some i \<and> has_id (mObjects sv) i \<and> getObj (mObjects sv) i = p)"

text \<open>Both ends of a connection in use: every handle of the client stands for an object.\<close>

definition in_sync :: "client \<Rightarrow> 'w server \<Rightarrow> bool" where
  "in_sync c sv \<longleftrightarrow> cl_mStream c \<and> client_ok c \<and> objs_ok (mObjects sv)
     \<and> length (cl_mObjects c) \<le> length (mObjects sv)"

lemma in_sync_connected: "in_sync c sv \<Longrightarrow> cl_mStream c"
  by (simp add: in_sync_def)

lemma in_sync_handle: "in_sync c sv \<Longrightarrow> cl_heap c t = Some i \<Longrightarrow> 0 < t \<and> has_id (mObjects sv) i"
  by (auto simp: in_sync_def has_id_def client_ok_heap)

lemma in_sync_denotes:
  "in_sync c sv \<Longrightarrow> cl_heap c t = Some i \<Longrightarrow> denotes c sv t (getObj (mObjects sv) i)"
  by (simp add: denotes_def in_sync_handle)

lemma in_sync_world [simp]: "in_sync c (sv\<lparr>sv_world := w\<rparr>) = in_sync c sv"
  by (simp add: in_sync_def)

lemma denotes_world [simp]: "denotes c (sv\<lparr>sv_world := w\<rparr>) t p = denotes c sv t p"
  by (simp add: denotes_def)

section \<open>Replies\<close>

lemma exec_readSuccess [prog_simps]:
  "s_in st = enc_reply z R_Success @ rest \<Longrightarrow>
   exec readSuccess c st = (Ok (), c, st\<lparr>s_in := rest\<rparr>)"
  using exec_readPacket_Ok [of st PT_Success "[]" rest get_Signal "()" c]
  by (simp add: readSuccess_def enc_reply_def put_Signal_def get_Signal_def codec_simps)

lemma exec_readSuccess_Error [prog_simps]:
  "s_in st = enc_reply z (R_Error e) @ rest \<Longrightarrow>
   exec readSuccess c st = (Throw (ErrorPacketExn e), c, st\<lparr>s_in := rest\<rparr>)"
  using exec_readPacket_Error [of st e rest PT_Success "pdec get_Signal" c]
  by (simp add: readSuccess_def enc_reply_def)

lemma exec_readID [prog_simps]:
  "s_in st = enc_reply z (R_ID i) @ rest \<Longrightarrow> exec readID c st = (Ok i, c, st\<lparr>s_in := rest\<rparr>)"
  using exec_readPacket_Ok [of st PT_ID "put_u16 i" rest get_u16 i c]
  by (simp add: readID_def enc_reply_def codec_simps)

lemma exec_readID_Error [prog_simps]:
  "s_in st = enc_reply z (R_Error e) @ rest \<Longrightarrow>
   exec readID c st = (Throw (ErrorPacketExn e), c, st\<lparr>s_in := rest\<rparr>)"
  using exec_readPacket_Error [of st e rest PT_ID "pdec get_u16" c]
  by (simp add: readID_def enc_reply_def)

lemmas [prog_simps] =
  exec_readSuccess [where rest = "[]", unfolded append_Nil2]
  exec_readSuccess_Error [where rest = "[]", unfolded append_Nil2]
  exec_readID [where rest = "[]", unfolded append_Nil2]
  exec_readID_Error [where rest = "[]", unfolded append_Nil2]

lemma advance_readSuccess [advance_simps]:
  "s_in st = [] \<Longrightarrow> advance readSuccess s st = (readSuccess, s, st)"
  by (simp add: readSuccess_def advance_simps)

lemma advance_readID [advance_simps]: "s_in st = [] \<Longrightarrow> advance readID s st = (readID, s, st)"
  by (simp add: readID_def advance_simps)

lemma outcome_reads [simp]: "outcome readSuccess = None" "outcome readID = None"
  by (simp_all add: readSuccess_def readID_def)

section \<open>Calls that return a status\<close>

text \<open>The status of the call on the server's machine is the status of the remote call.\<close>

lemma remote_status:
  assumes adv: "advance p c idle = (pcatch (pbind readSuccess (\<lambda>_. PRet CL_SUCCESS))
      (on_error oom lost (\<lambda>code. code)), c, idle\<lparr>s_sent := enc_request (h_zlib h) q\<rparr>)"
    and srv: "request_ok h q" "zlib_opt_ok (h_zlib h)"
    and cl: "h_cl h (remote_call (mObjects sv) q) (sv_world sv) = (r, w)"
    and ans: "answer q r = (False, [R_Success])"
  shows "remote h p c sv (Ok (r_err r)) c (sv\<lparr>sv_world := w\<rparr>)"
proof (cases "r_err r = CL_SUCCESS")
  case True
  then have "serve h q sv = Some ([R_Success], sv\<lparr>sv_world := w\<rparr>)"
    using cl ans by (simp add: serve_def)
  from remote_request [OF adv _ srv this] True show ?thesis
    by (simp add: prog_simps enc_replies_def idle_def)
next
  case False
  then have "serve h q sv = Some ([R_Error (r_err r)], sv\<lparr>sv_world := w\<rparr>)"
    using cl by (simp add: serve_def)
  from remote_request [OF adv _ srv this] show ?thesis
    by (simp add: prog_simps enc_replies_def idle_def)
qed

text \<open>The functions that take one handle and return a status, and the calls they stand for.\<close>

definition status_calls :: "u32 \<Rightarrow> ((handle \<Rightarrow> (client, u32) prog) \<times> (ptr \<Rightarrow> cl_call)) list" where
  "status_calls status =
     [(api_clFlush, clFlush), (api_clFinish, clFinish),
      (\<lambda>t. api_clSetUserEventStatus t status, \<lambda>p. clSetUserEventStatus p status),
      (api_clRetainContext, clRetain K_Context), (api_clReleaseContext, clRelease K_Context),
      (api_clRetainDevice, clRetain K_Device), (api_clReleaseDevice, clRelease K_Device),
      (api_clRetainCommandQueue, clRetain K_Queue), (api_clReleaseCommandQueue, clRelease K_Queue),
      (api_clRetainMemObject, clRetain K_MemObject), (api_clReleaseMemObject, clRelease K_MemObject),
      (api_clRetainProgram, clRetain K_Program), (api_clReleaseProgram, clRelease K_Program),
      (api_clRetainKernel, clRetain K_Kernel), (api_clReleaseKernel, clRelease K_Kernel),
      (api_clRetainEvent, clRetain K_Event), (api_clReleaseEvent, clRelease K_Event)]"

lemma obj_kind_letters [simp]:
  "obj_kind_of 67 = Some K_Context" "obj_kind_of 68 = Some K_Device" "obj_kind_of 81 = Some K_Queue"
  "obj_kind_of 77 = Some K_MemObject" "obj_kind_of 80 = Some K_Program" "obj_kind_of 75 = Some K_Kernel"
  "obj_kind_of 69 = Some K_Event"
  by (simp_all add: obj_kind_of_def)

lemmas refcount_defs = refcount_call_def refcount_exchange_def program_refcount_def
  api_clRetainContext_def api_clReleaseContext_def api_clRetainDevice_def api_clReleaseDevice_def
  api_clRetainCommandQueue_def api_clReleaseCommandQueue_def api_clRetainMemObject_def
  api_clReleaseMemObject_def api_clRetainProgram_def api_clReleaseProgram_def
  api_clRetainKernel_def api_clReleaseKernel_def api_clRetainEvent_def api_clReleaseEvent_def

text \<open>
  \<open>asks_status h c p G\<close>: the function \<open>p\<close> sends a request that stands for \<open>G\<close> and then waits;
  all it does with the reply is to return the status.
\<close>

definition asks_status ::
  "'w host \<Rightarrow> client \<Rightarrow> (client, u32) prog \<Rightarrow> (ptr list \<Rightarrow> cl_call) \<Rightarrow> bool" where
  "asks_status h c p G \<longleftrightarrow> (\<exists>q oom lost.
     advance p c idle = (pcatch (pbind readSuccess (\<lambda>_. PRet CL_SUCCESS)) (on_error oom lost (\<lambda>code. code)),
       c, idle\<lparr>s_sent := enc_request (h_zlib h) q\<rparr>)
     \<and> request_ok h q \<and> (\<forall>objs. remote_call objs q = G objs) \<and> (\<forall>r. answer q r = (False, [R_Success])))"

lemma remote_asks_status:
  assumes "asks_status h c p G" and "zlib_opt_ok (h_zlib h)"
    and "h_cl h (G (mObjects sv)) (sv_world sv) = (r, w)"
  shows "remote h p c sv (Ok (r_err r)) c (sv\<lparr>sv_world := w\<rparr>)"
  using assms remote_status unfolding asks_status_def by metis

lemma asks_status_refcount:
  assumes "cl_mStream c" and "cl_heap c t = Some i" and "0 < t"
  shows "obj_kind_of l = Some K \<Longrightarrow>
      asks_status h c (refcount_call PT_Retain l lost t) (\<lambda>objs. clRetain K (getObj objs i))"
    and "obj_kind_of l = Some K \<Longrightarrow>
      asks_status h c (refcount_call PT_Release l lost t) (\<lambda>objs. clRelease K (getObj objs i))"
    and "asks_status h c (program_refcount PT_Retain t) (\<lambda>objs. clRetain K_Program (getObj objs i))"
    and "asks_status h c (program_refcount PT_Release t) (\<lambda>objs. clRelease K_Program (getObj objs i))"
  using assms unfolding asks_status_def
  by - (rule exI [of _ "Q_Retain \<lparr>rc_mID = i, rc_mObjTy = l\<rparr>"],
      force simp: refcount_defs advance_simps,
      rule exI [of _ "Q_Release \<lparr>rc_mID = i, rc_mObjTy = l\<rparr>"],
      force simp: refcount_defs advance_simps,
      rule exI [of _ "Q_Retain \<lparr>rc_mID = i, rc_mObjTy = 80\<rparr>"],
      force simp: refcount_defs advance_simps,
      rule exI [of _ "Q_Release \<lparr>rc_mID = i, rc_mObjTy = 80\<rparr>"],
      force simp: refcount_defs advance_simps)

lemma asks_status_others:
  assumes "cl_mStream c" and "cl_heap c t = Some i" and "0 < t"
  shows "asks_status h c (api_clFlush t) (\<lambda>objs. clFlush (getObj objs i))"
    and "asks_status h c (api_clFinish t) (\<lambda>objs. clFinish (getObj objs i))"
    and "asks_status h c (api_clSetUserEventStatus t status)
      (\<lambda>objs. clSetUserEventStatus (getObj objs i) status)"
  using assms unfolding asks_status_def
  by - (rule exI [of _ "Q_Flush i"], force simp: api_clFlush_def queue_call_def advance_simps,
      rule exI [of _ "Q_Finish i"], force simp: api_clFinish_def queue_call_def advance_simps,
      rule exI [of _ "Q_SetUserEventStatus \<lparr>idp_mData = status, idp_mID = i\<rparr>"],
      force simp: api_clSetUserEventStatus_def advance_simps)

text \<open>Every function of the table sends a request that stands for the call beside it.\<close>

lemma status_calls_ask:
  assumes "(f, g) \<in> set (status_calls status)" and "cl_mStream c" and "cl_heap c t = Some i" and "0 < t"
  shows "asks_status h c (f t) (\<lambda>objs. g (getObj objs i))"
proof -
  have "t \<noteq> 0" using assms(4) by simp
  note ask = asks_status_refcount [OF assms(2-4)] asks_status_others [OF assms(2-4)]
  from assms(1) show ?thesis
    unfolding status_calls_def
    by (simp, elim disjE) (simp_all add: refcount_defs(4-) ask \<open>t \<noteq> 0\<close>)
qed

lemma remote_status_call:
  assumes "(f, g) \<in> set (status_calls status)" and "in_sync c sv" and t: "cl_heap c t = Some i"
    and z: "zlib_opt_ok (h_zlib h)"
    and cl: "h_cl h (g (getObj (mObjects sv) i)) (sv_world sv) = (r, w)"
  shows "remote h (f t) c sv (Ok (r_err r)) c (sv\<lparr>sv_world := w\<rparr>)"
  using remote_asks_status [OF status_calls_ask [OF assms(1) _ t] z] in_sync_connected [OF assms(2)]
    in_sync_handle [OF assms(2) t] cl by simp

section \<open>Calls that return a new object\<close>

text \<open>
  The functions that ask for an object with one request: \<open>create_call h p ts G E\<close> relates the
  function \<open>p\<close>, the handles it is given, the call of OpenCL it stands for, over the objects of the
  handles, and the status the application gets for that of a call that failed.
\<close>

inductive create_call ::
  "'w host \<Rightarrow> (client, handle \<times> u32) prog \<Rightarrow> handle list \<Rightarrow> ((handle \<Rightarrow> ptr) \<Rightarrow> cl_call)
   \<Rightarrow> (u32 \<Rightarrow> u32) \<Rightarrow> bool"
  for h :: "'w host" where
  queue: "create_call h (api_clCreateCommandQueue ctx dev props) [ctx, dev]
     (\<lambda>obj. clCreateCommandQueue (obj ctx) (obj dev) (ucast (ucast props :: u32))) (\<lambda>e. e)"
| user_event: "create_call h (api_clCreateUserEvent ctx) [ctx] (\<lambda>obj. clCreateUserEvent (obj ctx)) (\<lambda>e. e)"
| kernel: "string_ok name \<Longrightarrow> create_call h (api_clCreateKernel program (Some name)) [program]
     (\<lambda>obj. clCreateKernel (obj program) (c_str name)) (\<lambda>e. e)"
| clone: "210 \<le> h_target h \<Longrightarrow> create_call h (api_clCloneKernel krn) [krn] (\<lambda>obj. clCloneKernel (obj krn)) (\<lambda>e. e)"
| source: "source_string n strs lens = Some (Some src) \<Longrightarrow> 0 < n \<Longrightarrow> string_ok src \<Longrightarrow>
     create_call h (api_clCreateProgramWithSource ctx n (Some strs) lens) [ctx]
       (\<lambda>obj. clCreateProgramWithSource (obj ctx) src) (\<lambda>e. e)"
| buffer: "and flags CL_MEM_USE_HOST_PTR = 0 \<Longrightarrow>
     create_call h (api_clCreateBuffer (h_zlib h) ctx flags sz None) [ctx]
       (\<lambda>obj. clCreateBuffer (obj ctx) (ucast (ucast flags :: u32)) (unat (ucast sz :: u32)) None) (\<lambda>e. e)"
| buffer_data: "and flags CL_MEM_USE_HOST_PTR = 0 \<Longrightarrow> unat sz = length mem \<Longrightarrow> length mem < 2 ^ 32 \<Longrightarrow>
     create_call h (api_clCreateBuffer (h_zlib h) ctx flags sz (Some mem)) [ctx]
       (\<lambda>obj. clCreateBuffer (obj ctx) (ucast (ucast flags :: u32)) (length mem) (Some mem)) (\<lambda>e. e)"
| sub_buffer: "create_call h (api_clCreateSubBuffer buffer flags ty (Some (origin, sz))) [buffer]
     (\<lambda>obj. clCreateSubBuffer (obj buffer) (ucast (ucast flags :: u32)) ty
       (unat (ucast origin :: u32)) (unat (ucast sz :: u32))) (\<lambda>e. e)"
| ctx: "ds \<noteq> [] \<Longrightarrow> length ds < 65536 \<Longrightarrow>
     create_call h (api_clCreateContext None (length ds) (Some ds)) ds
       (\<lambda>obj. clCreateContext [] (map obj ds)) (\<lambda>e. CL_DEVICE_NOT_AVAILABLE)"
| ctx_platform: "ds \<noteq> [] \<Longrightarrow> length ds < 65536 \<Longrightarrow> platform < 2 ^ 64 \<Longrightarrow>
     create_call h
       (api_clCreateContext (Some [CL_CONTEXT_PLATFORM, word_of_nat platform, 0]) (length ds) (Some ds))
       (platform # ds) (\<lambda>obj. clCreateContext [CL_CONTEXT_PLATFORM, obj platform, 0] (map obj ds))
       (\<lambda>e. CL_DEVICE_NOT_AVAILABLE)"

text \<open>
  Such a function sends its request and waits for an ID. A function for memory objects (\<open>mem\<close>) looks for the
  object the client has for the ID, the others make a new one.
\<close>

definition makes_mem :: "cl_call \<Rightarrow> bool" where
  "makes_mem c = (case c of clCreateBuffer _ _ _ _ \<Rightarrow> True | clCreateSubBuffer _ _ _ _ _ \<Rightarrow> True | _ \<Rightarrow> False)"

definition asks_object ::
  "'w host \<Rightarrow> client \<Rightarrow> (client, handle \<times> u32) prog \<Rightarrow> bool \<Rightarrow> request \<Rightarrow> (u32 \<Rightarrow> u32) \<Rightarrow> bool" where
  "asks_object h c p mem q E \<longleftrightarrow> (\<exists>err.
     advance p c idle = (pcatch (if mem then newMemObject else newObject) err, c,
       idle\<lparr>s_sent := enc_request (h_zlib h) q\<rparr>) \<and> (\<forall>e. err (ErrorPacketExn e) = PRet (0, E e))
     \<and> request_ok h q \<and> (\<forall>r. answer q r = (True, [])))"

lemma advance_newObject [advance_simps]:
  "s_in st = [] \<Longrightarrow> advance newObject s st = (newObject, s, st)"
  "s_in st = [] \<Longrightarrow> advance newMemObject s st = (newMemObject, s, st)"
  by (simp_all add: newObject_def newMemObject_def advance_simps)

lemma outcome_newObject [simp]: "outcome newObject = None" "outcome newMemObject = None"
  by (simp_all add: newObject_def newMemObject_def)

lemma error_status [simp]:
  "create_error (ErrorPacketExn e) = PRet (0, e)" "create_mem_error (ErrorPacketExn e) = PRet (0, e)"
  "context_error x = PRet (0, CL_DEVICE_NOT_AVAILABLE)"
  by (simp_all add: create_error_def create_mem_error_def context_error_def on_error_def)

text \<open>An ID beyond the client's vector makes a new handle.\<close>

lemma exec_new_object:
  assumes "k \<in> {newObject, newMemObject}" and "length (cl_mObjects c) \<le> unat i"
    and "register_object i c = (t, c')"
  shows "exec k c (idle\<lparr>s_in := enc_reply z (R_ID i)\<rparr>) = (Ok (t, CL_SUCCESS), c', idle)"
  using assms
  by (auto simp: newObject_def newMemObject_def getOrInsertObject_def prog_simps idle_def)

lemma exec_new_object_Error:
  assumes "k \<in> {newObject, newMemObject}"
  shows "exec k c (idle\<lparr>s_in := enc_reply z (R_Error e)\<rparr>) = (Throw (ErrorPacketExn e), c, idle)"
  using assms by (auto simp: newObject_def newMemObject_def prog_simps idle_def)

definition id_of :: "client \<Rightarrow> handle \<Rightarrow> IDType" where
  "id_of c t = the (cl_heap c t)"

lemma denotes_id:
  "in_sync c sv \<Longrightarrow> denotes c sv t p \<Longrightarrow>
   0 < t \<and> cl_heap c t = Some (id_of c t) \<and> getObj (mObjects sv) (id_of c t) = p"
  by (auto simp: denotes_def id_of_def dest: in_sync_handle)

lemma advance_handleIDs [advance_simps]:
  "(\<And>t. t \<in> set ts \<Longrightarrow> 0 < t \<and> cl_heap c t = Some (id_of c t)) \<Longrightarrow>
   advance (handleIDs (length ts) ts) c st = (PRet (Some (map (id_of c) ts)), c, st)"
  by (induction ts) (simp_all add: advance_simps)

lemma denotes_ids:
  "in_sync c sv \<Longrightarrow> \<forall>t \<in> set ts. denotes c sv t (obj t) \<Longrightarrow>
   map (getObj (mObjects sv)) (map (id_of c) ts) = map obj ts"
  by (auto dest: denotes_id)

lemma asks_objectI:
  assumes "advance p c idle = (pcatch (if mem then newMemObject else newObject) err, c,
      idle\<lparr>s_sent := enc_request (h_zlib h) q\<rparr>)"
    and "\<And>e. err (ErrorPacketExn e) = PRet (0, E e)"
    and "request_ok h q" and "\<And>r. answer q r = (True, [])"
  shows "asks_object h c p mem q E"
  unfolding asks_object_def using assms by blast

lemmas asks_newObject = asks_objectI [where mem = False and err = create_error, unfolded if_False]
lemmas asks_newMemObject = asks_objectI [where mem = True and err = create_mem_error, unfolded if_True]
lemmas asks_newContext = asks_objectI [where mem = False and err = context_error, unfolded if_False]

lemma advance_writePayloadPtr [advance_simps]:
  "len \<le> length mem \<Longrightarrow> advance (writePayloadPtr w z mem len) s st
     = (PRet (), s, st_put (enc_packet PT_Payload (put_PayloadPtr w z mem len)) st)"
  using le_trans [OF mod_less_eq_dividend [of len "256 ^ w"], of "length mem"]
  by (simp add: writePayloadPtr_def advance_simps not_less)

lemma unat_ucast_u32: "unat (x :: u64) < 2 ^ 32 \<Longrightarrow> unat (ucast x :: u32) = unat x"
  by (simp add: unsigned_ucast_eq take_bit_eq_mod)

lemma id_in_u64: "ucast (ucast (i :: IDType) :: u64) = i"
  by transfer (simp add: take_bit_take_bit)

lemmas create_defs = api_clCreateCommandQueue_def api_clCreateUserEvent_def api_clCloneKernel_def
  api_clCreateKernel_def api_clCreateProgramWithSource_def api_clCreateBuffer_def
  api_clCreateSubBuffer_def api_clCreateContext_def opt_context_props_def ok_IDStringPair_def
  ok_CreateContext_def container_ok_def size_max_def Let_def makes_mem_def

text \<open>The request each of the functions sends, over the IDs of its handles.\<close>

lemma create_call_asks:
  assumes "create_call h p ts G E" and "in_sync c sv" and den: "\<forall>t \<in> set ts. denotes c sv t (obj t)"
  shows "\<exists>q. asks_object h c p (makes_mem (G obj)) q E \<and> remote_call (mObjects sv) q = G obj"
proof -
  note conn = in_sync_connected [OF assms(2)]
  have ids: "0 < t" "cl_heap c t = Some (id_of c t)" "getObj (mObjects sv) (id_of c t) = obj t"
    if "t \<in> set ts" for t
    using denotes_id [OF assms(2), of t "obj t"] den that by auto
  from assms(1) show ?thesis
  proof cases
    case (queue ctx dev props)
    then show ?thesis using conn ids
      by (intro exI [of _ "Q_CreateQueue \<lparr>cq_mProp = ucast props, cq_mContext = id_of c ctx, cq_mDevice = id_of c dev\<rparr>"])
        (auto intro!: asks_newObject simp: create_defs advance_simps)
  next
    case (user_event ctx)
    then show ?thesis using conn ids
      by (intro exI [of _ "Q_CreateUserEvent (id_of c ctx)"])
        (auto intro!: asks_newObject simp: create_defs advance_simps)
  next
    case (kernel name program)
    then show ?thesis using conn ids
      by (intro exI [of _ "Q_CreateKernel \<lparr>isp_mID = id_of c program, isp_mString = name\<rparr>"])
        (auto intro!: asks_newObject simp: create_defs advance_simps)
  next
    case (clone krn)
    then show ?thesis using conn ids
      by (intro exI [of _ "Q_CloneKernel (id_of c krn)"])
        (auto intro!: asks_newObject simp: create_defs advance_simps)
  next
    case (source n strs lens src ctx)
    then show ?thesis using conn ids
      by (intro exI [of _ "Q_CreateSourceProgram \<lparr>isp_mID = id_of c ctx, isp_mString = src\<rparr>"])
        (auto intro!: asks_newObject simp: create_defs advance_simps)
  next
    case (buffer flags ctx sz)
    then show ?thesis using conn ids
      by (intro exI [of _ "Q_CreateBuffer \<lparr>cb_mFlags = ucast flags, cb_mSize = ucast sz,
            cb_mContextID = id_of c ctx, cb_mExpectPayload = False\<rparr> []"])
        (auto intro!: asks_newMemObject simp: create_defs advance_simps enc_opt_def enc_data_def payload_fits_4 put_PayloadPtr_eq
            unat_ucast_u32 idle_def)
  next
    case (buffer_data flags sz mem ctx)
    then show ?thesis using conn ids
      by (intro exI [of _ "Q_CreateBuffer \<lparr>cb_mFlags = ucast flags, cb_mSize = ucast sz,
            cb_mContextID = id_of c ctx, cb_mExpectPayload = True\<rparr> mem"])
        (auto intro!: asks_newMemObject simp: create_defs advance_simps enc_opt_def enc_data_def payload_fits_4 put_PayloadPtr_eq
            unat_ucast_u32 idle_def)
  next
    case (sub_buffer buffer flags ty origin sz)
    then show ?thesis using conn ids
      by (intro exI [of _ "Q_CreateSubBuffer \<lparr>csb_mFlags = ucast flags, csb_mSize = ucast sz,
            csb_mOffset = ucast origin, csb_mCreateType = ty, csb_mBufferID = id_of c buffer\<rparr>"])
        (auto intro!: asks_newMemObject simp: create_defs advance_simps)
  next
    case ctx
    then show ?thesis using conn ids
      by (intro exI [of _ "Q_CreateContext \<lparr>cc_mProperties = [], cc_mDevices = map (id_of c) ts\<rparr>"])
        (auto intro!: asks_newContext simp: create_defs advance_simps rebuilt_def terminated_def
            unat_of_nat id_in_u64)
  next
    case (ctx_platform ds platform)
    then show ?thesis using conn ids
      by (intro exI [of _ "Q_CreateContext \<lparr>cc_mProperties = [CL_CONTEXT_PLATFORM, ucast (id_of c platform)],
            cc_mDevices = map (id_of c) ds\<rparr>"])
        (auto intro!: asks_newContext simp: create_defs advance_simps rebuilt_def terminated_def
            unat_of_nat id_in_u64)
  qed
qed

text \<open>
  The vector of the client has a handle for every object of the server's table, and no gaps. At most \<open>n\<close> of its
  handles have been replaced by others.
\<close>

definition mirrors :: "nat \<Rightarrow> client \<Rightarrow> 'w server \<Rightarrow> bool" where
  "mirrors n c sv \<longleftrightarrow> in_sync c sv \<and> length (cl_mObjects c) = length (mObjects sv) \<and> 0 \<notin> set (cl_mObjects c)
     \<and> cl_next c \<le> Suc (length (cl_mObjects c)) + n"

lemma mirrors_world [simp]: "mirrors n c (sv\<lparr>sv_world := w\<rparr>) = mirrors n c sv"
  by (simp add: mirrors_def)

lemma mirrors_registered:
  assumes m: "mirrors n c sv" and r: "register_object i c = (t, c')" and i: "unat i = length (mObjects sv)"
    and "in_sync c' (sv\<lparr>mObjects := mObjects sv @ [p], sv_world := w\<rparr>)"
  shows "mirrors n c' (sv\<lparr>mObjects := mObjects sv @ [p], sv_world := w\<rparr>)"
proof -
  have len: "length (cl_mObjects c) = length (mObjects sv)" and nz: "0 \<notin> set (cl_mObjects c)"
    and new: "cl_next c \<le> Suc (length (cl_mObjects c)) + n" and "0 < cl_next c"
    using m by (auto simp: mirrors_def in_sync_def client_ok_def)
  with register_object_slot [OF r] i have "0 \<notin> set (cl_mObjects c')"
    by (auto simp: in_set_conv_nth split: if_splits)
  with assms(4) register_object_slot(1) [OF r] register_object_heap(2) [OF r] i len new show ?thesis
    by (simp add: mirrors_def)
qed

text \<open>
  After a call that returns a new object its handle stands for the object, it is none that was in
  use, and every other handle stands for the object it stood for.
\<close>

definition new_handle :: "client \<Rightarrow> 'w server \<Rightarrow> client \<Rightarrow> 'w server \<Rightarrow> handle \<Rightarrow> ptr \<Rightarrow> bool" where
  "new_handle c sv c' sv' t p \<longleftrightarrow> in_sync c' sv' \<and> (\<forall>n. mirrors n c sv \<longrightarrow> mirrors n c' sv')
     \<and> mObjects sv' = mObjects sv @ [p] \<and> 0 < t \<and> cl_heap c t = None \<and> denotes c' sv' t p
     \<and> (\<forall>u x. denotes c sv u x \<longrightarrow> denotes c' sv' u x)"

lemma new_handle_registered:
  assumes "in_sync c sv" and "length (mObjects sv) < 65536" and "p \<notin> set (mObjects sv)"
    and r: "register_object (word_of_nat (length (mObjects sv))) c = (t, c')"
  shows "new_handle c sv c' (sv\<lparr>mObjects := mObjects sv @ [p], sv_world := w\<rparr>) t p"
  unfolding new_handle_def
proof (intro conjI allI impI)
  let ?i = "word_of_nat (length (mObjects sv)) :: IDType"
  from assms(1) have ok: "client_ok c" "objs_ok (mObjects sv)" "length (cl_mObjects c) \<le> length (mObjects sv)"
    by (simp_all add: in_sync_def)
  have i: "unat ?i = length (mObjects sv)" using assms(2) by (simp add: unat_of_nat)
  note slot = register_object_slot [OF r] and heap = register_object_heap [OF r]
  show "cl_heap c t = None" "0 < t"
    using client_ok_next [OF ok(1)] heap(1) ok(1) by (simp_all add: client_ok_def)
  show "denotes c' (sv\<lparr>mObjects := mObjects sv @ [p], sv_world := w\<rparr>) t p"
    using heap(1,3) i by (simp add: denotes_def has_id_def getObj_def)
  have strm: "cl_mStream c' = cl_mStream c" using r by (auto simp: register_object_def Let_def)
  show sync: "in_sync c' (sv\<lparr>mObjects := mObjects sv @ [p], sv_world := w\<rparr>)"
    using assms(1-3) register_object_ok [OF ok(1) r] ok slot(1) i strm by (simp add: in_sync_def objs_ok_def)
  show "mirrors n c' (sv\<lparr>mObjects := mObjects sv @ [p], sv_world := w\<rparr>)" if "mirrors n c sv" for n
    using mirrors_registered [OF that r i sync] .
  show "mObjects (sv\<lparr>mObjects := mObjects sv @ [p], sv_world := w\<rparr>) = mObjects sv @ [p]" by simp
  show "denotes c' (sv\<lparr>mObjects := mObjects sv @ [p], sv_world := w\<rparr>) u x" if den: "denotes c sv u x" for u x
  proof -
    from den obtain j where j: "cl_heap c u = Some j" "has_id (mObjects sv) j" "getObj (mObjects sv) j = x"
      by (auto simp: denotes_def)
    then have "j \<noteq> ?i" using i by (auto simp: has_id_def)
    with register_object_keeps [OF ok(1) r j(1)] j(2,3) show ?thesis
      by (auto simp: denotes_def has_id_def getObj_def nth_append)
  qed
qed

text \<open>
  A handle for an object the server has in its table, such as one at the address of an object that was released: the handles
  of other objects stay what they are.
\<close>

definition reused_handle :: "client \<Rightarrow> 'w server \<Rightarrow> client \<Rightarrow> handle \<Rightarrow> ptr \<Rightarrow> bool" where
  "reused_handle c sv c' t p \<longleftrightarrow> in_sync c' sv \<and> (\<forall>n. mirrors n c sv \<longrightarrow> mirrors (Suc n) c' sv) \<and> 0 < t \<and> denotes c' sv t p
     \<and> (\<forall>u x. denotes c sv u x \<longrightarrow> x \<noteq> p \<longrightarrow> denotes c' sv u x)"

lemma reused_registered:
  assumes sync: "in_sync c sv" and i: "has_id (mObjects sv) i" and r: "register_object i c = (t, c')"
  shows "reused_handle c sv c' t (getObj (mObjects sv) i)"
  unfolding reused_handle_def
proof (intro conjI allI impI)
  note slot = register_object_slot [OF r] and heap = register_object_heap [OF r]
  have ok: "client_ok c" "length (cl_mObjects c) \<le> length (mObjects sv)" using sync by (simp_all add: in_sync_def)
  have strm: "cl_mStream c' = cl_mStream c" using r by (auto simp: register_object_def Let_def)
  show sync': "in_sync c' sv"
    using sync register_object_ok [OF ok(1) r] slot(1) i strm by (simp add: in_sync_def has_id_def)
  show "0 < t" using heap(1) ok(1) by (simp add: client_ok_def)
  show "denotes c' sv t (getObj (mObjects sv) i)" using heap(1,3) i by (simp add: denotes_def)
  show "denotes c' sv u x" if "denotes c sv u x" "x \<noteq> getObj (mObjects sv) i" for u x
    using that register_object_keeps [OF ok(1) r, of u] by (fastforce simp: denotes_def)
  show "mirrors (Suc n) c' sv" if m: "mirrors n c sv" for n
  proof -
    have "length (cl_mObjects c') = length (mObjects sv)" using m slot(1) i by (simp add: mirrors_def has_id_def)
    moreover from this have "0 \<notin> set (cl_mObjects c')"
      using m ok(1) slot(2) i by (auto simp: mirrors_def has_id_def in_set_conv_nth client_ok_def split: if_splits)
    ultimately show ?thesis using m sync' heap(2) by (simp add: mirrors_def)
  qed
qed

lemma exec_getOrInsert_known:
  assumes m: "mirrors n c sv" and i: "unat i < length (mObjects sv)"
  shows "\<exists>t. exec (getOrInsertObject i) c st = (Ok t, c, st) \<and> denotes c sv t (mObjects sv ! unat i)"
proof -
  let ?t = "cl_mObjects c ! unat i"
  have len: "unat i < length (cl_mObjects c)" and ok: "client_ok c" using m i by (auto simp: mirrors_def in_sync_def)
  have "?t \<in> set (cl_mObjects c)" using len by (rule nth_mem)
  with m have "?t \<noteq> 0" by (metis mirrors_def)
  with client_ok_heap [OF ok] len have "cl_heap c ?t = Some i" by blast
  with \<open>?t \<noteq> 0\<close> len i show ?thesis
    by (simp add: getOrInsertObject_def denotes_def has_id_def getObj_def)
qed

lemma reused_found:
  assumes m: "mirrors n c sv" and i: "has_id (mObjects sv) i"
  shows "\<exists>t. exec (getOrInsertObject i) c st = (Ok t, c, st) \<and> reused_handle c sv c t (getObj (mObjects sv) i)"
proof -
  have sync: "in_sync c sv" using m by (simp add: mirrors_def)
  from exec_getOrInsert_known [OF m, of i st] i obtain t where t: "exec (getOrInsertObject i) c st = (Ok t, c, st)"
    "denotes c sv t (getObj (mObjects sv) i)" by (auto simp: has_id_def getObj_def)
  with denotes_id [OF sync t(2)] sync show ?thesis by (auto simp: reused_handle_def mirrors_def)
qed

lemma remote_asks_object:
  assumes ask: "asks_object h c p mem q E" and sync: "in_sync c sv" and z: "zlib_opt_ok (h_zlib h)"
    and cl: "h_cl h (remote_call (mObjects sv) q) (sv_world sv) = (r, w)"
  shows "r_err r \<noteq> CL_SUCCESS \<Longrightarrow> remote h p c sv (Ok (0, E (r_err r))) c (sv\<lparr>sv_world := w\<rparr>)"
    and "r_err r = CL_SUCCESS \<Longrightarrow> r_obj r \<notin> set (mObjects sv) \<Longrightarrow> length (mObjects sv) < 65536 \<Longrightarrow>
      register_object (word_of_nat (length (mObjects sv))) c = (t, c') \<Longrightarrow>
      remote h p c sv (Ok (t, CL_SUCCESS)) c' (sv\<lparr>mObjects := mObjects sv @ [r_obj r], sv_world := w\<rparr>)"
    and "r_err r = CL_SUCCESS \<Longrightarrow> r_obj r \<in> set (mObjects sv) \<Longrightarrow> mem \<longrightarrow> mirrors n c sv \<Longrightarrow>
      \<exists>t c'. remote h p c sv (Ok (t, CL_SUCCESS)) c' (sv\<lparr>sv_world := w\<rparr>) \<and> reused_handle c sv c' t (r_obj r)
        \<and> (mem \<longrightarrow> c' = c)"
proof -
  let ?k = "if mem then newMemObject else newObject"
  from ask obtain err where adv: "advance p c idle = (pcatch ?k err, c, idle\<lparr>s_sent := enc_request (h_zlib h) q\<rparr>)"
    and err: "\<And>e. err (ErrorPacketExn e) = PRet (0, E e)"
    and ok: "request_ok h q" and ans: "answer q r = (True, [])"
    unfolding asks_object_def by auto
  have k: "?k \<in> {newObject, newMemObject}" by simp
  then have wait: "outcome (pcatch ?k err) = None" by auto
  note call = remote_request [OF adv wait ok z]
  show "remote h p c sv (Ok (0, E (r_err r))) c (sv\<lparr>sv_world := w\<rparr>)" if e: "r_err r \<noteq> CL_SUCCESS"
  proof (rule call)
    show "serve h q sv = Some ([R_Error (r_err r)], sv\<lparr>sv_world := w\<rparr>)"
      using e cl by (simp add: serve_def)
    show "exec (pcatch ?k err) c (idle\<lparr>s_in := enc_replies (h_zlib h) [R_Error (r_err r)]\<rparr>)
        = (Ok (0, E (r_err r)), c, idle)"
      using exec_new_object_Error [OF k] by (simp add: enc_replies_def prog_simps err del: insert_iff)
  qed simp
  show "remote h p c sv (Ok (t, CL_SUCCESS)) c' (sv\<lparr>mObjects := mObjects sv @ [r_obj r], sv_world := w\<rparr>)"
    if "r_err r = CL_SUCCESS" "r_obj r \<notin> set (mObjects sv)" "length (mObjects sv) < 65536"
      and t: "register_object (word_of_nat (length (mObjects sv))) c = (t, c')"
  proof (rule call)
    let ?i = "word_of_nat (length (mObjects sv)) :: IDType"
    have i: "unat ?i = length (mObjects sv)" using that(3) by (simp add: unat_of_nat)
    show "serve h q sv = Some ([R_ID ?i], sv\<lparr>mObjects := mObjects sv @ [r_obj r], sv_world := w\<rparr>)"
      using that cl ans getIDFor_absent [OF that(2,3)] by (simp add: serve_def)
    have "length (cl_mObjects c) \<le> unat ?i" using sync i by (simp add: in_sync_def)
    from exec_new_object [OF k this t]
    show "exec (pcatch ?k err) c (idle\<lparr>s_in := enc_replies (h_zlib h) [R_ID ?i]\<rparr>)
        = (Ok (t, CL_SUCCESS), c', idle)"
      by (simp add: enc_replies_def prog_simps)
  qed simp
  show "\<exists>t c'. remote h p c sv (Ok (t, CL_SUCCESS)) c' (sv\<lparr>sv_world := w\<rparr>) \<and> reused_handle c sv c' t (r_obj r)
      \<and> (mem \<longrightarrow> c' = c)"
    if succ: "r_err r = CL_SUCCESS" and known: "r_obj r \<in> set (mObjects sv)" and m: "mem \<longrightarrow> mirrors n c sv"
  proof -
    from getIDFor_found [OF known] sync obtain i where i: "getIDFor (mObjects sv) (r_obj r) = Some (i, mObjects sv)"
      "has_id (mObjects sv) i" "getObj (mObjects sv) i = r_obj r"
      by (auto simp: in_sync_def objs_ok_def has_id_def getObj_def)
    have "\<exists>t c'. exec ?k c (idle\<lparr>s_in := enc_replies (h_zlib h) [R_ID i]\<rparr>) = (Ok (t, CL_SUCCESS), c', idle)
        \<and> reused_handle c sv c' t (r_obj r) \<and> (mem \<longrightarrow> c' = c)"
    proof (cases mem)
      case True
      with m reused_found [OF _ i(2), of n c idle] i(3) obtain t where "exec (getOrInsertObject i) c idle = (Ok t, c, idle)"
        "reused_handle c sv c t (r_obj r)" by auto
      with True show ?thesis by (auto simp: newMemObject_def prog_simps enc_replies_def idle_def)
    next
      case False
      obtain t c' where t: "register_object i c = (t, c')" by (cases "register_object i c")
      from reused_registered [OF sync i(2) t] i(3) t False show ?thesis
        by (auto simp: newObject_def prog_simps enc_replies_def idle_def)
    qed
    then obtain t c' where t: "exec ?k c (idle\<lparr>s_in := enc_replies (h_zlib h) [R_ID i]\<rparr>) = (Ok (t, CL_SUCCESS), c', idle)"
      and rest: "reused_handle c sv c' t (r_obj r) \<and> (mem \<longrightarrow> c' = c)" by blast
    have "serve h q sv = Some ([R_ID i], sv\<lparr>sv_world := w\<rparr>)" using succ cl ans i(1) by (simp add: serve_def)
    from call [OF this, of "Ok (t, CL_SUCCESS)" c'] t have "remote h p c sv (Ok (t, CL_SUCCESS)) c' (sv\<lparr>sv_world := w\<rparr>)"
      by (simp add: prog_simps)
    with rest show ?thesis by blast
  qed
qed

lemma remote_create_call:
  assumes "create_call h p ts G E" and "in_sync c sv" and "\<forall>t \<in> set ts. denotes c sv t (obj t)"
    and "zlib_opt_ok (h_zlib h)" and "h_cl h (G obj) (sv_world sv) = (r, w)"
  shows "r_err r \<noteq> CL_SUCCESS \<Longrightarrow> remote h p c sv (Ok (0, E (r_err r))) c (sv\<lparr>sv_world := w\<rparr>)"
    and "r_err r = CL_SUCCESS \<Longrightarrow> r_obj r \<notin> set (mObjects sv) \<Longrightarrow> length (mObjects sv) < 65536 \<Longrightarrow>
      \<exists>t c' sv'. remote h p c sv (Ok (t, CL_SUCCESS)) c' sv' \<and> new_handle c sv c' sv' t (r_obj r)
        \<and> sv_world sv' = w"
    and "r_err r = CL_SUCCESS \<Longrightarrow> r_obj r \<in> set (mObjects sv) \<Longrightarrow> makes_mem (G obj) \<longrightarrow> mirrors n c sv \<Longrightarrow>
      \<exists>t c'. remote h p c sv (Ok (t, CL_SUCCESS)) c' (sv\<lparr>sv_world := w\<rparr>) \<and> reused_handle c sv c' t (r_obj r)
        \<and> (makes_mem (G obj) \<longrightarrow> c' = c)"
proof -
  from create_call_asks [OF assms(1-3)] obtain q
    where q: "asks_object h c p (makes_mem (G obj)) q E" "remote_call (mObjects sv) q = G obj" by blast
  with assms(5) have "h_cl h (remote_call (mObjects sv) q) (sv_world sv) = (r, w)" by simp
  note remote = remote_asks_object [OF q(1) assms(2,4) this]
  show "r_err r \<noteq> CL_SUCCESS \<Longrightarrow> remote h p c sv (Ok (0, E (r_err r))) c (sv\<lparr>sv_world := w\<rparr>)"
    by (rule remote(1))
  show "r_err r = CL_SUCCESS \<Longrightarrow> r_obj r \<in> set (mObjects sv) \<Longrightarrow> makes_mem (G obj) \<longrightarrow> mirrors n c sv \<Longrightarrow>
      \<exists>t c'. remote h p c sv (Ok (t, CL_SUCCESS)) c' (sv\<lparr>sv_world := w\<rparr>) \<and> reused_handle c sv c' t (r_obj r)
        \<and> (makes_mem (G obj) \<longrightarrow> c' = c)"
    by (rule remote(3))
  assume ok: "r_err r = CL_SUCCESS" "r_obj r \<notin> set (mObjects sv)" "length (mObjects sv) < 65536"
  obtain t c' where t: "register_object (word_of_nat (length (mObjects sv))) c = (t, c')"
    by (cases "register_object (word_of_nat (length (mObjects sv))) c")
  let ?sv' = "sv\<lparr>mObjects := mObjects sv @ [r_obj r], sv_world := w\<rparr>"
  have "sv_world ?sv' = w" by simp
  with remote(2) [OF ok t] new_handle_registered [OF assms(2) ok(3,2) t]
  show "\<exists>t c' sv'. remote h p c sv (Ok (t, CL_SUCCESS)) c' sv' \<and> new_handle c sv c' sv' t (r_obj r) \<and> sv_world sv' = w"
    by blast
qed

end
