(* ===== verification/RCL_RemoteCommands.thy ===== *)
theory RCL_RemoteCommands
  imports RCL_Remote
begin

text \<open>
  Commands as remote calls: launching a kernel, reading and writing a buffer, and mapping and
  unmapping one. A command waits for a list of events and may return an event.
\<close>

section \<open>Commands with events\<close>

lemma advance_with_event [advance_simps]:
  "s_in st = [] \<Longrightarrow> advance (k None) c st = (k None, c, st) \<Longrightarrow>
   advance (with_event want k) c st = (with_event want k, c, st)"
  by (simp add: with_event_def advance_simps)

lemma outcome_with_event [simp]: "outcome (k None) = None \<Longrightarrow> outcome (with_event want k) = None"
  by (simp add: with_event_def)

lemma exec_with_event:
  "exec (with_event False k) c st = exec (k None) c st"
  "s_in st = enc_reply z (R_ID i) @ rest \<Longrightarrow> register_object i c = (t, c') \<Longrightarrow>
   exec (with_event True k) c st = exec (k (Some t)) c' (st\<lparr>s_in := rest\<rparr>)"
  "s_in st = enc_reply z (R_Error e) \<Longrightarrow>
   exec (with_event True k) c st = (Throw (ErrorPacketExn e), c, st\<lparr>s_in := []\<rparr>)"
  by (simp_all add: with_event_def prog_simps)

text \<open>
  What a command gives the application: the status of the call when it fails; otherwise the
  success and, when asked for, an event that stands for the one OpenCL returned. That one may be at the address of
  an event that was released, which the server still has in its table.
\<close>

definition remote_event ::
  "'w host \<Rightarrow> (client, 'a) prog \<Rightarrow> client \<Rightarrow> 'w server \<Rightarrow> bool \<Rightarrow> cl_ret \<Rightarrow> 'w \<Rightarrow> (u32 \<Rightarrow> 'a)
   \<Rightarrow> (handle option \<Rightarrow> 'a) \<Rightarrow> bool" where
  "remote_event h p c sv want r w G F \<longleftrightarrow>
     (if r_err r \<noteq> CL_SUCCESS then remote h p c sv (Ok (G (r_err r))) c (sv\<lparr>sv_world := w\<rparr>)
      else if \<not> want then remote h p c sv (Ok (F None)) c (sv\<lparr>sv_world := w\<rparr>)
      else if r_obj r \<in> set (mObjects sv) then
        (\<exists>t c'. remote h p c sv (Ok (F (Some t))) c' (sv\<lparr>sv_world := w\<rparr>) \<and> reused_handle c sv c' t (r_obj r))
      else length (mObjects sv) < 65536 \<longrightarrow>
        (\<exists>t c' sv'. remote h p c sv (Ok (F (Some t))) c' sv' \<and> new_handle c sv c' sv' t (r_obj r)
          \<and> sv_world sv' = w))"

lemma remote_event_call:
  assumes adv: "advance p c idle
      = (pcatch (with_event want k) err, c, idle\<lparr>s_sent := enc_request (h_zlib h) q\<rparr>)"
    and wait: "outcome (k None) = None"
    and sync: "in_sync c sv" and srv: "request_ok h q" "zlib_opt_ok (h_zlib h)"
    and cl: "h_cl h (remote_call (mObjects sv) q) (sv_world sv) = (r, w)"
    and ans: "answer q r = (want, rest)" "enc_replies (h_zlib h) rest = enc_reply (h_zlib h) reply1"
    and err: "\<And>e. err (ErrorPacketExn e) = PRet (G e)"
      "\<And>e. exec (k None) c (idle\<lparr>s_in := enc_reply (h_zlib h) (R_Error e)\<rparr>) = (Ok (G e), c, idle)"
    and ok: "\<And>ev c'. r_err r = CL_SUCCESS \<Longrightarrow>
      exec (k ev) c' (idle\<lparr>s_in := enc_reply (h_zlib h) reply1\<rparr>) = (Ok (F ev), c', idle)"
  shows "remote_event h p c sv want r w G F"
proof -
  have "outcome (pcatch (with_event want k) err) = None" using wait by simp
  note call = remote_request [OF adv this srv]
  have idle_in: "idle\<lparr>s_in := []\<rparr> = idle" "idle\<lparr>s_in := a, s_in := b\<rparr> = idle\<lparr>s_in := b\<rparr>" for a b
    by (simp_all add: idle_def)
  show ?thesis
  proof (cases "r_err r = CL_SUCCESS")
    case False
    have "serve h q sv = Some ([R_Error (r_err r)], sv\<lparr>sv_world := w\<rparr>)"
      using False cl by (simp add: serve_def)
    moreover have "exec (pcatch (with_event want k) err) c
        (idle\<lparr>s_in := enc_replies (h_zlib h) [R_Error (r_err r)]\<rparr>) = (Ok (G (r_err r)), c, idle)"
      by (cases want) (simp_all add: enc_replies_def prog_simps exec_with_event err idle_in)
    ultimately show ?thesis
      using call [of sv "[R_Error (r_err r)]"] False by (simp add: remote_event_def)
  next
    case True
    show ?thesis
    proof (cases want)
      case False
      have "serve h q sv = Some (rest, sv\<lparr>sv_world := w\<rparr>)"
        using True False cl ans by (simp add: serve_def)
      from call [OF this] True False ok [OF True] ans(2) show ?thesis
        by (simp add: remote_event_def prog_simps exec_with_event)
    next
      case want: True
      show ?thesis
      proof (cases "r_obj r \<in> set (mObjects sv)")
        case known: True
        with getIDFor_found [OF known] sync obtain i
          where i: "getIDFor (mObjects sv) (r_obj r) = Some (i, mObjects sv)" "has_id (mObjects sv) i"
            "getObj (mObjects sv) i = r_obj r" by (auto simp: in_sync_def objs_ok_def has_id_def getObj_def)
        obtain t c' where t: "register_object i c = (t, c')" by (cases "register_object i c")
        have "serve h q sv = Some (R_ID i # rest, sv\<lparr>sv_world := w\<rparr>)"
          using True want cl ans i(1) by (simp add: serve_def)
        moreover have "exec (pcatch (with_event want k) err) c
            (idle\<lparr>s_in := enc_replies (h_zlib h) (R_ID i # rest)\<rparr>) = (Ok (F (Some t)), c', idle)"
          using want ans(2) ok [OF True] t
          by (simp add: enc_replies_def prog_simps exec_with_event(2) [OF _ t] idle_in)
        ultimately have "remote h p c sv (Ok (F (Some t))) c' (sv\<lparr>sv_world := w\<rparr>)" using call by blast
        with reused_registered [OF sync i(2) t] True want known i(3) show ?thesis
          unfolding remote_event_def by auto
      next
        case unknown: False
        show ?thesis
        proof (cases "length (mObjects sv) < 65536")
          case new: True
          let ?i = "word_of_nat (length (mObjects sv)) :: IDType"
          let ?sv = "sv\<lparr>mObjects := mObjects sv @ [r_obj r], sv_world := w\<rparr>"
          obtain t c' where t: "register_object ?i c = (t, c')" by (cases "register_object ?i c")
          have "serve h q sv = Some (R_ID ?i # rest, ?sv)"
            using True want cl ans new unknown getIDFor_absent [of "r_obj r" "mObjects sv"] by (simp add: serve_def)
          moreover have "exec (pcatch (with_event want k) err) c
              (idle\<lparr>s_in := enc_replies (h_zlib h) (R_ID ?i # rest)\<rparr>) = (Ok (F (Some t)), c', idle)"
            using want ans(2) ok [OF True] t
            by (simp add: enc_replies_def prog_simps exec_with_event(2) [OF _ t] idle_in)
          ultimately have "remote h p c sv (Ok (F (Some t))) c' ?sv" using call by blast
          moreover have "new_handle c sv c' ?sv t (r_obj r)"
            using new_handle_registered [OF sync _ _ t, of "r_obj r" w] new unknown by blast
          moreover have "sv_world ?sv = w" by simp
          ultimately show ?thesis using True want unknown unfolding remote_event_def by (metis (no_types))
        qed (use True want unknown in \<open>auto simp: remote_event_def\<close>)
      qed
    qed
  qed
qed

section \<open>Launching a kernel\<close>

lemma advance_wait_list [advance_simps]:
  "(\<And>t. t \<in> set es \<Longrightarrow> 0 < t \<and> cl_heap c t = Some (id_of c t)) \<Longrightarrow>
   advance (wait_list (length es) (Some es)) c st = (PRet (Inr (map (id_of c) es)), c, st)"
  by (cases "es = []") (simp_all add: wait_list_def advance_simps)

text \<open>The handles of a command and what they stand for.\<close>

lemma command_ids:
  assumes "in_sync c sv" and "\<forall>t \<in> set ts. denotes c sv t (obj t)"
  shows "\<And>t. t \<in> set ts \<Longrightarrow> 0 < t \<and> cl_heap c t = Some (id_of c t)"
    and "\<And>t. t \<in> set ts \<Longrightarrow> getObj (mObjects sv) (id_of c t) = obj t"
    and "cl_mStream c"
  using assms denotes_id [OF assms(1)] in_sync_connected [OF assms(1)] by auto

lemma wait_list_objects:
  assumes "in_sync c sv" and "\<forall>t \<in> set es. denotes c sv t (obj t)"
  shows "opt_events (getObj (mObjects sv)) (es \<noteq> []) (map (id_of c) es) = map obj es"
  using command_ids(2) [OF assms] by (auto simp: opt_events_def)

lemma word_dim_byte: "1 \<le> n \<Longrightarrow> n \<le> 3 \<Longrightarrow> ucast (word_of_nat n :: byte) = (word_of_nat n :: u32)"
  by (cases "n = 1"; cases "n = 2"; cases "n = 3") auto

lemma exec_success_reply:
  "exec (pcatch (pbind readSuccess (\<lambda>_. PRet a)) err) c (idle\<lparr>s_in := enc_reply z R_Success\<rparr>) = (Ok a, c, idle)"
  by (simp add: prog_simps idle_def)

text \<open>Arrays that are long enough, with local sizes that are not 0, pass the check.\<close>

lemma check_dims_ok:
  assumes "i + n \<le> length global" and "\<forall>xs \<in> set_option offset. i + n \<le> length xs"
    and "\<forall>xs \<in> set_option loc. i + n \<le> length xs \<and> 0 \<notin> set (take (i + n) xs)"
  shows "check_dims i n global offset loc = PRet True"
  using assms
proof (induction n arbitrary: i)
  case (Suc n)
  have "xs ! i \<noteq> 0" if "xs \<in> set_option loc" for xs
    using Suc.prems(3) that by (auto simp: in_set_conv_nth)
  with Suc.IH [of "Suc i"] Suc.prems show ?case by force
qed simp

lemma remote_clEnqueueNDRangeKernel:
  assumes sync: "in_sync c sv" and den: "\<forall>t \<in> set (queue # krn # es). denotes c sv t (obj t)"
    and dim: "1 \<le> work_dim" "work_dim \<le> 3" and sizes: "work_dim \<le> length global"
      "\<forall>xs \<in> set_option offset. work_dim \<le> length xs"
      "\<forall>xs \<in> set_option loc. work_dim \<le> length xs \<and> 0 \<notin> set (take work_dim xs)"
    and ev: "length es < 256" and z: "zlib_opt_ok (h_zlib h)"
    and cl: "h_cl h (clEnqueueNDRangeKernel (obj queue) (obj krn) (word_of_nat work_dim)
        (size3_of (dims work_dim 0 0 offset)) (size3_of (dims work_dim 1 1 (Some global)))
        (let l = dims work_dim 1 1 loc in if fst l = 0 then None else Some (size3_of l))
        (map obj es) want) (sv_world sv) = (r, w)"
  shows "remote_event h (api_clEnqueueNDRangeKernel queue krn work_dim offset global loc (length es) (Some es) want)
    c sv want r w (\<lambda>e. (e, None)) (\<lambda>ev. (CL_SUCCESS, ev))"
proof -
  note ids = command_ids [OF sync den]
  let ?q = "Q_EnqueueKernel \<lparr>ek_mGlobalSize = dims work_dim 1 1 (Some global),
      ek_mGlobalOffset = dims work_dim 0 0 offset, ek_mLocalSize = dims work_dim 1 1 loc,
      ek_mKernelID = id_of c krn, ek_mQueueID = id_of c queue, ek_mWorkDim = word_of_nat work_dim,
      ek_mWantEvent = want, ek_mExpectEventList = (es \<noteq> [])\<rparr> (map (id_of c) es)"
  show ?thesis
  proof (rule remote_event_call [where q = ?q and err = "enqueue_error None"])
    show "advance (api_clEnqueueNDRangeKernel queue krn work_dim offset global loc (length es) (Some es) want) c idle
      = (pcatch (with_event want (\<lambda>event. pcatch (pbind readSuccess (\<lambda>_. PRet (CL_SUCCESS, event))) (enqueue_error event)))
           (enqueue_error None), c, idle\<lparr>s_sent := enc_request (h_zlib h) ?q\<rparr>)"
      using ids dim check_dims_ok [of 0 work_dim global offset loc] sizes ev
      by (auto simp: api_clEnqueueNDRangeKernel_def advance_simps ok_IDList_def container_ok_def size_max_def
          enc_opt_def enc_IDList_def)
    show "h_cl h (remote_call (mObjects sv) ?q) (sv_world sv) = (r, w)"
      using cl ids(2) wait_list_objects [OF sync, of es obj] den word_dim_byte [OF dim]
      by (auto simp: Let_def split: if_splits)
  qed (use ev sync z in \<open>auto simp: exec_success_reply enqueue_error_def on_error_def prog_simps idle_def
         enc_replies_def ok_IDList_def container_ok_def size_max_def\<close>)
qed

text \<open>The local size of a launch: never null, and ones when the caller gave none.\<close>

lemma launched_local_size:
  assumes "1 \<le> n" and "\<forall>xs \<in> set_option loc. n \<le> length xs \<and> (0::u32) \<notin> set (map ucast (take n xs))"
  shows "fst (dims n 1 1 loc) \<noteq> 0"
    and "size3_of (dims n 1 1 loc)
      = (case loc of None \<Rightarrow> (1, 1, 1) | Some xs \<Rightarrow> size3_of (dims n 1 1 (Some xs)))"
proof -
  show "fst (dims n 1 1 loc) \<noteq> 0"
  proof (cases loc)
    case (Some xs)
    have "xs ! 0 \<in> set (take n xs)" using assms Some by (auto simp: in_set_conv_nth intro!: exI [of _ 0])
    then have "(ucast (xs ! 0) :: u32) \<in> set (map ucast (take n xs))" by simp
    with assms Some show ?thesis by (auto simp: dims_def Let_def)
  qed (use assms in \<open>simp add: dims_def\<close>)
  show "size3_of (dims n 1 1 loc) = (case loc of None \<Rightarrow> (1, 1, 1) | Some xs \<Rightarrow> size3_of (dims n 1 1 (Some xs)))"
    by (cases loc) (simp_all add: dims_def size3_of_def)
qed

section \<open>Reading and writing a buffer\<close>

lemma exec_read_into:
  assumes "s_in st = enc_reply z (R_Payload w d)" and "payload_fits w d" and "zlib_opt_ok z"
    and "length d \<le> room"
  shows "exec (read_into w z room) c st = (Ok (Some d), c, st\<lparr>s_in := []\<rparr>)"
  using exec_readPacket_Ok [of st PT_Payload "put_Payload w z d" "[]" "get_PayloadInto w z" d c]
    get_PayloadInto_put [OF assms(2,3), of "[]"] assms(1,4)
  by (simp add: read_into_def prog_simps enc_reply_def)

lemma advance_read_into [advance_simps]:
  "s_in st = [] \<Longrightarrow> advance (read_into w z room) c st = (read_into w z room, c, st)"
  by (simp add: read_into_def advance_simps)

lemma outcome_read_into [simp]: "outcome (read_into w z room) = None"
  by (simp add: read_into_def)

lemma exec_read_into_Error [prog_simps]:
  "s_in st = enc_reply z (R_Error e) \<Longrightarrow>
   exec (read_into w z' room) c st = (Throw (ErrorPacketExn e), c, st\<lparr>s_in := []\<rparr>)"
  using exec_readPacket_Error [of st e "[]" PT_Payload "pdec (get_PayloadInto w z')" c]
  by (simp add: read_into_def enc_reply_def prog_simps)

lemmas command_simps = with_wait_list_def write_command_def after_event_def command_error_def
  ok_IDList_def container_ok_def size_max_def enc_opt_def enc_IDList_def

lemma remote_clEnqueueReadBuffer:
  assumes sync: "in_sync c sv" and den: "\<forall>t \<in> set (queue # buffer # es). denotes c sv t (obj t)"
    and sz: "unat offset < 2 ^ 32" "unat sz < 2 ^ 32" "unat sz \<le> room" "can_alloc h (unat sz)"
    and ev: "length es < 256" and z: "zlib_opt_ok (h_zlib h)"
    and cl: "h_cl h (clEnqueueReadBuffer (obj queue) (obj buffer) True (unat offset) (unat sz) (map obj es) want)
        (sv_world sv) = (r, w)"
  shows "remote_event h (api_clEnqueueReadBuffer (h_zlib h) queue buffer blocking offset sz room
      (length es) (Some es) want) c sv want r w
      (\<lambda>e. (e, None, None)) (\<lambda>ev. (CL_SUCCESS, ev, Some (out_bytes (replicate (unat sz) 0) r)))"
proof -
  note ids = command_ids [OF sync den]
  let ?p = "\<lparr>brw_mBufferID = id_of c buffer, brw_mQueueID = id_of c queue, brw_mSize = ucast sz,
      brw_mOffset = ucast offset, brw_mWantEvent = want, brw_mExpectEventList = (es \<noteq> []), brw_mBlock = blocking\<rparr>"
  let ?q = "Q_ReadBuffer ?p (map (id_of c) es)"
  let ?d = "out_bytes (replicate (unat sz) 0) r"
  have fits: "payload_fits 4 ?d" using sz(2) by (simp add: payload_fits_4)
  have adv: "advance (api_clEnqueueReadBuffer (h_zlib h) queue buffer blocking offset sz room
        (length es) (Some es) want) c idle
      = (pcatch (with_event want (\<lambda>event. pcatch (pbind (read_into 4 (h_zlib h) room) (\<lambda>d. PRet (CL_SUCCESS, event, d)))
           (command_error event None))) (command_error None None),
         c, idle\<lparr>s_sent := enc_request (h_zlib h) ?q\<rparr>)"
    using ids ev by (auto simp: api_clEnqueueReadBuffer_def advance_simps command_simps)
  have cl': "h_cl h (remote_call (mObjects sv) ?q) (sv_world sv) = (r, w)"
    using cl ids(2) wait_list_objects [OF sync, of es obj] den sz by (simp add: unat_ucast_u32)
  show ?thesis
    by (rule remote_event_call [OF adv _ sync _ z cl'])
      (use ev sz fits z in \<open>auto simp: command_simps on_error_def prog_simps idle_def enc_replies_def
        exec_read_into unat_ucast_u32\<close>)
qed

lemma remote_clEnqueueWriteBuffer:
  assumes sync: "in_sync c sv" and den: "\<forall>t \<in> set (queue # buffer # es). denotes c sv t (obj t)"
    and sz: "unat offset < 2 ^ 32" "unat sz = length mem" "length mem < 2 ^ 32"
    and ev: "length es < 256" and z: "zlib_opt_ok (h_zlib h)"
    and cl: "h_cl h (clEnqueueWriteBuffer (obj queue) (obj buffer) blocking (unat offset) mem (map obj es) want)
        (sv_world sv) = (r, w)"
  shows "remote_event h (api_clEnqueueWriteBuffer (h_zlib h) queue buffer blocking offset sz mem
      (length es) (Some es) want) c sv want r w (\<lambda>e. (e, None, ())) (\<lambda>ev. (CL_SUCCESS, ev, ()))"
proof -
  note ids = command_ids [OF sync den]
  let ?p = "\<lparr>brw_mBufferID = id_of c buffer, brw_mQueueID = id_of c queue, brw_mSize = ucast sz,
      brw_mOffset = ucast offset, brw_mWantEvent = want, brw_mExpectEventList = (es \<noteq> []), brw_mBlock = blocking\<rparr>"
  let ?q = "Q_WriteBuffer ?p (map (id_of c) es) mem"
  have adv: "advance (api_clEnqueueWriteBuffer (h_zlib h) queue buffer blocking offset sz mem
        (length es) (Some es) want) c idle
      = (pcatch (with_event want (\<lambda>event. pcatch (pbind readSuccess (\<lambda>d. PRet (CL_SUCCESS, event, d)))
           (command_error event ()))) (command_error None ()),
         c, idle\<lparr>s_sent := enc_request (h_zlib h) ?q\<rparr>)"
    using ids ev sz
    by (auto simp: api_clEnqueueWriteBuffer_def advance_simps command_simps enc_data_def put_PayloadPtr_eq
        payload_fits_4)
  have cl': "h_cl h (remote_call (mObjects sv) ?q) (sv_world sv) = (r, w)"
    using cl ids(2) wait_list_objects [OF sync, of es obj] den sz by (simp add: unat_ucast_u32)
  show ?thesis
    by (rule remote_event_call [OF adv _ sync _ z cl'])
      (use ev sz in \<open>auto simp: command_simps on_error_def prog_simps idle_def enc_replies_def payload_fits_4\<close>)
qed

end
