(* ===== verification/RCL_RemoteMapping.thy ===== *)
theory RCL_RemoteMapping
  imports RCL_RemoteCommands
begin

text \<open>
  Mapping a buffer and unmapping it again: the client has no memory in common with the server's
  device, so mapping reads the region into a block of its own and unmapping writes the block back.
  Each is two remote calls: the transfer and the reference the mapping keeps.
\<close>

text \<open>What a handle stands for depends on the client's heap only.\<close>

lemma denotes_cong: "cl_heap c' = cl_heap c \<Longrightarrow> denotes c' sv t p = denotes c sv t p"
  by (simp add: denotes_def)

section \<open>Mapping\<close>

text \<open>The client after a region has been read into a new block.\<close>

definition mapped_block :: "handle \<Rightarrow> u64 \<Rightarrow> u64 \<Rightarrow> u64 \<Rightarrow> client \<Rightarrow> client" where
  "mapped_block t sz offset flags c = c\<lparr>cl_next := cl_next c + 1,
     cl_mMappings := (cl_mMappings c)(t := cl_mMappings c t
       @ [\<lparr>mp_data = cl_next c, mp_size = sz, mp_offset = offset, mp_flags = flags\<rparr>])\<rparr>"

lemma remote_newMapping [remote_simps]:
  "remote h (pbind (newMapping t sz offset flags) f) c sv r c2 sv2 \<longleftrightarrow>
   remote h (f \<lparr>mp_data = cl_next c, mp_size = sz, mp_offset = offset, mp_flags = flags\<rparr>)
     (mapped_block t sz offset flags c) sv r c2 sv2"
  by (rule remote_step_eq) (simp add: newMapping_def pstate_def mapped_block_def Let_def)

lemma mapped_block_simps [simp]:
  "cl_heap (mapped_block t sz offset flags c) = cl_heap c"
  "cl_heap (store_block p d c) = cl_heap c"
  "cl_mMappings (store_block p d c) = cl_mMappings c"
  by (simp_all add: mapped_block_def store_block_def)

lemma in_sync_mapped [simp]:
  "in_sync c sv \<Longrightarrow> in_sync (mapped_block t sz offset flags c) sv"
  "in_sync (store_block p d c) sv = in_sync c sv"
  by (auto simp: in_sync_def client_ok_def mapped_block_def store_block_def)

lemma block_bytes_store: "length d = n \<Longrightarrow> block_bytes (store_block p d c) p n = d"
  by (auto simp: block_bytes_def store_block_def intro: nth_equalityI)

lemma remote_retain_mem:
  assumes "in_sync c sv" and "denotes c sv t x" and "zlib_opt_ok (h_zlib h)"
  shows "h_cl h (clRetain K_MemObject x) (sv_world sv) = (r, w) \<Longrightarrow>
      remote h (api_clRetainMemObject t) c sv (Ok (r_err r)) c (sv\<lparr>sv_world := w\<rparr>)"
    and "h_cl h (clRelease K_MemObject x) (sv_world sv) = (r, w) \<Longrightarrow>
      remote h (api_clReleaseMemObject t) c sv (Ok (r_err r)) c (sv\<lparr>sv_world := w\<rparr>)"
  using denotes_id [OF assms(1,2)] assms
    remote_status_call [of api_clRetainMemObject "clRetain K_MemObject" 0 c sv t "id_of c t" h r w]
    remote_status_call [of api_clReleaseMemObject "clRelease K_MemObject" 0 c sv t "id_of c t" h r w]
  by (simp_all add: status_calls_def)

text \<open>A mapping that is read: the block holds what OpenCL read from the buffer.\<close>

lemma remote_clEnqueueMapBuffer:
  assumes sync: "in_sync c sv" and den: "\<forall>t \<in> set (queue # buffer # es). denotes c sv t (obj t)"
    and flags: "and flags (not (or CL_MAP_READ CL_MAP_WRITE)) = 0" "and flags CL_MAP_READ \<noteq> 0"
    and sz: "unat offset < 2 ^ 32" "unat sz < 2 ^ 32" "can_alloc h (unat sz)"
    and ev: "length es < 256" and z: "zlib_opt_ok (h_zlib h)"
    and read: "h_cl h (clEnqueueReadBuffer (obj queue) (obj buffer) True (unat offset) (unat sz) (map obj es) False)
        (sv_world sv) = (r1, w1)" "r_err r1 = CL_SUCCESS"
    and retain: "h_cl h (clRetain K_MemObject (obj buffer)) w1 = (r2, w2)"
  shows "remote h (api_clEnqueueMapBuffer (h_zlib h) queue buffer blocking flags offset sz (length es) (Some es) False)
    c sv (Ok (cl_next c, CL_SUCCESS, None))
    (store_block (cl_next c) (out_bytes (replicate (unat sz) 0) r1) (mapped_block buffer sz offset flags c))
    (sv\<lparr>sv_world := w2\<rparr>)"
proof -
  let ?d = "out_bytes (replicate (unat sz) 0) r1"
  let ?c1 = "mapped_block buffer sz offset flags c"
  let ?c2 = "store_block (cl_next c) ?d ?c1"
  let ?sv1 = "sv\<lparr>sv_world := w1\<rparr>"
  note ids = command_ids [OF sync den]
  have den1: "\<forall>t \<in> set (queue # buffer # es). denotes ?c1 sv t (obj t)"
    using den by (simp add: denotes_cong [of ?c1 c])
  have "remote h (api_clEnqueueReadBuffer (h_zlib h) queue buffer blocking offset sz (unat sz)
      (length es) (Some es) False) ?c1 sv (Ok (CL_SUCCESS, None, Some ?d)) ?c1 ?sv1"
    using remote_clEnqueueReadBuffer [OF in_sync_mapped(1) [OF sync] den1 sz(1,2) order_refl sz(3) ev z read(1),
        of blocking] read(2)
    by (simp add: remote_event_def)
  note read_step = this
  have retain_step: "remote h (api_clRetainMemObject buffer) ?c2 ?sv1 (Ok (r_err r2)) ?c2 (sv\<lparr>sv_world := w2\<rparr>)"
    using remote_retain_mem(1) [of ?c2 ?sv1 buffer "obj buffer" h r2 w2] sync den retain z
    by (simp add: denotes_cong [of ?c2 c])
  show ?thesis
    unfolding api_clEnqueueMapBuffer_def using flags ids(1) [of buffer]
    by (simp, intro remote_pcatch)
      (simp add: remote_simps pbind_assoc remote_pbind_eq [OF read_step] remote_pbind_eq [OF retain_step])
qed

section \<open>Unmapping\<close>

lemma remote_dropMapping [remote_simps]:
  "remove_mapping p (cl_mMappings c t) = Some ms \<Longrightarrow>
   remote h (pbind (dropMapping t p) f) c sv r c2 sv2 \<longleftrightarrow>
   remote h (f ()) (c\<lparr>cl_mMappings := (cl_mMappings c)(t := ms)\<rparr>) sv r c2 sv2"
  by (rule remote_step_eq) (simp add: dropMapping_def)

lemma remote_getMapping [remote_simps]:
  "List.find (\<lambda>m. mp_data m = p) (cl_mMappings c t) = Some m \<Longrightarrow>
   remote h (pbind (getMapping t p) f) c sv r c2 sv2 \<longleftrightarrow> remote h (f m) c sv r c2 sv2"
  by (rule remote_step_eq) (simp add: getMapping_def)

lemma in_sync_mappings [simp]: "in_sync (c\<lparr>cl_mMappings := m\<rparr>) sv = in_sync c sv"
  by (simp add: in_sync_def client_ok_def)

text \<open>A mapping that is written: what the block holds is written to the buffer.\<close>

lemma remote_clEnqueueUnmapMemObject:
  assumes sync: "in_sync c sv" and den: "\<forall>t \<in> set (queue # buffer # es). denotes c sv t (obj t)"
    and mp: "List.find (\<lambda>m. mp_data m = p) (cl_mMappings c buffer)
        = Some \<lparr>mp_data = p, mp_size = sz, mp_offset = offset, mp_flags = flags\<rparr>"
      "remove_mapping p (cl_mMappings c buffer) = Some ms" "and flags CL_MAP_WRITE \<noteq> 0"
    and sz: "unat offset < 2 ^ 32" "unat sz < 2 ^ 32"
    and ev: "length es < 256" and z: "zlib_opt_ok (h_zlib h)"
    and wr: "h_cl h (clEnqueueWriteBuffer (obj queue) (obj buffer) True (unat offset) (block_bytes c p (unat sz))
        (map obj es) False) (sv_world sv) = (r1, w1)" "r_err r1 = CL_SUCCESS"
    and release: "h_cl h (clRelease K_MemObject (obj buffer)) w1 = (r2, w2)"
  shows "remote h (api_clEnqueueUnmapMemObject (h_zlib h) queue buffer p (length es) (Some es) False)
    c sv (Ok (CL_SUCCESS, None)) (c\<lparr>cl_mMappings := (cl_mMappings c)(buffer := ms)\<rparr>) (sv\<lparr>sv_world := w2\<rparr>)"
proof -
  let ?mem = "block_bytes c p (unat sz)"
  let ?c1 = "c\<lparr>cl_mMappings := (cl_mMappings c)(buffer := ms)\<rparr>"
  let ?sv1 = "sv\<lparr>sv_world := w1\<rparr>"
  note ids = command_ids [OF sync den]
  have nonzero: "buffer \<noteq> 0" using ids(1) [of buffer] by auto
  have len: "unat sz = length ?mem" "length ?mem < 2 ^ 32" using sz(2) by (simp_all add: block_bytes_def)
  have write_step: "remote h (api_clEnqueueWriteBuffer (h_zlib h) queue buffer True offset sz ?mem
      (length es) (Some es) False) c sv (Ok (CL_SUCCESS, None, ())) c ?sv1"
    using remote_clEnqueueWriteBuffer [OF sync den sz(1) len ev z wr(1)] wr(2)
    by (simp add: remote_event_def)
  have release_step: "remote h (api_clReleaseMemObject buffer) ?c1 ?sv1 (Ok (r_err r2)) ?c1 (sv\<lparr>sv_world := w2\<rparr>)"
    using remote_retain_mem(2) [of ?c1 ?sv1 buffer "obj buffer" h r2 w2] sync den release z
    by (simp add: denotes_cong [of ?c1 c])
  show ?thesis
    unfolding api_clEnqueueUnmapMemObject_def if_not_P [OF nonzero]
    by (intro remote_pcatch)
      (simp add: mp ids(1) remote_simps pbind_assoc remote_pbind_eq [OF write_step]
        remote_pbind_eq [OF release_step])
qed

section \<open>A mapping from end to end\<close>

text \<open>Blocks are new: the address of a mapping is below the allocator's next address.\<close>

definition mappings_ok :: "client \<Rightarrow> bool" where
  "mappings_ok c \<longleftrightarrow> (\<forall>t. \<forall>m \<in> set (cl_mMappings c t). mp_data m < cl_next c)"

lemma find_new_mapping:
  assumes "\<forall>m \<in> set ms. mp_data m \<noteq> mp_data new"
  shows "List.find (\<lambda>m. mp_data m = mp_data new) (ms @ [new]) = Some new"
    and "remove_mapping (mp_data new) (ms @ [new]) = Some ms"
  using assms by (induction ms) auto

text \<open>Mapping, storing \<open>d\<close> in the block, unmapping.\<close>

lemma remote_map_store_unmap:
  assumes sync: "in_sync c sv" "mappings_ok c" and den: "\<forall>t \<in> set (queue # buffer # es). denotes c sv t (obj t)"
    and sz: "unat offset < 2 ^ 32" "unat sz < 2 ^ 32" "can_alloc h (unat sz)" "length d = unat sz"
    and ev: "length es < 256" and z: "zlib_opt_ok (h_zlib h)"
    and calls: "h_cl h (clEnqueueReadBuffer (obj queue) (obj buffer) True (unat offset) (unat sz) (map obj es) False)
        (sv_world sv) = (r1, w1)" "r_err r1 = CL_SUCCESS"
      "h_cl h (clRetain K_MemObject (obj buffer)) w1 = (r2, w2)"
      "h_cl h (clEnqueueWriteBuffer (obj queue) (obj buffer) True (unat offset) d (map obj es) False) w2 = (r3, w3)"
      "r_err r3 = CL_SUCCESS" "h_cl h (clRelease K_MemObject (obj buffer)) w3 = (r4, w4)"
  shows "\<exists>c1. remote h (api_clEnqueueMapBuffer (h_zlib h) queue buffer blocking 3 offset sz (length es) (Some es) False)
      c sv (Ok (cl_next c, CL_SUCCESS, None)) c1 (sv\<lparr>sv_world := w2\<rparr>)
    \<and> block_bytes c1 (cl_next c) (unat sz) = out_bytes (replicate (unat sz) 0) r1
    \<and> (\<exists>c2. remote h (api_clEnqueueUnmapMemObject (h_zlib h) queue buffer (cl_next c) (length es) (Some es) False)
        (store_block (cl_next c) d c1) (sv\<lparr>sv_world := w2\<rparr>) (Ok (CL_SUCCESS, None)) c2 (sv\<lparr>sv_world := w4\<rparr>)
      \<and> cl_mMappings c2 = cl_mMappings c \<and> in_sync c2 (sv\<lparr>sv_world := w4\<rparr>))"
proof -
  let ?p = "cl_next c"
  let ?c1 = "store_block ?p (out_bytes (replicate (unat sz) 0) r1) (mapped_block buffer sz offset 3 c)"
  let ?c2 = "store_block ?p d ?c1"
  let ?sv2 = "sv\<lparr>sv_world := w2\<rparr>"
  let ?m = "\<lparr>mp_data = ?p, mp_size = sz, mp_offset = offset, mp_flags = 3\<rparr>"
  have maps: "cl_mMappings ?c2 = (cl_mMappings c)(buffer := cl_mMappings c buffer @ [?m])"
    by (simp add: mapped_block_def)
  have new: "\<forall>m \<in> set (cl_mMappings c buffer). mp_data m \<noteq> mp_data ?m"
    using sync(2) by (force simp: mappings_ok_def)
  have den2: "\<forall>t \<in> set (queue # buffer # es). denotes ?c2 ?sv2 t (obj t)"
    using den by (simp add: denotes_cong [of ?c2 c])
  have bytes: "block_bytes ?c2 ?p (unat sz) = d" using sz(4) by (rule block_bytes_store)
  let ?c3 = "?c2\<lparr>cl_mMappings := (cl_mMappings ?c2)(buffer := cl_mMappings c buffer)\<rparr>"
  have "remote h (api_clEnqueueUnmapMemObject (h_zlib h) queue buffer ?p (length es) (Some es) False)
      ?c2 ?sv2 (Ok (CL_SUCCESS, None)) ?c3 (?sv2\<lparr>sv_world := w4\<rparr>)"
    by (rule remote_clEnqueueUnmapMemObject [OF _ den2, where sz = sz and offset = offset and flags = 3])
      (use sync(1) calls(4-6) sz ev z maps find_new_mapping [OF new] bytes in simp_all)
  then have "remote h (api_clEnqueueUnmapMemObject (h_zlib h) queue buffer ?p (length es) (Some es) False)
      ?c2 ?sv2 (Ok (CL_SUCCESS, None)) ?c3 (sv\<lparr>sv_world := w4\<rparr>)" by simp
  moreover have "cl_mMappings ?c3 = cl_mMappings c" using maps by simp
  moreover have "in_sync ?c3 (sv\<lparr>sv_world := w4\<rparr>)" using sync(1) by simp
  moreover have "remote h (api_clEnqueueMapBuffer (h_zlib h) queue buffer blocking 3 offset sz (length es) (Some es)
      False) c sv (Ok (?p, CL_SUCCESS, None)) ?c1 ?sv2"
    by (rule remote_clEnqueueMapBuffer [OF sync(1) den _ _ sz(1-3) ev z calls(1-3)]) simp_all
  moreover have "block_bytes ?c1 ?p (unat sz) = out_bytes (replicate (unat sz) 0) r1"
    by (rule block_bytes_store) simp
  ultimately show ?thesis by blast
qed

end
