(* ===== verification/RCL_RemoteStart.thy ===== *)
theory RCL_RemoteStart
  imports RCL_Remote
begin

text \<open>
  The start of a connection, from both ends, and the events the server reports to the client while
  it lasts.
\<close>

section \<open>The handshake\<close>

text \<open>An instance from its construction on; its loop follows.\<close>

definition server_start :: "'w host \<Rightarrow> ('w server, bool) prog" where
  "server_start h = pbind (ServerInstance h) (\<lambda>_. PRet True)"

lemma advance_read_now [advance_simps]:
  "exec (readPacket ty p) s st = (Ok x, s', st') \<Longrightarrow> \<not> s_closed st \<Longrightarrow>
   advance (readPacket ty p) s st = (PRet x, s', st')"
  using advance_exec [of "readPacket ty p" s st "Ok x" s' st'] by simp

lemma exec_readVersion:
  "s_in st = enc_reply z (R_Version v) @ rest \<Longrightarrow> ok_Version v \<Longrightarrow>
   exec (readPacket PT_Version (pdec get_Version)) s st = (Ok v, s, st\<lparr>s_in := rest\<rparr>)"
  using exec_readPacket_Ok [of st PT_Version "put_Version v" rest get_Version v s]
  by (simp add: enc_reply_def codec_simps)

lemma exec_readPort:
  "s_in st = enc_reply z (R_Data16 n) @ rest \<Longrightarrow>
   exec (readPacket PT_Payload (pdec get_u16)) s st = (Ok n, s, st\<lparr>s_in := rest\<rparr>)"
  using exec_readPacket_Ok [of st PT_Payload "put_u16 n" rest get_u16 n s]
  by (simp add: enc_reply_def codec_simps)

lemmas exec_read_reply =
  exec_readVersion [where rest = "[]", unfolded append_Nil2]
  exec_readPort [where rest = "[]", unfolded append_Nil2]

lemma serverTurn_start:
  "serverTurn h (server_start h) sv idle
     = Some (serverStep h, sv, idle\<lparr>s_sent := enc_reply (h_zlib h) (R_Version (VersionPacket (h_cfg h)))\<rparr>)"
proof -
  have "exec (server_start h) sv idle
      = (Ok True, sv, idle\<lparr>s_sent := enc_reply (h_zlib h) (R_Version (VersionPacket (h_cfg h)))\<rparr>)"
    by (simp add: server_start_def prog_simps exec_ServerInstance)
  from advance_exec [OF this] show ?thesis
    by (subst serverTurn.simps) (simp add: serverTurn_waits)
qed

text \<open>The port the first try picks.\<close>

definition event_port :: "nat \<Rightarrow> u16" where
  "event_port x = word_of_nat (x mod 16384 + 49152)"

lemma event_port_nonzero [simp]: "event_port x \<noteq> 0"
proof -
  have "x mod 16384 < 16384" by simp
  then have "x mod 16384 + 49152 < 65536" by linarith
  then have "unat (event_port x) = x mod 16384 + 49152" unfolding event_port_def unat_of_nat by simp
  then show ?thesis by auto
qed

lemma exec_createEventStream:
  assumes "s_in st = enc_packet PT_EventStreamOpen (put_Signal ()) @ rest"
    and "h_rand h (sv_world sv) = (x, w1)" and "h_bind h (event_port x) w1 = (True, w2)"
    and "h_accept h (event_port x) w2 = (None, w3)"
  shows "exec (createEventStream h) sv st
    = (Ok (), sv\<lparr>mEventStream := Some fresh_stream, sv_world := w3\<rparr>,
       st\<lparr>s_in := rest, s_sent := s_sent st @ s_pending st @ enc_reply (h_zlib h) (R_Data16 (event_port x)),
          s_pending := []\<rparr>)"
  using assms unfolding event_port_def
  by (simp add: createEventStream_def event_stream_tries_first [of 16 h] world_def Let_def
      prog_simps codec_simps)

lemma serverTurn_event_stream:
  assumes "h_rand h (sv_world sv) = (x, w1)" and "h_bind h (event_port x) w1 = (True, w2)"
    and "h_accept h (event_port x) w2 = (None, w3)"
  shows "serverTurn h (serverStep h) sv (idle\<lparr>s_in := enc_packet PT_EventStreamOpen (put_Signal ())\<rparr>)
    = Some (serverStep h, sv\<lparr>mEventStream := Some fresh_stream, sv_world := w3\<rparr>,
        idle\<lparr>s_sent := enc_reply (h_zlib h) (R_Data16 (event_port x))\<rparr>)"
proof -
  let ?st = "idle\<lparr>s_in := enc_packet PT_EventStreamOpen (put_Signal ())\<rparr>"
  have "exec (createEventStream h) sv ?st = (Ok (), sv\<lparr>mEventStream := Some fresh_stream, sv_world := w3\<rparr>,
      idle\<lparr>s_sent := enc_reply (h_zlib h) (R_Data16 (event_port x))\<rparr>)"
    using exec_createEventStream [of ?st "[]", OF _ assms] by (simp add: idle_def)
  then have "exec (serverStep h) sv ?st = (Ok True, sv\<lparr>mEventStream := Some fresh_stream, sv_world := w3\<rparr>,
      idle\<lparr>s_sent := enc_reply (h_zlib h) (R_Data16 (event_port x))\<rparr>)"
    using exec_handleNextPacket [of ?st PT_EventStreamOpen "put_Signal ()" "[]" h sv]
    by (simp add: serverStep_def prog_simps pthen_continue_def idle_def)
  from advance_exec [OF this] show ?thesis
    by (subst serverTurn.simps) (simp add: serverTurn_waits)
qed

text \<open>
  Both ends after the handshake. Nothing but the version is exchanged when the versions do not
  match; an event stream is opened when both ends are built for it.
\<close>

definition started_client :: "build_config \<Rightarrow> build_config \<Rightarrow> client" where
  "started_client cfg cfg' =
     (if \<not> isCompatibleWith (VersionPacket cfg) (VersionPacket cfg') then client_init
      else client_init\<lparr>cl_mStream := True, cl_mEventStream := cfg_async cfg \<and> cfg_async cfg'\<rparr>)"

definition event_stream_wanted :: "build_config \<Rightarrow> build_config \<Rightarrow> bool" where
  "event_stream_wanted cfg cfg' \<longleftrightarrow>
     isCompatibleWith (VersionPacket cfg) (VersionPacket cfg') \<and> cfg_async cfg \<and> cfg_async cfg'"

lemma idle_updates [simp]:
  "idle\<lparr>s_in := []\<rparr> = idle" "idle\<lparr>s_sent := []\<rparr> = idle" "idle\<lparr>s_pending := []\<rparr> = idle"
  "idle\<lparr>s_in := a, s_in := b\<rparr> = idle\<lparr>s_in := b\<rparr>" "idle\<lparr>s_sent := a, s_sent := b\<rparr> = idle\<lparr>s_sent := b\<rparr>"
  "idle\<lparr>s_sent := b, s_pending := []\<rparr> = idle\<lparr>s_sent := b\<rparr>"
  "idle\<lparr>s_in := b, s_sent := []\<rparr> = idle\<lparr>s_in := b\<rparr>"
  by (simp_all add: idle_def)

lemma enc_reply_nonempty [simp]: "enc_reply z r \<noteq> []"
  by (rule enc_reply_not_Nil)

lemma client_init_update: "client_init\<lparr>cl_mStream := True, cl_mStream := False\<rparr> = client_init"
  "client_init\<lparr>cl_mStream := True, cl_mEventStream := False\<rparr> = client_init\<lparr>cl_mStream := True\<rparr>"
  "client_init\<lparr>cl_mStream := False\<rparr> = client_init"
  by (simp_all add: client_init_def)

text \<open>The version packet arrives.\<close>

lemma dialog_version:
  "dialog h (Connection cfg True connect) client_init idle (server_start h) (server_init w) idle
   = dialog h (pcatch (negotiate cfg connect (VersionPacket (h_cfg h))) (\<lambda>_. PRet ()))
       (client_init\<lparr>cl_mStream := True\<rparr>) idle (serverStep h) (server_init w) idle"
proof -
  let ?v = "VersionPacket (h_cfg h)"
  let ?rest = "pcatch (pbind (readPacket PT_Version (pdec get_Version)) (negotiate cfg connect)) (\<lambda>_. PRet ())"
  let ?c = "client_init\<lparr>cl_mStream := True\<rparr>"
  have "advance ?rest ?c (idle\<lparr>s_in := enc_reply (h_zlib h) (R_Version ?v)\<rparr>)
      = advance (pcatch (negotiate cfg connect ?v) (\<lambda>_. PRet ())) ?c idle"
    by (simp add: advance_simps exec_read_reply(1) [of _ "h_zlib h" ?v])
  then have "dialog h ?rest ?c (idle\<lparr>s_in := enc_reply (h_zlib h) (R_Version ?v)\<rparr>) (serverStep h) (server_init w) idle
      = dialog h (pcatch (negotiate cfg connect ?v) (\<lambda>_. PRet ())) ?c idle (serverStep h) (server_init w) idle"
    by (simp only: dialog.simps [of h ?rest] dialog.simps [of h "pcatch (negotiate cfg connect ?v) (\<lambda>_. PRet ())"])
  then show ?thesis
    by (subst dialog.simps) (simp add: Connection_def advance_simps serverTurn_start)
qed

lemma handshake_versions:
  assumes "\<not> event_stream_wanted cfg (h_cfg h)"
  shows "dialog h (Connection cfg True connect) client_init idle (server_start h) (server_init w) idle
    = Some (Ok (), started_client cfg (h_cfg h), idle, serverStep h, server_init w, idle)"
  using assms unfolding dialog_version
  by (subst dialog.simps)
    (auto simp: negotiate_def advance_simps started_client_def event_stream_wanted_def client_init_update)

lemma handshake_events:
  assumes "event_stream_wanted cfg (h_cfg h)" and "h_rand h w = (x, w1)"
    and "h_bind h (event_port x) w1 = (True, w2)" and "h_accept h (event_port x) w2 = (None, w3)"
    and "connect (event_port x)"
  shows "dialog h (Connection cfg True connect) client_init idle (server_start h) (server_init w) idle
    = Some (Ok (), started_client cfg (h_cfg h), idle, serverStep h,
        (server_init w3)\<lparr>mEventStream := Some fresh_stream\<rparr>, idle)"
proof -
  let ?c = "client_init\<lparr>cl_mStream := True\<rparr>"
  let ?sv = "(server_init w3)\<lparr>mEventStream := Some fresh_stream\<rparr>"
  let ?rest = "pcatch (pbind (readPacket PT_Payload (pdec get_u16)) (\<lambda>eventPort.
      if eventPort \<noteq> 0 \<and> connect eventPort then pupd (\<lambda>c. c\<lparr>cl_mEventStream := True\<rparr>) else PRet ())) (\<lambda>_. PRet ())"
  have turn: "serverTurn h (serverStep h) (server_init w)
      (idle\<lparr>s_in := enc_packet PT_EventStreamOpen (put_Signal ())\<rparr>)
    = Some (serverStep h, ?sv, idle\<lparr>s_sent := enc_reply (h_zlib h) (R_Data16 (event_port x))\<rparr>)"
    using serverTurn_event_stream [of h "server_init w" x w1 w2 w3] assms(2-4)
    by (simp add: server_init_def)
  have "dialog h ?rest ?c (idle\<lparr>s_in := enc_reply (h_zlib h) (R_Data16 (event_port x))\<rparr>) (serverStep h) ?sv idle
      = Some (Ok (), started_client cfg (h_cfg h), idle, serverStep h, ?sv, idle)"
    using assms(1,5)
    by (subst dialog.simps) (simp add: advance_simps exec_read_reply(2) [of _ "h_zlib h" "event_port x"]
        started_client_def event_stream_wanted_def)
  with assms(1) turn show ?thesis
    unfolding dialog_version
    by (subst dialog.simps) (simp add: negotiate_def advance_simps event_stream_wanted_def)
qed

text \<open>
  With any network: the server takes the first of up to 16 ports it can bind. When it can bind none it tells the client
  so, and when the client cannot connect to the port it goes on without an event stream. (The \<open>accept\<close> of the
  server is taken to return.)
\<close>

fun find_port :: "'w host \<Rightarrow> nat \<Rightarrow> 'w \<Rightarrow> u16 option \<times> 'w" where
  "find_port h 0 w = (None, w)"
| "find_port h (Suc n) w =
     (case h_rand h w of (x, w1) \<Rightarrow>
      case h_bind h (event_port x) w1 of (bound, w2) \<Rightarrow> if bound then (Some (event_port x), w2) else find_port h n w2)"

definition port_accepts :: "'w host \<Rightarrow> u16 option \<Rightarrow> 'w \<Rightarrow> 'w \<Rightarrow> bool" where
  "port_accepts h port w w' \<longleftrightarrow> (case port of None \<Rightarrow> w' = w | Some p \<Rightarrow> h_accept h p w = (None, w'))"

lemma find_port_nonzero: "find_port h n w = (Some p, w') \<Longrightarrow> p \<noteq> 0"
  by (induction n arbitrary: w) (auto split: prod.splits if_splits)

lemma exec_event_stream_tries:
  "find_port h n (sv_world sv) = (port, w1) \<Longrightarrow> port_accepts h port w1 w2 \<Longrightarrow>
   exec (event_stream_tries h n) sv st = (Ok (),
     sv\<lparr>mEventStream := (if port = None then mEventStream sv else Some fresh_stream), sv_world := w2\<rparr>,
     (case port of None \<Rightarrow> st\<lparr>s_pending := s_pending st @ enc_reply (h_zlib h) (R_Data16 0)\<rparr>
      | Some p \<Rightarrow> st\<lparr>s_sent := s_sent st @ s_pending st @ enc_reply (h_zlib h) (R_Data16 p), s_pending := []\<rparr>))"
proof (induction n arbitrary: sv)
  case 0
  then show ?case by (auto simp: prog_simps port_accepts_def)
next
  case (Suc n)
  obtain x wx where x: "h_rand h (sv_world sv) = (x, wx)" by (cases "h_rand h (sv_world sv)")
  obtain b wb where b: "h_bind h (event_port x) wx = (b, wb)" by (cases "h_bind h (event_port x) wx")
  have step: "exec (event_stream_tries h (Suc n)) sv st
      = (if b then exec (pcatch (pbind (reply h (R_Data16 (event_port x))) (\<lambda>_. pbind pflush (\<lambda>_.
            pbind (world (h_accept h (event_port x))) (\<lambda>failed. case failed of Some e \<Rightarrow> PThrow e
              | None \<Rightarrow> pupd (\<lambda>sv. sv\<lparr>mEventStream := Some fresh_stream\<rparr>)))))
            (\<lambda>_. reply h (R_Data16 0))) (sv\<lparr>sv_world := wb\<rparr>) st
         else exec (event_stream_tries h n) (sv\<lparr>sv_world := wb\<rparr>) st)"
    using x b unfolding event_port_def by (simp add: world_def Let_def prog_simps)
  show ?case
  proof (cases b)
    case True
    with Suc.prems x b have "port = Some (event_port x)" "h_accept h (event_port x) wb = (None, w2)"
      by (auto simp: port_accepts_def)
    with True show ?thesis unfolding step by (simp add: world_def prog_simps)
  next
    case False
    with Suc.prems x b have "find_port h n wb = (port, w1)" by simp
    with Suc.IH [of "sv\<lparr>sv_world := wb\<rparr>"] Suc.prems(2) False show ?thesis unfolding step by simp
  qed
qed

lemma serverTurn_open_stream:
  assumes f: "find_port h 16 (sv_world sv) = (port, w1)" and a: "port_accepts h port w1 w2" and "mEventStream sv = None"
  shows "serverTurn h (serverStep h) sv (idle\<lparr>s_in := enc_packet PT_EventStreamOpen (put_Signal ())\<rparr>)
    = Some (serverStep h, sv\<lparr>mEventStream := map_option (\<lambda>_. fresh_stream) port, sv_world := w2\<rparr>,
        idle\<lparr>s_sent := enc_reply (h_zlib h) (R_Data16 (case port of None \<Rightarrow> 0 | Some p \<Rightarrow> p))\<rparr>)"
proof -
  let ?st = "idle\<lparr>s_in := enc_packet PT_EventStreamOpen (put_Signal ())\<rparr>"
  let ?sv = "sv\<lparr>mEventStream := map_option (\<lambda>_. fresh_stream) port, sv_world := w2\<rparr>"
  have open_read: "exec (readPacket PT_EventStreamOpen (pdec get_Signal)) sv ?st = (Ok (), sv, idle)"
    using exec_readPacket_Ok [of ?st PT_EventStreamOpen "put_Signal ()" "[]" get_Signal "()" sv]
    by (simp add: get_Signal_def put_Signal_def decode_DRet)
  have "exec (createEventStream h) sv ?st = (Ok (), ?sv, (case port of
        None \<Rightarrow> idle\<lparr>s_pending := enc_reply (h_zlib h) (R_Data16 0)\<rparr>
      | Some p \<Rightarrow> idle\<lparr>s_sent := enc_reply (h_zlib h) (R_Data16 p)\<rparr>))"
    using exec_event_stream_tries [OF f a, of idle] assms(3) open_read
    by (cases port) (simp_all add: createEventStream_def prog_simps)
  then have "exec (serverStep h) sv ?st
      = (Ok True, ?sv, idle\<lparr>s_sent := enc_reply (h_zlib h) (R_Data16 (case port of None \<Rightarrow> 0 | Some p \<Rightarrow> p))\<rparr>)"
    using exec_handleNextPacket [of ?st PT_EventStreamOpen "put_Signal ()" "[]" h sv]
    by (cases port) (simp_all add: serverStep_def prog_simps pthen_continue_def idle_def)
  from advance_exec [OF this] show ?thesis
    by (subst serverTurn.simps) (simp add: serverTurn_waits)
qed

lemma handshake_ports:
  assumes "event_stream_wanted cfg (h_cfg h)" and f: "find_port h 16 w = (port, w1)" and a: "port_accepts h port w1 w2"
  shows "dialog h (Connection cfg True connect) client_init idle (server_start h) (server_init w) idle
    = Some (Ok (), client_init\<lparr>cl_mStream := True, cl_mEventStream := (\<exists>p. port = Some p \<and> connect p)\<rparr>, idle, serverStep h,
        (server_init w2)\<lparr>mEventStream := map_option (\<lambda>_. fresh_stream) port\<rparr>, idle)"
proof -
  let ?c = "client_init\<lparr>cl_mStream := True\<rparr>"
  let ?sv = "(server_init w2)\<lparr>mEventStream := map_option (\<lambda>_. fresh_stream) port\<rparr>"
  let ?p = "case port of None \<Rightarrow> 0 | Some p \<Rightarrow> p"
  let ?rest = "pcatch (pbind (readPacket PT_Payload (pdec get_u16)) (\<lambda>eventPort.
      if eventPort \<noteq> 0 \<and> connect eventPort then pupd (\<lambda>c. c\<lparr>cl_mEventStream := True\<rparr>) else PRet ())) (\<lambda>_. PRet ())"
  have turn: "serverTurn h (serverStep h) (server_init w)
      (idle\<lparr>s_in := enc_packet PT_EventStreamOpen (put_Signal ())\<rparr>)
    = Some (serverStep h, ?sv, idle\<lparr>s_sent := enc_reply (h_zlib h) (R_Data16 ?p)\<rparr>)"
    using serverTurn_open_stream [of h "server_init w", OF _ a] f by (simp add: server_init_def)
  have p: "?p \<noteq> 0 \<and> connect ?p \<longleftrightarrow> (\<exists>p. port = Some p \<and> connect p)"
    using find_port_nonzero [of h 16 w] f by (cases port) auto
  have "dialog h ?rest ?c (idle\<lparr>s_in := enc_reply (h_zlib h) (R_Data16 ?p)\<rparr>) (serverStep h) ?sv idle
      = Some (Ok (), client_init\<lparr>cl_mStream := True, cl_mEventStream := (\<exists>p. port = Some p \<and> connect p)\<rparr>, idle, serverStep h, ?sv, idle)"
    unfolding p [symmetric]
    by (subst dialog.simps) (auto simp: advance_simps exec_read_reply(2) [of _ "h_zlib h" ?p] client_init_def)
  with assms(1) turn show ?thesis
    unfolding dialog_version
    by (subst dialog.simps) (simp add: negotiate_def advance_simps event_stream_wanted_def)
qed

text \<open>The state after a handshake between matching versions is where remote calls start from.\<close>

lemma started_in_sync:
  "isCompatibleWith (VersionPacket cfg) (VersionPacket cfg') \<Longrightarrow>
   in_sync (started_client cfg cfg') ((server_init w)\<lparr>mEventStream := es\<rparr>)"
  by (simp add: in_sync_def started_client_def client_ok_def client_init_def server_init_def objs_ok_def)

end
