(* ===== verification/RCL_RemoteEvents.thy ===== *)
theory RCL_RemoteEvents
  imports RCL_Remote
begin

text \<open>
  Callbacks of the application on events, from their registration through the callback OpenCL runs
  on the server's machine to the thread of the client that calls the application.
\<close>

section \<open>The thread of the client\<close>

text \<open>What \<open>triggerEventCallback\<close> sends, and the call it results in.\<close>

definition event_bytes :: "IDType \<Rightarrow> u32 \<Rightarrow> byte list" where
  "event_bytes i code = enc_packet PT_CallbackTrigger (put_u32 (ucast i))
     @ enc_packet PT_EventCallbackTrigger (put_u16 (ucast code))"

lemma unat_ucast_id [simp]: "unat (ucast (i :: IDType) :: u32) = unat i"
  using unsigned_less [of i, where ?'a = nat] by (simp add: unsigned_ucast_eq take_bit_eq_mod)

lemma exec_HandleCallbacks_event:
  assumes "s_in st = event_bytes i code @ rest" and "unat i < length (cl_mCallbacks c)"
    and "cl_mCallbacks c ! unat i = Some (CB_Event event fn data)"
  shows "exec HandleCallbacks c st
    = (Ok True, c\<lparr>cl_calls := cl_calls c @ [EventNotify fn event (ucast (ucast code :: u16)) data]\<rparr>, st\<lparr>s_in := rest\<rparr>)"
proof -
  let ?ev = "enc_packet PT_EventCallbackTrigger (put_u16 (ucast code)) @ rest"
  have "exec nextPacketTy c st = (Ok (pt_code PT_CallbackTrigger), c, st)"
    using assms(1) by (intro exec_nextPacketTy_packet) (simp add: event_bytes_def)
  moreover have "exec (readPacket PT_CallbackTrigger (pdec get_u32)) c st = (Ok (ucast i), c, st\<lparr>s_in := ?ev\<rparr>)"
    using assms(1) by (intro exec_readPacket_Ok [where bs = "put_u32 (ucast i)"])
      (simp_all add: event_bytes_def codec_simps)
  moreover have "exec (readPacket PT_EventCallbackTrigger (pdec get_u16)) c (st\<lparr>s_in := ?ev\<rparr>)
      = (Ok (ucast code), c, st\<lparr>s_in := ?ev, s_in := rest\<rparr>)"
    by (intro exec_readPacket_Ok [where bs = "put_u16 (ucast code)"]) (simp_all add: codec_simps)
  ultimately show ?thesis
    using assms(2,3) by (simp add: HandleCallbacks_def prog_simps notify_def pnoexcept_def)
qed

lemma exec_HandleCallbacks_end:
  "s_in st = [] \<Longrightarrow> s_closed st \<Longrightarrow> exec HandleCallbacks c st = (Ok False, c, st)"
  by (simp add: HandleCallbacks_def prog_simps exec_nextPacketTy_eof)

text \<open>All events of a callback arrive, in their order, and the thread ends with the stream.\<close>

lemma CallbackThreadMain_delivers:
  assumes "s_in st = concat (map (event_bytes i) codes)" and "s_closed st"
    and "unat i < length (cl_mCallbacks c)" and "cl_mCallbacks c ! unat i = Some (CB_Event event fn data)"
  shows "CallbackThreadMain st_ops c st = Some (Ok (),
      c\<lparr>cl_calls := cl_calls c @ map (\<lambda>code. EventNotify fn event (ucast (ucast code :: u16)) data) codes\<rparr>,
      st\<lparr>s_in := []\<rparr>)"
  using assms
proof (induction codes arbitrary: c st)
  case Nil
  then show ?case
    using exec_HandleCallbacks_end [of st c] by (simp add: CallbackThreadMain.simps)
next
  case (Cons code codes)
  let ?c = "c\<lparr>cl_calls := cl_calls c @ [EventNotify fn event (ucast (ucast code :: u16)) data]\<rparr>"
  let ?st = "st\<lparr>s_in := concat (map (event_bytes i) codes)\<rparr>"
  have "exec HandleCallbacks c st = (Ok True, ?c, ?st)"
    using Cons.prems by (intro exec_HandleCallbacks_event) simp_all
  then have "CallbackThreadMain st_ops c st = CallbackThreadMain st_ops ?c ?st"
    by (simp add: CallbackThreadMain.simps [of _ c st])
  with Cons.IH [of ?st ?c] Cons.prems show ?case by simp
qed

section \<open>The callback on the server's machine\<close>

text \<open>OpenCL calls the function it was given once for every status in the list.\<close>

fun fire :: "u32 list \<Rightarrow> nat \<Rightarrow> 'w server \<Rightarrow> 'w server res" where
  "fire [] block sv = Ok sv"
| "fire (code # codes) block sv =
     (case EventCallback code block sv of Ok sv' \<Rightarrow> fire codes block sv' | r \<Rightarrow> r)"

lemma fire_sends:
  assumes "block < length (sv_blocks sv)" and "sv_blocks sv ! block = \<lparr>cb_instance = True, cb_ID = i\<rparr>"
    and "mEventStream sv = Some es" and "s_pending es = []"
  shows "fire codes block sv
    = Ok (sv\<lparr>mEventStream := Some (es\<lparr>s_sent := s_sent es @ concat (map (event_bytes i) codes)\<rparr>)\<rparr>)"
  using assms
proof (induction codes arbitrary: sv es)
  case (Cons code codes)
  let ?es = "es\<lparr>s_sent := s_sent es @ event_bytes i code\<rparr>"
  have "EventCallback code block sv = Ok (sv\<lparr>mEventStream := Some ?es\<rparr>)"
    using Cons.prems by (simp add: EventCallback_def triggerEventCallback_def es_put_def es_flush_def
        st_flush_def event_bytes_def)
  with Cons.IH [of "sv\<lparr>mEventStream := Some ?es\<rparr>" ?es] Cons.prems show ?case by simp
qed simp

section \<open>Registration\<close>

lemma exec_registerEventCallback:
  assumes "s_in st = enc_packet PT_RegisterEventCallback (put_RegisterEventCallback P) @ rest"
    and "h_cl h (clSetEventCallback (getObj (mObjects sv) (rec_mEventID P)) (rec_mCBType P)
           (length (sv_blocks sv))) (sv_world sv) = (r, w)" and "r_err r = CL_SUCCESS"
  shows "exec (registerEventCallback h) sv st = (Ok (),
      sv\<lparr>sv_blocks := sv_blocks sv @ [\<lparr>cb_instance = True, cb_ID = rec_mCallbackID P\<rparr>], sv_world := w\<rparr>,
      st\<lparr>s_in := rest, s_pending := s_pending st @ enc_reply (h_zlib h) R_Success\<rparr>)"
  using assms exec_readPacket [of st PT_RegisterEventCallback "put_RegisterEventCallback P" rest
      "pnoexcept (pdec get_RegisterEventCallback)" sv]
    exec_pdec_Ok [of get_RegisterEventCallback "st\<lparr>s_in := put_RegisterEventCallback P @ rest\<rparr>" P rest sv]
  by (simp add: registerEventCallback_def prog_simps codec_simps pnoexcept_def newBlock_def)

lemma callback_id: "ucast (word_of_nat n :: u32) = (word_of_nat n :: IDType)"
  by transfer (simp add: take_bit_of_nat min_def)

lemma remote_clSetEventCallback:
  assumes sync: "in_sync c sv" and den: "denotes c sv event x" and es: "cl_mEventStream c" and fn: "0 < fn"
    and cl: "h_cl h (clSetEventCallback x ty (length (sv_blocks sv))) (sv_world sv) = (r, w)"
      "r_err r = CL_SUCCESS"
  shows "remote h (api_clSetEventCallback event ty fn data) c sv (Ok CL_SUCCESS)
    (c\<lparr>cl_mCallbacks := cl_mCallbacks c @ [Some (CB_Event event fn data)]\<rparr>)
    (sv\<lparr>sv_blocks := sv_blocks sv @ [\<lparr>cb_instance = True, cb_ID = word_of_nat (length (cl_mCallbacks c))\<rparr>],
        sv_world := w\<rparr>)"
proof -
  let ?P = "\<lparr>rec_mEventID = id_of c event, rec_mCallbackID = word_of_nat (length (cl_mCallbacks c)),
      rec_mCBType = ty\<rparr>"
  let ?bs = "enc_packet PT_RegisterEventCallback (put_RegisterEventCallback ?P)"
  let ?c = "c\<lparr>cl_mCallbacks := cl_mCallbacks c @ [Some (CB_Event event fn data)]\<rparr>"
  note ids = denotes_id [OF sync den]
  let ?rest = "pcatch (pbind readSuccess (\<lambda>_. PRet CL_SUCCESS))
      (on_error CL_OUT_OF_HOST_MEMORY CL_DEVICE_NOT_AVAILABLE (\<lambda>code. code))"
  have adv: "advance (api_clSetEventCallback event ty fn data) c idle = (?rest, ?c, idle\<lparr>s_sent := ?bs\<rparr>)"
    using ids es fn in_sync_connected [OF sync]
    by (auto simp: api_clSetEventCallback_def registerCallback_def pstate_def pnoexcept_def advance_simps
        enc_packet_def callback_id idle_def)
  have "exec (serverStep h) sv (idle\<lparr>s_in := ?bs\<rparr>) = (Ok True,
      sv\<lparr>sv_blocks := sv_blocks sv @ [\<lparr>cb_instance = True, cb_ID = rec_mCallbackID ?P\<rparr>], sv_world := w\<rparr>,
      idle\<lparr>s_sent := enc_reply (h_zlib h) R_Success\<rparr>)"
    using exec_handleNextPacket [of "idle\<lparr>s_in := ?bs\<rparr>" PT_RegisterEventCallback "put_RegisterEventCallback ?P"
        "[]" h sv] exec_registerEventCallback [of "idle\<lparr>s_in := ?bs\<rparr>" ?P "[]" h sv r w] cl ids
    by (simp add: serverStep_def prog_simps pthen_continue_def idle_def)
  from remote_exchange [OF adv _ this] show ?thesis
    by (simp add: enc_reply_not_Nil prog_simps idle_def)
qed

end
