(* ===== verification/RCL_SocketSetup.thy ===== *)
theory RCL_SocketSetup
  imports RCL_Socket
begin

text \<open>
  Making sockets, \<open>common/socket.cpp\<close>: the constructors, \<open>accept\<close>, \<open>close\<close> and the destructor.

  The operating system is a parameter again, one function per call, with the results of the C
  functions; its state is that of the whole machine. What the calls do to the table of open
  descriptors of the process is the named hypothesis \<open>fds_ok\<close>. An object of the class \<open>Socket\<close> is its
  member \<open>mSocket\<close>; where one goes out of scope its destructor is written out. IPv4 addresses are
  32-bit words.
\<close>

record 'n netos =
  os_socket :: "'n \<Rightarrow> int \<times> 'n"
  os_setsockopt :: "int \<Rightarrow> 'n \<Rightarrow> int \<times> 'n"
  os_bind :: "int \<Rightarrow> u16 \<Rightarrow> 'n \<Rightarrow> int \<times> 'n"
  os_listen :: "int \<Rightarrow> int \<Rightarrow> 'n \<Rightarrow> int \<times> 'n"
  os_accept :: "int \<Rightarrow> 'n \<Rightarrow> int \<times> 'n"
  os_getaddrinfo :: "byte list \<Rightarrow> 'n \<Rightarrow> u32 list option \<times> 'n"
  os_connect :: "int \<Rightarrow> u32 \<Rightarrow> u16 \<Rightarrow> 'n \<Rightarrow> int \<times> 'n"
  os_close :: "int \<Rightarrow> 'n \<Rightarrow> 'n"

abbreviation InvalidSocket :: int where "InvalidSocket \<equiv> - 1"

text \<open>A call of the operating system; it reports failure by its result.\<close>

definition syscall :: "('n \<Rightarrow> 'a \<times> 'n) \<Rightarrow> ('n, 'a) smonad" where
  "syscall f = (\<lambda>n. case f n of (a, n') \<Rightarrow> (Ok a, n'))"

text \<open>
  \<open>Socket::~Socket\<close>, and \<open>Socket::close\<close>, which leaves \<open>mSocket\<close> as it is: the destructor closes the
  descriptor again.
\<close>

definition Socket_dtor :: "'n netos \<Rightarrow> int \<Rightarrow> ('n, unit) smonad" where
  "Socket_dtor os mSocket = (if mSocket \<noteq> InvalidSocket then mupd (os_close os mSocket) else mret ())"

definition Socket_close :: "'n netos \<Rightarrow> int \<Rightarrow> ('n, unit) smonad" where
  "Socket_close os mSocket = mbind (massert (mSocket \<noteq> InvalidSocket)) (\<lambda>_. mupd (os_close os mSocket))"

text \<open>
  The constructors. \<open>keep_alive\<close> is a build option; that it cannot be switched on is not an error. The
  two public ones delegate to the first: once that has returned, the object exists and an exception
  destroys it.
\<close>

definition Socket_new :: "'n netos \<Rightarrow> bool \<Rightarrow> ('n, int) smonad" where
  "Socket_new os keep_alive =
     mbind (syscall (os_socket os)) (\<lambda>mSocket.
     if mSocket = InvalidSocket then mthrow SocketError
     else
       mbind (if keep_alive then mbind (syscall (os_setsockopt os mSocket)) (\<lambda>_. mret ()) else mret ()) (\<lambda>_.
       mret mSocket))"

definition destroy_throw :: "'n netos \<Rightarrow> int \<Rightarrow> ('n, int) smonad" where
  "destroy_throw os mSocket = mbind (Socket_dtor os mSocket) (\<lambda>_. mthrow SocketError)"

definition Socket_server :: "'n netos \<Rightarrow> bool \<Rightarrow> u16 \<Rightarrow> ('n, int) smonad" where
  "Socket_server os keep_alive port =
     mbind (Socket_new os keep_alive) (\<lambda>mSocket.
     mbind (syscall (os_bind os mSocket port)) (\<lambda>rs.
     if rs \<noteq> 0 then destroy_throw os mSocket else mret mSocket))"

fun connect_loop :: "'n netos \<Rightarrow> int \<Rightarrow> u16 \<Rightarrow> u32 list \<Rightarrow> ('n, int) smonad" where
  "connect_loop os mSocket port [] = destroy_throw os mSocket"
| "connect_loop os mSocket port (addr # info) =
     mbind (syscall (os_connect os mSocket addr port)) (\<lambda>rs.
     if rs = 0 then mret mSocket else connect_loop os mSocket port info)"

definition Socket_client :: "'n netos \<Rightarrow> bool \<Rightarrow> byte list \<Rightarrow> u16 \<Rightarrow> ('n, int) smonad" where
  "Socket_client os keep_alive hostname port =
     mbind (Socket_new os keep_alive) (\<lambda>mSocket.
     mbind (syscall (os_getaddrinfo os hostname)) (\<lambda>info.
     case info of
       None \<Rightarrow> destroy_throw os mSocket
     | Some addrs \<Rightarrow> connect_loop os mSocket port addrs))"

definition Socket_accept :: "'n netos \<Rightarrow> int \<Rightarrow> ('n, int) smonad" where
  "Socket_accept os mSocket =
     mbind (syscall (os_listen os mSocket 5)) (\<lambda>rs.
     if rs \<noteq> 0 then mthrow SocketError
     else
       mbind (syscall (os_accept os mSocket)) (\<lambda>clientSockFD.
       if clientSockFD < 0 then mthrow SocketError else mret clientSockFD))"

section \<open>Descriptors\<close>

text \<open>
  \<open>fds n\<close> are the open descriptors: \<open>socket\<close> and \<open>accept\<close> return -1 or one that was not open before,
  \<open>close\<close> closes, the other calls do neither.
\<close>

definition opens :: "('n \<Rightarrow> int set) \<Rightarrow> ('n \<Rightarrow> int \<times> 'n) \<Rightarrow> bool" where
  "opens fds f \<longleftrightarrow> (\<forall>n fd n'. f n = (fd, n') \<longrightarrow>
     (if fd = - 1 then fds n' = fds n else 0 \<le> fd \<and> fd \<notin> fds n \<and> fds n' = insert fd (fds n)))"

definition same_fds :: "('n \<Rightarrow> int set) \<Rightarrow> ('n \<Rightarrow> 'a \<times> 'n) \<Rightarrow> bool" where
  "same_fds fds f \<longleftrightarrow> (\<forall>n. fds (snd (f n)) = fds n)"

definition fds_ok :: "'n netos \<Rightarrow> ('n \<Rightarrow> int set) \<Rightarrow> bool" where
  "fds_ok os fds \<longleftrightarrow> opens fds (os_socket os) \<and> (\<forall>fd. opens fds (os_accept os fd))
     \<and> (\<forall>fd. same_fds fds (os_setsockopt os fd)) \<and> (\<forall>fd port. same_fds fds (os_bind os fd port))
     \<and> (\<forall>fd k. same_fds fds (os_listen os fd k)) \<and> (\<forall>name. same_fds fds (os_getaddrinfo os name))
     \<and> (\<forall>fd addr port. same_fds fds (os_connect os fd addr port))
     \<and> (\<forall>fd n. fds (os_close os fd n) = fds n - {fd})"

text \<open>Making a socket: a new open descriptor, or \<open>Socket::Error\<close> and none.\<close>

definition makes_socket :: "('n \<Rightarrow> int set) \<Rightarrow> ('n, int) smonad \<Rightarrow> bool" where
  "makes_socket fds m \<longleftrightarrow> (\<forall>n. case m n of
       (Ok fd, n') \<Rightarrow> 0 \<le> fd \<and> fd \<notin> fds n \<and> fds n' = insert fd (fds n)
     | (Throw e, n') \<Rightarrow> e = SocketError \<and> fds n' = fds n
     | (Fail x, n') \<Rightarrow> False)"

text \<open>A step after the socket exists, which keeps the descriptors, and then the rest.\<close>

definition finishes :: "('n \<Rightarrow> int set) \<Rightarrow> int \<Rightarrow> ('n, int) smonad \<Rightarrow> bool" where
  "finishes fds fd m \<longleftrightarrow> (\<forall>n. fd \<in> fds n \<longrightarrow> (case m n of
       (Ok fd', n') \<Rightarrow> fd' = fd \<and> fds n' = fds n
     | (Throw e, n') \<Rightarrow> e = SocketError \<and> fds n' = fds n - {fd}
     | (Fail x, n') \<Rightarrow> False))"

lemma finishesD:
  assumes "finishes fds fd m" and "fd \<in> fds n" and "m n = (r, n')"
  shows "case r of Ok fd' \<Rightarrow> fd' = fd \<and> fds n' = fds n
     | Throw e \<Rightarrow> e = SocketError \<and> fds n' = fds n - {fd} | Fail x \<Rightarrow> False"
  using assms(1) [unfolded finishes_def, rule_format, OF assms(2)] assms(3) by (cases r) simp_all

lemma finishes_mret: "finishes fds fd (mret fd)"
  by (simp add: finishes_def monad_simps)

lemma finishes_destroy:
  "fds_ok os fds \<Longrightarrow> 0 \<le> fd \<Longrightarrow> finishes fds fd (destroy_throw os fd)"
  by (simp add: finishes_def destroy_throw_def Socket_dtor_def fds_ok_def monad_simps)

lemma finishes_syscall:
  assumes "same_fds fds f" and "\<And>a. finishes fds fd (k a)"
  shows "finishes fds fd (mbind (syscall f) k)"
  unfolding finishes_def
proof (intro allI impI)
  fix n assume fd: "fd \<in> fds n"
  obtain a n1 where f: "f n = (a, n1)" by (cases "f n")
  with assms(1) have "fds n1 = fds n" by (metis same_fds_def snd_conv)
  moreover from this fd assms(2) [of a] have "case k a n1 of
       (Ok fd', n') \<Rightarrow> fd' = fd \<and> fds n' = fds n1
     | (Throw e, n') \<Rightarrow> e = SocketError \<and> fds n' = fds n1 - {fd} | (Fail x, n') \<Rightarrow> False"
    by (simp add: finishes_def)
  ultimately show "case mbind (syscall f) k n of
       (Ok fd', n') \<Rightarrow> fd' = fd \<and> fds n' = fds n
     | (Throw e, n') \<Rightarrow> e = SocketError \<and> fds n' = fds n - {fd} | (Fail x, n') \<Rightarrow> False"
    using f by (simp add: monad_simps syscall_def split: prod.splits res.splits)
qed

lemma makes_socket_new:
  assumes ok: "fds_ok os fds" and k: "\<And>fd. 0 \<le> fd \<Longrightarrow> finishes fds fd (k fd)"
  shows "makes_socket fds (mbind (Socket_new os keep_alive) k)"
  unfolding makes_socket_def
proof
  fix n
  obtain fd n1 where s: "os_socket os n = (fd, n1)" by (cases "os_socket os n")
  from ok s have new: "if fd = - 1 then fds n1 = fds n else 0 \<le> fd \<and> fd \<notin> fds n \<and> fds n1 = insert fd (fds n)"
    by (simp add: fds_ok_def opens_def)
  show "case mbind (Socket_new os keep_alive) k n of
      (Ok fd, n') \<Rightarrow> 0 \<le> fd \<and> fd \<notin> fds n \<and> fds n' = insert fd (fds n)
    | (Throw e, n') \<Rightarrow> e = SocketError \<and> fds n' = fds n | (Fail x, n') \<Rightarrow> False"
  proof (cases "fd = - 1")
    case True
    with s new show ?thesis by (simp add: Socket_new_def monad_simps syscall_def)
  next
    case False
    let ?n = "if keep_alive then snd (os_setsockopt os fd n1) else n1"
    have n: "fds ?n = insert fd (fds n)"
      using ok new False by (simp add: fds_ok_def same_fds_def)
    have "Socket_new os keep_alive n = (Ok fd, ?n)"
      using s False by (simp add: Socket_new_def monad_simps syscall_def split: prod.splits)
    then have "mbind (Socket_new os keep_alive) k n = k fd ?n" by (rule mbind_Ok)
    moreover obtain r n2 where k2: "k fd ?n = (r, n2)" by (cases "k fd ?n") blast
    ultimately have run: "mbind (Socket_new os keep_alive) k n = (r, n2)" by (rule trans)
    from new False have fd: "0 \<le> fd" "fd \<notin> fds n" by simp_all
    have "fd \<in> fds ?n" unfolding n by simp
    note fin = finishesD [OF k [OF fd(1)] this k2, unfolded n]
    show ?thesis
      using fin fd unfolding run n by (cases r) simp_all
  qed
qed

lemma makes_socket_server: "fds_ok os fds \<Longrightarrow> makes_socket fds (Socket_server os keep_alive port)"
  unfolding Socket_server_def
  by (rule makes_socket_new) (auto intro!: finishes_syscall finishes_destroy finishes_mret simp: fds_ok_def)

lemma finishes_connect_loop:
  "fds_ok os fds \<Longrightarrow> 0 \<le> fd \<Longrightarrow> finishes fds fd (connect_loop os fd port addrs)"
  by (induction addrs) (auto intro!: finishes_syscall finishes_destroy finishes_mret simp: fds_ok_def)

lemma makes_socket_client: "fds_ok os fds \<Longrightarrow> makes_socket fds (Socket_client os keep_alive host port)"
  unfolding Socket_client_def
  by (rule makes_socket_new)
    (auto intro!: finishes_syscall finishes_destroy finishes_connect_loop split: option.split simp: fds_ok_def)

lemma makes_socket_accept: "fds_ok os fds \<Longrightarrow> makes_socket fds (Socket_accept os fd)"
  unfolding makes_socket_def
proof
  fix n assume ok: "fds_ok os fds"
  obtain rs n1 where l: "os_listen os fd 5 n = (rs, n1)" by (cases "os_listen os fd 5 n")
  obtain c n2 where a: "os_accept os fd n1 = (c, n2)" by (cases "os_accept os fd n1")
  have "fds n1 = fds n" using ok l unfolding fds_ok_def same_fds_def by (metis snd_conv)
  moreover have "if c = - 1 then fds n2 = fds n1 else 0 \<le> c \<and> c \<notin> fds n1 \<and> fds n2 = insert c (fds n1)"
    using ok a by (simp add: fds_ok_def opens_def)
  ultimately show "case Socket_accept os fd n of
      (Ok fd, n') \<Rightarrow> 0 \<le> fd \<and> fd \<notin> fds n \<and> fds n' = insert fd (fds n)
    | (Throw e, n') \<Rightarrow> e = SocketError \<and> fds n' = fds n | (Fail x, n') \<Rightarrow> False"
    using l a by (auto simp: Socket_accept_def monad_simps syscall_def split: if_splits)
qed

end
