(* ===== verification/RCL_ServerMain.thy ===== *)
theory RCL_ServerMain
  imports RCL_SocketSetup RCL_CText
begin

text \<open>
  \<open>server/main.cpp\<close>, built to fork one process per connection: the command line, the loop that accepts
  connections, and what becomes of the descriptors.

  \<open>fork\<close> is a parameter; its three results are the branches of the code, and the model follows the
  process they belong to. \<open>session fd\<close> stands for running an instance on an accepted connection, but for
  the end of the socket's life; \<open>serverConnection\<close> of \<open>RCL_ServerInstance\<close> is what it does on the stream.
  \<open>IgnoreSigChild\<close> and the messages are left out.
\<close>

section \<open>The command line\<close>

text \<open>The arguments after the name of the program: the exit code, or the port to serve.\<close>

datatype start = Exit int | Serve u16

fun parse_args :: "u16 \<Rightarrow> byte list list \<Rightarrow> start" where
  "parse_args port [] = Serve port"
| "parse_args port (arg # args) =
     (if arg = c_bytes ''--port'' then
        (case args of
           [] \<Rightarrow> Exit (- 1)
         | value # args' \<Rightarrow>
             (case strtoul value of
                None \<Rightarrow> Exit (- 1)
              | Some (n, end) \<Rightarrow> if end \<noteq> [] then Exit (- 1) else parse_args (ucast n) args'))
      else if arg = c_bytes ''--help'' then Exit 0
      else Exit (- 1))"

section \<open>Accepting connections\<close>

datatype forked = InChild | InParent | ForkFailed

text \<open>
  One turn: the result is whether the loop goes on. The socket of the client is moved into the instance;
  where there is none it is destroyed at the end of the turn. The child closes the socket of the server,
  and leaves the loop even when its connection is lost. The loop catches \<open>Socket::Error\<close> and
  \<open>std::system_error\<close>; any other exception reaches no handler and ends the process (\<open>std::terminate\<close>).
\<close>

definition loop_catches :: "exn \<Rightarrow> bool" where
  "loop_catches e \<longleftrightarrow> e = SocketError \<or> e = SystemError"

definition client_turn ::
  "'n netos \<Rightarrow> (int \<Rightarrow> ('n, unit) smonad) \<Rightarrow> int \<Rightarrow> int \<Rightarrow> ('n, bool) smonad" where
  "client_turn os session server client = (\<lambda>n.
     case mbind (Socket_close os server) (\<lambda>_. session client) n of
       (Fail x, n') \<Rightarrow> (Fail x, n')
     | (Ok _, n') \<Rightarrow> mbind (Socket_dtor os client) (\<lambda>_. mret False) n'
     | (Throw e, n') \<Rightarrow>
         mbind (Socket_dtor os client) (\<lambda>_. if loop_catches e then mret False else mfail Terminated) n')"

definition accept_turn ::
  "'n netos \<Rightarrow> ('n \<Rightarrow> forked \<times> 'n) \<Rightarrow> (int \<Rightarrow> ('n, unit) smonad) \<Rightarrow> int \<Rightarrow> ('n, bool) smonad" where
  "accept_turn os fork session server =
     mcatch
       (mbind (Socket_accept os server) (\<lambda>client.
        mbind (syscall fork) (\<lambda>child.
        if child = InChild then client_turn os session server client
        else mbind (Socket_dtor os client) (\<lambda>_. mret True))))
       (\<lambda>e. if loop_catches e then mret True else mfail Terminated)"

partial_function (option) accept_loop ::
  "'n netos \<Rightarrow> ('n \<Rightarrow> forked \<times> 'n) \<Rightarrow> (int \<Rightarrow> ('n, unit) smonad) \<Rightarrow> int \<Rightarrow> 'n \<Rightarrow> (unit res \<times> 'n) option" where
  "accept_loop os fork session server n =
     (case accept_turn os fork session server n of
        (Ok running, n') \<Rightarrow> if running then accept_loop os fork session server n' else Some (Ok (), n')
      | (Throw e, n') \<Rightarrow> Some (Throw e, n')
      | (Fail x, n') \<Rightarrow> Some (Fail x, n'))"

text \<open>The whole program, with its exit code. The socket of the server is destroyed at the end of it.\<close>

definition server_main ::
  "'n netos \<Rightarrow> bool \<Rightarrow> u16 \<Rightarrow> ('n \<Rightarrow> forked \<times> 'n) \<Rightarrow> (int \<Rightarrow> ('n, unit) smonad) \<Rightarrow> byte list list \<Rightarrow> 'n
   \<Rightarrow> (int res \<times> 'n) option" where
  "server_main os keep_alive defaultPort fork session args n =
     (case parse_args defaultPort args of
        Exit code \<Rightarrow> Some (Ok code, n)
      | Serve port \<Rightarrow>
          (case Socket_server os keep_alive port n of
             (Throw e, n1) \<Rightarrow> Some (if e = SocketError then Ok (- 1) else Fail Terminated, n1)
           | (Fail x, n1) \<Rightarrow> Some (Fail x, n1)
           | (Ok server, n1) \<Rightarrow>
               map_option (\<lambda>(r, n2). case r of
                   Ok _ \<Rightarrow> (Ok 0, snd (Socket_dtor os server n2))
                 | Throw e \<Rightarrow> (if e = SocketError then Ok (- 1) else Fail Terminated, snd (Socket_dtor os server n2))
                 | Fail x \<Rightarrow> (Fail x, n2))
                 (accept_loop os fork session server n1)))"

section \<open>Descriptors\<close>

text \<open>
  A turn that goes on leaves the process with the descriptors it had; the child that has served its
  connection has given up the socket of the server and nothing else. A turn ends the process only in a child,
  and only when serving the connection does: by an exception the loop does not catch, or by a failure of its own.
\<close>

definition dies_of :: "failure \<Rightarrow> unit res \<Rightarrow> bool" where
  "dies_of x r \<longleftrightarrow> r = Fail x \<or> x = Terminated \<and> (\<exists>e. r = Throw e \<and> \<not> loop_catches e)"

definition turn_fds ::
  "('n \<Rightarrow> int set) \<Rightarrow> ('n \<Rightarrow> forked \<times> 'n) \<Rightarrow> (int \<Rightarrow> ('n, unit) smonad) \<Rightarrow> int \<Rightarrow> 'n \<Rightarrow> bool res \<times> 'n \<Rightarrow> bool" where
  "turn_fds fds fork session server n out \<longleftrightarrow> (case out of
       (Ok True, n') \<Rightarrow> fds n' = fds n
     | (Ok False, n') \<Rightarrow> fds n' = fds n - {server}
     | (Throw e, n') \<Rightarrow> False
     | (Fail x, n') \<Rightarrow> (\<exists>n1 client n2. fst (fork n1) = InChild \<and> dies_of x (fst (session client n2))))"

lemma client_turn_fds:
  assumes ok: "fds_ok os fds" and session: "\<And>n. fds (snd (session client n)) = fds n"
    and "0 \<le> server" and "0 \<le> client" and "client \<noteq> server"
  shows "case client_turn os session server client n of
      (Ok running, n') \<Rightarrow> \<not> running \<and> fds n' = fds n - {server} - {client}
    | (Throw e, n') \<Rightarrow> False | (Fail x, n') \<Rightarrow> \<exists>n2. dies_of x (fst (session client n2))"
proof -
  have close: "fds (os_close os fd n) = fds n - {fd}" for fd n using ok by (simp add: fds_ok_def)
  obtain r n1 where s: "session client (os_close os server n) = (r, n1)"
    by (cases "session client (os_close os server n)")
  then have "fds n1 = fds n - {server}" using session [of "os_close os server n"] close by simp
  moreover have run: "mbind (Socket_close os server) (\<lambda>_. session client) n = (r, n1)"
    using assms(3) s by (simp add: Socket_close_def monad_simps)
  moreover have "\<exists>n2. dies_of x (fst (session client n2))" if "dies_of x r" for x using that s by (metis fst_conv)
  ultimately show ?thesis
    using assms(4) close by (cases r) (auto simp: client_turn_def monad_simps Socket_dtor_def dies_of_def)
qed

lemma accept_turn_fds:
  assumes ok: "fds_ok os fds" and fork: "same_fds fds fork" and session: "\<And>fd n. fds (snd (session fd n)) = fds n"
    and "0 \<le> server" and "server \<in> fds n"
  shows "turn_fds fds fork session server n (accept_turn os fork session server n)"
proof -
  obtain r n1 where a: "Socket_accept os server n = (r, n1)" by (cases "Socket_accept os server n")
  have acc: "case (r, n1) of
       (Ok fd, n') \<Rightarrow> 0 \<le> fd \<and> fd \<notin> fds n \<and> fds n' = insert fd (fds n)
     | (Throw e, n') \<Rightarrow> e = SocketError \<and> fds n' = fds n | (Fail x, n') \<Rightarrow> False"
    using makes_socket_accept [OF ok, of server, unfolded makes_socket_def, THEN spec, of n] unfolding a .
  show ?thesis
  proof (cases r)
    case (Throw e)
    with acc a show ?thesis by (simp add: accept_turn_def turn_fds_def monad_simps loop_catches_def)
  next
    case (Fail x)
    with acc show ?thesis by simp
  next
    case (Ok client)
    with acc have c: "0 \<le> client" "client \<notin> fds n" "fds n1 = insert client (fds n)" by simp_all
    then have ne: "client \<noteq> server" using assms(5) by auto
    obtain child n2 where f: "fork n1 = (child, n2)" by (cases "fork n1")
    then have n2: "fds n2 = insert client (fds n)" using fork c(3) unfolding same_fds_def by (metis snd_conv)
    show ?thesis
    proof (cases "child = InChild")
      case False
      with Ok a f n2 c ok show ?thesis
        by (simp add: accept_turn_def turn_fds_def monad_simps syscall_def Socket_dtor_def fds_ok_def)
    next
      case True
      with f have child: "\<exists>n. fst (fork n) = InChild" by (metis fst_conv)
      obtain r3 n3 where t: "client_turn os session server client n2 = (r3, n3)"
        by (cases "client_turn os session server client n2")
      have "case (r3, n3) of
          (Ok running, n') \<Rightarrow> \<not> running \<and> fds n' = fds n2 - {server} - {client}
        | (Throw e, n') \<Rightarrow> False | (Fail x, n') \<Rightarrow> \<exists>n2. dies_of x (fst (session client n2))"
        unfolding t [symmetric] by (rule client_turn_fds) (fact ok session assms(4) c(1) ne)+
      with Ok a f True t n2 c(2) child show ?thesis
        by (cases r3) (auto simp: accept_turn_def turn_fds_def monad_simps syscall_def)
    qed
  qed
qed

end
