(* ===== verification/RCL_ClientExample.thy ===== *)
theory RCL_ClientExample
  imports RCL_Example RCL_RemoteMapping RCL_RemoteStart RCL_RemoteEvents RCL_ServerMain
begin

text \<open>
  A client and a server with three objects each, on which the theorems about remote calls are
  applied, and an operating system with a table of descriptors. The handles 1, 2 and 3 of the client
  stand for the objects 4096, 4097 and 4098.
\<close>

definition example_client :: client where
  "example_client = client_init\<lparr>cl_mStream := True, cl_mEventStream := True, cl_mObjects := [1, 2, 3],
     cl_heap := [1 \<mapsto> 0, 2 \<mapsto> 1, 3 \<mapsto> 2], cl_next := 4\<rparr>"

definition example_server :: "nat server" where
  "example_server = (server_init 3)\<lparr>mObjects := [4096, 4097, 4098], mEventStream := Some fresh_stream\<rparr>"

lemma example_ends_simps [simp]:
  "cl_mStream example_client" "cl_mEventStream example_client" "cl_mObjects example_client = [1, 2, 3]"
  "cl_heap example_client = [1 \<mapsto> 0, 2 \<mapsto> 1, 3 \<mapsto> 2]" "cl_next example_client = 4"
  "cl_mCallbacks example_client = []" "cl_mMappings example_client = (\<lambda>_. [])" "cl_calls example_client = []"
  "mObjects example_server = [4096, 4097, 4098]" "sv_world example_server = 3"
  "sv_blocks example_server = []" "mEventStream example_server = Some fresh_stream"
  by (simp_all add: example_client_def client_init_def example_server_def server_init_def)

lemma example_server_unchanged [simp]: "example_server\<lparr>sv_world := 3\<rparr> = example_server"
  by (simp add: example_server_def server_init_def)

lemma example_ids: "unat (i :: IDType) < 3 \<Longrightarrow> i = 0 \<or> i = 1 \<or> i = 2"
  by (simp add: word_unat_eq_iff) arith

lemma example_client_ok: "client_ok example_client"
  unfolding client_ok_def
proof (intro conjI allI ballI)
  fix t i
  show "cl_heap example_client t = Some i \<longleftrightarrow>
    t \<noteq> 0 \<and> unat i < length (cl_mObjects example_client) \<and> cl_mObjects example_client ! unat i = t"
    using example_ids [of i] by auto
qed auto

lemma example_in_sync [simp]: "in_sync example_client example_server"
  using example_client_ok by (simp add: in_sync_def objs_ok_def)

lemma example_denotes [simp]:
  "denotes example_client example_server (Suc 0) 4096" "denotes example_client example_server 2 4097"
  "denotes example_client example_server 3 4098"
  by (simp_all add: denotes_def has_id_def getObj_def)

lemma example_mappings_ok [simp]: "mappings_ok example_client"
  by (simp add: mappings_ok_def)

text \<open>The object a handle of the example stands for.\<close>

definition example_object :: "handle \<Rightarrow> ptr" where
  "example_object t = 4095 + word_of_nat t"

lemma example_objects [simp]:
  "denotes example_client example_server (Suc 0) (example_object (Suc 0))"
  "denotes example_client example_server 2 (example_object 2)"
  "denotes example_client example_server 3 (example_object 3)"
  using example_denotes by (simp_all add: example_object_def)

lemma example_host_connects:
  "h_rand (example_host cl) w = (7, w)" "h_bind (example_host cl) port w = (True, w)"
  "h_accept (example_host cl) port w = (None, w)" "cfg_async (h_cfg (example_host cl))"
  by (simp_all add: example_host_def)

text \<open>An implementation whose buffers hold the bytes 1, 2, 3, 4.\<close>

definition buffer_cl :: "nat opencl" where
  "buffer_cl c w = (case c of
       clEnqueueReadBuffer q b block offset n es want \<Rightarrow>
         ((cl_status 0)\<lparr>r_bytes := take n (drop offset [1, 2, 3, 4])\<rparr>, w + 1)
     | _ \<Rightarrow> (cl_status 0, w + 1))"

text \<open>An implementation that launches kernels in work-groups of one work-item and does nothing else.\<close>

definition launch_cl :: "nat opencl" where
  "launch_cl c w = (case c of
       clEnqueueNDRangeKernel q k n offset global loc es want \<Rightarrow>
         if loc = Some (1, 1, 1) then (cl_status 0, w + 1) else (cl_status (- 54), w)
     | _ \<Rightarrow> (cl_status (- 30), w))"

text \<open>An implementation with a platform that has two devices.\<close>

definition list_cl :: "nat opencl" where
  "list_cl c w = (case c of
       clGetPlatformIDs n \<Rightarrow> ((cl_status 0)\<lparr>r_size := Some 1, r_objs := take n [55]\<rparr>, w + 1)
     | clGetDeviceIDs p t n \<Rightarrow>
         ((cl_status 0)\<lparr>r_size := Some 2, r_objs := take n [77, 88]\<rparr>, w + 1)
     | _ \<Rightarrow> (cl_status (- 30), w))"

text \<open>
  An operating system whose state is the list of open descriptors. Ports below 1024 cannot be bound,
  every name has two addresses, and only at the second one there is a server.
\<close>

definition fresh_fd :: "int list \<Rightarrow> int" where
  "fresh_fd fs = foldr max fs 2 + 1"

definition table_os :: "int list netos" where
  "table_os = \<lparr>os_socket = (\<lambda>fs. (fresh_fd fs, fresh_fd fs # fs)), os_setsockopt = (\<lambda>fd fs. (0, fs)),
     os_bind = (\<lambda>fd port fs. (if port < 1024 then - 1 else 0, fs)), os_listen = (\<lambda>fd k fs. (0, fs)),
     os_accept = (\<lambda>fd fs. (fresh_fd fs, fresh_fd fs # fs)), os_getaddrinfo = (\<lambda>name fs. (Some [1, 2], fs)),
     os_connect = (\<lambda>fd addr port fs. (if addr = 2 then 0 else - 1, fs)), os_close = (\<lambda>fd fs. removeAll fd fs)\<rparr>"

lemma fresh_fd_new: "fd \<in> set fs \<Longrightarrow> fd < fresh_fd fs" "2 < fresh_fd fs"
  by (induction fs) (auto simp: fresh_fd_def)

lemma fresh_fd_facts: "fresh_fd fs \<noteq> - 1" "0 \<le> fresh_fd fs" "fresh_fd fs \<notin> set fs"
  using fresh_fd_new(1) [of "fresh_fd fs" fs] fresh_fd_new(2) [of fs] by auto

lemma table_os_ok [simp]: "fds_ok table_os set"
  by (auto simp: fds_ok_def opens_def same_fds_def table_os_def fresh_fd_facts)

end
