(* ===== verification/RCL_Api.thy ===== *)
theory RCL_Api
  imports RCL_ClientKernel RCL_ClientContext RCL_ClientProgram RCL_Server
begin

text \<open>
  All functions of the client's API together, and what they have in common.

  \<open>api_call z name p\<close> says that \<open>p\<close> is a call of the function \<open>name\<close>, with some arguments, that
  returns its status; an \<open>api_session\<close> is what an application does, one call after the other. Two facts
  hold for every call. The registry of the client stays consistent whatever the server sends
  (\<open>client_keeps\<close>): a handle names one object of the server for all of its life. And without a connection,
  or with one that is lost, all but a few report an error (\<open>RCL_ClientOffline\<close>, \<open>RCL_ClientLost\<close>).
\<close>

section \<open>Calls and sessions\<close>

definition returns :: "('a \<Rightarrow> u32) \<Rightarrow> ('s, 'a) prog \<Rightarrow> ('s, u32) prog" where
  "returns g p = pbind p (\<lambda>a. PRet (g a))"

text \<open>\<open>clLinkProgram\<close> stores no status when all went well.\<close>

definition stored_status :: "handle \<times> u32 option \<Rightarrow> u32" where
  "stored_status a = (case snd a of None \<Rightarrow> CL_SUCCESS | Some e \<Rightarrow> e)"

inductive api_call :: "zlib option \<Rightarrow> string \<Rightarrow> (client, u32) prog \<Rightarrow> bool" for z where
  GetPlatformIDs: "api_call z ''clGetPlatformIDs'' (returns fst (api_clGetPlatformIDs num_entries
     platforms num_platforms))"
| GetPlatformInfo: "api_call z ''clGetPlatformInfo'' (returns fst (api_clGetPlatformInfo z platform
     param_name buf))"
| RetainDevice: "api_call z ''clRetainDevice'' (api_clRetainDevice t)"
| ReleaseDevice: "api_call z ''clReleaseDevice'' (api_clReleaseDevice t)"
| GetDeviceIDs: "api_call z ''clGetDeviceIDs'' (returns fst (api_clGetDeviceIDs platform device_type
     num_entries devices num_devices))"
| GetDeviceInfo: "api_call z ''clGetDeviceInfo'' (returns fst (api_clGetDeviceInfo z stack device
     param_name buf))"
| CreateCommandQueue: "api_call z ''clCreateCommandQueue'' (returns snd (api_clCreateCommandQueue ctx
     device properties))"
| CreateCommandQueueWithProperties: "api_call z ''clCreateCommandQueueWithProperties'' (returns snd
     (api_clCreateCommandQueueWithProperties ctx device properties))"
| GetCommandQueueInfo: "api_call z ''clGetCommandQueueInfo'' (returns fst (api_clGetCommandQueueInfo
     z command_queue param_name buf))"
| Flush: "api_call z ''clFlush'' (api_clFlush t)"
| Finish: "api_call z ''clFinish'' (api_clFinish t)"
| RetainCommandQueue: "api_call z ''clRetainCommandQueue'' (api_clRetainCommandQueue command_queue)"
| ReleaseCommandQueue: "api_call z ''clReleaseCommandQueue'' (api_clReleaseCommandQueue command_queue)"
| CreateContext: "api_call z ''clCreateContext'' (returns snd (api_clCreateContext properties
     num_devices devices))"
| CreateContextFromType: "api_call z ''clCreateContextFromType'' (returns snd
     (api_clCreateContextFromType properties device_type callback))"
| GetContextInfo: "api_call z ''clGetContextInfo'' (returns fst (api_clGetContextInfo z ctx
     param_name size_ret buf))"
| GetSupportedImageFormats: "api_call z ''clGetSupportedImageFormats'' (returns fst
     (api_clGetSupportedImageFormats z ctx flags image_ty num_entries image_formats))"
| RetainContext: "api_call z ''clRetainContext'' (api_clRetainContext ctx)"
| ReleaseContext: "api_call z ''clReleaseContext'' (api_clReleaseContext ctx)"
| SetEventCallback: "api_call z ''clSetEventCallback'' (api_clSetEventCallback event callback_type
     pfn_notify user_data)"
| EnqueueNDRangeKernel: "api_call z ''clEnqueueNDRangeKernel'' (returns fst
     (api_clEnqueueNDRangeKernel command_queue krn work_dim global_work_offset global_work_size
     local_work_size num_events event_wait_list want))"
| CreateUserEvent: "api_call z ''clCreateUserEvent'' (returns snd (api_clCreateUserEvent ctx))"
| SetUserEventStatus: "api_call z ''clSetUserEventStatus'' (api_clSetUserEventStatus event
     execution_status)"
| GetEventInfo: "api_call z ''clGetEventInfo'' (returns fst (api_clGetEventInfo event param_name buf))"
| GetEventProfilingInfo: "api_call z ''clGetEventProfilingInfo'' (returns fst
     (api_clGetEventProfilingInfo event param_name buf))"
| WaitForEvents: "api_call z ''clWaitForEvents'' (api_clWaitForEvents num_events event_list)"
| RetainEvent: "api_call z ''clRetainEvent'' (api_clRetainEvent event)"
| ReleaseEvent: "api_call z ''clReleaseEvent'' (api_clReleaseEvent event)"
| CreateKernel: "api_call z ''clCreateKernel'' (returns snd (api_clCreateKernel program kernel_name))"
| CreateKernelsInProgram: "api_call z ''clCreateKernelsInProgram'' (returns fst
     (api_clCreateKernelsInProgram program num_kernels kernels num_kernels_ret))"
| CloneKernel: "api_call z ''clCloneKernel'' (returns snd (api_clCloneKernel source_kernel))"
| SetKernelArg: "api_call z ''clSetKernelArg'' (api_clSetKernelArg z krn arg_index arg_size arg_value)"
| GetKernelWorkGroupInfo: "api_call z ''clGetKernelWorkGroupInfo'' (returns fst
     (api_clGetKernelWorkGroupInfo z stack krn device param_name buf))"
| GetKernelInfo: "api_call z ''clGetKernelInfo'' (returns fst (api_clGetKernelInfo z krn param_name
     buf))"
| GetKernelArgInfo: "api_call z ''clGetKernelArgInfo'' (returns fst (api_clGetKernelArgInfo z krn
     arg_indx param_name buf))"
| RetainKernel: "api_call z ''clRetainKernel'' (api_clRetainKernel krn)"
| ReleaseKernel: "api_call z ''clReleaseKernel'' (api_clReleaseKernel krn)"
| EnqueueFillBuffer: "api_call z ''clEnqueueFillBuffer'' (returns fst (api_clEnqueueFillBuffer stack
     command_queue buffer pattern pattern_size offset sz num_events event_wait_list want))"
| EnqueueReadBuffer: "api_call z ''clEnqueueReadBuffer'' (returns fst (api_clEnqueueReadBuffer z
     command_queue buffer blocking_read offset sz room num_events event_wait_list want))"
| EnqueueReadBufferRect: "api_call z ''clEnqueueReadBufferRect'' (returns fst
     (api_clEnqueueReadBufferRect z command_queue buffer blocking_read buffer_origin host_origin region
     buffer_row_pitch buffer_slice_pitch host_row_pitch host_slice_pitch room num_events event_wait_list
     want))"
| EnqueueWriteBuffer: "api_call z ''clEnqueueWriteBuffer'' (returns fst (api_clEnqueueWriteBuffer z
     command_queue buffer blocking_write offset sz mem num_events event_wait_list want))"
| CreateBuffer: "api_call z ''clCreateBuffer'' (returns snd (api_clCreateBuffer z ctx flags sz
     host_ptr))"
| CreateSubBuffer: "api_call z ''clCreateSubBuffer'' (returns snd (api_clCreateSubBuffer buffer flags
     buffer_create_type buffer_create_info))"
| GetMemObjectInfo: "api_call z ''clGetMemObjectInfo'' (returns fst (api_clGetMemObjectInfo z memobj
     param_name buf))"
| RetainMemObject: "api_call z ''clRetainMemObject'' (api_clRetainMemObject memobj)"
| ReleaseMemObject: "api_call z ''clReleaseMemObject'' (api_clReleaseMemObject memobj)"
| EnqueueMapBuffer: "api_call z ''clEnqueueMapBuffer'' (returns (fst \<circ> snd)
     (api_clEnqueueMapBuffer z command_queue buffer blocking_map map_flags offset sz num_events
     event_wait_list want))"
| EnqueueUnmapMemObject: "api_call z ''clEnqueueUnmapMemObject'' (returns fst
     (api_clEnqueueUnmapMemObject z command_queue memobj mapped_ptr num_events event_wait_list want))"
| EnqueueReadImage: "api_call z ''clEnqueueReadImage'' (returns fst (api_clEnqueueReadImage z
     command_queue img blocking_read origin region row_pitch slice_pitch room num_events event_wait_list
     want))"
| EnqueueWriteImage: "api_call z ''clEnqueueWriteImage'' (returns fst (api_clEnqueueWriteImage z
     command_queue img blocking_write origin region input_row_pitch input_slice_pitch mem num_events
     event_wait_list want))"
| CreateImage: "api_call z ''clCreateImage'' (returns snd (api_clCreateImage z ctx flags image_format
     image_desc host_ptr))"
| CreateImage2D: "api_call z ''clCreateImage2D'' (returns snd (api_clCreateImage2D z ctx flags
     image_format width height row_pitch host_ptr))"
| CreateImage3D: "api_call z ''clCreateImage3D'' (returns snd (api_clCreateImage3D z ctx flags
     image_format width height depth row_pitch slice_pitch host_ptr))"
| GetImageInfo: "api_call z ''clGetImageInfo'' (returns fst (api_clGetImageInfo z img param_name buf))"
| CreateProgramWithSource: "api_call z ''clCreateProgramWithSource'' (returns snd
     (api_clCreateProgramWithSource ctx count strings lengths))"
| CreateProgramWithBinary: "api_call z ''clCreateProgramWithBinary'' (returns (fst \<circ> snd)
     (api_clCreateProgramWithBinary z ctx num_devices device_list lengths binaries binary_status))"
| CompileProgram: "api_call z ''clCompileProgram'' (api_clCompileProgram program num_devices
     device_list options num_input_headers input_headers header_include_names pfn_notify user_data)"
| LinkProgram: "api_call z ''clLinkProgram'' (returns stored_status (api_clLinkProgram ctx
     num_devices device_list options num_input_programs input_programs pfn_notify user_data))"
| BuildProgram: "api_call z ''clBuildProgram'' (api_clBuildProgram program num_devices device_list
     options pfn_notify user_data)"
| GetProgramBuildInfo: "api_call z ''clGetProgramBuildInfo'' (returns fst (api_clGetProgramBuildInfo
     z program device param_name buf))"
| GetProgramInfo: "api_call z ''clGetProgramInfo'' (returns (fst \<circ> fst) (api_clGetProgramInfo z
     program param_name buf ptrs))"
| RetainProgram: "api_call z ''clRetainProgram'' (api_clRetainProgram t)"
| ReleaseProgram: "api_call z ''clReleaseProgram'' (api_clReleaseProgram t)"

primrec api_session :: "(client, u32) prog list \<Rightarrow> (client, u32 list) prog" where
  "api_session [] = PRet []"
| "api_session (p # ps) = pbind p (\<lambda>e. pbind (api_session ps) (\<lambda>es. PRet (e # es)))"

section \<open>The registry\<close>

text \<open>
  The registry stays consistent, addresses are not used twice, a handle that is still in use names
  the object it named, and a callback keeps its index.
\<close>

definition client_keeps :: "client \<Rightarrow> client \<Rightarrow> bool" where
  "client_keeps c c' \<longleftrightarrow> (client_ok c \<longrightarrow> client_ok c' \<and> cl_next c \<le> cl_next c'
     \<and> (\<forall>t i. t < cl_next c \<longrightarrow> cl_heap c' t = Some i \<longrightarrow> cl_heap c t = Some i)
     \<and> prefix (cl_mCallbacks c) (cl_mCallbacks c') \<and> prefix (cl_calls c) (cl_calls c'))"

lemma client_keeps_refl: "reflp client_keeps"
  by (simp add: reflp_def client_keeps_def)

lemma client_keeps_trans: "transp client_keeps"
  unfolding transp_def client_keeps_def by (meson less_le_trans order_trans prefix_order.trans)

lemma client_keepsI:
  "cl_mObjects c' = cl_mObjects c \<Longrightarrow> cl_heap c' = cl_heap c \<Longrightarrow> cl_next c \<le> cl_next c' \<Longrightarrow>
   prefix (cl_mCallbacks c) (cl_mCallbacks c') \<Longrightarrow> prefix (cl_calls c) (cl_calls c') \<Longrightarrow> client_keeps c c'"
  by (auto simp: client_keeps_def client_ok_def dest: less_le_trans)

lemma register_object_keeps_others:
  assumes "register_object oid c = (p, c')"
  shows "cl_mCallbacks c' = cl_mCallbacks c" "cl_calls c' = cl_calls c"
  using assms by (auto simp: register_object_def Let_def)

lemma client_keeps_register: "register_object oid c = (p, c') \<Longrightarrow> client_keeps c c'"
  using register_object_ok [of c oid p c'] register_object_heap [of oid c p c']
    register_object_keeps_others [of oid c p c']
  by (auto simp: client_keeps_def split: if_splits)

lemma preserves_PGet [preserves_intros]: "(\<And>s. preserves Q (k s)) \<Longrightarrow> preserves Q (PGet k)"
  by (simp add: preserves_def)

lemma preserves_GetID [preserves_intros]: "preserves Q (GetID t)"
  unfolding GetID_def by (rule preserves_PGet) (simp add: preserves_intros)

lemma preserves_LockedConnection [preserves_intros]: "preserves Q LockedConnection"
  unfolding LockedConnection_def by (rule preserves_PGet) (simp add: preserves_intros)

lemma preserves_getObject [preserves_intros]: "preserves Q (getObject i)"
  unfolding getObject_def by (rule preserves_PGet) (simp add: preserves_intros)

lemma preserves_getMapping [preserves_intros]: "preserves Q (getMapping t p)"
  unfolding getMapping_def by (rule preserves_PGet) (simp add: preserves_intros)

lemma preserves_registerID [preserves_intros]: "preserves client_keeps (registerID i)"
  unfolding registerID_def
  by (rule preserves_pstate) (rule client_keeps_register, rule prod.collapse [symmetric])

lemma preserves_getOrInsertObject [preserves_intros]: "preserves client_keeps (getOrInsertObject i)"
  unfolding getOrInsertObject_def by (rule preserves_PGet) (simp add: preserves_intros)

lemma preserves_registerCallback [preserves_intros]: "preserves client_keeps (registerCallback cb)"
  unfolding registerCallback_def by (rule preserves_pstate) (rule client_keepsI; simp)

lemma preserves_newMapping [preserves_intros]: "preserves client_keeps (newMapping t sz offset flags)"
  unfolding newMapping_def by (rule preserves_pstate) (rule client_keepsI; simp add: Let_def)

lemma preserves_dropMapping [preserves_intros]: "preserves client_keeps (dropMapping t p)"
  by (auto simp: dropMapping_def preserves_def client_keeps_def client_ok_def split: option.split)

lemma preserves_notify [preserves_intros]: "preserves client_keeps (notify f)"
  unfolding notify_def by (rule preserves_pupd) (rule client_keepsI; simp)

lemma preserves_store_block [preserves_intros]: "preserves client_keeps (pupd (store_block p d))"
  by (rule preserves_pupd) (rule client_keepsI; simp add: store_block_def)

lemma preserves_pnoexcept' [preserves_intros]: "preserves Q p \<Longrightarrow> preserves Q (pnoexcept p)"
  by (simp add: pnoexcept_def preserves_intros)

lemma preserves_readSuccess [preserves_intros]: "preserves Q readSuccess"
  by (simp add: readSuccess_def preserves_intros)

lemma preserves_readID [preserves_intros]: "preserves Q readID"
  by (simp add: readID_def preserves_intros)

lemma preserves_on_error [preserves_intros]: "preserves Q (on_error oom lost err e)"
  by (simp add: on_error_def preserves_intros)

lemma preserves_returns [preserves_intros]: "preserves Q p \<Longrightarrow> preserves Q (returns g p)"
  by (simp add: returns_def preserves_intros)

lemma preserves_case_sum [preserves_intros]:
  "(\<And>x. preserves Q (f x)) \<Longrightarrow> (\<And>x. preserves Q (g x)) \<Longrightarrow>
   preserves Q (case m of Inl x \<Rightarrow> f x | Inr x \<Rightarrow> g x)"
  by (simp split: sum.split)

lemma preserves_case_list [preserves_intros]:
  "preserves Q p \<Longrightarrow> (\<And>x xs. preserves Q (g x xs)) \<Longrightarrow>
   preserves Q (case m of [] \<Rightarrow> p | x # xs \<Rightarrow> g x xs)"
  by (simp split: list.split)

text \<open>Parts of functions.\<close>

lemma preserves_context_error [preserves_intros]: "preserves Q (context_error e)"
  by (simp add: context_error_def preserves_intros)

lemma preserves_query_ok [preserves_intros]: "preserves Q (query_ok out)"
  by (simp add: query_ok_def preserves_intros)

lemma preserves_Store [preserves_intros]:
  "preserves Q (Store64 d buf)" "preserves Q (Store32 d buf)"
  by (simp_all add: Store64_def Store32_def preserves_intros)

lemma preserves_handleIDs [preserves_intros]: "preserves Q (handleIDs n ts)"
  by (induction n ts rule: handleIDs.induct) (simp_all add: preserves_intros)

lemma preserves_store_handles [preserves_intros]: "preserves client_keeps (store_handles n b is)"
  by (induction n b "is" rule: store_handles.induct) (simp_all add: preserves_intros)

lemma preserves_insert_objects [preserves_intros]: "preserves client_keeps (insert_objects is)"
  by (induction "is") (simp_all add: preserves_intros)

lemma preserves_register_kernels [preserves_intros]: "preserves client_keeps (register_kernels is)"
  by (induction "is") (simp_all add: preserves_intros)

lemma preserves_get_objects [preserves_intros]: "preserves Q (get_objects is)"
  by (induction "is") (simp_all add: preserves_intros)

lemma preserves_context_props [preserves_intros]: "preserves Q (context_props ps)"
  by (induction ps rule: context_props.induct) (simp_all add: preserves_intros)

lemma preserves_check_dims [preserves_intros]: "preserves Q (check_dims i n global offset loc)"
  by (induction i n global offset loc rule: check_dims.induct) (simp_all add: preserves_intros)

lemma preserves_wait_list [preserves_intros]: "preserves Q (wait_list n es)"
  by (simp add: wait_list_def preserves_intros)

lemma preserves_header_loop [preserves_intros]: "preserves Q (header_loop n ts ns)"
  by (simp add: header_loop_def preserves_intros)

lemma preserves_write_binaries [preserves_intros]: "preserves Q (write_binaries z n lens bins)"
  by (induction z n lens bins rule: write_binaries.induct) (simp_all add: preserves_intros)

lemma preserves_read_payloads [preserves_intros]: "preserves Q (read_payloads z n)"
  by (induction z n rule: read_payloads.induct) (simp_all add: preserves_intros)

lemma preserves_store_binaries [preserves_intros]: "preserves Q (store_binaries ptrs ds)"
  by (induction ptrs ds rule: store_binaries.induct) (simp_all add: preserves_intros)

lemmas shape_defs =
  refcount_exchange_def refcount_call_def newObject_def create_error_def query_error_def
  query_ok_def query_payload_def query_handle_def query_item_sizes_def queue_call_def
  opt_context_props_def context_error_def context_devices_def lost_error_def 
  with_event_def enqueue_error_def query_event_handle_def send_kernel_arg_def query_size_def
  query_uint_def with_wait_list_def write_command_def command_error_def after_event_def
  read_into_def newMemObject_def create_mem_error_def program_context_def
  program_devices_def program_refcount_def

lemmas call_defs =
  api_clGetPlatformIDs_def api_clGetPlatformInfo_def api_clRetainDevice_def
  api_clReleaseDevice_def api_clGetDeviceIDs_def api_clGetDeviceInfo_def
  api_clCreateCommandQueue_def api_clCreateCommandQueueWithProperties_def
  api_clGetCommandQueueInfo_def api_clFlush_def api_clFinish_def api_clRetainCommandQueue_def
  api_clReleaseCommandQueue_def api_clCreateContext_def api_clCreateContextFromType_def
  api_clGetContextInfo_def api_clGetSupportedImageFormats_def api_clRetainContext_def
  api_clReleaseContext_def api_clSetEventCallback_def api_clCreateUserEvent_def
  api_clSetUserEventStatus_def api_clGetEventInfo_def api_clGetEventProfilingInfo_def
  api_clWaitForEvents_def api_clRetainEvent_def api_clReleaseEvent_def api_clCreateKernel_def
  api_clCreateKernelsInProgram_def api_clCloneKernel_def api_clSetKernelArg_def
  api_clGetKernelWorkGroupInfo_def api_clGetKernelInfo_def api_clGetKernelArgInfo_def
  api_clRetainKernel_def api_clReleaseKernel_def api_clEnqueueFillBuffer_def
  api_clEnqueueReadBuffer_def api_clEnqueueReadBufferRect_def api_clEnqueueWriteBuffer_def
  api_clCreateBuffer_def api_clCreateSubBuffer_def api_clGetMemObjectInfo_def
  api_clRetainMemObject_def api_clReleaseMemObject_def api_clEnqueueReadImage_def
  api_clEnqueueWriteImage_def api_clCreateImage_def api_clCreateImage2D_def
  api_clCreateImage3D_def api_clGetImageInfo_def api_clCreateProgramWithSource_def
  api_clCreateProgramWithBinary_def api_clCompileProgram_def api_clLinkProgram_def
  api_clBuildProgram_def api_clGetProgramBuildInfo_def api_clGetProgramInfo_def
  api_clRetainProgram_def api_clReleaseProgram_def

lemmas nested_defs = api_clEnqueueNDRangeKernel_def api_clEnqueueMapBuffer_def
  api_clEnqueueUnmapMemObject_def

lemma preserves_client_calls:
  "preserves client_keeps (api_clEnqueueReadBuffer z q b blocking offset sz room n es want)"
  "preserves client_keeps (api_clEnqueueWriteBuffer z q b blocking offset sz mem n es want)"
  "preserves client_keeps (api_clWaitForEvents n es)"
  "preserves client_keeps (api_clRetainMemObject b)" "preserves client_keeps (api_clReleaseMemObject b)"
  by (simp_all add: call_defs shape_defs preserves_intros)

lemma preserves_api_call:
  "api_call z name p \<Longrightarrow> preserves client_keeps p"
proof (cases rule: api_call.cases)
qed (simp_all only: call_defs shape_defs nested_defs,
    simp_all add: preserves_intros preserves_client_calls [unfolded call_defs shape_defs] split del: if_split)

lemma preserves_api_session:
  "\<forall>p \<in> set ps. \<exists>name. api_call z name p \<Longrightarrow> preserves client_keeps (api_session ps)"
  by (induction ps) (auto intro!: preserves_intros dest: preserves_api_call)

end
