(* ===== verification/RCL_ClientOffline.thy ===== *)
theory RCL_ClientOffline
  imports RCL_Api
begin

text \<open>
  The API without a connection (\<open>mStream\<close> is null): the server was not reached, or its version does not match. A
  connection that is lost later leaves \<open>mStream\<close> set (\<open>RCL_ClientLost\<close>).

  \<open>offline\<close> runs a program without a stream and is \<open>None\<close> as soon as the program touches it, so that
  \<open>offline p c \<noteq> None\<close> says that no null pointer to a stream is followed. \<open>tells\<close> is what an
  application learns of the missing connection, function by function.
\<close>

section \<open>Running without a stream\<close>

primrec offline :: "('s, 'a) prog \<Rightarrow> 's \<Rightarrow> ('a res \<times> 's) option" where
  "offline (PRet a) s = Some (Ok a, s)"
| "offline (PThrow e) s = Some (Throw e, s)"
| "offline (PFail x) s = Some (Fail x, s)"
| "offline (PGet k) s = offline (k s) s"
| "offline (PPut s' p) s = offline p s'"
| "offline (PRead n k) s = None"
| "offline (PPeek k) s = None"
| "offline (PWrite bs k) s = None"
| "offline (PFlush k) s = None"

lemma offline_run: "offline p s = Some (r, s') \<Longrightarrow> run ops p s st = (r, s', st)"
  by (induction p arbitrary: s) auto

lemma offline_pbind:
  "offline (pbind p f) s = (case offline p s of
      None \<Rightarrow> None
    | Some (Ok a, s') \<Rightarrow> offline (f a) s'
    | Some (Throw e, s') \<Rightarrow> Some (Throw e, s')
    | Some (Fail x, s') \<Rightarrow> Some (Fail x, s'))"
  by (induction p arbitrary: s) auto

lemma offline_pcatch:
  "offline (pcatch p h) s = (case offline p s of
      Some (Throw e, s') \<Rightarrow> offline (h e) s' | r \<Rightarrow> r)"
  by (induction p arbitrary: s) auto

section \<open>Without a connection\<close>

text \<open>
  \<open>lost E p\<close>: without a connection \<open>p\<close> does not touch the stream and its outcome is in \<open>E\<close>.
  \<open>quiet p\<close>: with or without one, it does not touch the stream, throw, wait or change the state; it may \<open>abort\<close>:
  a failed \<open>assert\<close>, or undefined behaviour for an argument that is none.
\<close>

definition aborts :: "failure \<Rightarrow> bool" where
  "aborts x \<longleftrightarrow> x = UndefinedBehaviour \<or> x = AssertionFailed"

lemma aborts_simps [simp]: "aborts UndefinedBehaviour" "aborts AssertionFailed" "\<not> aborts Nontermination" "\<not> aborts Blocked"
  "\<not> aborts Terminated"
  by (simp_all add: aborts_def)

definition lost :: "('a res \<Rightarrow> bool) \<Rightarrow> (client, 'a) prog \<Rightarrow> bool" where
  "lost E p \<longleftrightarrow> (\<forall>c. \<not> cl_mStream c \<longrightarrow>
     (\<exists>r c'. offline p c = Some (r, c') \<and> \<not> cl_mStream c' \<and> E r))"

definition quiet :: "(client, 'a) prog \<Rightarrow> bool" where
  "quiet p \<longleftrightarrow> (\<forall>c. \<exists>r. offline p c = Some (r, c) \<and> (\<forall>e. r \<noteq> Throw e) \<and> (\<forall>x. r = Fail x \<longrightarrow> aborts x))"

named_theorems lost_intros "programs without a connection"

lemma quiet_pbind [lost_intros]: "quiet p \<Longrightarrow> (\<And>a. quiet (f a)) \<Longrightarrow> quiet (pbind p f)"
  unfolding quiet_def offline_pbind
  by (rule allI, erule_tac x = c in allE) (auto split: res.split)

lemma quiet_PRet [lost_intros]: "quiet (PRet a)" "aborts x \<Longrightarrow> quiet (PFail x)"
  by (simp_all add: quiet_def)

lemma quiet_PGet: "(\<And>s. quiet (k s)) \<Longrightarrow> quiet (PGet k)"
  by (simp add: quiet_def)

lemma quiet_pget [lost_intros]: "quiet (pget g)"
  by (simp add: quiet_def pget_def)

lemma quiet_case_option [lost_intros]:
  "(\<And>x. quiet (f x)) \<Longrightarrow> quiet q \<Longrightarrow> quiet (case m of None \<Rightarrow> q | Some x \<Rightarrow> f x)"
  by (simp split: option.split)

lemma quiet_case_list [lost_intros]:
  "quiet p \<Longrightarrow> (\<And>x xs. quiet (g x xs)) \<Longrightarrow> quiet (case m of [] \<Rightarrow> p | x # xs \<Rightarrow> g x xs)"
  by (simp split: list.split)

lemma quiet_If [lost_intros]: "quiet p \<Longrightarrow> quiet q \<Longrightarrow> quiet (if b then p else q)"
  by simp

lemma quiet_GetID [lost_intros]: "quiet (GetID t)"
  by (simp add: GetID_def quiet_def split: option.split)

lemma quiet_handleIDs [lost_intros]: "quiet (handleIDs n ts)"
  by (induction n ts rule: handleIDs.induct) (simp_all add: lost_intros)

lemma quiet_context_props [lost_intros]: "quiet (context_props ps)"
  by (induction ps rule: context_props.induct) (simp_all add: lost_intros)

lemma quiet_opt_context_props [lost_intros]: "quiet (opt_context_props ps)"
  by (simp add: opt_context_props_def lost_intros split: option.split)

lemma quiet_check_dims [lost_intros]: "quiet (check_dims i n global offset loc)"
  by (induction i n global offset loc rule: check_dims.induct) (simp_all add: lost_intros)

lemma lostD:
  assumes "lost E p" and "\<not> cl_mStream c"
  obtains r c' where "offline p c = Some (r, c')" "\<not> cl_mStream c'" "E r"
  using assms unfolding lost_def by blast

lemma lost_weaken: "lost E p \<Longrightarrow> (\<And>r. E r \<Longrightarrow> E' r) \<Longrightarrow> lost E' p"
  unfolding lost_def by meson

lemma lost_pbind:
  assumes "lost E' p" and "\<And>a. E' (Ok a) \<Longrightarrow> lost E (f a)" and "\<And>e. E' (Throw e) \<Longrightarrow> E (Throw e)"
    and "\<And>x. E (Fail x)"
  shows "lost E (pbind p f)"
  unfolding lost_def
proof (intro allI impI)
  fix c :: client
  assume "\<not> cl_mStream c"
  with assms(1) obtain r c' where r: "offline p c = Some (r, c')" "\<not> cl_mStream c'" "E' r"
    by (rule lostD)
  show "\<exists>r c'. offline (pbind p f) c = Some (r, c') \<and> \<not> cl_mStream c' \<and> E r"
    using assms(2-4) r by (cases r) (auto simp: offline_pbind lost_def)
qed

lemma lost_quiet: "quiet p \<Longrightarrow> lost (\<lambda>r. \<forall>e. r \<noteq> Throw e) p"
  unfolding quiet_def lost_def by meson

lemma lost_quiet_pbind [lost_intros]:
  "quiet p \<Longrightarrow> (\<And>x. E (Fail x)) \<Longrightarrow> (\<And>a. lost E (f a)) \<Longrightarrow> lost E (pbind p f)"
  by (rule lost_pbind [OF lost_quiet]) auto

lemma lost_PRet [lost_intros]: "E (Ok a) \<Longrightarrow> lost E (PRet a)" "E (Fail x) \<Longrightarrow> lost E (PFail x)"
  by (simp_all add: lost_def)

lemma lost_any_pbind:
  "lost (\<lambda>_. True) p \<Longrightarrow> (\<And>a. lost E (f a)) \<Longrightarrow> (\<And>r. (\<forall>a. r \<noteq> Ok a) \<Longrightarrow> E r) \<Longrightarrow> lost E (pbind p f)"
  by (rule lost_pbind) auto

text \<open>The status of a bad wait list or header list is an error.\<close>

lemma lost_wait_list [lost_intros]:
  assumes "\<And>err. err \<noteq> CL_SUCCESS \<Longrightarrow> lost E (f (Inl err))" and "\<And>is. lost E (f (Inr is))" and "\<And>x. E (Fail x)"
  shows "lost E (pbind (wait_list n es) f)"
proof (rule lost_pbind)
  show "lost (\<lambda>r. (\<forall>e. r \<noteq> Throw e) \<and> r \<noteq> Ok (Inl CL_SUCCESS)) (wait_list n es)"
    by (auto simp: wait_list_def split: option.splits
        intro!: lost_quiet_pbind lost_PRet quiet_handleIDs)
  show "lost E (f a)" if "(\<forall>e. Ok a \<noteq> Throw e) \<and> Ok a \<noteq> Ok (Inl CL_SUCCESS)" for a
    using assms that by (cases a) auto
qed (use assms in auto)

lemma lost_header_loop [lost_intros]:
  assumes "\<And>err. err \<noteq> CL_SUCCESS \<Longrightarrow> lost E (f (Some err))" and "lost E (f None)" and "\<And>x. E (Fail x)"
  shows "lost E (pbind (header_loop n ts ns) f)"
proof (rule lost_pbind)
  show "lost (\<lambda>r. (\<forall>e. r \<noteq> Throw e) \<and> r \<noteq> Ok (Some CL_SUCCESS)) (header_loop n ts ns)"
    by (auto simp: header_loop_def split: option.split list.split intro!: lost_PRet)
  show "lost E (f a)" if "(\<forall>e. Ok a \<noteq> Throw e) \<and> Ok a \<noteq> Ok (Some CL_SUCCESS)" for a
    using assms that by (cases a) auto
qed (use assms in auto)

lemma lost_LockedConnection [lost_intros]:
  "E (Throw SocketError) \<Longrightarrow> lost E (pbind LockedConnection f)"
  by (simp add: lost_def LockedConnection_def)

text \<open>What a \<open>try\<close> block may end with when the function is to end in \<open>E\<close>.\<close>

definition caught :: "('a res \<Rightarrow> bool) \<Rightarrow> (exn \<Rightarrow> (client, 'a) prog) \<Rightarrow> 'a res \<Rightarrow> bool" where
  "caught E h r = (case r of Throw e \<Rightarrow> lost E (h e) | _ \<Rightarrow> E r)"

lemma caught_simps [simp]:
  "caught E h (Ok a) = E (Ok a)" "caught E h (Fail x) = E (Fail x)"
  "caught E h (Throw e) = lost E (h e)"
  by (simp_all add: caught_def)

lemma lost_pcatch [lost_intros]:
  assumes "lost (caught E h) p"
  shows "lost E (pcatch p h)"
  unfolding lost_def
proof (intro allI impI)
  fix c :: client
  assume "\<not> cl_mStream c"
  with assms obtain r c' where r: "offline p c = Some (r, c')" "\<not> cl_mStream c'" "caught E h r"
    by (rule lostD)
  then show "\<exists>r c'. offline (pcatch p h) c = Some (r, c') \<and> \<not> cl_mStream c' \<and> E r"
    by (cases r) (auto simp: offline_pcatch lost_def)
qed

lemma lost_on_error [lost_intros]:
  "E (Ok (case e of ErrorPacketExn code \<Rightarrow> err code | BadAlloc \<Rightarrow> oom | _ \<Rightarrow> x)) \<Longrightarrow>
   lost E (on_error oom x err e)"
  by (simp add: on_error_def lost_intros)

lemma lost_context_error [lost_intros]:
  "E (Ok (0, CL_DEVICE_NOT_AVAILABLE)) \<Longrightarrow> lost E (context_error e)"
  by (simp add: context_error_def lost_intros)

lemma lost_PGet [lost_intros]: "(\<And>s. lost E (k s)) \<Longrightarrow> lost E (PGet k)"
  by (simp add: lost_def)

lemma lost_returns [lost_intros]:
  assumes "lost (\<lambda>r. case r of Ok a \<Rightarrow> E (Ok (g a)) | Throw e \<Rightarrow> E (Throw e) | Fail x \<Rightarrow> E (Fail x)) p"
  shows "lost E (returns g p)"
  unfolding lost_def
proof (intro allI impI)
  fix c :: client
  assume "\<not> cl_mStream c"
  with assms obtain r c' where r: "offline p c = Some (r, c')" "\<not> cl_mStream c'"
      "case r of Ok a \<Rightarrow> E (Ok (g a)) | Throw e \<Rightarrow> E (Throw e) | Fail x \<Rightarrow> E (Fail x)"
    by (rule lostD)
  then show "\<exists>r c'. offline (returns g p) c = Some (r, c') \<and> \<not> cl_mStream c' \<and> E r"
    by (cases r) (auto simp: returns_def offline_pbind)
qed

lemma lost_If [lost_intros]:
  "(b \<Longrightarrow> lost E p) \<Longrightarrow> (\<not> b \<Longrightarrow> lost E q) \<Longrightarrow> lost E (if b then p else q)"
  by simp

lemma lost_Let [lost_intros]: "(\<And>x. lost E (f x)) \<Longrightarrow> lost E (let x = e in f x)"
  by simp

lemma lost_case_option [lost_intros]:
  "(\<And>x. lost E (f x)) \<Longrightarrow> lost E q \<Longrightarrow> lost E (case m of None \<Rightarrow> q | Some x \<Rightarrow> f x)"
  by (simp split: option.split)

lemma lost_case_sum [lost_intros]:
  "(\<And>x. lost E (f x)) \<Longrightarrow> (\<And>x. lost E (g x)) \<Longrightarrow> lost E (case m of Inl x \<Rightarrow> f x | Inr x \<Rightarrow> g x)"
  by (simp split: sum.split)

lemma lost_case_prod [lost_intros]:
  "(\<And>x y. lost E (f x y)) \<Longrightarrow> lost E (case m of (x, y) \<Rightarrow> f x y)"
  by (simp split: prod.split)

text \<open>The functions a mapping is made with, and its bookkeeping.\<close>

lemma lost_nested:
  "lost (\<lambda>_. True) (api_clEnqueueReadBuffer z q b blocking offset sz room n es want)"
  "lost (\<lambda>_. True) (api_clEnqueueWriteBuffer z q b blocking offset sz mem n es want)"
  "lost (\<lambda>_. True) (api_clWaitForEvents n es)"
  "lost (\<lambda>_. True) (api_clRetainMemObject b)" "lost (\<lambda>_. True) (api_clReleaseMemObject b)"
  by (simp_all add: call_defs shape_defs lost_intros)

lemma lost_mapping:
  "lost (\<lambda>_. True) (newMapping t sz offset flags)" "lost (\<lambda>_. True) (getMapping t p)"
  "lost (\<lambda>_. True) (dropMapping t p)" "lost (\<lambda>_. True) (pupd (store_block p d))"
  by (auto simp: lost_def newMapping_def getMapping_def dropMapping_def store_block_def pstate_def pupd_def Let_def
      split: option.split)

section \<open>What the application learns\<close>

text \<open>
  The functions that may report success without a connection, and those an exception leaves.
\<close>

definition unnoticed :: "string list" where
  "unnoticed = [''clGetPlatformIDs'', ''clGetDeviceIDs'', ''clEnqueueNDRangeKernel'', ''clRetainEvent'',
     ''clReleaseEvent'', ''clEnqueueMapBuffer'', ''clEnqueueUnmapMemObject'']"

definition throwing :: "string list" where
  "throwing = [''clRetainProgram'', ''clReleaseProgram'']"

definition tells :: "string \<Rightarrow> u32 res \<Rightarrow> bool" where
  "tells name r \<longleftrightarrow> (r = Ok CL_SUCCESS \<longrightarrow> name \<in> set unnoticed) \<and> (\<forall>e. r = Throw e \<longrightarrow> name \<in> set throwing)"

lemma tells_simps [simp]:
  "tells name (Ok a) \<longleftrightarrow> (a = CL_SUCCESS \<longrightarrow> name \<in> set unnoticed)" "tells name (Fail x)"
  "tells name (Throw e) \<longleftrightarrow> name \<in> set throwing"
  by (auto simp: tells_def)

lemma lost_catch_all:
  "lost (\<lambda>_. True) p \<Longrightarrow> lost (\<lambda>r. \<forall>e. r \<noteq> Throw e) (pcatch p (\<lambda>_. PRet b))"
  by (rule lost_pcatch, erule lost_weaken) (simp add: caught_def lost_PRet split: res.split)

lemmas any_intros = lost_any_pbind lost_PRet lost_If lost_case_option lost_case_prod lost_nested lost_mapping
  lost_quiet [OF quiet_GetID, THEN lost_weaken] lost_quiet [OF quiet_pget, THEN lost_weaken]

lemma lost_EnqueueMapBuffer:
  "lost (\<lambda>r. \<forall>e. r \<noteq> Throw e) (api_clEnqueueMapBuffer z q b blocking flags offset sz n es want)"
  by (unfold api_clEnqueueMapBuffer_def, intro lost_If lost_PRet lost_catch_all any_intros) simp_all

lemma lost_EnqueueUnmapMemObject:
  "lost (\<lambda>r. \<forall>e. r \<noteq> Throw e) (api_clEnqueueUnmapMemObject z q b p n es want)"
  by (unfold api_clEnqueueUnmapMemObject_def, intro lost_If lost_PRet lost_catch_all any_intros) simp_all

lemma api_call_lost:
  assumes "api_call z name p"
  shows "lost (tells name) p"
  using assms
proof cases
  case EnqueueMapBuffer
  then show ?thesis
    by (simp only:) (rule lost_returns, rule lost_weaken [OF lost_EnqueueMapBuffer],
      auto simp: unnoticed_def split: res.split)
next
  case EnqueueUnmapMemObject
  then show ?thesis
    by (simp only:) (rule lost_returns, rule lost_weaken [OF lost_EnqueueUnmapMemObject],
      auto simp: unnoticed_def split: res.split)
qed (simp_all only: call_defs shape_defs api_clEnqueueNDRangeKernel_def,
    simp_all add: lost_intros unnoticed_def throwing_def stored_status_def split del: if_split)

lemmas offline_simps = offline_pbind offline_pcatch GetID_def LockedConnection_def pget_def pupd_def pstate_def

text \<open>Each of the seven does report success without a connection, for some arguments.\<close>

lemma unnoticed_succeeds:
  assumes "name \<in> set unnoticed"
  shows "\<exists>p c c'. api_call z name p \<and> \<not> cl_mStream c \<and> offline p c = Some (Ok CL_SUCCESS, c')"
proof -
  let ?c = "client_init\<lparr>cl_heap := [1 \<mapsto> 0], cl_mMappings := (\<lambda>_. [\<lparr>mp_data = 7, mp_size = 0, mp_offset = 0, mp_flags = 0\<rparr>])\<rparr>"
  let ?ok = "\<lambda>p. \<exists>c'. offline p ?c = Some (Ok CL_SUCCESS, c')"
  have "?ok (returns fst (api_clGetPlatformIDs 0 False True))"
    "?ok (returns fst (api_clGetDeviceIDs 1 0 0 False True))"
    "?ok (returns fst (api_clEnqueueNDRangeKernel 1 1 1 None [1] None 0 None False))"
    "?ok (api_clRetainEvent 1)" "?ok (api_clReleaseEvent 1)"
    "?ok (returns (fst \<circ> snd) (api_clEnqueueMapBuffer z 1 1 False CL_MAP_WRITE 0 0 0 None False))"
    "?ok (returns fst (api_clEnqueueUnmapMemObject z 1 1 7 0 None False))"
    by (simp_all add: call_defs shape_defs nested_defs returns_def offline_simps client_init_def on_error_def
       newMapping_def getMapping_def dropMapping_def wait_list_def Let_def)
  then have "\<exists>p. api_call z name p \<and> ?ok p"
    using assms unfolding unnoticed_def by (auto intro: api_call.intros)
  moreover have "\<not> cl_mStream ?c" by (simp add: client_init_def)
  ultimately show ?thesis by blast
qed

text \<open>
  Whatever the function, its arguments and the stream that is not there: the stream is not touched, and the outcome is
  an error but for the functions above.
\<close>

theorem no_connection_is_reported:
  assumes "api_call z name p" and "\<not> cl_mStream c"
  shows "\<exists>r c'. run ops p c st = (r, c', st) \<and> \<not> cl_mStream c' \<and> tells name r"
  using lostD [OF api_call_lost [OF assms(1)] assms(2)] by (metis offline_run)

end
