(* ===== verification/RCL_ClientLost.thy ===== *)
theory RCL_ClientLost
  imports RCL_ClientOffline
begin

text \<open>
  The API after the connection is lost. The client still has its stream, but nothing arrives any more: \<open>recv\<close> returns
  an error or the end of the stream, and \<open>send\<close> may fail. \<open>on_dead p Q s\<close> is the weakest precondition of a program on
  such a stream, whatever the failing calls are; the interface \<open>dead_stream\<close> says what a stream has to
  do for it, and the buffered socket stream on a cut connection does it. \<open>told\<close> is what an application learns,
  function by function.
\<close>

section \<open>Programs on a dead stream\<close>

primrec on_dead :: "('s, 'a) prog \<Rightarrow> ('a res \<Rightarrow> 's \<Rightarrow> bool) \<Rightarrow> 's \<Rightarrow> bool" where
  "on_dead (PRet a) Q s = Q (Ok a) s"
| "on_dead (PThrow e) Q s = Q (Throw e) s"
| "on_dead (PFail x) Q s = Q (Fail x) s"
| "on_dead (PGet k) Q s = on_dead (k s) Q s"
| "on_dead (PPut s' p) Q s = on_dead p Q s'"
| "on_dead (PRead n k) Q s = (if n = 0 then on_dead (k (Inr [])) Q s
     else on_dead (k (Inl SocketError)) Q s \<and> (BufferSize \<le> n \<longrightarrow> Q (Fail Nontermination) s))"
| "on_dead (PPeek k) Q s = on_dead (k 255) Q s"
| "on_dead (PWrite bs k) Q s = (on_dead (k None) Q s \<and> on_dead (k (Some SocketError)) Q s)"
| "on_dead (PFlush k) Q s = (on_dead (k None) Q s \<and> on_dead (k (Some SocketError)) Q s)"

locale dead_stream =
  fixes ops :: "'c stream_ops" and gone :: "'c \<Rightarrow> bool"
  assumes read_gone: "gone c \<Longrightarrow> so_read ops n c = (r, c') \<Longrightarrow>
      gone c' \<and> (if n = 0 then r = Ok [] else r = Throw SocketError \<or> BufferSize \<le> n \<and> r = Fail Nontermination)"
    and peek_gone: "gone c \<Longrightarrow> \<exists>c'. so_peek ops c = (Ok 255, c') \<and> gone c'"
    and write_gone: "gone c \<Longrightarrow> so_write ops bs c = (u, c') \<Longrightarrow> gone c' \<and> (u = Ok () \<or> u = Throw SocketError)"
    and flush_gone: "gone c \<Longrightarrow> so_flush ops c = (u, c') \<Longrightarrow> gone c' \<and> (u = Ok () \<or> u = Throw SocketError)"
begin

lemma run_cut: "on_dead p Q s \<Longrightarrow> gone c \<Longrightarrow> run ops p s c = (r, s', c') \<Longrightarrow> Q r s' \<and> gone c'"
proof (induction p arbitrary: s c)
  case (PGet k)
  then show ?case using PGet.IH [of "k s" s c] by simp
next
  case (PRead n k)
  obtain q c1 where q: "so_read ops n c = (q, c1)" by (cases "so_read ops n c")
  from read_gone [OF PRead.prems(2) q] PRead.IH [OF rangeI] PRead.prems q show ?case by (auto split: if_splits)
next
  case (PPeek k)
  from peek_gone [OF PPeek.prems(2)] PPeek.IH [OF rangeI] PPeek.prems show ?case by auto
next
  case (PWrite bs k)
  obtain q c1 where q: "so_write ops bs c = (q, c1)" by (cases "so_write ops bs c")
  from write_gone [OF PWrite.prems(2) q] PWrite.IH [OF rangeI] PWrite.prems q show ?case by auto
next
  case (PFlush k)
  obtain q c1 where q: "so_flush ops c = (q, c1)" by (cases "so_flush ops c")
  from flush_gone [OF PFlush.prems(2) q] PFlush.IH [OF rangeI] PFlush.prems q show ?case by auto
qed auto

end

section \<open>A cut connection\<close>

definition os_cut :: "'n os \<Rightarrow> bool" where
  "os_cut os \<longleftrightarrow> (\<forall>n k. os_recv os n k = None \<or> (\<exists>n'. os_recv os n k = Some ([], n')))
     \<and> (\<forall>n bs. os_send os n bs = None \<or> (\<exists>n'. os_send os n bs = Some (length bs, n')))"

text \<open>What had arrived before has been read.\<close>

definition ss_gone :: "'n sockstream \<Rightarrow> bool" where
  "ss_gone ss \<longleftrightarrow> mAvailable ss = 0 \<and> mWriteOffset ss \<le> BufferSize \<and> length (mWriteBuffer ss) = BufferSize"

lemma receive_cut:
  "os_cut os \<Longrightarrow> ss_gone ss \<Longrightarrow> ss_sock (sock_receive os k) ss = (r, ss') \<Longrightarrow>
   ss_gone ss' \<and> (r = Ok [] \<or> r = Throw SocketError)"
  unfolding os_cut_def
  by (drule conjunct1, drule spec [of _ "mSocket ss"], drule spec [of _ k])
    (auto simp: ss_sock_def sock_receive_def ss_gone_def)

lemma send_cut:
  "os_cut os \<Longrightarrow> ss_gone ss \<Longrightarrow> ss_sock (sock_send os bs) ss = (r, ss') \<Longrightarrow>
   ss_gone ss' \<and> mWriteOffset ss' = mWriteOffset ss \<and> (r = Ok () \<or> r = Throw SocketError)"
  unfolding os_cut_def
  by (drule conjunct2, drule spec [of _ "mSocket ss"], drule spec [of _ bs])
    (auto simp: ss_sock_def sock_send_def ss_gone_def)

lemma readMoreData_cut:
  assumes os: "os_cut os" and g: "ss_gone ss" and r: "ss_readMoreData os ss = (r, ss')"
  shows "ss_gone ss' \<and> (r = Ok () \<or> r = Throw SocketError)"
proof -
  obtain q s1 where q: "ss_sock (sock_receive os BufferSize) (ss\<lparr>mReadOffset := 0\<rparr>) = (q, s1)"
    by (cases "ss_sock (sock_receive os BufferSize) (ss\<lparr>mReadOffset := 0\<rparr>)")
  have "ss_gone (ss\<lparr>mReadOffset := 0\<rparr>)" using g by (simp add: ss_gone_def)
  from receive_cut [OF os this q] g r q show ?thesis
    by (auto simp: ss_readMoreData_def monad_simps ss_gone_def)
qed

lemma read_loop_cut:
  fixes os :: "'n os"
  assumes "ss_read_loop os count acc ss = Some q"
  shows "os_cut os \<longrightarrow> ss_gone ss \<longrightarrow> 0 < count \<longrightarrow> fst q = Throw SocketError \<and> ss_gone (snd q)"
proof (rule ss_read_loop.raw_induct [where P = "\<lambda>os count acc ss q. os_cut os \<longrightarrow> ss_gone ss \<longrightarrow> 0 < count \<longrightarrow>
    fst q = Throw SocketError \<and> ss_gone (snd q)", OF _ assms], intro impI)
  fix f :: "'n os \<Rightarrow> nat \<Rightarrow> byte list \<Rightarrow> 'n sockstream \<Rightarrow> (byte list res \<times> 'n sockstream) option"
  fix os :: "'n os" and count acc ss q
  assume IH: "\<And>os count acc ss q. f os count acc ss = Some q \<Longrightarrow>
      os_cut os \<longrightarrow> ss_gone ss \<longrightarrow> 0 < count \<longrightarrow> fst q = Throw SocketError \<and> ss_gone (snd q)"
    and os: "os_cut os" and g: "ss_gone ss" and count: "0 < count"
    and q: "(if count = 0 then Some (Ok acc, ss)
      else if mAvailable ss = 0 \<and> BufferSize \<le> count then
        (case ss_sock (sock_receive os count) ss of
           (Ok bs, ss') \<Rightarrow> f os (count - length bs) (acc @ bs) ss'
         | (Throw e, ss') \<Rightarrow> Some (Throw e, ss')
         | (Fail x, ss') \<Rightarrow> Some (Fail x, ss'))
      else
        (case (if mAvailable ss = 0 then ss_readMoreData os ss else (Ok (), ss)) of
           (Ok _, ss') \<Rightarrow>
             (if mAvailable ss' = 0 then Some (Throw SocketError, ss')
              else
                (case ss_take count ss' of
                   (Ok bs, ss'') \<Rightarrow> f os (count - length bs) (acc @ bs) ss''
                 | (Throw e, ss'') \<Rightarrow> Some (Throw e, ss'')
                 | (Fail x, ss'') \<Rightarrow> Some (Fail x, ss'')))
         | (Throw e, ss') \<Rightarrow> Some (Throw e, ss')
         | (Fail x, ss') \<Rightarrow> Some (Fail x, ss'))) = Some q"
  have avail: "mAvailable ss = 0" using g by (simp add: ss_gone_def)
  show "fst q = Throw SocketError \<and> ss_gone (snd q)"
  proof (cases "BufferSize \<le> count")
    case True
    obtain r ss' where r: "ss_sock (sock_receive os count) ss = (r, ss')"
      by (cases "ss_sock (sock_receive os count) ss")
    with receive_cut [OF os g r] IH [of os count acc ss' q] os q count avail True show ?thesis by auto
  next
    case False
    obtain r ss' where r: "ss_readMoreData os ss = (r, ss')" by (cases "ss_readMoreData os ss")
    with readMoreData_cut [OF os g r] q count avail False show ?thesis by (auto simp: ss_gone_def)
  qed
qed

lemma flushWriteBuffer_cut:
  assumes os: "os_cut os" and g: "ss_gone ss" and "mWriteOffset ss \<noteq> 0" and r: "ss_flushWriteBuffer os ss = (r, ss')"
  shows "ss_gone ss' \<and> (r = Ok () \<and> mWriteOffset ss' = 0 \<or> r = Throw SocketError)"
proof -
  let ?bs = "take (mWriteOffset ss) (mWriteBuffer ss)"
  obtain q s1 where q: "ss_sock (sock_send os ?bs) ss = (q, s1)" by (cases "ss_sock (sock_send os ?bs) ss")
  from send_cut [OF os g q] assms(3) r q show ?thesis
    by (auto simp: ss_flushWriteBuffer_def monad_simps ss_gone_def)
qed

text \<open>The bytes of a write go into the buffer, which is sent when it is full; two passes are enough.\<close>

lemma write_pass_cut:
  assumes os: "os_cut os" and g: "ss_gone ss" and bs: "bs \<noteq> []"
  defines "n \<equiv> min (BufferSize - mWriteOffset ss) (length bs)"
  shows "\<exists>r ss'. ss_gone ss' \<and> (r = Ok () \<and> mWriteOffset ss' < BufferSize \<or> r = Throw SocketError)
    \<and> (\<forall>i. ss_write_loop os (Suc i) bs ss = mbind (\<lambda>_. (r, ss')) (\<lambda>_. ss_write_loop os i (drop n bs)) ss)
    \<and> (r = Ok () \<longrightarrow> n = length bs \<or> mWriteOffset ss' = 0)"
proof -
  let ?s1 = "ss\<lparr>mWriteBuffer := memcpy_at (mWriteBuffer ss) (mWriteOffset ss) (take n bs), mWriteOffset := mWriteOffset ss + n\<rparr>"
  have off: "mWriteOffset ss + n \<le> BufferSize" using g by (auto simp: n_def ss_gone_def min_def)
  then have trunc: "trunc16 (mWriteOffset ss + n) = mWriteOffset ss + n" by (simp add: BufferSize_def)
  have g1: "ss_gone ?s1" using g off by (simp add: ss_gone_def n_def)
  let ?r = "(if mWriteOffset ?s1 = BufferSize then ss_flushWriteBuffer os else mret ()) ?s1"
  obtain r ss' where r: "?r = (r, ss')" by (cases ?r)
  have "ss_write_loop os (Suc i) bs ss = mbind (\<lambda>_. (r, ss')) (\<lambda>_. ss_write_loop os i (drop n bs)) ss" for i
    using bs r off trunc by (cases bs) (simp_all add: monad_simps Let_def n_def)
  moreover have "ss_gone ss' \<and> (r = Ok () \<and> mWriteOffset ss' < BufferSize \<or> r = Throw SocketError)
      \<and> (r = Ok () \<longrightarrow> n = length bs \<or> mWriteOffset ss' = 0)"
  proof (cases "mWriteOffset ?s1 = BufferSize")
    case True
    then have "ss_flushWriteBuffer os ?s1 = (r, ss')" using r by simp
    from flushWriteBuffer_cut [OF os g1 _ this] True show ?thesis by auto
  next
    case False
    then have "r = Ok ()" "ss' = ?s1" using r by (simp_all add: monad_simps)
    moreover from this have "mWriteOffset ss' < BufferSize" using False off by simp
    moreover have "n = length bs" using False g by (auto simp: n_def min_def ss_gone_def split: if_splits)
    ultimately show ?thesis using g1 by simp
  qed
  ultimately show ?thesis by blast
qed

lemma write_cut:
  assumes os: "os_cut os" and g: "ss_gone ss" and r: "ss_write os bs ss = (r, ss')"
  shows "ss_gone ss' \<and> (r = Ok () \<or> r = Throw SocketError)"
proof (cases "BufferSize \<le> length bs")
  case True
  obtain q s1 where q: "(if mWriteOffset ss \<noteq> 0 then ss_flushWriteBuffer os else mret ()) ss = (q, s1)"
    by (cases "(if mWriteOffset ss \<noteq> 0 then ss_flushWriteBuffer os else mret ()) ss")
  then have "ss_gone s1 \<and> (q = Ok () \<or> q = Throw SocketError)"
    using flushWriteBuffer_cut [OF os g] g by (auto simp: monad_simps split: if_splits)
  with send_cut [OF os, of s1 bs] True q r show ?thesis
    by (auto simp: ss_write_def monad_simps)
next
  case False
  then have w: "ss_write os bs ss = ss_write_loop os 2 bs ss" by (simp add: ss_write_def)
  show ?thesis
  proof (cases "bs = []")
    case True
    with w r g show ?thesis by (simp add: monad_simps)
  next
    case bs: False
    let ?n = "min (BufferSize - mWriteOffset ss) (length bs)"
    from write_pass_cut [OF os g bs] obtain r1 s1 where one: "ss_gone s1"
      "r1 = Ok () \<and> mWriteOffset s1 < BufferSize \<or> r1 = Throw SocketError"
      "ss_write_loop os 2 bs ss = mbind (\<lambda>_. (r1, s1)) (\<lambda>_. ss_write_loop os 1 (drop ?n bs)) ss"
      "r1 = Ok () \<longrightarrow> ?n = length bs \<or> mWriteOffset s1 = 0" by (metis numeral_2_eq_2 One_nat_def)
    show ?thesis
    proof (cases "r1 = Ok () \<and> drop ?n bs \<noteq> []")
      case False
      with one w r show ?thesis by (cases "drop ?n bs") (auto simp: monad_simps)
    next
      case rest: True
      then have zero: "mWriteOffset s1 = 0" using one(4) by auto
      have all: "min (BufferSize - mWriteOffset s1) (length (drop ?n bs)) = length (drop ?n bs)"
        using zero \<open>\<not> BufferSize \<le> length bs\<close> by simp
      from write_pass_cut [OF os one(1), of "drop ?n bs"] rest obtain r2 s2 where two: "ss_gone s2"
        "r2 = Ok () \<or> r2 = Throw SocketError"
        "ss_write_loop os 1 (drop ?n bs) s1 = mbind (\<lambda>_. (r2, s2)) (\<lambda>_. ss_write_loop os 0 []) s1"
        unfolding all by (metis One_nat_def drop_all order_refl)
      with one(3) w r rest show ?thesis by (auto simp: monad_simps)
    qed
  qed
qed

lemma cut_stream_dead: "os_cut os \<Longrightarrow> dead_stream (ss_ops os) ss_gone"
proof (rule dead_stream.intro)
  fix c c' :: "'a sockstream" and n r
  assume os: "os_cut os" and g: "ss_gone c"
  show "ss_gone c' \<and> (if n = 0 then r = Ok [] else r = Throw SocketError \<or> BufferSize \<le> n \<and> r = Fail Nontermination)"
    if "so_read (ss_ops os) n c = (r, c')"
  proof (cases "ss_read_loop os n [] c")
    case None
    have "BufferSize \<le> n"
    proof (rule ccontr)
      assume n: "\<not> BufferSize \<le> n"
      obtain q s1 where q: "ss_readMoreData os c = (q, s1)" by (cases "ss_readMoreData os c")
      from readMoreData_cut [OF os g q] n q g None show False
        by (subst (asm) ss_read_loop.simps) (auto simp: ss_gone_def split: if_splits)
    qed
    with None that g show ?thesis by (auto simp: ss_ops_def ss_read_def BufferSize_def)
  next
    case (Some q)
    show ?thesis
    proof (cases "n = 0")
      case True
      with that g show ?thesis by (simp add: ss_ops_def ss_read_def ss_read_loop.simps)
    next
      case False
      with read_loop_cut [OF Some] os g Some that show ?thesis by (auto simp: ss_ops_def ss_read_def)
    qed
  qed
next
  fix c :: "'a sockstream"
  assume os: "os_cut os" and g: "ss_gone c"
  obtain q s1 where q: "ss_readMoreData os c = (q, s1)" by (cases "ss_readMoreData os c")
  from readMoreData_cut [OF os g q] g q show "\<exists>c'. so_peek (ss_ops os) c = (Ok 255, c') \<and> ss_gone c'"
    by (auto simp: ss_ops_def ss_peek_def monad_simps ss_gone_def)
next
  fix c c' :: "'a sockstream" and bs u
  assume "os_cut os" and "ss_gone c" and "so_write (ss_ops os) bs c = (u, c')"
  then show "ss_gone c' \<and> (u = Ok () \<or> u = Throw SocketError)"
    using write_cut [of os c bs u c'] by (simp add: ss_ops_def)
next
  fix c c' :: "'a sockstream" and u
  assume "os_cut os" and "ss_gone c" and "so_flush (ss_ops os) c = (u, c')"
  then show "ss_gone c' \<and> (u = Ok () \<or> u = Throw SocketError)"
    using flushWriteBuffer_cut [of os c u c'] by (auto simp: ss_ops_def ss_flush_def monad_simps split: if_splits)
qed

text \<open>A connection of which the peer is gone: the end of the stream at every \<open>recv\<close>, an error at every \<open>send\<close>.\<close>

definition cut_os :: "unit os" where
  "cut_os = \<lparr>os_recv = (\<lambda>n k. Some ([], n)), os_send = (\<lambda>n bs. None)\<rparr>"

lemma os_cut_cut_os: "os_cut cut_os"
  by (simp add: os_cut_def cut_os_def)

interpretation peer_gone: dead_stream "ss_ops cut_os" ss_gone
  by (rule cut_stream_dead [OF os_cut_cut_os])

section \<open>The functions of the API\<close>

text \<open>
  \<open>dead E p\<close>: on a dead stream the outcome of \<open>p\<close> is in \<open>E\<close>. \<open>sends p\<close>: \<open>p\<close> only sends, which a lost connection may
  turn into a \<open>Socket::Error\<close>. The first packet a function waits for is where it learns of the loss.
\<close>

definition dead :: "('a res \<Rightarrow> bool) \<Rightarrow> (client, 'a) prog \<Rightarrow> bool" where
  "dead E p \<longleftrightarrow> (\<forall>c. cl_mStream c \<longrightarrow> on_dead p (\<lambda>r c'. cl_mStream c' \<and> E r) c)"

definition sent :: "'a res \<Rightarrow> bool" where
  "sent r \<longleftrightarrow> (case r of Ok a \<Rightarrow> True | Throw e \<Rightarrow> e = SocketError | Fail x \<Rightarrow> aborts x)"

abbreviation sends :: "(client, 'a) prog \<Rightarrow> bool" where
  "sends p \<equiv> dead sent p"

lemma sent_simps [simp]: "sent (Ok a)" "sent (Throw e) \<longleftrightarrow> e = SocketError" "sent (Fail x) \<longleftrightarrow> aborts x"
  by (simp_all add: sent_def)

named_theorems dead_intros "programs on a dead stream"

lemma on_dead_pbind:
  "on_dead (pbind p f) Q s = on_dead p (\<lambda>r s'. case r of Ok a \<Rightarrow> on_dead (f a) Q s' | Throw e \<Rightarrow> Q (Throw e) s'
     | Fail x \<Rightarrow> Q (Fail x) s') s"
  by (induction p arbitrary: s) (auto split: sum.split option.split)

lemma on_dead_pcatch:
  "on_dead (pcatch p h) Q s = on_dead p (\<lambda>r s'. case r of Throw e \<Rightarrow> on_dead (h e) Q s' | Ok a \<Rightarrow> Q (Ok a) s'
     | Fail x \<Rightarrow> Q (Fail x) s') s"
  by (induction p arbitrary: s) auto

lemma on_dead_mono: "on_dead p Q s \<Longrightarrow> (\<And>r s'. Q r s' \<Longrightarrow> Q' r s') \<Longrightarrow> on_dead p Q' s"
  by (induction p arbitrary: s) (auto split: if_splits)

lemma offline_on_dead: "offline p s = Some (r, s') \<Longrightarrow> on_dead p Q s = Q r s'"
  by (induction p arbitrary: s) auto

lemma dead_weaken: "dead E p \<Longrightarrow> (\<And>r. E r \<Longrightarrow> E' r) \<Longrightarrow> dead E' p"
  unfolding dead_def by (blast intro: on_dead_mono)

lemma dead_pbind:
  assumes "dead E' p" and "\<And>a. E' (Ok a) \<Longrightarrow> dead E (f a)" and "\<And>e. E' (Throw e) \<Longrightarrow> E (Throw e)"
    and "\<And>x. E' (Fail x) \<Longrightarrow> E (Fail x)"
  shows "dead E (pbind p f)"
  unfolding dead_def on_dead_pbind
proof (intro allI impI)
  fix c :: client
  assume "cl_mStream c"
  with assms(1) have "on_dead p (\<lambda>r c'. cl_mStream c' \<and> E' r) c" by (simp add: dead_def)
  then show "on_dead p (\<lambda>r s'. case r of Ok a \<Rightarrow> on_dead (f a) (\<lambda>r c'. cl_mStream c' \<and> E r) s'
      | Throw e \<Rightarrow> cl_mStream s' \<and> E (Throw e) | Fail x \<Rightarrow> cl_mStream s' \<and> E (Fail x)) c"
    by (rule on_dead_mono) (use assms(2-4) in \<open>auto simp: dead_def split: res.splits\<close>)
qed

lemma dead_quiet: "quiet p \<Longrightarrow> dead (\<lambda>r. (\<forall>e. r \<noteq> Throw e) \<and> (\<forall>x. r = Fail x \<longrightarrow> aborts x)) p"
proof (unfold dead_def, intro allI impI)
  fix c :: client
  assume "quiet p" and c: "cl_mStream c"
  then obtain r where "offline p c = Some (r, c)" "\<forall>e. r \<noteq> Throw e" "\<forall>x. r = Fail x \<longrightarrow> aborts x"
    unfolding quiet_def by blast
  with c show "on_dead p (\<lambda>r c'. cl_mStream c' \<and> (\<forall>e. r \<noteq> Throw e) \<and> (\<forall>x. r = Fail x \<longrightarrow> aborts x)) c"
    by (simp add: offline_on_dead)
qed

lemma dead_quiet_pbind [dead_intros]:
  "quiet p \<Longrightarrow> (\<And>x. aborts x \<Longrightarrow> E (Fail x)) \<Longrightarrow> (\<And>a. dead E (f a)) \<Longrightarrow> dead E (pbind p f)"
  by (rule dead_pbind [OF dead_quiet]) auto

lemma dead_sends_pbind [dead_intros]:
  "sends p \<Longrightarrow> (\<And>x. aborts x \<Longrightarrow> E (Fail x)) \<Longrightarrow> E (Throw SocketError) \<Longrightarrow> (\<And>a. dead E (f a)) \<Longrightarrow> dead E (pbind p f)"
  by (rule dead_pbind [where E' = sent]) auto

lemma dead_PRet [dead_intros]: "E (Ok a) \<Longrightarrow> dead E (PRet a)" "E (Fail x) \<Longrightarrow> dead E (PFail x)"
  by (simp_all add: dead_def)

lemma on_dead_readPacket: "on_dead (readPacket ty p) Q s = Q (Throw SocketError) s"
  by (simp add: readPacket_def on_dead_pbind get_PacketType_def get_u8_def dbind_def BufferSize_def)

lemma dead_readPacket [dead_intros]:
  "E (Throw SocketError) \<Longrightarrow> dead E (readPacket ty p)"
  "F (Throw SocketError) \<Longrightarrow> dead F (pbind (readPacket ty p) f)"
  "F (Throw SocketError) \<Longrightarrow> dead F (pbind readSuccess g)" "F (Throw SocketError) \<Longrightarrow> dead F (pbind readID h)"
  by (simp_all add: dead_def on_dead_pbind on_dead_readPacket readSuccess_def readID_def)

lemma sends_primitives [dead_intros]: "sends (pwrite bs)" "sends pflush" "sends (passert b)" "sends LockedConnection"
  by (simp_all add: dead_def pwrite_def pflush_def passert_def LockedConnection_def)

lemma dead_LockedConnection [dead_intros]: "dead E (f ()) \<Longrightarrow> dead E (pbind LockedConnection f)"
  by (simp add: dead_def LockedConnection_def)

lemma sends_registerCallback [dead_intros]: "sends (registerCallback cb)"
  by (simp add: dead_def registerCallback_def pstate_def)

lemma sends_packets [dead_intros]:
  "sends (writePacket ty ok bs)" "sends (writePayloadPtr w z mem len)" "sends (write_binaries z i lens bins)"
  subgoal by (simp add: writePacket_def dead_intros)
  subgoal by (simp add: writePayloadPtr_def writePacket_def dead_intros)
  subgoal by (induction z i lens bins rule: write_binaries.induct)
      (simp_all add: writePayloadPtr_def writePacket_def dead_intros split: option.split)
  done

text \<open>What a \<open>try\<close> block may end with when the function is to end in \<open>E\<close>.\<close>

definition mends :: "('a res \<Rightarrow> bool) \<Rightarrow> (exn \<Rightarrow> (client, 'a) prog) \<Rightarrow> 'a res \<Rightarrow> bool" where
  "mends E h r = (case r of Throw e \<Rightarrow> dead E (h e) | _ \<Rightarrow> E r)"

lemma mends_simps [simp]:
  "mends E h (Ok a) = E (Ok a)" "mends E h (Fail x) = E (Fail x)" "mends E h (Throw e) = dead E (h e)"
  by (simp_all add: mends_def)

lemma dead_pcatch [dead_intros]:
  assumes "dead (mends E h) p"
  shows "dead E (pcatch p h)"
  unfolding dead_def on_dead_pcatch
proof (intro allI impI)
  fix c :: client
  assume "cl_mStream c"
  with assms have "on_dead p (\<lambda>r c'. cl_mStream c' \<and> mends E h r) c" by (simp add: dead_def)
  then show "on_dead p (\<lambda>r s'. case r of Throw e \<Rightarrow> on_dead (h e) (\<lambda>r c'. cl_mStream c' \<and> E r) s'
      | Ok a \<Rightarrow> cl_mStream s' \<and> E (Ok a) | Fail x \<Rightarrow> cl_mStream s' \<and> E (Fail x)) c"
    by (rule on_dead_mono) (auto simp: dead_def split: res.splits)
qed

text \<open>An exception that leaves a \<open>noexcept\<close> function ends the process.\<close>

lemma dead_pnoexcept [dead_intros]:
  "sends p \<Longrightarrow> E (Fail Terminated) \<Longrightarrow> (\<And>x. aborts x \<Longrightarrow> E (Fail x)) \<Longrightarrow> (\<And>a. dead E (f a)) \<Longrightarrow> dead E (pbind (pnoexcept p) f)"
  unfolding pnoexcept_def
  by (rule dead_pbind [where E' = "\<lambda>r. r = Fail Terminated \<or> sent r \<and> (\<forall>e. r \<noteq> Throw e)"])
    (auto intro!: dead_pcatch elim!: dead_weaken simp: mends_def dead_PRet split: res.splits)

lemma dead_on_error [dead_intros]:
  "E (Ok (case e of ErrorPacketExn code \<Rightarrow> err code | BadAlloc \<Rightarrow> oom | _ \<Rightarrow> x)) \<Longrightarrow> dead E (on_error oom x err e)"
  by (simp add: on_error_def dead_intros)

lemma dead_context_error [dead_intros]: "E (Ok (0, CL_DEVICE_NOT_AVAILABLE)) \<Longrightarrow> dead E (context_error e)"
  by (simp add: context_error_def dead_intros)

lemma dead_PGet [dead_intros]: "(\<And>s. dead E (k s)) \<Longrightarrow> dead E (PGet k)"
  by (simp add: dead_def)

lemma dead_returns [dead_intros]:
  assumes "dead (\<lambda>r. case r of Ok a \<Rightarrow> E (Ok (g a)) | Throw e \<Rightarrow> E (Throw e) | Fail x \<Rightarrow> E (Fail x)) p"
  shows "dead E (returns g p)"
  unfolding returns_def by (rule dead_pbind [OF assms]) (auto simp: dead_PRet)

lemma dead_cases [dead_intros]:
  "(b \<Longrightarrow> dead E p) \<Longrightarrow> (\<not> b \<Longrightarrow> dead E q) \<Longrightarrow> dead E (if b then p else q)"
  "(\<And>x. dead E (f x)) \<Longrightarrow> dead E (let x = e in f x)"
  "(\<And>x. dead E (g x)) \<Longrightarrow> dead E q \<Longrightarrow> dead E (case m of None \<Rightarrow> q | Some x \<Rightarrow> g x)"
  "(\<And>x. dead E (l x)) \<Longrightarrow> (\<And>x. dead E (r x)) \<Longrightarrow> dead E (case u of Inl x \<Rightarrow> l x | Inr x \<Rightarrow> r x)"
  "(\<And>x y. dead E (h x y)) \<Longrightarrow> dead E (case v of (x, y) \<Rightarrow> h x y)"
  by (simp_all split: option.split sum.split prod.split)

lemma dead_pbind_cases [dead_intros]:
  "(b \<Longrightarrow> dead E (pbind p g)) \<Longrightarrow> (\<not> b \<Longrightarrow> dead E (pbind q g)) \<Longrightarrow> dead E (pbind (if b then p else q) g)"
  "(\<And>x. dead E (pbind (k x) g)) \<Longrightarrow> dead E (pbind q g) \<Longrightarrow> dead E (pbind (case m of None \<Rightarrow> q | Some x \<Rightarrow> k x) g)"
  by (simp_all split: option.split)

text \<open>The status of a bad wait list or header list is an error.\<close>

lemma dead_wait_list [dead_intros]:
  assumes "\<And>err. err \<noteq> CL_SUCCESS \<Longrightarrow> dead E (f (Inl err))" and "\<And>is. dead E (f (Inr is))"
    and "\<And>x. aborts x \<Longrightarrow> E (Fail x)"
  shows "dead E (pbind (wait_list n es) f)"
proof (rule dead_pbind)
  show "dead (\<lambda>r. sent r \<and> (\<forall>e. r \<noteq> Throw e) \<and> r \<noteq> Ok (Inl CL_SUCCESS)) (wait_list n es)"
    by (auto simp: wait_list_def split: option.splits intro!: dead_quiet_pbind dead_PRet quiet_handleIDs)
  show "dead E (f a)" if "sent (Ok a) \<and> (\<forall>e. Ok a \<noteq> Throw e) \<and> Ok a \<noteq> Ok (Inl CL_SUCCESS)" for a
    using assms that by (cases a) auto
qed (use assms in auto)

lemma dead_header_loop [dead_intros]:
  assumes "\<And>err. err \<noteq> CL_SUCCESS \<Longrightarrow> dead E (f (Some err))" and "dead E (f None)" and "\<And>x. aborts x \<Longrightarrow> E (Fail x)"
  shows "dead E (pbind (header_loop n ts ns) f)"
proof (rule dead_pbind)
  show "dead (\<lambda>r. sent r \<and> (\<forall>e. r \<noteq> Throw e) \<and> r \<noteq> Ok (Some CL_SUCCESS)) (header_loop n ts ns)"
    by (auto simp: header_loop_def split: option.split list.split intro!: dead_PRet)
  show "dead E (f a)" if "sent (Ok a) \<and> (\<forall>e. Ok a \<noteq> Throw e) \<and> Ok a \<noteq> Ok (Some CL_SUCCESS)" for a
    using assms that by (cases a) auto
qed (use assms in auto)

text \<open>The functions a mapping is made with, and its bookkeeping.\<close>

abbreviation safe :: "'a res \<Rightarrow> bool" where
  "safe r \<equiv> \<forall>x. r = Fail x \<longrightarrow> aborts x"

lemma dead_safe_pbind: "dead safe p \<Longrightarrow> (\<And>a. dead safe (f a)) \<Longrightarrow> dead safe (pbind p f)"
  by (rule dead_pbind [where E' = safe]) auto

lemma dead_nested:
  "dead safe (api_clEnqueueReadBuffer z q b blocking offset sz room n es want)"
  "dead safe (api_clEnqueueWriteBuffer z q b blocking offset sz mem n es want)"
  "dead safe (api_clWaitForEvents n es)"
  "dead safe (api_clRetainMemObject b)" "dead safe (api_clReleaseMemObject b)"
  by (simp_all add: call_defs shape_defs dead_intros lost_intros pbind_assoc)

lemma dead_mapping:
  "dead safe (newMapping t sz offset flags)" "dead safe (getMapping t p)"
  "dead safe (dropMapping t p)" "dead safe (pupd (store_block p d))" "dead safe (pget g)" "dead safe (GetID t)"
  by (auto simp: dead_def newMapping_def getMapping_def dropMapping_def store_block_def pstate_def pupd_def pget_def
      GetID_def Let_def split: option.split)

lemma dead_catch_all: "dead safe p \<Longrightarrow> dead (\<lambda>r. safe r \<and> (\<forall>e. r \<noteq> Throw e)) (pcatch p (\<lambda>_. PRet b))"
  by (rule dead_pcatch, erule dead_weaken) (simp add: mends_def dead_PRet split: res.split)

lemma dead_maps:
  "dead (\<lambda>r. safe r \<and> (\<forall>e. r \<noteq> Throw e)) (api_clEnqueueMapBuffer z q b blocking flags offset sz n es want)"
  "dead (\<lambda>r. safe r \<and> (\<forall>e. r \<noteq> Throw e)) (api_clEnqueueUnmapMemObject z q b p n es want)"
  subgoal by (unfold nested_defs, intro dead_cases dead_PRet dead_catch_all dead_safe_pbind dead_nested dead_mapping)
    simp_all
  subgoal by (unfold nested_defs, intro dead_cases dead_PRet dead_catch_all dead_safe_pbind dead_nested dead_mapping)
    simp_all
  done

section \<open>What the application learns\<close>

text \<open>The functions that may report success after the connection is lost.\<close>

definition unnoticed_loss :: "string list" where
  "unnoticed_loss = unnoticed @ [''clRetainProgram'', ''clReleaseProgram'']"

definition told :: "string \<Rightarrow> u32 res \<Rightarrow> bool" where
  "told name r \<longleftrightarrow> (case r of Ok e \<Rightarrow> e = CL_SUCCESS \<longrightarrow> name \<in> set unnoticed_loss | Throw e \<Rightarrow> False
     | Fail x \<Rightarrow> aborts x \<or> x = Terminated \<and> name = ''clSetEventCallback'')"

lemma told_simps [simp]:
  "told name (Ok a) \<longleftrightarrow> (a = CL_SUCCESS \<longrightarrow> name \<in> set unnoticed_loss)" 
  "told name (Fail x) \<longleftrightarrow> aborts x \<or> x = Terminated \<and> name = ''clSetEventCallback''"
  "\<not> told name (Throw e)"
  by (simp_all add: told_def)

lemma api_call_dead:
  assumes "api_call z name p"
  shows "dead (told name) p"
  using assms
proof cases
  case EnqueueMapBuffer
  then show ?thesis
    by (simp only:) (rule dead_returns, rule dead_weaken [OF dead_maps(1)],
      auto simp: unnoticed_loss_def unnoticed_def split: res.split)
next
  case EnqueueUnmapMemObject
  then show ?thesis
    by (simp only:) (rule dead_returns, rule dead_weaken [OF dead_maps(2)],
      auto simp: unnoticed_loss_def unnoticed_def split: res.split)
qed (simp_all only: call_defs shape_defs api_clEnqueueNDRangeKernel_def,
    simp_all add: dead_intros lost_intros pbind_assoc unnoticed_loss_def unnoticed_def stored_status_def split del: if_split)

text \<open>Each of them does report success on every lost connection, for some arguments.\<close>

lemmas on_dead_simps = on_dead_pbind on_dead_pcatch on_dead_readPacket GetID_def LockedConnection_def pget_def pupd_def
  pstate_def writePacket_def pwrite_def pflush_def passert_def readSuccess_def readID_def

lemma unnoticed_loss_succeeds:
  assumes "name \<in> set unnoticed_loss"
  shows "\<exists>p c. api_call z name p \<and> cl_mStream c \<and> on_dead p (\<lambda>r c'. r = Ok CL_SUCCESS) c"
proof -
  let ?c = "client_init\<lparr>cl_heap := [1 \<mapsto> 0], cl_mStream := True,
     cl_mMappings := (\<lambda>_. [\<lparr>mp_data = 7, mp_size = 0, mp_offset = 0, mp_flags = 0\<rparr>])\<rparr>"
  let ?ok = "\<lambda>p. on_dead p (\<lambda>r c'. r = Ok CL_SUCCESS) ?c"
  have "?ok (returns fst (api_clGetPlatformIDs 0 False True))"
    "?ok (returns fst (api_clGetDeviceIDs 1 0 0 False True))"
    "?ok (returns fst (api_clEnqueueNDRangeKernel 1 1 1 None [1] None 0 None False))"
    "?ok (api_clRetainEvent 1)" "?ok (api_clReleaseEvent 1)"
    "?ok (returns (fst \<circ> snd) (api_clEnqueueMapBuffer z 1 1 False CL_MAP_WRITE 0 0 0 None False))"
    "?ok (returns fst (api_clEnqueueUnmapMemObject z 1 1 7 0 None False))"
    "?ok (api_clRetainProgram 1)" "?ok (api_clReleaseProgram 1)"
    by (simp_all add: call_defs shape_defs nested_defs returns_def on_dead_simps client_init_def on_error_def
       newMapping_def getMapping_def dropMapping_def wait_list_def Let_def)
  then have "\<exists>p. api_call z name p \<and> ?ok p"
    using assms unfolding unnoticed_loss_def unnoticed_def by (auto intro: api_call.intros)
  moreover have "cl_mStream ?c" by simp
  ultimately show ?thesis by blast
qed

lemma unnoticed_loss_runs:
  assumes "name \<in> set unnoticed_loss"
  shows "\<exists>p c. api_call z name p \<and> cl_mStream c
    \<and> (\<forall>os (ss :: 'm sockstream). os_cut os \<longrightarrow> ss_gone ss \<longrightarrow> fst (run (ss_ops os) p c ss) = Ok CL_SUCCESS)"
proof -
  from unnoticed_loss_succeeds [OF assms] obtain p c
    where p: "api_call z name p" "cl_mStream c" "on_dead p (\<lambda>r c'. r = Ok CL_SUCCESS) c" by blast
  have "fst (run (ss_ops os) p c ss) = Ok CL_SUCCESS" if "os_cut os" and "ss_gone ss" for os and ss :: "'m sockstream"
  proof -
    obtain r c' ss' where r: "run (ss_ops os) p c ss = (r, c', ss')" by (rule prod_cases3)
    from dead_stream.run_cut [OF cut_stream_dead [OF that(1)] p(3) that(2) r] r show ?thesis by simp
  qed
  with p show ?thesis by blast
qed

end
