(* ===== verification/RCL_Icd.thy ===== *)
theory RCL_Icd
  imports RCL_Api
begin

text \<open>
  The table of functions the client gives to the ICD loader (\<open>client/icd.cpp\<close>) and the list of those
  it exports (\<open>client/exports.def\<close>).

  Every object of the client begins with a pointer to \<open>OCLDispatchTable\<close> (\<open>objects.h\<close>), and the
  loader calls a function through the table of its first argument. What matters is which slots are
  null: a function without a slot cannot be called by an application that links to the loader.
\<close>

text \<open>An entry is a function, or a null pointer for the function the comment beside it names.\<close>

datatype icd_entry = Function string | Nullptr string

definition OCLDispatchTable :: "icd_entry list" where
  "OCLDispatchTable = [
    Function ''clGetPlatformIDs'', Function ''clGetPlatformInfo'', Function ''clGetDeviceIDs'',
    Function ''clGetDeviceInfo'', Function ''clCreateContext'',
    Function ''clCreateContextFromType'', Function ''clRetainContext'',
    Function ''clReleaseContext'', Function ''clGetContextInfo'', Function ''clCreateCommandQueue'',
    Function ''clRetainCommandQueue'', Function ''clReleaseCommandQueue'',
    Function ''clGetCommandQueueInfo'', Nullptr ''clSetCommandQueueProperty'',
    Function ''clCreateBuffer'', Function ''clCreateImage2D'', Function ''clCreateImage3D'',
    Function ''clRetainMemObject'', Function ''clReleaseMemObject'',
    Function ''clGetSupportedImageFormats'', Function ''clGetMemObjectInfo'',
    Function ''clGetImageInfo'', Nullptr ''clCreateSampler'', Nullptr ''clRetainSampler'',
    Nullptr ''clReleaseSampler'', Nullptr ''clGetSamplerInfo'',
    Function ''clCreateProgramWithSource'', Function ''clCreateProgramWithBinary'',
    Function ''clRetainProgram'', Function ''clReleaseProgram'', Function ''clBuildProgram'',
    Nullptr ''clUnloadCompiler'', Function ''clGetProgramInfo'', Function ''clGetProgramBuildInfo'',
    Function ''clCreateKernel'', Nullptr ''clCreateKernelsInProgram'', Function ''clRetainKernel'',
    Function ''clReleaseKernel'', Function ''clSetKernelArg'', Nullptr ''clGetKernelInfo'',
    Nullptr ''clGetKernelWorkGroupInfo'', Function ''clWaitForEvents'', Function ''clGetEventInfo'',
    Function ''clRetainEvent'', Function ''clReleaseEvent'', Nullptr ''clGetEventProfilingInfo'',
    Nullptr ''clFlush'', Function ''clFinish'', Function ''clEnqueueReadBuffer'',
    Function ''clEnqueueWriteBuffer'', Nullptr ''clEnqueueCopyBuffer'',
    Function ''clEnqueueReadImage'', Function ''clEnqueueWriteImage'',
    Nullptr ''clEnqueueCopyImage'', Nullptr ''clEnqueueCopyImageToBuffer'',
    Nullptr ''clEnqueueCopyBufferToImage'', Function ''clEnqueueMapBuffer'',
    Nullptr ''clEnqueueMapImage'', Function ''clEnqueueUnmapMemObject'',
    Function ''clEnqueueNDRangeKernel'', Nullptr ''clEnqueueTask'',
    Nullptr ''clEnqueueNativeKernel'', Nullptr ''clEnqueueMarker'',
    Nullptr ''clEnqueueWaitForEvents'', Nullptr ''clEnqueueBarrier'',
    Nullptr ''clGetExtensionFunctionAddress'', Nullptr ''clCreateFromGLBuffer'',
    Nullptr ''clCreateFromGLTexture2D'', Nullptr ''clCreateFromGLTexture3D'',
    Nullptr ''clCreateFromGLRenderbuffer'', Nullptr ''clGetGLObjectInfo'',
    Nullptr ''clGetGLTextureInfo'', Nullptr ''clEnqueueAcquireGLObjects'',
    Nullptr ''clEnqueueReleaseGLObjects'', Nullptr ''clGetGLContextInfoKHR'',
    Nullptr ''clGetDeviceIDsFromD3D10KHR'', Nullptr ''clCreateFromD3D10BufferKHR'',
    Nullptr ''clCreateFromD3D10Texture2DKHR'', Nullptr ''clCreateFromD3D10Texture3DKHR'',
    Nullptr ''clEnqueueAcquireD3D10ObjectsKHR'', Nullptr ''clEnqueueReleaseD3D10ObjectsKHR'',
    Function ''clSetEventCallback'', Function ''clCreateSubBuffer'',
    Nullptr ''clSetMemObjectDestructorCallback'', Function ''clCreateUserEvent'',
    Function ''clSetUserEventStatus'', Function ''clEnqueueReadBufferRect'',
    Nullptr ''clEnqueueWriteBufferRect'', Nullptr ''clEnqueueCopyBufferRect'',
    Nullptr ''clCreateSubDevicesEXT'', Nullptr ''clRetainDeviceEXT'',
    Nullptr ''clReleaseDeviceEXT'', Nullptr ''clCreateEventFromGLsyncKHR'',
    Nullptr ''clCreateSubDevices'', Function ''clRetainDevice'', Function ''clReleaseDevice'',
    Function ''clCreateImage'', Nullptr ''clCreateProgramWithBuiltInKernels'',
    Nullptr ''clCompileProgram'', Nullptr ''clLinkProgram'', Nullptr ''clUnloadPlatformCompiler'',
    Nullptr ''clGetKernelArgInfo'', Function ''clEnqueueFillBuffer'',
    Nullptr ''clEnqueueFillImage'', Nullptr ''clEnqueueMigrateMemObjects'',
    Nullptr ''clEnqueueMarkerWithWaitList'', Nullptr ''clEnqueueBarrierWithWaitList'',
    Nullptr ''clGetExtensionFunctionAddressForPlatform'', Nullptr ''clCreateFromGLTexture'',
    Nullptr ''clGetDeviceIDsFromD3D11KHR'', Nullptr ''clCreateFromD3D11BufferKHR'',
    Nullptr ''clCreateFromD3D11Texture2DKHR'', Nullptr ''clCreateFromD3D11Texture3DKHR'',
    Nullptr ''clCreateFromDX9MediaSurfaceKHR'', Nullptr ''clEnqueueAcquireD3D11ObjectsKHR'',
    Nullptr ''clEnqueueReleaseD3D11ObjectsKHR'', Nullptr ''clGetDeviceIDsFromDX9MediaAdapterKHR'',
    Nullptr ''clEnqueueAcquireDX9MediaSurfacesKHR'',
    Nullptr ''clEnqueueReleaseDX9MediaSurfacesKHR'', Nullptr ''clCreateFromEGLImageKHR'',
    Nullptr ''clEnqueueAcquireEGLObjectsKHR'', Nullptr ''clEnqueueReleaseEGLObjectsKHR'',
    Nullptr ''clCreateEventFromEGLSyncKHR'', Function ''clCreateCommandQueueWithProperties'',
    Nullptr ''clCreatePipe'', Nullptr ''clGetPipeInfo'', Nullptr ''clSVMAlloc'',
    Nullptr ''clSVMFree'', Nullptr ''clEnqueueSVMFree'', Nullptr ''clEnqueueSVMMemcpy'',
    Nullptr ''clEnqueueSVMMemFill'', Nullptr ''clEnqueueSVMMap'', Nullptr ''clEnqueueSVMUnmap'',
    Nullptr ''clCreateSamplerWithProperties'', Nullptr ''clSetKernelArgSVMPointer'',
    Nullptr ''clSetKernelExecInfo'', Nullptr ''clGetKernelSubGroupInfoKHR'',
    Function ''clCloneKernel'', Nullptr ''clCreateProgramWithIL'',
    Nullptr ''clEnqueueSVMMigrateMem'', Nullptr ''clGetDeviceAndHostTimer'',
    Nullptr ''clGetHostTimer'', Nullptr ''clGetKernelSubGroupInfo'',
    Nullptr ''clSetDefaultDeviceCommandQueue'', Nullptr ''clSetProgramReleaseCallback'',
    Nullptr ''clSetProgramSpecializationConstant'']"

text \<open>The names after \<open>EXPORTS\<close>; outside of Windows the functions are marked \<open>SO_EXPORT\<close>.\<close>

definition exports :: "string list" where
  "exports = [
    ''clBuildProgram'', ''clCloneKernel'', ''clCompileProgram'', ''clCreateBuffer'',
    ''clCreateCommandQueue'', ''clCreateCommandQueueWithProperties'', ''clCreateContext'',
    ''clCreateContextFromType'', ''clCreateImage'', ''clCreateImage2D'', ''clCreateImage3D'',
    ''clCreateKernel'', ''clCreateKernelsInProgram'', ''clCreateProgramWithBinary'',
    ''clCreateProgramWithSource'', ''clCreateSubBuffer'', ''clCreateUserEvent'',
    ''clEnqueueFillBuffer'', ''clEnqueueMapBuffer'', ''clEnqueueNDRangeKernel'',
    ''clEnqueueReadBuffer'', ''clEnqueueReadBufferRect'', ''clEnqueueReadImage'',
    ''clEnqueueUnmapMemObject'', ''clEnqueueWriteBuffer'', ''clEnqueueWriteImage'', ''clFinish'',
    ''clFlush'', ''clGetCommandQueueInfo'', ''clGetContextInfo'', ''clGetDeviceIDs'',
    ''clGetDeviceInfo'', ''clGetEventInfo'', ''clGetEventProfilingInfo'', ''clGetImageInfo'',
    ''clGetKernelArgInfo'', ''clGetKernelInfo'', ''clGetKernelWorkGroupInfo'',
    ''clGetMemObjectInfo'', ''clGetPlatformIDs'', ''clGetPlatformInfo'', ''clGetProgramBuildInfo'',
    ''clGetProgramInfo'', ''clGetSupportedImageFormats'', ''clLinkProgram'',
    ''clReleaseCommandQueue'', ''clReleaseContext'', ''clReleaseDevice'', ''clReleaseEvent'',
    ''clReleaseKernel'', ''clReleaseMemObject'', ''clReleaseProgram'', ''clRetainCommandQueue'',
    ''clRetainContext'', ''clRetainDevice'', ''clRetainEvent'', ''clRetainKernel'',
    ''clRetainMemObject'', ''clRetainProgram'', ''clSetEventCallback'', ''clSetKernelArg'',
    ''clSetUserEventStatus'', ''clWaitForEvents'']"

text \<open>The functions with a slot of their own, and those that have none although they are exported.\<close>

definition icd_functions :: "string list" where
  "icd_functions = concat (map (\<lambda>e. case e of Function f \<Rightarrow> [f] | Nullptr f \<Rightarrow> []) OCLDispatchTable)"

definition icd_missing :: "string list" where
  "icd_missing = [''clCompileProgram'', ''clCreateKernelsInProgram'', ''clFlush'',
     ''clGetEventProfilingInfo'', ''clGetKernelArgInfo'', ''clGetKernelInfo'',
     ''clGetKernelWorkGroupInfo'', ''clLinkProgram'']"

section \<open>The functions that exist\<close>

text \<open>Every name that is exported is a function of the API, and the other way round.\<close>

lemma api_call_exported: "api_call z name p \<Longrightarrow> name \<in> set exports"
  by (erule api_call.cases) (simp_all add: exports_def)

lemma exported_api_call: "name \<in> set exports \<Longrightarrow> \<exists>p. api_call z name p"
  unfolding exports_def by (simp only: list.set insert_iff empty_iff, elim disjE) (auto intro: api_call.intros)

lemma api_functions: "{name. \<exists>p. api_call z name p} = set exports"
  using api_call_exported exported_api_call by blast

section \<open>The functions of the table\<close>

text \<open>
  The two lists refer to \<open>exports\<close> by position, so that no two names that differ have to be compared,
  and the positions are a permutation.
\<close>

lemma icd_functions_positions: "icd_functions = map (nth exports)
    [39, 40, 30, 31, 6, 7, 53, 46, 29, 4, 52, 45, 28, 3, 9, 10, 57, 50, 43, 38, 34, 14, 13,
     58, 51, 0, 42, 41, 11, 56, 49, 60, 62, 32, 55, 48, 26, 20, 24, 22, 25, 18, 23, 19, 59,
     15, 16, 61, 21, 54, 47, 8, 17, 5, 1]"
  by (simp add: icd_functions_def OCLDispatchTable_def exports_def)

lemma icd_missing_positions: "icd_missing = map (nth exports) [2, 12, 27, 33, 35, 36, 37, 44]"
  by (simp add: icd_missing_def exports_def)

lemma exports_positions: "sort
    ([39, 40, 30, 31, 6, 7, 53, 46, 29, 4, 52, 45, 28, 3, 9, 10, 57, 50, 43, 38, 34, 14, 13,
     58, 51, 0, 42, 41, 11, 56, 49, 60, 62, 32, 55, 48, 26, 20, 24, 22, 25, 18, 23, 19, 59,
     15, 16, 61, 21, 54, 47, 8, 17, 5, 1]
     @ [2, 12, 27, 33, 35, 36, 37, 44]) = [0..<length exports]"
  by (simp add: exports_def upt_rec)

lemma exports_icd: "set exports = set icd_functions \<union> set icd_missing"
proof -
  have "set exports = nth exports ` set [0..<length exports]" by (simp add: nth_image)
  then show ?thesis
    unfolding exports_positions [symmetric] icd_functions_positions icd_missing_positions
    by (simp only: set_sort set_append set_map image_Un)
qed

lemma icd_missing_not_functions: "set icd_functions \<inter> set icd_missing = {}"
proof -
  have "list_all (\<lambda>f. f \<notin> set icd_functions) icd_missing" by code_simp
  then show ?thesis by (auto simp: list_all_iff)
qed

text \<open>Each of the eight has a slot, which is null.\<close>

lemma nth_positions: "list_all (\<lambda>i. i < length xs) is \<Longrightarrow> set (map (nth xs) is) \<subseteq> set xs"
  by (auto simp: list_all_iff)

lemma icd_missing_null: "Nullptr ` set icd_missing \<subseteq> set OCLDispatchTable"
proof -
  let ?is = "[98, 35, 46, 45, 101, 39, 40, 99]"
  have "length OCLDispatchTable = 146" by (simp add: OCLDispatchTable_def)
  then have "set (map (nth OCLDispatchTable) ?is) \<subseteq> set OCLDispatchTable"
    by (intro nth_positions) simp
  moreover have "map (nth OCLDispatchTable) ?is = map Nullptr icd_missing"
    by (simp add: icd_missing_def OCLDispatchTable_def)
  ultimately show ?thesis by (simp only: list.set_map [symmetric])
qed

end
