(* ===== verification/RCL_Interference.thy ===== *)
theory RCL_Interference
  imports RCL_PacketStream
begin

text \<open>
  Two threads on one state: a program and an environment that acts on one field of the state while
  the program runs.

  \<open>weave\<close> executes a program under a schedule: one list of actions of the environment for each read,
  peek, write, flush and access to the state of the program, and what is left after the last one. A
  change of the state that follows the look at it (\<open>pupd\<close>, \<open>pstate\<close>) is one step; the fields it
  writes and the field of the environment are different variables of the program.

  \<open>ignores\<close> says that a program neither reads nor writes the field. In the locale \<open>interference\<close> such
  a program ends as it does alone, and the field as if the environment had run alone, for every
  schedule (\<open>weave_run\<close>).
\<close>

section \<open>Execution under a schedule\<close>

primrec fires :: "('l \<Rightarrow> 's \<Rightarrow> 's res) \<Rightarrow> 'l list \<Rightarrow> 's \<Rightarrow> 's res" where
  "fires env [] s = Ok s"
| "fires env (l # ls) s = (case env l s of Ok s' \<Rightarrow> fires env ls s' | r \<Rightarrow> r)"

text \<open>An action that fails ends the execution.\<close>

definition fired :: "'s res \<Rightarrow> 's \<Rightarrow> 'c \<Rightarrow> ('s \<Rightarrow> 'a res \<times> 's \<times> 'c) \<Rightarrow> 'a res \<times> 's \<times> 'c" where
  "fired r s c k = (case r of Ok s' \<Rightarrow> k s' | Throw e \<Rightarrow> (Throw e, s, c) | Fail x \<Rightarrow> (Fail x, s, c))"

text \<open>The actions that are due now, those that come later, and the end of an execution.\<close>

definition due :: "'l list list \<Rightarrow> 'l list" where
  "due sched = concat (take 1 sched)"

definition last_fires ::
  "('l \<Rightarrow> 's \<Rightarrow> 's res) \<Rightarrow> 'l list list \<Rightarrow> 'a res \<Rightarrow> 's \<Rightarrow> 'c \<Rightarrow> 'a res \<times> 's \<times> 'c" where
  "last_fires env sched r s c = fired (fires env (concat sched) s) s c (\<lambda>s'. (r, s', c))"

primrec weave ::
  "('l \<Rightarrow> 's \<Rightarrow> 's res) \<Rightarrow> 'c stream_ops \<Rightarrow> ('s, 'a) prog \<Rightarrow> 's \<Rightarrow> 'c \<Rightarrow> 'l list list
   \<Rightarrow> 'a res \<times> 's \<times> 'c" where
  "weave env ops (PRet a) s c sched = last_fires env sched (Ok a) s c"
| "weave env ops (PThrow e) s c sched = last_fires env sched (Throw e) s c"
| "weave env ops (PFail x) s c sched = last_fires env sched (Fail x) s c"
| "weave env ops (PGet k) s c sched =
     fired (fires env (due sched) s) s c (\<lambda>s'. weave env ops (k s') s' c (tl sched))"
| "weave env ops (PPut s1 p) s c sched = weave env ops p s1 c sched"
| "weave env ops (PRead n k) s c sched =
     fired (fires env (due sched) s) s c (\<lambda>s'. case so_read ops n c of
        (Ok bs, c') \<Rightarrow> weave env ops (k (Inr bs)) s' c' (tl sched)
      | (Throw e, c') \<Rightarrow> weave env ops (k (Inl e)) s' c' (tl sched)
      | (Fail x, c') \<Rightarrow> last_fires env (tl sched) (Fail x) s' c')"
| "weave env ops (PPeek k) s c sched =
     fired (fires env (due sched) s) s c (\<lambda>s'. case so_peek ops c of
        (Ok b, c') \<Rightarrow> weave env ops (k b) s' c' (tl sched)
      | (Throw e, c') \<Rightarrow> last_fires env (tl sched) (Throw e) s' c'
      | (Fail x, c') \<Rightarrow> last_fires env (tl sched) (Fail x) s' c')"
| "weave env ops (PWrite bs k) s c sched =
     fired (fires env (due sched) s) s c (\<lambda>s'. case so_write ops bs c of
        (Ok _, c') \<Rightarrow> weave env ops (k None) s' c' (tl sched)
      | (Throw e, c') \<Rightarrow> weave env ops (k (Some e)) s' c' (tl sched)
      | (Fail x, c') \<Rightarrow> last_fires env (tl sched) (Fail x) s' c')"
| "weave env ops (PFlush k) s c sched =
     fired (fires env (due sched) s) s c (\<lambda>s'. case so_flush ops c of
        (Ok _, c') \<Rightarrow> weave env ops (k None) s' c' (tl sched)
      | (Throw e, c') \<Rightarrow> weave env ops (k (Some e)) s' c' (tl sched)
      | (Fail x, c') \<Rightarrow> last_fires env (tl sched) (Fail x) s' c')"

lemma fired_Ok [simp]: "fired (Ok s') s c k = k s'"
  by (simp add: fired_def)

lemma due_Nil [simp]: "due [] = []"
  by (simp add: due_def)

lemma due_tl: "due sched @ concat (tl sched) = concat sched"
  by (cases sched) (simp_all add: due_def)

lemma last_fires_Nil [simp]: "last_fires env [] r s c = (r, s, c)"
  by (simp add: last_fires_def)

text \<open>Without actions of the environment it is the execution of the program.\<close>

lemma weave_Nil: "weave env ops p s c [] = run ops p s c"
  by (induction p arbitrary: s c) (simp_all split: prod.split res.split)

section \<open>Programs that ignore a field\<close>

text \<open>
  \<open>upd e s\<close> is the state \<open>s\<close> with \<open>e\<close> in the field. \<open>framed upd e p q\<close>: \<open>q\<close> does from a state with \<open>e\<close>
  in the field what \<open>p\<close> does from the same state with anything in it, whatever the field becomes
  meanwhile.
\<close>

primrec framed :: "('e \<Rightarrow> 's \<Rightarrow> 's) \<Rightarrow> 'e \<Rightarrow> ('s, 'a) prog \<Rightarrow> ('s, 'a) prog \<Rightarrow> bool" where
  "framed upd e (PRet a) q = (q = PRet a)"
| "framed upd e (PThrow x) q = (q = PThrow x)"
| "framed upd e (PFail x) q = (q = PFail x)"
| "framed upd e (PGet k) q = (\<exists>k'. q = PGet k' \<and> (\<forall>s e'. framed upd e' (k s) (k' (upd e' s))))"
| "framed upd e (PPut s p) q = (\<exists>q'. q = PPut (upd e s) q' \<and> (\<forall>e'. framed upd e' p q'))"
| "framed upd e (PRead n k) q = (\<exists>k'. q = PRead n k' \<and> (\<forall>r e'. framed upd e' (k r) (k' r)))"
| "framed upd e (PPeek k) q = (\<exists>k'. q = PPeek k' \<and> (\<forall>b e'. framed upd e' (k b) (k' b)))"
| "framed upd e (PWrite bs k) q = (\<exists>k'. q = PWrite bs k' \<and> (\<forall>r e'. framed upd e' (k r) (k' r)))"
| "framed upd e (PFlush k) q = (\<exists>k'. q = PFlush k' \<and> (\<forall>r e'. framed upd e' (k r) (k' r)))"

definition ignores :: "('e \<Rightarrow> 's \<Rightarrow> 's) \<Rightarrow> ('s, 'a) prog \<Rightarrow> bool" where
  "ignores upd p \<longleftrightarrow> (\<forall>e. framed upd e p p)"

named_theorems ignores_intros "composition of programs that ignore a field"

lemma framed_pbind:
  "framed upd e p q \<Longrightarrow> (\<And>a e. framed upd e (f a) (g a)) \<Longrightarrow> framed upd e (pbind p f) (pbind q g)"
  by (induction p arbitrary: e q) fastforce+

lemma framed_pcatch:
  "framed upd e p q \<Longrightarrow> (\<And>x e. framed upd e (f x) (g x)) \<Longrightarrow> framed upd e (pcatch p f) (pcatch q g)"
  by (induction p arbitrary: e q) fastforce+

lemma ignores_pbind [ignores_intros]:
  "ignores upd p \<Longrightarrow> (\<And>a. ignores upd (f a)) \<Longrightarrow> ignores upd (pbind p f)"
  by (simp add: ignores_def framed_pbind)

lemma ignores_pcatch [ignores_intros]:
  "ignores upd p \<Longrightarrow> (\<And>e. ignores upd (h e)) \<Longrightarrow> ignores upd (pcatch p h)"
  by (simp add: ignores_def framed_pcatch)

lemma ignores_ends [ignores_intros]:
  "ignores upd (PRet a)" "ignores upd (PThrow e)" "ignores upd (PFail x)"
  by (simp_all add: ignores_def)

lemma ignores_stream [ignores_intros]:
  "ignores upd (pread n)" "ignores upd ppeek" "ignores upd (pwrite bs)" "ignores upd pflush"
  by (auto simp: ignores_def pread_def ppeek_def pwrite_def pflush_def split: sum.split option.split)

lemma ignores_passert [ignores_intros]: "ignores upd (passert b)"
  by (simp add: ignores_def passert_def)

lemma framed_pdec: "framed upd e (pdec d) (pdec d)"
  by (induction d arbitrary: e) (auto split: sum.split)

lemma ignores_pdec [ignores_intros]: "ignores upd (pdec d)"
  by (simp add: ignores_def framed_pdec)

lemma ignores_PGet:
  "(\<And>e s. k (upd e s) = k s) \<Longrightarrow> (\<And>s. ignores upd (k s)) \<Longrightarrow> ignores upd (PGet k)"
  by (simp add: ignores_def)

lemma ignores_pget: "(\<And>e s. g (upd e s) = g s) \<Longrightarrow> ignores upd (pget g)"
  by (simp add: ignores_def pget_def)

lemma ignores_pupd: "(\<And>e s. g (upd e s) = upd e (g s)) \<Longrightarrow> ignores upd (pupd g)"
  by (simp add: ignores_def pupd_def)

lemma ignores_pstate:
  "(\<And>e s. t (upd e s) = (fst (t s), upd e (snd (t s)))) \<Longrightarrow> ignores upd (pstate t)"
  by (simp add: ignores_def pstate_def split: prod.split)

lemma ignores_pmap [ignores_intros]:
  "(\<And>x. ignores upd (f x)) \<Longrightarrow> ignores upd (pmap f xs)"
  by (induction xs) (auto intro!: ignores_intros)

lemma ignores_If [ignores_intros]:
  "(b \<Longrightarrow> ignores upd p) \<Longrightarrow> (\<not> b \<Longrightarrow> ignores upd q) \<Longrightarrow> ignores upd (if b then p else q)"
  by simp

lemma ignores_Let [ignores_intros]:
  "(\<And>x. ignores upd (f x)) \<Longrightarrow> ignores upd (let x = e in f x)"
  by simp

lemma ignores_case_option [ignores_intros]:
  "(\<And>x. ignores upd (f x)) \<Longrightarrow> ignores upd q \<Longrightarrow>
   ignores upd (case m of None \<Rightarrow> q | Some x \<Rightarrow> f x)"
  by (simp split: option.split)

lemma ignores_case_prod [ignores_intros]:
  "(\<And>x y. ignores upd (f x y)) \<Longrightarrow> ignores upd (case m of (x, y) \<Rightarrow> f x y)"
  by (simp split: prod.split)

lemma ignores_case_sum [ignores_intros]:
  "(\<And>x. ignores upd (f x)) \<Longrightarrow> (\<And>x. ignores upd (g x)) \<Longrightarrow>
   ignores upd (case m of Inl x \<Rightarrow> f x | Inr x \<Rightarrow> g x)"
  by (simp split: sum.split)

lemma ignores_pnoexcept [ignores_intros]: "ignores upd p \<Longrightarrow> ignores upd (pnoexcept p)"
  by (simp add: pnoexcept_def ignores_intros)

lemma ignores_packets [ignores_intros]:
  "ignores upd (writePacket ty ok bs)" "ignores upd (writeReply z r)"
  "ignores upd (writePayloadPtr w z mem len)" "ignores upd nextPacketTy"
  "ignores upd p \<Longrightarrow> ignores upd (readPacket ty p)"
  by (simp_all add: writePacket_def writeReply_def writePayloadPtr_def nextPacketTy_def readPacket_def
      ignores_intros)

section \<open>Interference\<close>

text \<open>
  An environment whose action \<open>l\<close> is \<open>eff l s\<close> on the field, when it is \<open>safe\<close>. What else it depends on
  are parts of the state that the steps of the program (\<open>step\<close>, from states in \<open>inv\<close>) leave alone.
\<close>

locale interference =
  fixes upd :: "'e \<Rightarrow> 's \<Rightarrow> 's" and fld :: "'s \<Rightarrow> 'e"
    and env :: "'l \<Rightarrow> 's \<Rightarrow> 's res" and eff :: "'l \<Rightarrow> 's \<Rightarrow> 'e \<Rightarrow> 'e"
    and safe :: "'l \<Rightarrow> 's \<Rightarrow> bool" and inv :: "'s \<Rightarrow> bool" and step :: "'s \<Rightarrow> 's \<Rightarrow> bool"
  assumes upd_upd: "upd e (upd e' s) = upd e s" and upd_fld: "upd (fld s) s = s"
    and fld_upd: "fld (upd e s) = e"
    and env_eff: "safe l s \<Longrightarrow> env l (upd e s) = Ok (upd (eff l s e) s)"
    and step_inv: "inv s \<Longrightarrow> step s s' \<Longrightarrow> inv s'"
    and step_safe: "inv s \<Longrightarrow> step s s' \<Longrightarrow> safe l s \<Longrightarrow> safe l s' \<and> eff l s' = eff l s"
begin

definition effect :: "'s \<Rightarrow> 'l list \<Rightarrow> 'e \<Rightarrow> 'e" where
  "effect s ls e = foldl (\<lambda>e l. eff l s e) e ls"

lemma effect_append [simp]: "effect s (ls @ ls') e = effect s ls' (effect s ls e)"
  by (simp add: effect_def)

lemma fires_effect:
  "\<forall>l \<in> set ls. safe l s \<Longrightarrow> fires env ls (upd e s) = Ok (upd (effect s ls e) s)"
  by (induction ls arbitrary: e) (simp_all add: env_eff effect_def)

lemma effect_step:
  "inv s \<Longrightarrow> step s s' \<Longrightarrow> \<forall>l \<in> set ls. safe l s \<Longrightarrow> effect s' ls e = effect s ls e"
  by (induction ls arbitrary: e) (simp_all add: effect_def step_safe)

lemma due_safe: "\<forall>l \<in> set (concat sched). safe l s \<Longrightarrow> \<forall>l \<in> set (due sched). safe l s"
  "\<forall>l \<in> set (concat sched). safe l s \<Longrightarrow> \<forall>l \<in> set (concat (tl sched)). safe l s"
  by (cases sched; simp add: due_def)+

lemma effect_due: "effect s (concat (tl sched)) (effect s (due sched) e) = effect s (concat sched) e"
  by (simp only: effect_append [symmetric] due_tl)

lemma last_fires_effect:
  "\<forall>l \<in> set (concat sched). safe l s \<Longrightarrow>
   last_fires env sched r (upd e s) c = (r, upd (effect s (concat sched) e) s, c)"
  by (simp only: last_fires_def fires_effect fired_Ok)

lemma weave_framed:
  "framed upd e p q \<Longrightarrow> presv step p s \<Longrightarrow> inv s \<Longrightarrow> \<forall>l \<in> set (concat sched). safe l s \<Longrightarrow>
   run ops p s c = (r, s', c') \<Longrightarrow>
   weave env ops q (upd e s) c sched = (r, upd (effect s (concat sched) e) s', c')"
proof (induction p arbitrary: q s e c sched)
  case (PGet k)
  from PGet.prems(1) obtain k' where q: "q = PGet k'" "\<And>s e. framed upd e (k s) (k' (upd e s))" by auto
  note safe = due_safe [OF PGet.prems(4)]
  have "weave env ops (k' (upd (effect s (due sched) e) s)) (upd (effect s (due sched) e) s) c (tl sched)
      = (r, upd (effect s (concat (tl sched)) (effect s (due sched) e)) s', c')"
    using PGet.prems q(2) safe(2) by (intro PGet.IH) auto
  with safe(1) show ?case by (simp add: q(1) fires_effect effect_due)
next
  case (PPut s1 p)
  from PPut.prems(1) obtain q' where q: "q = PPut (upd e s1) q'" "\<And>e. framed upd e p q'" by auto
  from PPut.prems(2) have st: "step s s1" "presv step p s1" by auto
  have "\<forall>l \<in> set (concat sched). safe l s1" using PPut.prems(4) step_safe [OF PPut.prems(3) st(1)] by blast
  with PPut.IH [OF q(2) st(2) step_inv [OF PPut.prems(3) st(1)], of sched c] PPut.prems(5)
  show ?case by (simp add: q(1) effect_step [OF PPut.prems(3) st(1) PPut.prems(4)])
next
  case (PRead n k)
  from PRead.prems(1) obtain k' where q: "q = PRead n k'" "\<And>r e. framed upd e (k r) (k' r)" by auto
  note safe = due_safe [OF PRead.prems(4)]
  obtain b c1 where rd: "so_read ops n c = (b, c1)" by (cases "so_read ops n c")
  have IH: "weave env ops (k' x) (upd (effect s (due sched) e) s) c1 (tl sched)
      = (r, upd (effect s (concat sched) e) s', c')" if "run ops (k x) s c1 = (r, s', c')" for x
    using PRead.IH [OF _ q(2) _ PRead.prems(3) safe(2) that, of "effect s (due sched) e"] PRead.prems(2)
    by (simp add: effect_due)
  show ?case using PRead.prems(5) rd safe
    by (cases b) (auto simp: q(1) fires_effect IH last_fires_effect effect_due)
next
  case (PPeek k)
  from PPeek.prems(1) obtain k' where q: "q = PPeek k'" "\<And>r e. framed upd e (k r) (k' r)" by auto
  note safe = due_safe [OF PPeek.prems(4)]
  obtain b c1 where rd: "so_peek ops c = (b, c1)" by (cases "so_peek ops c")
  have IH: "weave env ops (k' x) (upd (effect s (due sched) e) s) c1 (tl sched)
      = (r, upd (effect s (concat sched) e) s', c')" if "run ops (k x) s c1 = (r, s', c')" for x
    using PPeek.IH [OF _ q(2) _ PPeek.prems(3) safe(2) that, of "effect s (due sched) e"] PPeek.prems(2)
    by (simp add: effect_due)
  show ?case using PPeek.prems(5) rd safe
    by (cases b) (auto simp: q(1) fires_effect IH last_fires_effect effect_due)
next
  case (PWrite bs k)
  from PWrite.prems(1) obtain k' where q: "q = PWrite bs k'" "\<And>r e. framed upd e (k r) (k' r)" by auto
  note safe = due_safe [OF PWrite.prems(4)]
  obtain b c1 where rd: "so_write ops bs c = (b, c1)" by (cases "so_write ops bs c")
  have IH: "weave env ops (k' x) (upd (effect s (due sched) e) s) c1 (tl sched)
      = (r, upd (effect s (concat sched) e) s', c')" if "run ops (k x) s c1 = (r, s', c')" for x
    using PWrite.IH [OF _ q(2) _ PWrite.prems(3) safe(2) that, of "effect s (due sched) e"] PWrite.prems(2)
    by (simp add: effect_due)
  show ?case using PWrite.prems(5) rd safe
    by (cases b) (auto simp: q(1) fires_effect IH last_fires_effect effect_due)
next
  case (PFlush k)
  from PFlush.prems(1) obtain k' where q: "q = PFlush k'" "\<And>r e. framed upd e (k r) (k' r)" by auto
  note safe = due_safe [OF PFlush.prems(4)]
  obtain b c1 where rd: "so_flush ops c = (b, c1)" by (cases "so_flush ops c")
  have IH: "weave env ops (k' x) (upd (effect s (due sched) e) s) c1 (tl sched)
      = (r, upd (effect s (concat sched) e) s', c')" if "run ops (k x) s c1 = (r, s', c')" for x
    using PFlush.IH [OF _ q(2) _ PFlush.prems(3) safe(2) that, of "effect s (due sched) e"] PFlush.prems(2)
    by (simp add: effect_due)
  show ?case using PFlush.prems(5) rd safe
    by (cases b) (auto simp: q(1) fires_effect IH last_fires_effect effect_due)
qed (auto simp: last_fires_effect)

text \<open>The program ends as it does alone; the field is what the environment makes of it.\<close>

lemma weave_run:
  assumes "ignores upd p" and "presv step p s" and "inv s" and "\<forall>l \<in> set (concat sched). safe l s"
    and run: "run ops p s c = (r, s', c')"
  shows "weave env ops p s c sched = (r, upd (effect s (concat sched) (fld s)) s', c')"
  using weave_framed [OF _ assms(2-5), of "fld s" p] assms(1) by (simp add: ignores_def upd_fld)

lemma ignores_fld:
  assumes "ignores upd p" and "presv step p s" and "inv s" and "run ops p s c = (r, s', c')"
  shows "fld s' = fld s"
proof -
  have "s' = upd (fld s) s'"
    using weave_run [OF assms(1-3) _ assms(4), of "[]"] assms(4) by (simp add: weave_Nil effect_def)
  then show ?thesis by (metis fld_upd)
qed

end

end
