(* ===== verification/RCL_ServerCallbacks.thy ===== *)
theory RCL_ServerCallbacks
  imports RCL_Interference RCL_RemoteEvents
begin

text \<open>
  The server's thread and the threads of OpenCL that call event callbacks while it runs.

  The functions given to \<open>clSetEventCallback\<close> run in threads of the OpenCL implementation, at any time.
  They work on the event stream alone, under \<open>mEventMutex\<close>; \<open>event_actions\<close> makes them the
  environment of the programs of the server (locale \<open>interference\<close>). Of the handlers all but two,
  the one that opens the event stream and the one that ends it, leave the event stream alone.
\<close>

section \<open>The event stream as a field\<close>

definition set_event_stream :: "stream option \<Rightarrow> 'w server \<Rightarrow> 'w server" where
  "set_event_stream es sv = sv\<lparr>mEventStream := es\<rparr>"

text \<open>An action is a status of an event and the block the callback was registered with.\<close>

type_synonym event_action = "u32 \<times> nat"

definition event_action :: "event_action \<Rightarrow> 'w server \<Rightarrow> 'w server res" where
  "event_action l sv = EventCallback (fst l) (snd l) sv"

definition block_set :: "event_action \<Rightarrow> 'w server \<Rightarrow> bool" where
  "block_set l sv \<longleftrightarrow> snd l < length (sv_blocks sv) \<and> cb_instance (sv_blocks sv ! snd l)"

text \<open>What an action sends, and the event stream after bytes have been sent on it.\<close>

definition action_bytes :: "'w server \<Rightarrow> event_action \<Rightarrow> byte list" where
  "action_bytes sv l = event_bytes (cb_ID (sv_blocks sv ! snd l)) (fst l)"

definition sent_on :: "byte list \<Rightarrow> stream \<Rightarrow> stream" where
  "sent_on bs es =
     (if bs = [] then es else es\<lparr>s_sent := s_sent es @ s_pending es @ bs, s_pending := []\<rparr>)"

lemma sent_on_Nil [simp]: "sent_on [] = id"
  by (simp add: sent_on_def fun_eq_iff)

lemma sent_on_sent_on: "sent_on bs (sent_on as es) = sent_on (as @ bs) es"
  by (auto simp: sent_on_def)

lemma event_bytes_not_Nil [simp]: "event_bytes i code \<noteq> []"
  by (simp add: event_bytes_def enc_packet_Cons)

interpretation event_actions: interference set_event_stream mEventStream event_action
    "\<lambda>l sv. map_option (sent_on (action_bytes sv l))" block_set sv_ok sv_grows
proof (unfold_locales, goal_cases)
  case (4 l sv es)
  then show ?case
    by (cases es) (auto simp: event_action_def block_set_def set_event_stream_def EventCallback_def Let_def
        triggerEventCallback_def es_put_def es_flush_def st_flush_def action_bytes_def sent_on_def event_bytes_def
        enc_packet_Cons)
next
  case (6 sv sv' l)
  then have "prefix (sv_blocks sv) (sv_blocks sv')" by (simp add: sv_grows_def)
  with 6 show ?case by (auto simp: prefix_def block_set_def action_bytes_def nth_append)
qed (simp_all add: set_event_stream_def sv_grows_def)

text \<open>The effect of a sequence of actions.\<close>

lemma event_actions_effect:
  "event_actions.effect sv ls es = map_option (sent_on (concat (map (action_bytes sv) ls))) es"
  by (induction ls arbitrary: es)
    (simp_all add: event_actions.effect_def option.map_comp comp_def sent_on_sent_on option.map_id)

section \<open>Handlers that leave it alone\<close>

lemma set_event_stream_simps [simp]:
  "mObjects (set_event_stream es sv) = mObjects sv" "sv_world (set_event_stream es sv) = sv_world sv"
  "sv_blocks (set_event_stream es sv) = sv_blocks sv"
  by (simp_all add: set_event_stream_def)

lemma ignores_call [ignores_intros]: "ignores set_event_stream (call h c)"
  unfolding call_def by (rule ignores_pstate) (simp add: set_event_stream_def split: prod.split)

lemma ignores_objFor [ignores_intros]: "ignores set_event_stream (objFor i)"
  unfolding objFor_def by (rule ignores_pget) simp

lemma ignores_pget_mObjects [ignores_intros]: "ignores set_event_stream (pget mObjects)"
  by (rule ignores_pget) simp

lemma ignores_objsFor [ignores_intros]: "ignores set_event_stream (objsFor is)"
  by (simp add: objsFor_def ignores_intros)

lemma ignores_idFor [ignores_intros]: "ignores set_event_stream (idFor p)"
  by (simp add: ignores_def idFor_def set_event_stream_def split: option.split prod.split)

lemma ignores_newBlock [ignores_intros]: "ignores set_event_stream (newBlock b)"
  unfolding newBlock_def by (rule ignores_pstate) (simp add: set_event_stream_def)

lemma ignores_reply [ignores_intros]: "ignores set_event_stream (reply h r)"
  by (simp add: reply_def ignores_intros)

lemma ignores_checked [ignores_intros]:
  "ignores set_event_stream p \<Longrightarrow> ignores set_event_stream (checked h e p)"
  by (simp add: checked_def ignores_intros)

lemma ignores_resize [ignores_intros]: "ignores set_event_stream (resize h esz n)"
  by (simp add: resize_def ignores_intros)

lemma ignores_replyID [ignores_intros]: "ignores set_event_stream (replyID h p)"
  by (simp add: replyID_def ignores_intros)

lemma ignores_query_var [ignores_intros]:
  "(\<And>v. ignores set_event_stream (k v)) \<Longrightarrow> ignores set_event_stream (query_var h n init q k)"
  by (simp add: query_var_def ignores_intros)

lemma ignores_query_object [ignores_intros]: "ignores set_event_stream (query_object h init q)"
  by (simp add: query_object_def ignores_intros)

lemma ignores_query_data [ignores_intros]: "ignores set_event_stream (query_data h w check q)"
  by (simp add: query_data_def ignores_intros)

lemma ignores_readEventList [ignores_intros]: "ignores set_event_stream (readEventList b)"
  by (simp add: readEventList_def ignores_intros)

lemma ignores_rebuildProperties [ignores_intros]: "ignores set_event_stream (rebuildProperties ps)"
  by (simp add: rebuildProperties_def ignores_intros)

lemma ignores_idsFor [ignores_intros]: "ignores set_event_stream (idsFor ps)"
  by (simp add: idsFor_def ignores_intros)

lemma ignores_union_member [ignores_intros]:
  "(\<And>v. ignores upd (k v)) \<Longrightarrow> ignores upd (union_member n r k)"
  by (simp add: union_member_def ignores_intros)

lemma ignores_eventThen [ignores_intros]:
  "ignores set_event_stream p \<Longrightarrow> ignores set_event_stream (eventThen h b e p)"
  by (simp add: eventThen_def ignores_intros)

lemma ignores_query_sizes3 [ignores_intros]: "ignores set_event_stream (query_sizes3 h q)"
  by (simp add: query_sizes3_def ignores_intros)

lemma ignores_getProgramBinaries [ignores_intros]: "ignores set_event_stream (getProgramBinaries h p n)"
  by (simp add: getProgramBinaries_def ignores_intros)

lemma ignores_dispatch:
  "ty \<noteq> PT_EventStreamOpen \<Longrightarrow> ty \<noteq> PT_Terminate \<Longrightarrow> ignores set_event_stream (dispatch ty h)"
  by (cases ty) (simp_all add: handler_defs pthen_continue_def ignores_intros split del: if_split)

section \<open>A turn of the loop\<close>

text \<open>The types whose handlers replace the event stream.\<close>

definition event_stream_types :: "packet_type list" where
  "event_stream_types = [PT_EventStreamOpen, PT_Terminate]"

text \<open>A turn, after the type of the next packet is known.\<close>

definition turn_on :: "'w host \<Rightarrow> byte \<Rightarrow> ('w server, bool) prog" where
  "turn_on h b =
     pbind
       (pcatch (case pt_of_byte b of None \<Rightarrow> PRet True | Some ty \<Rightarrow> dispatch ty h)
          (\<lambda>e. if e = BadAlloc then pbind (reply h (R_Error CL_OUT_OF_HOST_MEMORY)) (\<lambda>_. PRet True)
               else PThrow e))
       (\<lambda>shouldContinue. pbind pflush (\<lambda>_. PRet shouldContinue))"

lemma serverStep_turn: "serverStep h = PPeek (turn_on h)"
  by (simp add: serverStep_def handleNextPacket_def nextPacketTy_def ppeek_def turn_on_def fun_eq_iff)

lemma ignores_turn_on:
  "pt_of_byte b \<notin> Some ` set event_stream_types \<Longrightarrow> ignores set_event_stream (turn_on h b)"
  by (auto simp: turn_on_def event_stream_types_def intro!: ignores_intros ignores_dispatch split: option.split)

lemma presv_turn_on: "presv sv_grows (turn_on h b) sv"
  using preserves_serverStep [of h] by (simp add: preserves_def serverStep_turn)

text \<open>
  With callbacks before, during and after it, a turn ends as it does without, and the event stream
  has, after what was on it, what the callbacks send, in their order.
\<close>

lemma weave_serverStep:
  assumes "sv_ok sv" and "\<forall>l \<in> set (concat sched). block_set l sv"
    and peek: "so_peek ops c = (Ok b, c1)" and ty: "pt_of_byte b \<notin> Some ` set event_stream_types"
    and run: "run ops (serverStep h) sv c = (r, sv', c')"
  shows "weave event_action ops (serverStep h) sv c sched = (r,
      sv'\<lparr>mEventStream := map_option (sent_on (concat (map (action_bytes sv) (concat sched)))) (mEventStream sv)\<rparr>, c')"
proof -
  let ?es = "event_actions.effect sv (due sched) (mEventStream sv)"
  note safe = event_actions.due_safe [OF assms(2)]
  have run': "run ops (turn_on h b) sv c1 = (r, sv', c')"
    using run peek by (simp add: serverStep_turn)
  have "fires event_action (due sched) sv = Ok (set_event_stream ?es sv)"
    using event_actions.fires_effect [OF safe(1), of "mEventStream sv"] by (simp add: event_actions.upd_fld)
  moreover have "weave event_action ops (turn_on h b) (set_event_stream ?es sv) c1 (tl sched)
      = (r, set_event_stream (event_actions.effect sv (concat (tl sched)) ?es) sv', c')"
    using event_actions.weave_framed [OF _ presv_turn_on assms(1) safe(2) run', of ?es "turn_on h b"]
      ignores_turn_on [OF ty, of h] by (simp add: ignores_def)
  ultimately have "weave event_action ops (serverStep h) sv c sched
      = (r, set_event_stream (event_actions.effect sv (concat sched) (mEventStream sv)) sv', c')"
    by (simp add: serverStep_turn peek event_actions.effect_due)
  then show ?thesis by (simp add: event_actions_effect set_event_stream_def)
qed

end
