(* ===== verification/RCL_ClientCallbacks.thy ===== *)
theory RCL_ClientCallbacks
  imports RCL_Interference RCL_RemoteEvents RCL_Api
begin

text \<open>
  The threads of the application that call the API and the client's own thread, which handles the
  event stream meanwhile (\<open>CallbackThreadMain\<close>).

  An action of the environment is one turn of that thread on the packets of one event. It reads
  \<open>mCallbacks\<close> and calls the application, which is recorded in \<open>cl_calls\<close>. Only \<open>clCompileProgram\<close> and
  \<open>clLinkProgram\<close> call functions of the application themselves.
\<close>

section \<open>The calls of the application as a field\<close>

definition set_calls :: "app_call list \<Rightarrow> client \<Rightarrow> client" where
  "set_calls calls c = c\<lparr>cl_calls := calls\<rparr>"

text \<open>An event: the ID of its callback and its status.\<close>

type_synonym event = "IDType \<times> u32"

definition handle_event :: "event \<Rightarrow> client \<Rightarrow> client res" where
  "handle_event l c =
     (case exec HandleCallbacks c \<lparr>s_in = event_bytes (fst l) (snd l), s_closed = False, s_pending = [], s_sent = []\<rparr> of
        (Ok _, c', _) \<Rightarrow> Ok c' | (Throw e, c', _) \<Rightarrow> Throw e | (Fail x, c', _) \<Rightarrow> Fail x)"

definition is_registered :: "event \<Rightarrow> client \<Rightarrow> bool" where
  "is_registered l c \<longleftrightarrow> unat (fst l) < length (cl_mCallbacks c)
     \<and> (case cl_mCallbacks c ! unat (fst l) of Some (CB_Event ev fn data) \<Rightarrow> True | _ \<Rightarrow> False)"

text \<open>The call an event results in; its status comes as 16 bits.\<close>

definition event_call :: "client \<Rightarrow> event \<Rightarrow> app_call" where
  "event_call c l = (case cl_mCallbacks c ! unat (fst l) of
     Some cb \<Rightarrow> EventNotify (cb_mCallback cb) (cb_mObject cb) (ucast (ucast (snd l) :: u16)) (cb_mUserData cb))"

lemma set_calls_simps [simp]:
  "cl_mCallbacks (set_calls a c) = cl_mCallbacks c" "cl_heap (set_calls a c) = cl_heap c"
  "cl_mObjects (set_calls a c) = cl_mObjects c" "cl_mStream (set_calls a c) = cl_mStream c"
  "cl_mEventStream (set_calls a c) = cl_mEventStream c" "cl_mMappings (set_calls a c) = cl_mMappings c"
  "cl_bytes (set_calls a c) = cl_bytes c" "cl_next (set_calls a c) = cl_next c"
  "cl_calls (set_calls a c) = a"
  by (simp_all add: set_calls_def)

lemma handle_event_registered:
  assumes "is_registered l c"
  shows "handle_event l (set_calls calls c) = Ok (set_calls (calls @ [event_call c l]) c)"
proof -
  from assms obtain ev fn data
    where cb: "unat (fst l) < length (cl_mCallbacks c)" "cl_mCallbacks c ! unat (fst l) = Some (CB_Event ev fn data)"
    by (auto simp: is_registered_def split: option.splits Callback.splits)
  let ?st = "\<lparr>s_in = event_bytes (fst l) (snd l), s_closed = False, s_pending = [], s_sent = []\<rparr>"
  have "exec HandleCallbacks (set_calls calls c) ?st = (Ok True,
      (set_calls calls c)\<lparr>cl_calls := calls @ [event_call c l]\<rparr>, ?st\<lparr>s_in := []\<rparr>)"
    using exec_HandleCallbacks_event [of ?st "fst l" "snd l" "[]" "set_calls calls c" ev fn data] cb
    by (simp add: event_call_def)
  then show ?thesis by (simp add: handle_event_def set_calls_def)
qed

interpretation event_calls: interference set_calls cl_calls handle_event
    "\<lambda>l c calls. calls @ [event_call c l]" is_registered client_ok client_keeps
proof (unfold_locales, goal_cases)
  case (6 c c' l)
  then have "prefix (cl_mCallbacks c) (cl_mCallbacks c')" by (simp add: client_keeps_def)
  with 6 show ?case by (auto simp: prefix_def is_registered_def event_call_def nth_append)
qed (simp_all add: set_calls_def client_keeps_def handle_event_registered [unfolded set_calls_def])

lemma event_calls_effect: "event_calls.effect c ls calls = calls @ map (event_call c) ls"
  by (induction ls arbitrary: calls) (simp_all add: event_calls.effect_def)

section \<open>Functions that leave it alone\<close>

lemma ignores_GetID [ignores_intros]: "ignores set_calls (GetID t)"
  unfolding GetID_def by (rule ignores_PGet) (simp_all add: ignores_intros)

lemma ignores_LockedConnection [ignores_intros]: "ignores set_calls LockedConnection"
  unfolding LockedConnection_def by (rule ignores_PGet) (simp_all add: ignores_intros)

lemma ignores_getObject [ignores_intros]: "ignores set_calls (getObject i)"
  unfolding getObject_def by (rule ignores_PGet) (simp_all add: ignores_intros)

lemma ignores_getMapping [ignores_intros]: "ignores set_calls (getMapping t p)"
  unfolding getMapping_def by (rule ignores_PGet) (simp_all add: ignores_intros)

lemma register_object_set_calls:
  "register_object i (set_calls a c) = (fst (register_object i c), set_calls a (snd (register_object i c)))"
  by (simp add: register_object_def set_calls_def Let_def)

lemma ignores_registerID [ignores_intros]: "ignores set_calls (registerID i)"
  unfolding registerID_def by (rule ignores_pstate) (rule register_object_set_calls)

lemma ignores_getOrInsertObject [ignores_intros]: "ignores set_calls (getOrInsertObject i)"
  unfolding getOrInsertObject_def by (rule ignores_PGet) (simp_all add: ignores_intros)

lemma ignores_registerCallback [ignores_intros]: "ignores set_calls (registerCallback cb)"
  unfolding registerCallback_def by (rule ignores_pstate) (simp add: set_calls_def)

lemma ignores_newMapping [ignores_intros]: "ignores set_calls (newMapping t sz offset flags)"
  unfolding newMapping_def by (rule ignores_pstate) (simp add: set_calls_def Let_def)

lemma ignores_dropMapping [ignores_intros]: "ignores set_calls (dropMapping t p)"
  by (simp add: ignores_def dropMapping_def set_calls_def split: option.split)

lemma ignores_store_block [ignores_intros]: "ignores set_calls (pupd (store_block p d))"
  by (rule ignores_pupd) (simp only: store_block_def set_calls_simps, simp add: set_calls_def)

lemma ignores_block_bytes [ignores_intros]: "ignores set_calls (pget (\<lambda>c. block_bytes c p n))"
  by (rule ignores_pget) (simp add: block_bytes_def)

lemma ignores_transfers [ignores_intros]:
  "ignores upd readSuccess" "ignores upd readID"
  by (simp_all add: readSuccess_def readID_def ignores_intros)

lemma ignores_results [ignores_intros]:
  "ignores upd (on_error oom lost err e)" "ignores upd (context_error e)" "ignores upd (query_ok out)"
  "ignores upd (Store64 d buf)" "ignores upd (Store32 d buf)"
  by (simp_all add: on_error_def context_error_def query_ok_def Store64_def Store32_def ignores_intros)

lemma ignores_returns [ignores_intros]: "ignores upd p \<Longrightarrow> ignores upd (returns g p)"
  by (simp add: returns_def ignores_intros)

lemma ignores_handleIDs [ignores_intros]: "ignores set_calls (handleIDs n ts)"
  by (induction n ts rule: handleIDs.induct) (simp_all add: ignores_intros)

lemma ignores_store_handles [ignores_intros]: "ignores set_calls (store_handles n b is)"
  by (induction n b "is" rule: store_handles.induct) (simp_all add: ignores_intros)

lemma ignores_insert_objects [ignores_intros]: "ignores set_calls (insert_objects is)"
  by (induction "is") (simp_all add: ignores_intros)

lemma ignores_register_kernels [ignores_intros]: "ignores set_calls (register_kernels is)"
  by (induction "is") (simp_all add: ignores_intros)

lemma ignores_get_objects [ignores_intros]: "ignores set_calls (get_objects is)"
  by (induction "is") (simp_all add: ignores_intros)

lemma ignores_context_props [ignores_intros]: "ignores set_calls (context_props ps)"
  by (induction ps rule: context_props.induct) (simp_all add: ignores_intros)

lemma ignores_check_dims [ignores_intros]: "ignores upd (check_dims i n global offset loc)"
  by (induction i n global offset loc rule: check_dims.induct) (simp_all add: ignores_intros)

lemma ignores_wait_list [ignores_intros]: "ignores set_calls (wait_list n es)"
  by (simp add: wait_list_def ignores_intros)

lemma ignores_write_binaries [ignores_intros]: "ignores upd (write_binaries z n lens bins)"
  by (induction z n lens bins rule: write_binaries.induct) (simp_all add: ignores_intros)

lemma ignores_read_payloads [ignores_intros]: "ignores upd (read_payloads z n)"
  by (induction z n rule: read_payloads.induct) (simp_all add: ignores_intros)

lemma ignores_store_binaries [ignores_intros]: "ignores upd (store_binaries ptrs ds)"
  by (induction ptrs ds rule: store_binaries.induct) (simp_all add: ignores_intros)

lemma ignores_nested:
  "ignores set_calls (api_clEnqueueReadBuffer z q b blocking offset sz room n es want)"
  "ignores set_calls (api_clEnqueueWriteBuffer z q b blocking offset sz mem n es want)"
  "ignores set_calls (api_clWaitForEvents n es)"
  "ignores set_calls (api_clRetainMemObject b)" "ignores set_calls (api_clReleaseMemObject b)"
  by (simp_all add: call_defs shape_defs ignores_intros)

lemma ignores_SetEventCallback: "ignores set_calls (api_clSetEventCallback ev ty fn data)"
  unfolding api_clSetEventCallback_def
  by (intro ignores_If ignores_ends, rule ignores_PGet) (simp_all add: ignores_intros)

definition calling_back :: "string list" where
  "calling_back = [''clCompileProgram'', ''clLinkProgram'']"

lemma ignores_api_call:
  assumes "api_call z name p" and "name \<notin> set calling_back"
  shows "ignores set_calls p"
  using assms
proof cases
  case SetEventCallback
  then show ?thesis by (simp add: ignores_SetEventCallback)
qed (simp_all only: call_defs shape_defs nested_defs,
    simp_all add: calling_back_def ignores_intros ignores_nested [unfolded call_defs shape_defs] split del: if_split)

text \<open>
  A call ends as it does alone, and the application is called for every event that arrives during it,
  in their order.
\<close>

lemma weave_api_call:
  assumes "api_call z name p" and "name \<notin> set calling_back" and "client_ok c"
    and "\<forall>l \<in> set (concat sched). is_registered l c" and "run ops p c st = (r, c', st')"
  shows "weave handle_event ops p c st sched
    = (r, c'\<lparr>cl_calls := cl_calls c @ map (event_call c) (concat sched)\<rparr>, st')"
  using event_calls.weave_run [OF ignores_api_call [OF assms(1,2)] _ assms(3-5)] preserves_api_call [OF assms(1)]
  by (simp add: preserves_def event_calls_effect set_calls_def)

end
