(* ===== verification/RCL_ClientObjects.thy ===== *)
theory RCL_ClientObjects
  imports RCL_Client
begin

text \<open>
  The objects of the client in memory (\<open>client/objects.h\<close>): a handle is the address of a structure inside of its
  object, which begins with the pointer the ICD loader needs. \<open>RCL_Client\<close> keeps an ID for every handle instead
  (\<open>cl_heap\<close>) and never uses a handle twice; here the addresses are the allocator's choice, also the address of an object
  that was destroyed, and the handles of \<open>RCL_Client\<close> are shown to stand for them.
\<close>

section \<open>Objects and handles\<close>

text \<open>
  \<open>MakeDispatchable\<close>, and an object of any of the classes made from \<open>ICDDispatchable\<close>. Addresses are numbers; \<open>table\<close>
  is the address of \<open>OCLDispatchTable\<close>, \<open>off\<close> the offset of \<open>mDispatchObject\<close> in an object.
\<close>

type_synonym address = nat

record MakeDispatchable =
  dispatchTable :: address
  md_ptr :: address

record CLObject =
  ob_ID :: IDType
  mDispatchObject :: MakeDispatchable

text \<open>The constructor of an object with an ID, at an address, and the one of \<open>Unwrap\<close> from a structure.\<close>

definition ICDDispatchable :: "address \<Rightarrow> address \<Rightarrow> IDType \<Rightarrow> CLObject" where
  "ICDDispatchable table this oid = \<lparr>ob_ID = oid, mDispatchObject = \<lparr>dispatchTable = table, md_ptr = this\<rparr>\<rparr>"

definition ICDDispatchable_of :: "MakeDispatchable \<Rightarrow> CLObject" where
  "ICDDispatchable_of d = \<lparr>ob_ID = 0, mDispatchObject = d\<rparr>"

text \<open>The conversion of an object to a handle, and what is behind a handle.\<close>

definition OpenCLType :: "nat \<Rightarrow> address \<Rightarrow> handle" where
  "OpenCLType off this = this + off"

definition dispatchable_at :: "nat \<Rightarrow> (address \<rightharpoonup> CLObject) \<Rightarrow> handle \<rightharpoonup> MakeDispatchable" where
  "dispatchable_at off mem t = (if t < off then None else map_option mDispatchObject (mem (t - off)))"

text \<open>
  \<open>Unwrap\<close> copies the structure into an object of its own, whose ID is 0, and returns the object that one
  points to; \<open>GetID\<close> takes the ID of that.
\<close>

definition Unwrap :: "nat \<Rightarrow> (address \<rightharpoonup> CLObject) \<Rightarrow> handle \<rightharpoonup> address" where
  "Unwrap off mem t = map_option (\<lambda>d. md_ptr (mDispatchObject (ICDDispatchable_of d))) (dispatchable_at off mem t)"

definition GetID_at :: "nat \<Rightarrow> (address \<rightharpoonup> CLObject) \<Rightarrow> handle \<rightharpoonup> IDType" where
  "GetID_at off mem t = Option.bind (Unwrap off mem t) (\<lambda>this. map_option ob_ID (mem this))"

lemma unwrap_handle:
  assumes "mem this = Some (ICDDispatchable table this oid)"
  shows "Unwrap off mem (OpenCLType off this) = Some this"
    and "GetID_at off mem (OpenCLType off this) = Some oid"
    and "map_option dispatchTable (dispatchable_at off mem (OpenCLType off this)) = Some table"
  using assms
  by (simp_all add: Unwrap_def GetID_at_def dispatchable_at_def OpenCLType_def ICDDispatchable_def ICDDispatchable_of_def)

section \<open>The registry\<close>

text \<open>
  The vector of the connection, with null pointers in slots that were never used, and the objects in memory.
  \<open>registerID\<close>: \<open>this\<close> is the address the allocator returns for the new object; the object that was in the
  slot is destroyed afterwards.
\<close>

record registry =
  rg_mObjects :: "address list"
  rg_mem :: "address \<rightharpoonup> CLObject"

definition register_at :: "nat \<Rightarrow> address \<Rightarrow> address \<Rightarrow> IDType \<Rightarrow> registry \<Rightarrow> handle \<times> registry" where
  "register_at off table this oid g =
     (let n = unat oid;
          objs = (if length (rg_mObjects g) \<le> n
                  then rg_mObjects g @ replicate (n + 1 - length (rg_mObjects g)) 0
                  else rg_mObjects g)
      in (OpenCLType off this, g\<lparr>rg_mObjects := objs[n := this],
            rg_mem := ((rg_mem g)(this \<mapsto> ICDDispatchable table this oid))(objs ! n := None)\<rparr>))"

text \<open>Every object is in the slot of its ID, and points to the table and to itself.\<close>

definition registry_ok :: "address \<Rightarrow> registry \<Rightarrow> bool" where
  "registry_ok table g \<longleftrightarrow> length (rg_mObjects g) \<le> 65536
     \<and> (\<forall>this ob. rg_mem g this = Some ob \<longleftrightarrow> this \<noteq> 0 \<and> (\<exists>j < length (rg_mObjects g).
           rg_mObjects g ! j = this \<and> ob = ICDDispatchable table this (word_of_nat j)))"

lemma registry_ok_slot:
  "registry_ok table g \<Longrightarrow> j < length (rg_mObjects g) \<Longrightarrow> rg_mObjects g ! j \<noteq> 0 \<Longrightarrow>
   rg_mem g (rg_mObjects g ! j) = Some (ICDDispatchable table (rg_mObjects g ! j) (word_of_nat j))"
  unfolding registry_ok_def by blast

lemma registry_ok_null: "registry_ok table g \<Longrightarrow> rg_mem g 0 = None"
  unfolding registry_ok_def by (metis option.exhaust)

text \<open>No two slots hold the same object.\<close>

lemma registry_ok_distinct:
  assumes ok: "registry_ok table g" and "j < length (rg_mObjects g)" "k < length (rg_mObjects g)"
    and "rg_mObjects g ! j \<noteq> 0" and "rg_mObjects g ! j = rg_mObjects g ! k"
  shows "j = k"
proof -
  from registry_ok_slot [OF ok assms(2,4)] registry_ok_slot [OF ok assms(3)] assms(4,5)
  have "(word_of_nat j :: IDType) = word_of_nat k" by (simp add: ICDDispatchable_def)
  moreover have "j < 2 ^ 16" "k < 2 ^ 16" using ok assms(2,3) by (simp_all add: registry_ok_def)
  ultimately show ?thesis by (simp add: word_of_nat_eq_iff take_bit_nat_eq_self)
qed

lemma register_at_slot:
  assumes "register_at off table this oid g = (t, g')"
  shows "t = OpenCLType off this"
    and "length (rg_mObjects g') = max (length (rg_mObjects g)) (Suc (unat oid))"
    and "j < length (rg_mObjects g') \<Longrightarrow> rg_mObjects g' ! j =
      (if j = unat oid then this else if j < length (rg_mObjects g) then rg_mObjects g ! j else 0)"
    and "rg_mem g' = ((rg_mem g)(this \<mapsto> ICDDispatchable table this oid))
      ((if unat oid < length (rg_mObjects g) then rg_mObjects g ! unat oid else 0) := None)"
  using assms by (auto simp: register_at_def Let_def nth_append)

lemma register_at_ok:
  assumes ok: "registry_ok table g" and fresh: "this \<noteq> 0" "rg_mem g this = None"
    and r: "register_at off table this oid g = (t, g')"
  shows "registry_ok table g'"
  unfolding registry_ok_def
proof (intro conjI allI)
  note slot = register_at_slot [OF r]
  let ?old = "if unat oid < length (rg_mObjects g) then rg_mObjects g ! unat oid else 0"
  have "unat oid < 2 ^ 16" using unsigned_less [of oid, where ?'a = nat] by simp
  then show "length (rg_mObjects g') \<le> 65536" using ok slot(2) by (simp add: registry_ok_def)
  have oid: "(word_of_nat (unat oid) :: IDType) = oid" by simp
  show "rg_mem g' x = Some ob \<longleftrightarrow> x \<noteq> 0 \<and> (\<exists>j < length (rg_mObjects g'). rg_mObjects g' ! j = x
      \<and> ob = ICDDispatchable table x (word_of_nat j))" for x ob
  proof -
    consider (new) "x = this" | (null) "x = 0" "x \<noteq> this" | (other) "x \<noteq> 0" "x \<noteq> this" by blast
    then show ?thesis
    proof cases
      case new
      have "?old \<noteq> this" using registry_ok_slot [OF ok, of "unat oid"] fresh by (auto split: if_splits)
      with slot(4) have mem: "rg_mem g' this = Some (ICDDispatchable table this oid)" by simp
      have at: "unat oid < length (rg_mObjects g')" "rg_mObjects g' ! unat oid = this"
        using slot(2) slot(3) [of "unat oid"] by simp_all
      have "j = unat oid" if "j < length (rg_mObjects g')" "rg_mObjects g' ! j = this" for j
        using that slot(3) [OF that(1)] registry_ok_slot [OF ok, of j] fresh by (auto split: if_splits)
      with at have "(\<exists>j < length (rg_mObjects g'). rg_mObjects g' ! j = this \<and> ob = ICDDispatchable table this (word_of_nat j))
          \<longleftrightarrow> ob = ICDDispatchable table this oid" using oid by metis
      with new mem fresh(1) show ?thesis by auto
    next
      case null
      with registry_ok_null [OF ok] slot(4) show ?thesis by simp
    next
      case other
      have "(\<exists>j < length (rg_mObjects g'). rg_mObjects g' ! j = x \<and> ob = ICDDispatchable table x (word_of_nat j))
          \<longleftrightarrow> (\<exists>j < length (rg_mObjects g). j \<noteq> unat oid \<and> rg_mObjects g ! j = x \<and> ob = ICDDispatchable table x (word_of_nat j))"
        using other slot(2) slot(3) by (auto split: if_splits) (metis max.strict_coboundedI1)
      moreover have "rg_mem g' x = Some ob \<longleftrightarrow> rg_mem g x = Some ob \<and> x \<noteq> ?old" using other slot(4) by auto
      moreover have "rg_mem g x = Some ob \<longleftrightarrow> (\<exists>j < length (rg_mObjects g). rg_mObjects g ! j = x
          \<and> ob = ICDDispatchable table x (word_of_nat j))" using ok other by (simp add: registry_ok_def)
      moreover have "x \<noteq> ?old \<longleftrightarrow> j \<noteq> unat oid" if "j < length (rg_mObjects g)" "rg_mObjects g ! j = x" for j
        using that other registry_ok_distinct [OF ok that(1), of "unat oid"] by (auto split: if_splits)
      then have "(\<exists>j < length (rg_mObjects g). rg_mObjects g ! j = x \<and> ob = ICDDispatchable table x (word_of_nat j)) \<and> x \<noteq> ?old
          \<longleftrightarrow> (\<exists>j < length (rg_mObjects g). j \<noteq> unat oid \<and> rg_mObjects g ! j = x \<and> ob = ICDDispatchable table x (word_of_nat j))"
        by (intro iffI; elim conjE exE) blast+
      ultimately show ?thesis using other by argo
    qed
  qed
qed

section \<open>The handles of the model\<close>

text \<open>The client and the registry fill the same slots; the handle in memory of a handle of the client.\<close>

definition same_slots :: "client \<Rightarrow> registry \<Rightarrow> bool" where
  "same_slots c g \<longleftrightarrow> list_all2 (\<lambda>t this. t = 0 \<longleftrightarrow> this = 0) (cl_mObjects c) (rg_mObjects g)"

definition handle_in :: "nat \<Rightarrow> client \<Rightarrow> registry \<Rightarrow> handle \<Rightarrow> handle" where
  "handle_in off c g t = OpenCLType off (rg_mObjects g ! unat (the (cl_heap c t)))"

lemma handle_slot:
  assumes "client_ok c" and "same_slots c g" and "cl_heap c t = Some i"
  shows "unat i < length (rg_mObjects g)" and "rg_mObjects g ! unat i \<noteq> 0"
  using assms client_ok_heap [OF assms(1), of t i] by (auto simp: same_slots_def list_all2_conv_all_nth)

text \<open>What the functions of the API read through a handle, and that different ones stay different.\<close>

theorem handle_reads:
  assumes "client_ok c" and "registry_ok table g" and "same_slots c g" and heap: "cl_heap c t = Some i"
  shows "GetID_at off (rg_mem g) (handle_in off c g t) = Some i"
    and "Unwrap off (rg_mem g) (handle_in off c g t) = Some (rg_mObjects g ! unat i)"
    and "map_option dispatchTable (dispatchable_at off (rg_mem g) (handle_in off c g t)) = Some table"
  using unwrap_handle [of "rg_mem g" "rg_mObjects g ! unat i" table i off]
    registry_ok_slot [OF assms(2) handle_slot [OF assms(1,3) heap]] heap
  by (simp_all add: handle_in_def)

theorem handles_differ:
  assumes "client_ok c" and "registry_ok table g" and "same_slots c g" and t: "cl_heap c t = Some i" and u: "cl_heap c u = Some j"
    and "handle_in off c g t = handle_in off c g u"
  shows "t = u"
proof -
  from assms(6) t u have "rg_mObjects g ! unat i = rg_mObjects g ! unat j" by (simp add: handle_in_def OpenCLType_def)
  with registry_ok_distinct [OF assms(2) handle_slot(1) [OF assms(1,3) t] handle_slot(1) [OF assms(1,3) u]
      handle_slot(2) [OF assms(1,3) t]] have "unat i = unat j" by simp
  with client_ok_heap [OF assms(1), of t i] client_ok_heap [OF assms(1), of u j] t u show ?thesis by simp
qed

text \<open>
  \<open>registerID\<close> in memory does what it does in the model, wherever the allocator puts the object: both ends fill the
  same slots, the new handle is the one of the new object, and every handle that stays is what it was.
\<close>

theorem register_at_registers:
  assumes ok: "client_ok c" "registry_ok table g" and same: "same_slots c g" and fresh: "this \<noteq> 0" "rg_mem g this = None"
    and c: "register_object oid c = (t, c')" and g: "register_at off table this oid g = (u, g')"
  shows "registry_ok table g'" and "same_slots c' g'" and "handle_in off c' g' t = u"
    and "\<And>v i. cl_heap c v = Some i \<Longrightarrow> i \<noteq> oid \<Longrightarrow> handle_in off c' g' v = handle_in off c g v"
proof -
  note cslot = register_object_slot [OF c] and gslot = register_at_slot [OF g] and heap = register_object_heap [OF c]
  show "registry_ok table g'" by (rule register_at_ok [OF ok(2) fresh g])
  have len: "length (cl_mObjects c) = length (rg_mObjects g)" using same by (simp add: same_slots_def list_all2_lengthD)
  have "cl_next c \<noteq> 0" using ok(1) by (simp add: client_ok_def)
  then show "same_slots c' g'"
    using same len cslot gslot(2,3) fresh(1) by (auto simp: same_slots_def list_all2_conv_all_nth)
  show "handle_in off c' g' t = u"
    using heap(1,3) gslot(1,2) gslot(3) [of "unat oid"] by (simp add: handle_in_def)
  show "handle_in off c' g' v = handle_in off c g v" if v: "cl_heap c v = Some i" "i \<noteq> oid" for v i
    using register_object_keeps [OF ok(1) c v] v handle_slot(1) [OF ok(1) same v(1)] gslot(2) gslot(3) [of "unat i"]
    by (simp add: handle_in_def word_unat_eq_iff)
qed

text \<open>\<open>getOrInsertObject\<close>, which takes the object it finds in the slot; and the start of a connection.\<close>

definition getOrInsert_at :: "nat \<Rightarrow> address \<Rightarrow> address \<Rightarrow> IDType \<Rightarrow> registry \<Rightarrow> (handle \<times> registry) option" where
  "getOrInsert_at off table this oid g =
     (if unat oid < length (rg_mObjects g) then
        (if rg_mObjects g ! unat oid = 0 then None else Some (OpenCLType off (rg_mObjects g ! unat oid), g))
      else Some (register_at off table this oid g))"

theorem getOrInsert_at_finds:
  assumes ok: "client_ok c" "registry_ok table g" and same: "same_slots c g" and fresh: "this \<noteq> 0" "rg_mem g this = None"
    and c: "exec (getOrInsertObject oid) c st = (Ok t, c', st')"
  obtains u g' where "getOrInsert_at off table this oid g = Some (u, g')" "registry_ok table g'" "same_slots c' g'"
    "handle_in off c' g' t = u"
proof (cases "unat oid < length (rg_mObjects g)")
  case True
  then have len: "unat oid < length (cl_mObjects c)" using same by (simp add: same_slots_def list_all2_lengthD)
  with c have c': "c' = c" "t = cl_mObjects c ! unat oid" "t \<noteq> 0"
    by (auto simp: getOrInsertObject_def split: if_splits)
  with len have heap: "cl_heap c t = Some oid" by (simp add: client_ok_heap [OF ok(1)])
  from handle_slot(2) [OF ok(1) same heap] True that ok(2) same c' heap show ?thesis
    by (simp add: getOrInsert_at_def handle_in_def)
next
  case False
  obtain u g' where g: "register_at off table this oid g = (u, g')" by (cases "register_at off table this oid g")
  have "\<not> unat oid < length (cl_mObjects c)" using False same by (simp add: same_slots_def list_all2_lengthD)
  with c have "register_object oid c = (t, c')"
    by (cases "register_object oid c") (auto simp: getOrInsertObject_def prog_simps)
  from register_at_registers(1-3) [OF ok same fresh this g] that False g show ?thesis
    by (simp add: getOrInsert_at_def)
qed

lemma registry_start:
  "registry_ok table \<lparr>rg_mObjects = [], rg_mem = Map.empty\<rparr>" "same_slots client_init \<lparr>rg_mObjects = [], rg_mem = Map.empty\<rparr>"
  by (simp_all add: registry_ok_def same_slots_def client_init_def)

section \<open>Any number of objects\<close>

text \<open>
  A sequence of objects the client makes (\<open>True\<close>: \<open>registerID\<close>) or looks for (\<open>False\<close>: \<open>getOrInsertObject\<close>), each with its ID and
  with the address the allocator has ready: any but the null pointer at which there is no object, so that the address of
  an object that was destroyed may come back. On one side what the functions of \<open>RCL_Client\<close> do, on the other what
  happens in memory; both return the handles.
\<close>

primrec client_steps :: "(bool \<times> IDType \<times> address) list \<Rightarrow> (client, handle list) prog" where
  "client_steps [] = PRet []"
| "client_steps (step # steps) = (case step of (fresh, oid, this) \<Rightarrow>
     pbind (if fresh then registerID oid else getOrInsertObject oid) (\<lambda>t.
     pbind (client_steps steps) (\<lambda>ts. PRet (t # ts))))"

definition memory_step :: "nat \<Rightarrow> address \<Rightarrow> bool \<times> IDType \<times> address \<Rightarrow> registry \<Rightarrow> (handle \<times> registry) option" where
  "memory_step off table step g = (case step of (fresh, oid, this) \<Rightarrow>
     if this = 0 \<or> rg_mem g this \<noteq> None then None
     else if fresh then Some (register_at off table this oid g) else getOrInsert_at off table this oid g)"

primrec memory_steps ::
  "nat \<Rightarrow> address \<Rightarrow> (bool \<times> IDType \<times> address) list \<Rightarrow> registry \<Rightarrow> (handle list \<times> registry) option" where
  "memory_steps off table [] g = Some ([], g)"
| "memory_steps off table (step # steps) g = (case memory_step off table step g of
     None \<Rightarrow> None
   | Some (u, g1) \<Rightarrow> map_option (\<lambda>(us, g'). (u # us, g')) (memory_steps off table steps g1))"

definition same_objects :: "address \<Rightarrow> client \<Rightarrow> registry \<Rightarrow> bool" where
  "same_objects table c g \<longleftrightarrow> client_ok c \<and> registry_ok table g \<and> same_slots c g"

text \<open>The handles that were there and still are name what they named, and are what they were in memory.\<close>

definition handles_kept :: "nat \<Rightarrow> client \<Rightarrow> registry \<Rightarrow> client \<Rightarrow> registry \<Rightarrow> bool" where
  "handles_kept off c g c' g' \<longleftrightarrow> cl_next c \<le> cl_next c' \<and> (\<forall>v i. v < cl_next c \<longrightarrow> cl_heap c' v = Some i \<longrightarrow>
     cl_heap c v = Some i \<and> handle_in off c' g' v = handle_in off c g v)"

lemma handles_kept_trans:
  "handles_kept off c g c1 g1 \<Longrightarrow> handles_kept off c1 g1 c2 g2 \<Longrightarrow> handles_kept off c g c2 g2"
  unfolding handles_kept_def by (metis le_less_trans less_le_trans order_trans not_less)

lemma register_step:
  assumes same: "same_objects table c g" and fresh: "this \<noteq> 0" "rg_mem g this = None"
    and c: "register_object oid c = (t, c')" and g: "register_at off table this oid g = (u, g')"
  shows "same_objects table c' g'" and "handle_in off c' g' t = u" and "t < cl_next c'" and "handles_kept off c g c' g'"
proof -
  from same have ok: "client_ok c" "registry_ok table g" "same_slots c g" by (simp_all add: same_objects_def)
  note heap = register_object_heap [OF c] and regs = register_at_registers [OF ok fresh c g]
  show "same_objects table c' g'" using regs(1,2) register_object_ok [OF ok(1) c] by (simp add: same_objects_def)
  show "handle_in off c' g' t = u" by (rule regs(3))
  show "t < cl_next c'" using heap(1,2) by simp
  have "cl_heap c v = Some i \<and> i \<noteq> oid" if v: "v < cl_next c" "cl_heap c' v = Some i" for v i
  proof -
    from v heap(3) [of v] have old: "cl_heap c v = Some i"
      "v \<noteq> (if unat oid < length (cl_mObjects c) then cl_mObjects c ! unat oid else 0)" by (auto split: if_splits)
    with client_ok_heap [OF ok(1), of v i] show ?thesis by auto
  qed
  with heap(2) regs(4) show "handles_kept off c g c' g'" unfolding handles_kept_def by auto
qed

lemma memory_step_client:
  assumes same: "same_objects table c g" and m: "memory_step off table (fresh, oid, this) g = Some (u, g')"
  obtains t c' where "run ops (if fresh then registerID oid else getOrInsertObject oid) c st = (Ok t, c', st)"
    "same_objects table c' g'" "handle_in off c' g' t = u" "t < cl_next c'" "handles_kept off c g c' g'"
proof (cases "fresh \<or> \<not> unat oid < length (rg_mObjects g)")
  case True
  obtain t c' where c: "register_object oid c = (t, c')" by (cases "register_object oid c")
  from same have len: "length (cl_mObjects c) = length (rg_mObjects g)"
    by (auto simp: same_objects_def same_slots_def dest: list_all2_lengthD)
  from m True have "this \<noteq> 0" "rg_mem g this = None" "register_at off table this oid g = (u, g')"
    by (auto simp: memory_step_def getOrInsert_at_def split: if_splits)
  from register_step [OF same this(1,2) c this(3)] that True len c show ?thesis
    by (auto simp: getOrInsertObject_def registerID_def prog_simps)
next
  case False
  from same have len: "length (cl_mObjects c) = length (rg_mObjects g)" and ok: "client_ok c" and slots: "same_slots c g"
    by (auto simp: same_objects_def same_slots_def dest: list_all2_lengthD)
  from m False have g': "g' = g" "u = OpenCLType off (rg_mObjects g ! unat oid)" "rg_mObjects g ! unat oid \<noteq> 0"
    by (auto simp: memory_step_def getOrInsert_at_def split: if_splits)
  let ?t = "cl_mObjects c ! unat oid"
  have t: "?t \<noteq> 0" using slots False len g'(3) by (auto simp: same_slots_def list_all2_conv_all_nth)
  then have "cl_heap c ?t = Some oid" using False len by (simp add: client_ok_heap [OF ok])
  then have "handle_in off c g ?t = u" using g'(2) by (simp add: handle_in_def)
  moreover have "?t < cl_next c" using ok False len by (simp add: client_ok_def)
  moreover have "run ops (if fresh then registerID oid else getOrInsertObject oid) c st = (Ok ?t, c, st)"
    using False len t by (simp add: getOrInsertObject_def prog_simps)
  ultimately show ?thesis using that same g'(1) by (simp add: handles_kept_def)
qed

lemma memory_steps_client:
  assumes "same_objects table c g" and "memory_steps off table steps g = Some (us, g')"
  shows "\<exists>ts c'. run ops (client_steps steps) c st = (Ok ts, c', st) \<and> same_objects table c' g' \<and> handles_kept off c g c' g'
    \<and> list_all2 (\<lambda>t u. t < cl_next c' \<and> (\<forall>i. cl_heap c' t = Some i \<longrightarrow> handle_in off c' g' t = u)) ts us"
  using assms
proof (induction steps arbitrary: c g us)
  case Nil
  then show ?case by (simp add: handles_kept_def)
next
  case (Cons step steps)
  obtain fresh oid this where step: "step = (fresh, oid, this)" by (rule prod_cases3)
  from Cons.prems(2) obtain u g1 us' where m: "memory_step off table (fresh, oid, this) g = Some (u, g1)"
    "memory_steps off table steps g1 = Some (us', g')" "us = u # us'"
    by (auto simp: step split: option.splits)
  obtain t c1 where s: "run ops (if fresh then registerID oid else getOrInsertObject oid) c st = (Ok t, c1, st)"
    "same_objects table c1 g1" "handle_in off c1 g1 t = u" "t < cl_next c1" "handles_kept off c g c1 g1"
    by (rule memory_step_client [OF Cons.prems(1) m(1)])
  from Cons.IH [OF s(2) m(2)] obtain ts c' where r: "run ops (client_steps steps) c1 st = (Ok ts, c', st)"
    "same_objects table c' g'" "handles_kept off c1 g1 c' g'"
    "list_all2 (\<lambda>t u. t < cl_next c' \<and> (\<forall>i. cl_heap c' t = Some i \<longrightarrow> handle_in off c' g' t = u)) ts us'" by blast
  have "t < cl_next c' \<and> (\<forall>i. cl_heap c' t = Some i \<longrightarrow> handle_in off c' g' t = u)"
    using r(3) s(3,4) unfolding handles_kept_def by auto
  moreover have "run ops (client_steps (step # steps)) c st = (Ok (t # ts), c', st)"
    using s(1) r(1) by (simp add: step prog_simps)
  ultimately show ?case using r handles_kept_trans [OF s(5) r(3)] m(3) by auto
qed

end
