(* ===== verification/RCL_TwoMachines.thy ===== *)
theory RCL_TwoMachines
  imports RCL_RemoteStart
begin

text \<open>
  From the dialog of two programs to two processes on two sockets.

  The dialog hands over what one end has sent whenever the other end waits. Here that is taken apart:
  there are two byte strings, the traffic in each direction, such that each end, run on its own with
  the traffic of the other one as its input, sends its own (\<open>dialog_traffic\<close>). What an end does with
  its input it does over a socket stream, however the traffic is cut (\<open>stream_refinement\<close>), so that
  everything proved about remote calls holds of two processes that share nothing but a connection.
\<close>

section \<open>Running ahead of time\<close>

text \<open>A stream with \<open>later\<close> behind what is there already, and one on which \<open>x\<close> has been sent before.\<close>

definition with_later :: "byte list \<Rightarrow> bool \<Rightarrow> stream \<Rightarrow> stream" where
  "with_later later cl st = st\<lparr>s_in := s_in st @ later, s_closed := cl\<rparr>"

definition sent_before :: "byte list \<Rightarrow> stream \<Rightarrow> stream" where
  "sent_before x st = st\<lparr>s_sent := x @ s_sent st\<rparr>"

lemma sent_before_ops:
  "st_read n (sent_before x st) = map_prod id (sent_before x) (st_read n st)"
  "st_peek (sent_before x st) = map_prod id (sent_before x) (st_peek st)"
  "st_write bs (sent_before x st) = map_prod id (sent_before x) (st_write bs st)"
  "st_flush (sent_before x st) = map_prod id (sent_before x) (st_flush st)"
  by (cases st; auto simp: sent_before_def st_read_def st_peek_def st_write_def st_flush_def Let_def split: list.split)+

lemma exec_sent_before:
  "exec p s (sent_before x st) = map_prod id (map_prod id (sent_before x)) (exec p s st)"
  by (induction p arbitrary: s st)
    (auto simp: st_ops_def sent_before_ops split: prod.split res.split)

text \<open>What has been done with the data there was is what would be done with more of it.\<close>

lemma with_later_ops:
  "n \<le> length (s_in st) \<Longrightarrow>
   st_read n (with_later later cl st) = (Ok (take n (s_in st)), with_later later cl (st\<lparr>s_in := drop n (s_in st)\<rparr>))"
  "s_in st = b # bs \<Longrightarrow> st_peek (with_later later cl st) = (Ok b, with_later later cl st)"
  "st_write bs (with_later later cl st) = (Ok (), with_later later cl (st\<lparr>s_pending := s_pending st @ bs\<rparr>))"
  "st_flush (with_later later cl st)
     = (Ok (), with_later later cl (st\<lparr>s_sent := s_sent st @ s_pending st, s_pending := []\<rparr>))"
  by (cases st; simp add: with_later_def st_read_def st_peek_def st_write_def st_flush_def)+

lemma advance_with_later:
  "advance p s st = (p', s', st') \<Longrightarrow> exec p s (with_later later cl st) = exec p' s' (with_later later cl st')"
proof (induction p arbitrary: s st)
  case (PRead n k)
  show ?case
  proof (cases "n \<le> length (s_in st)")
    case True
    with PRead.prems have "advance (k (Inr (take n (s_in st)))) s (st\<lparr>s_in := drop n (s_in st)\<rparr>) = (p', s', st')"
      by simp
    from PRead.IH [OF rangeI this] True show ?thesis by (simp add: st_ops_def with_later_ops)
  qed (use PRead.prems in auto)
next
  case (PPeek k)
  show ?case
  proof (cases "s_in st")
    case (Cons b bs)
    with PPeek.prems have "advance (k b) s st = (p', s', st')" by simp
    from PPeek.IH [OF rangeI this] Cons show ?thesis by (simp add: st_ops_def with_later_ops)
  qed (use PPeek.prems in auto)
next
  case (PWrite bs k)
  then have "advance (k None) s (st\<lparr>s_pending := s_pending st @ bs\<rparr>) = (p', s', st')" by simp
  from PWrite.IH [OF rangeI this] show ?case by (simp add: st_ops_def with_later_ops)
next
  case (PFlush k)
  then have "advance (k None) s (st\<lparr>s_sent := s_sent st @ s_pending st, s_pending := []\<rparr>) = (p', s', st')" by simp
  from PFlush.IH [OF rangeI this] show ?case by (simp add: st_ops_def with_later_ops)
qed auto

lemma advance_sent_with_later:
  "advance p s st = (p', s', st') \<Longrightarrow>
   exec p s (sent_before x (with_later later cl st)) = exec p' s' (sent_before x (with_later later cl st'))"
  by (simp add: exec_sent_before advance_with_later)

section \<open>The server from the middle of a turn\<close>

definition run_from ::
  "'w host \<Rightarrow> ('w server, bool) prog \<Rightarrow> 'w server \<Rightarrow> stream \<Rightarrow> (unit res \<times> 'w server \<times> stream) option" where
  "run_from h q sv st =
     (case exec q sv st of
        (Ok shouldContinue, sv', st') \<Rightarrow>
          (if shouldContinue then serverRun st_ops h sv' st' else Some (Ok (), sv', st'))
      | (Throw e, sv', st') \<Rightarrow> Some (Throw e, sv', st')
      | (Fail x, sv', st') \<Rightarrow> Some (Fail x, sv', st'))"

lemma run_from_serverStep: "run_from h (serverStep h) sv st = serverRun st_ops h sv st"
  by (simp add: run_from_def serverRun.simps)

lemma run_from_start: "run_from h (server_start h) (server_init w) st = serverConnection st_ops h w st"
  by (simp add: run_from_def serverConnection_def server_start_def run_pbind split: prod.split res.split)

lemma serverTurn_with_later:
  fixes h :: "'w host"
  assumes "serverTurn h q sv sst = Some (q', sv', sst')"
  shows "run_from h q sv (sent_before y (with_later later cl sst))
    = run_from h q' sv' (sent_before y (with_later later cl sst'))"
proof -
  let ?P = "\<lambda>h q sv sst x. \<forall>q' sv' sst'. x = (q', sv', sst') \<longrightarrow>
    run_from h q sv (sent_before y (with_later later cl sst))
      = run_from h q' sv' (sent_before y (with_later later cl sst'))"
  have "?P h q sv sst (q', sv', sst')"
  proof (rule serverTurn.raw_induct [where P = ?P, OF _ assms])
    fix turn :: "'w host \<Rightarrow> ('w server, bool) prog \<Rightarrow> 'w server \<Rightarrow> stream
      \<Rightarrow> (('w server, bool) prog \<times> 'w server \<times> stream) option"
    fix h :: "'w host" and q sv sst x
    assume IH: "\<And>h q sv sst x. turn h q sv sst = Some x \<Longrightarrow> ?P h q sv sst x"
      and body: "(case advance q sv sst of (q', sv', sst') \<Rightarrow>
          if outcome q' = Some (Ok True) then turn h (serverStep h) sv' sst' else Some (q', sv', sst')) = Some x"
    obtain q1 sv1 sst1 where adv: "advance q sv sst = (q1, sv1, sst1)" by (cases "advance q sv sst") auto
    note ahead = advance_sent_with_later [OF adv, of y later cl]
    show "?P h q sv sst x"
    proof (cases "outcome q1 = Some (Ok True)")
      case True
      then have "q1 = PRet True" by (cases q1) auto
      with ahead have "run_from h q sv (sent_before y (with_later later cl sst))
          = serverRun st_ops h sv1 (sent_before y (with_later later cl sst1))"
        by (simp add: run_from_def)
      with IH [of h "serverStep h" sv1 sst1 x] body adv True show ?thesis
        by (auto simp: run_from_serverStep)
    next
      case False
      with body adv ahead show ?thesis by (auto simp: run_from_def)
    qed
  qed
  then show ?thesis by blast
qed

section \<open>The traffic of a dialog\<close>

text \<open>
  \<open>B\<close> is what the client sends, \<open>R\<close> what the server sends. Both ends end as they do in the dialog, and
  can go on from there with whatever comes next.
\<close>

definition traffic ::
  "'w host \<Rightarrow> (client, 'a) prog \<Rightarrow> client \<Rightarrow> stream \<Rightarrow> ('w server, bool) prog \<Rightarrow> 'w server \<Rightarrow> stream
   \<Rightarrow> 'a res \<Rightarrow> client \<Rightarrow> stream \<Rightarrow> ('w server, bool) prog \<Rightarrow> 'w server \<Rightarrow> stream
   \<Rightarrow> byte list \<Rightarrow> byte list \<Rightarrow> bool" where
  "traffic h p c cst q sv sst r c' cst' q' sv' sst' B R \<longleftrightarrow>
     (\<forall>later cl. exec p c (with_later (R @ later) cl cst) = (r, c', sent_before B (with_later later cl cst')))
     \<and> (\<forall>later cl x. run_from h q sv (sent_before x (with_later (B @ later) cl sst))
          = run_from h q' sv' (sent_before (x @ R) (with_later later cl sst')))"

lemma with_later_simps:
  "with_later (a @ b) cl st = with_later b cl (st\<lparr>s_in := s_in st @ a\<rparr>)"
  "sent_before (a @ b) st = sent_before a (sent_before b st)" "sent_before [] st = st"
  "with_later later cl (sent_before x st) = sent_before x (with_later later cl st)"
  by (simp_all add: with_later_def sent_before_def)

lemma sent_before_emptied: "sent_before (s_sent st) (with_later later cl (st\<lparr>s_sent := []\<rparr>)) = with_later later cl st"
  by (simp add: with_later_def sent_before_def)

lemma traffic_local:
  assumes "advance p c cst = (finished r, c', cst')"
  shows "traffic h p c cst q sv sst r c' cst' q sv sst [] []"
  using advance_with_later [OF assms] by (cases r) (simp_all add: traffic_def with_later_simps)

text \<open>One exchange, before the traffic of what is left.\<close>

lemma traffic_exchange:
  assumes adv: "advance p c cst = (p1, c1, cst1)"
    and turn: "serverTurn h q sv (sst\<lparr>s_in := s_in sst @ s_sent cst1\<rparr>) = Some (q1, sv1, sst1)"
    and rest: "traffic h p1 c1 (cst1\<lparr>s_in := s_in cst1 @ s_sent sst1, s_sent := []\<rparr>) q1 sv1 (sst1\<lparr>s_sent := []\<rparr>)
      r c' cst' q' sv' sst' B R"
  shows "traffic h p c cst q sv sst r c' cst' q' sv' sst' (s_sent cst1 @ B) (s_sent sst1 @ R)"
  unfolding traffic_def
proof (intro conjI allI impI)
  fix later cl
  let ?cst2 = "cst1\<lparr>s_in := s_in cst1 @ s_sent sst1, s_sent := []\<rparr>"
  have "with_later ((s_sent sst1 @ R) @ later) cl cst1 = sent_before (s_sent cst1) (with_later (R @ later) cl ?cst2)"
    by (simp add: with_later_def sent_before_def)
  moreover have "exec p1 c1 (with_later (R @ later) cl ?cst2) = (r, c', sent_before B (with_later later cl cst'))"
    using rest by (simp add: traffic_def)
  ultimately show "exec p c (with_later ((s_sent sst1 @ R) @ later) cl cst)
      = (r, c', sent_before (s_sent cst1 @ B) (with_later later cl cst'))"
    using advance_with_later [OF adv, of "(s_sent sst1 @ R) @ later" cl]
    by (simp add: exec_sent_before with_later_simps)
next
  fix later cl x
  let ?sst2 = "sst1\<lparr>s_sent := []\<rparr>"
  have "sent_before x (with_later ((s_sent cst1 @ B) @ later) cl sst)
      = sent_before x (with_later (B @ later) cl (sst\<lparr>s_in := s_in sst @ s_sent cst1\<rparr>))"
    by (simp add: with_later_def)
  moreover have "sent_before x (with_later (B @ later) cl sst1)
      = sent_before (x @ s_sent sst1) (with_later (B @ later) cl ?sst2)"
    by (simp add: with_later_def sent_before_def)
  ultimately show "run_from h q sv (sent_before x (with_later ((s_sent cst1 @ B) @ later) cl sst))
      = run_from h q' sv' (sent_before (x @ s_sent sst1 @ R) (with_later later cl sst'))"
    using serverTurn_with_later [OF turn, of x "B @ later" cl] rest by (simp add: traffic_def)
qed

lemma dialog_traffic:
  fixes h :: "'w host"
  assumes "dialog h p c cst q sv sst = Some (r, c', cst', q', sv', sst')"
    and "\<not> s_closed cst'" and "r \<noteq> Fail Blocked"
  shows "\<exists>B R. traffic h p c cst q sv sst r c' cst' q' sv' sst' B R"
proof -
  let ?P = "\<lambda>h p c cst q sv sst x. \<forall>r c' cst' q' sv' sst'. x = (r, c', cst', q', sv', sst') \<longrightarrow>
    \<not> s_closed cst' \<longrightarrow> r \<noteq> Fail Blocked \<longrightarrow> (\<exists>B R. traffic h p c cst q sv sst r c' cst' q' sv' sst' B R)"
  have "?P h p c cst q sv sst (r, c', cst', q', sv', sst')"
  proof (rule dialog.raw_induct [where P = ?P, OF _ assms(1)], intro allI impI)
    fix dia :: "'w host \<Rightarrow> (client, 'a) prog \<Rightarrow> client \<Rightarrow> stream \<Rightarrow> ('w server, bool) prog \<Rightarrow> 'w server \<Rightarrow> stream
      \<Rightarrow> ('a res \<times> client \<times> stream \<times> ('w server, bool) prog \<times> 'w server \<times> stream) option"
    fix h :: "'w host" and p c cst q sv sst x r c' cst' q' sv' sst'
    assume IH: "\<And>h p c cst q sv sst x. dia h p c cst q sv sst = Some x \<Longrightarrow> ?P h p c cst q sv sst x"
      and x: "x = (r, c', cst', q', sv', sst')" and opened: "\<not> s_closed cst'" and nb: "r \<noteq> Fail Blocked"
      and body: "(case advance p c cst of (p', c', cst') \<Rightarrow>
        (case outcome p' of
           None \<Rightarrow>
             (case serverTurn h q sv (sst\<lparr>s_in := s_in sst @ s_sent cst'\<rparr>) of
                None \<Rightarrow> None
              | Some (q', sv', sst') \<Rightarrow>
                  if s_sent sst' \<noteq> [] then
                    dia h p' c' (cst'\<lparr>s_in := s_in cst' @ s_sent sst', s_sent := []\<rparr>)
                      q' sv' (sst'\<lparr>s_sent := []\<rparr>)
                  else if outcome q' = None then Some (Fail Blocked, c', cst', q', sv', sst')
                  else
                    (case exec p' c' (cst'\<lparr>s_closed := True\<rparr>) of
                       (r, c'', cst'') \<Rightarrow> Some (r, c'', cst'', q', sv', sst')))
         | Some r \<Rightarrow> Some (r, c', cst', q, sv, sst))) = Some x"
    obtain p1 c1 cst1 where adv: "advance p c cst = (p1, c1, cst1)" by (cases "advance p c cst") auto
    show "\<exists>B R. traffic h p c cst q sv sst r c' cst' q' sv' sst' B R"
    proof (cases "outcome p1")
      case (Some r1)
      with body adv x have "r1 = r" "c1 = c'" "cst1 = cst'" "q' = q" "sv' = sv" "sst' = sst" by auto
      moreover have "p1 = finished r1" using Some by (cases p1) auto
      ultimately show ?thesis using traffic_local [of p c cst r c' cst'] adv by blast
    next
      case None
      with body adv obtain q1 sv1 sst1
        where turn: "serverTurn h q sv (sst\<lparr>s_in := s_in sst @ s_sent cst1\<rparr>) = Some (q1, sv1, sst1)"
        by (auto split: option.splits)
      have "s_sent sst1 \<noteq> []"
        using body adv None turn x opened nb exec_keeps_closed [of p1 c1 "cst1\<lparr>s_closed := True\<rparr>"]
        by (auto split: if_splits prod.splits)
      with body adv None turn x
      have "dia h p1 c1 (cst1\<lparr>s_in := s_in cst1 @ s_sent sst1, s_sent := []\<rparr>) q1 sv1 (sst1\<lparr>s_sent := []\<rparr>)
          = Some (r, c', cst', q', sv', sst')" by simp
      from IH [rule_format, OF this refl opened nb] traffic_exchange [OF adv turn] show ?thesis by blast
    qed
  qed
  with assms(2,3) show ?thesis by blast
qed

section \<open>Two sockets\<close>

text \<open>The life of a client: what it does, then the destructor of its connection.\<close>

definition client_life :: "(client, 'a) prog \<Rightarrow> (client, 'a) prog" where
  "client_life p = pbind p (\<lambda>a. pbind Connection_dtor (\<lambda>_. PRet a))"

definition goodbye :: "client \<Rightarrow> byte list" where
  "goodbye c = (if cl_mStream c then enc_packet PT_Terminate (put_Signal ()) else [])"

lemma exec_Connection_dtor:
  "s_pending st = [] \<Longrightarrow> exec Connection_dtor c st
     = (Ok (), c\<lparr>cl_mObjects := [], cl_heap := Map.empty\<rparr>, st\<lparr>s_sent := s_sent st @ goodbye c\<rparr>)"
  by (cases st) (simp add: Connection_dtor_def prog_simps goodbye_def)

text \<open>The end of the input, or the last packet of a client, ends the loop.\<close>

lemma serverRun_goodbye:
  assumes "s_in st = goodbye c" and "s_closed st" and "s_pending st = []"
  shows "\<exists>st'. serverRun st_ops h sv st = Some (Ok (), sv\<lparr>mEventStream := None\<rparr>, st')
    \<and> s_sent st' = s_sent st \<and> s_pending st' = []"
proof -
  have "exec nextPacketTy sv st = (Ok (pt_code PT_Terminate), sv, st)"
    using assms exec_nextPacketTy_eof [of st sv] exec_nextPacketTy_packet [of st PT_Terminate "put_Signal ()" "[]" sv]
    by (cases "cl_mStream c") (simp_all add: goodbye_def)
  then have "exec (serverStep h) sv st = (Ok False, sv\<lparr>mEventStream := None\<rparr>, st)"
    using assms(3) pt_of_code [of PT_Terminate]
    by (cases st) (simp add: serverStep_def handleNextPacket_def terminateConnection_def prog_simps del: pt_of_code)
  with assms(3) show ?thesis by (simp add: serverRun.simps [of st_ops h sv st])
qed

text \<open>The two ends on the abstract stream, each alone with the traffic of the other.\<close>

definition closed_in :: "byte list \<Rightarrow> byte list \<Rightarrow> stream" where
  "closed_in i x = \<lparr>s_in = i, s_closed = True, s_pending = [], s_sent = x\<rparr>"

lemma closed_in_simps [simp]:
  "s_in (closed_in i x) = i" "s_closed (closed_in i x)" "s_pending (closed_in i x) = []" "s_sent (closed_in i x) = x"
  "closed_in i x\<lparr>s_sent := y\<rparr> = closed_in i y" "sent_before y (closed_in i x) = closed_in i (y @ x)"
  "with_later i True idle = closed_in i []"
  by (simp_all add: closed_in_def sent_before_def with_later_def idle_def)

lemma traffic_of_life:
  assumes "dialog h p c idle (server_start h) (server_init w) idle = Some (Ok a, c', idle, serverStep h, sv', idle)"
  shows "\<exists>B R. (\<forall>x. exec (client_life p) c (closed_in R x)
        = (Ok a, c'\<lparr>cl_mObjects := [], cl_heap := Map.empty\<rparr>, closed_in [] (x @ B)))
    \<and> (\<forall>x. \<exists>st'. serverConnection st_ops h w (closed_in B x) = Some (Ok (), sv'\<lparr>mEventStream := None\<rparr>, st')
        \<and> s_sent st' = x @ R \<and> s_pending st' = [])"
proof -
  from dialog_traffic [OF assms] obtain B R
    where traffic: "traffic h p c idle (server_start h) (server_init w) idle (Ok a) c' idle (serverStep h) sv' idle B R"
    by auto
  then have "exec p c (with_later (R @ []) True idle) = (Ok a, c', sent_before B (with_later [] True idle))"
    unfolding traffic_def by blast
  then have "exec p c (closed_in R x) = (Ok a, c', closed_in [] (x @ B))" for x
    using exec_sent_before [of p c x "closed_in R []"] by simp
  then have client: "exec (client_life p) c (closed_in R x)
      = (Ok a, c'\<lparr>cl_mObjects := [], cl_heap := Map.empty\<rparr>, closed_in [] (x @ B @ goodbye c'))" for x
    by (simp add: client_life_def prog_simps exec_Connection_dtor)
  have "\<exists>st'. serverConnection st_ops h w (closed_in (B @ goodbye c') x) = Some (Ok (), sv'\<lparr>mEventStream := None\<rparr>, st')
      \<and> s_sent st' = x @ R \<and> s_pending st' = []" for x
  proof -
    have "run_from h (server_start h) (server_init w) (sent_before x (with_later (B @ goodbye c') True idle))
        = run_from h (serverStep h) sv' (sent_before (x @ R) (with_later (goodbye c') True idle))"
      using traffic unfolding traffic_def by blast
    with serverRun_goodbye [of "closed_in (goodbye c') (x @ R)" c' h sv'] show ?thesis
      by (simp add: run_from_serverStep run_from_start)
  qed
  with client show ?thesis by blast
qed

lemma life_over_sockets:
  assumes "os_ok os rem out" and "os_ok os' rem' out'"
    and "dialog h p c idle (server_start h) (server_init w) idle = Some (Ok a, c', idle, serverStep h, sv', idle)"
  shows "\<exists>B R. (\<forall>n. rem n = R \<longrightarrow> (\<exists>cs. run (ss_ops os) (client_life p) c (ss_start n)
        = (Ok a, c'\<lparr>cl_mObjects := [], cl_heap := Map.empty\<rparr>, cs) \<and> out (mSocket cs) = out n @ B))
    \<and> (\<forall>n. rem' n = B \<longrightarrow> (\<exists>ss. serverConnection (ss_ops os') h w (ss_start n)
        = Some (Ok (), sv'\<lparr>mEventStream := None\<rparr>, ss) \<and> out' (mSocket ss) = out' n @ R))"
proof -
  from traffic_of_life [OF assms(3)] obtain B R
    where client: "\<And>x. exec (client_life p) c (closed_in R x)
        = (Ok a, c'\<lparr>cl_mObjects := [], cl_heap := Map.empty\<rparr>, closed_in [] (x @ B))"
      and server: "\<And>x. \<exists>st'. serverConnection st_ops h w (closed_in B x) = Some (Ok (), sv'\<lparr>mEventStream := None\<rparr>, st')
        \<and> s_sent st' = x @ R \<and> s_pending st' = []" by blast
  note start = ss_start_abs [folded closed_in_def]
  have "\<exists>cs. run (ss_ops os) (client_life p) c (ss_start n)
        = (Ok a, c'\<lparr>cl_mObjects := [], cl_heap := Map.empty\<rparr>, cs) \<and> out (mSocket cs) = out n @ B" if "rem n = R" for n
    using stream_refinement.run_refines [OF ss_stream_refinement [OF assms(1)] start [of rem out n],
        of "client_life p" c] client that
    by (fastforce dest: ss_abs_delivered)
  moreover have "\<exists>ss. serverConnection (ss_ops os') h w (ss_start n)
        = Some (Ok (), sv'\<lparr>mEventStream := None\<rparr>, ss) \<and> out' (mSocket ss) = out' n @ R" if n: "rem' n = B" for n
  proof -
    from server [of "out' n"] n obtain st'
      where st': "serverConnection st_ops h w (closed_in (rem' n) (out' n)) = Some (Ok (), sv'\<lparr>mEventStream := None\<rparr>, st')"
        "s_sent st' = out' n @ R" "s_pending st' = []" by blast
    from stream_refinement.serverConnection_refines [OF ss_stream_refinement [OF assms(2)] st'(1) start] st'(2,3)
    show ?thesis by (auto dest: ss_abs_delivered)
  qed
  ultimately show ?thesis by blast
qed

end
