(* ===== verification/RCL_RemoteLists.thy ===== *)
theory RCL_RemoteLists
  imports RCL_TwoMachines
begin

text \<open>
  The functions that list objects, \<open>clGetPlatformIDs\<close> and \<open>clGetDeviceIDs\<close>, as remote calls: where every
  handle of an application comes from in the first place.

  The client finds the object of an ID with \<open>getOrInsertObject\<close>, which relies on its vector having no
  gaps: what it needs is that the client \<open>mirrors\<close> the server's table.
\<close>

lemma denotes_world_fun: "denotes c (sv\<lparr>sv_world := w\<rparr>) = denotes c sv"
  by (simp add: fun_eq_iff)

section \<open>One ID\<close>

text \<open>A new one: the client appends it too.\<close>

lemma exec_getOrInsert_new:
  assumes m: "mirrors n c sv" and "length (mObjects sv) < 65536" and "p \<notin> set (mObjects sv)"
  shows "\<exists>t c'. exec (getOrInsertObject (word_of_nat (length (mObjects sv)))) c st = (Ok t, c', st)
    \<and> (\<forall>m. mirrors m c sv \<longrightarrow> mirrors m c' (sv\<lparr>mObjects := mObjects sv @ [p]\<rparr>)) \<and> denotes c' (sv\<lparr>mObjects := mObjects sv @ [p]\<rparr>) t p
    \<and> (\<forall>u x. denotes c sv u x \<longrightarrow> denotes c' (sv\<lparr>mObjects := mObjects sv @ [p]\<rparr>) u x)"
proof -
  let ?i = "word_of_nat (length (mObjects sv)) :: IDType"
  obtain t c' where r: "register_object ?i c = (t, c')" by (cases "register_object ?i c")
  have i: "unat ?i = length (mObjects sv)" using assms(2) by (simp add: unat_of_nat)
  have sync: "in_sync c sv" and len: "length (cl_mObjects c) = length (mObjects sv)"
    using m by (auto simp: mirrors_def)
  from new_handle_registered [OF sync assms(2,3) r, of "sv_world sv"]
  have new: "new_handle c sv c' (sv\<lparr>mObjects := mObjects sv @ [p]\<rparr>) t p" by simp
  moreover have "exec (getOrInsertObject ?i) c st = (Ok t, c', st)"
    using r i len by (simp add: getOrInsertObject_def prog_simps)
  ultimately show ?thesis using m by (auto simp: new_handle_def)
qed

lemma exec_getOrInsert:
  assumes m: "mirrors n c sv" and a: "getIDFor (mObjects sv) p = Some (i, objs)"
  shows "\<exists>t c'. exec (getOrInsertObject i) c st = (Ok t, c', st)
    \<and> (\<forall>m. mirrors m c sv \<longrightarrow> mirrors m c' (sv\<lparr>mObjects := objs\<rparr>)) \<and> denotes c' (sv\<lparr>mObjects := objs\<rparr>) t p
    \<and> (\<forall>u x. denotes c sv u x \<longrightarrow> denotes c' (sv\<lparr>mObjects := objs\<rparr>) u x)"
proof -
  have ok: "objs_ok (mObjects sv)" using m by (simp add: mirrors_def in_sync_def)
  then have "length (mObjects sv) \<le> 65536" by (simp add: objs_ok_def)
  from getIDFor_cases [OF a this] show ?thesis
  proof (elim disjE conjE)
    assume "objs = mObjects sv" "unat i < length (mObjects sv)" "mObjects sv ! unat i = p"
    with exec_getOrInsert_known [OF m, of i st] m show ?thesis by auto
  next
    assume new: "p \<notin> set (mObjects sv)" "length (mObjects sv) < 65536" "objs = mObjects sv @ [p]"
      and "unat i = length (mObjects sv)"
    then have "i = word_of_nat (length (mObjects sv))" by (simp add: word_unat_eq_iff unat_of_nat)
    with exec_getOrInsert_new [OF m new(2,1), of st] new(3) show ?thesis by simp
  qed
qed

section \<open>A list of IDs\<close>

text \<open>The handles of all objects are made; the first \<open>room\<close> of them are stored.\<close>

lemma exec_store_handles:
  "mirrors n c sv \<Longrightarrow> assign_all getIDFor (mObjects sv) ps = Some (is, objs) \<Longrightarrow> present \<or> room = 0 \<Longrightarrow>
   \<exists>ts c'. exec (store_handles room present is) c st = (Ok (take room ts), c', st)
     \<and> (\<forall>m. mirrors m c sv \<longrightarrow> mirrors m c' (sv\<lparr>mObjects := objs\<rparr>)) \<and> list_all2 (denotes c' (sv\<lparr>mObjects := objs\<rparr>)) ts ps
     \<and> (\<forall>u x. denotes c sv u x \<longrightarrow> denotes c' (sv\<lparr>mObjects := objs\<rparr>) u x)"
proof (induction ps arbitrary: c sv "is" room)
  case Nil
  then show ?case by (auto simp: prog_simps)
next
  case (Cons p ps)
  from Cons.prems(2) obtain i t1 is1 where a: "getIDFor (mObjects sv) p = Some (i, t1)"
    "assign_all getIDFor t1 ps = Some (is1, objs)" and "is": "is = i # is1"
    by (auto split: option.splits)
  from exec_getOrInsert [OF Cons.prems(1) a(1), of st] obtain t c1
    where one: "exec (getOrInsertObject i) c st = (Ok t, c1, st)" "\<And>m. mirrors m c sv \<Longrightarrow> mirrors m c1 (sv\<lparr>mObjects := t1\<rparr>)"
      "denotes c1 (sv\<lparr>mObjects := t1\<rparr>) t p"
      and keep: "\<And>u x. denotes c sv u x \<Longrightarrow> denotes c1 (sv\<lparr>mObjects := t1\<rparr>) u x" by blast
  from Cons.IH [OF one(2) [OF Cons.prems(1)], of is1 "room - 1"] a(2) Cons.prems(3) obtain ts c'
    where rest: "exec (store_handles (room - 1) present is1) c1 st = (Ok (take (room - 1) ts), c', st)"
      "\<And>m. mirrors m c1 (sv\<lparr>mObjects := t1\<rparr>) \<Longrightarrow> mirrors m c' (sv\<lparr>mObjects := objs\<rparr>)"
      "list_all2 (denotes c' (sv\<lparr>mObjects := objs\<rparr>)) ts ps"
      and keep': "\<And>u x. denotes c1 (sv\<lparr>mObjects := t1\<rparr>) u x \<Longrightarrow> denotes c' (sv\<lparr>mObjects := objs\<rparr>) u x"
    by auto
  have "exec (store_handles room present is) c st = (Ok (take room (t # ts)), c', st)"
    using one(1) rest(1) Cons.prems(3) by (cases room) (simp_all add: "is" prog_simps)
  with one(2) rest(2,3) keep' [OF one(3)] keep keep' show ?case
    by (intro exI [of _ "t # ts"] exI [of _ c']) simp
qed

section \<open>The server's answer\<close>

text \<open>What a listing of \<open>n\<close> objects takes on the server's side.\<close>

definition cl_lists ::
  "'w host \<Rightarrow> (nat \<Rightarrow> cl_call) \<Rightarrow> 'w \<Rightarrow> ptr list \<Rightarrow> 'w \<Rightarrow> bool" where
  "cl_lists h query w ps w' \<longleftrightarrow> (\<exists>r1 w1 r2. h_cl h (query 0) w = (r1, w1) \<and> r_err r1 = CL_SUCCESS
     \<and> r_size r1 = Some (length ps) \<and> h_cl h (query (length ps)) w1 = (r2, w') \<and> r_err r2 = CL_SUCCESS
     \<and> r_objs r2 = ps) \<and> length ps \<le> 255 \<and> h_new h 128 \<and> h_new h (length ps * 8)"

lemma out_objs_all: "r_objs r = ps \<Longrightarrow> out_objs (replicate (length ps) nullptr) r = ps"
  by (simp add: out_objs_def)

lemma ok_list: "length is \<le> 255 \<Longrightarrow> ok_IDList is"
  by (simp add: ok_IDList_def container_ok_def size_max_def)

lemma exec_sendPlatformList:
  assumes "s_in st = enc_packet PT_GetPlatformIDs (put_Signal ()) @ rest"
    and l: "cl_lists h clGetPlatformIDs (sv_world sv) ps w" and a: "assign_all getIDFor (mObjects sv) ps = Some (is, objs)"
  shows "exec (sendPlatformList h) sv st = (Ok (), sv\<lparr>mObjects := objs, sv_world := w\<rparr>,
      st\<lparr>s_in := rest, s_pending := s_pending st @ enc_reply (h_zlib h) (R_IDList is)\<rparr>)"
proof -
  have "ok_IDList is" using l length_assign_all [OF a] by (simp add: cl_lists_def ok_list)
  with l a assms(1) show ?thesis
    by (auto simp: cl_lists_def sendPlatformList_def Let_def prog_simps codec_simps out_objs_all exec_idsFor)
qed

lemma exec_sendDeviceList:
  assumes "s_in st = enc_packet PT_GetDeviceIDs (put_GetDeviceIDs q) @ rest"
    and l: "cl_lists h (clGetDeviceIDs (getObj (mObjects sv) (gdi_mPlatformID q)) (gdi_mDeviceType q)) (sv_world sv) ps w"
    and a: "assign_all getIDFor (mObjects sv) ps = Some (is, objs)"
  shows "exec (sendDeviceList h) sv st = (Ok (), sv\<lparr>mObjects := objs, sv_world := w\<rparr>,
      st\<lparr>s_in := rest, s_pending := s_pending st @ enc_reply (h_zlib h) (R_IDList is)\<rparr>)"
proof -
  have "ok_IDList is" using l length_assign_all [OF a] by (simp add: cl_lists_def ok_list)
  with l a assms(1) show ?thesis
    by (auto simp: cl_lists_def sendDeviceList_def Let_def prog_simps codec_simps out_objs_all exec_idsFor)
qed

lemma exec_sendDeviceList_fails:
  assumes "s_in st = enc_packet PT_GetDeviceIDs (put_GetDeviceIDs q) @ rest" and "h_new h 128"
    and "h_cl h (clGetDeviceIDs (getObj (mObjects sv) (gdi_mPlatformID q)) (gdi_mDeviceType q) 0) (sv_world sv) = (r, w)"
    and "r_err r \<noteq> CL_SUCCESS"
  shows "exec (sendDeviceList h) sv st = (Ok (), sv\<lparr>sv_world := w\<rparr>,
      st\<lparr>s_in := rest, s_pending := s_pending st @ enc_reply (h_zlib h) (R_Error (r_err r))\<rparr>)"
  using assms by (simp add: sendDeviceList_def Let_def prog_simps codec_simps)

section \<open>The remote calls\<close>

lemma exec_readIDList:
  assumes "s_in st = enc_reply z (R_IDList is) @ rest" and "ok_IDList is"
  shows "exec (readPacket PT_IDList (pdec get_IDList)) c st = (Ok is, c, st\<lparr>s_in := rest\<rparr>)"
  using exec_readPacket_Ok [of st PT_IDList "put_IDList is" rest get_IDList "is" c] assms
  by (simp add: enc_reply_def codec_simps)

text \<open>What both functions do with the list, and the outcome.\<close>

definition list_handles :: "nat \<Rightarrow> bool \<Rightarrow> (client, u32 \<times> nat \<times> handle list) prog" where
  "list_handles room present =
     pbind (readPacket PT_IDList (pdec get_IDList)) (\<lambda>list.
     pbind (store_handles room present list) (\<lambda>ts. PRet (CL_SUCCESS, length list, ts)))"

definition listed ::
  "client \<Rightarrow> 'w server \<Rightarrow> client \<Rightarrow> 'w server \<Rightarrow> handle list \<Rightarrow> ptr list \<Rightarrow> bool" where
  "listed c sv c' sv' ts ps \<longleftrightarrow> (\<forall>n. mirrors n c sv \<longrightarrow> mirrors n c' sv') \<and> list_all2 (denotes c' sv') ts ps
     \<and> (\<forall>u x. denotes c sv u x \<longrightarrow> denotes c' sv' u x)"

lemma remote_list:
  assumes adv: "advance p c idle = (pcatch (list_handles room present) err, c, idle\<lparr>s_sent := bs\<rparr>)"
    and srv: "exec (serverStep h) sv (idle\<lparr>s_in := bs\<rparr>)
      = (Ok True, sv\<lparr>mObjects := objs, sv_world := w\<rparr>, idle\<lparr>s_sent := enc_reply (h_zlib h) (R_IDList is)\<rparr>)"
    and m: "mirrors n c sv" and a: "assign_all getIDFor (mObjects sv) ps = Some (is, objs)"
    and "length ps \<le> 255" and "present \<or> room = 0"
  shows "\<exists>ts c'. remote h p c sv (Ok (CL_SUCCESS, length ps, take room ts)) c' (sv\<lparr>mObjects := objs, sv_world := w\<rparr>)
    \<and> listed c sv c' (sv\<lparr>mObjects := objs, sv_world := w\<rparr>) ts ps"
proof -
  from exec_store_handles [OF m a assms(6), of idle] obtain ts c'
    where ts: "exec (store_handles room present is) c idle = (Ok (take room ts), c', idle)"
      and l: "\<forall>m. mirrors m c sv \<longrightarrow> mirrors m c' (sv\<lparr>mObjects := objs\<rparr>)" "list_all2 (denotes c' (sv\<lparr>mObjects := objs\<rparr>)) ts ps"
        "\<forall>u x. denotes c sv u x \<longrightarrow> denotes c' (sv\<lparr>mObjects := objs\<rparr>) u x" by blast
  have len: "length is = length ps" by (rule length_assign_all [OF a])
  have "exec (readPacket PT_IDList (pdec get_IDList)) c (idle\<lparr>s_in := enc_reply (h_zlib h) (R_IDList is)\<rparr>)
      = (Ok is, c, idle)"
    using exec_readIDList [of "idle\<lparr>s_in := enc_reply (h_zlib h) (R_IDList is)\<rparr>" "h_zlib h" "is" "[]" c] len assms(5)
    by (simp add: ok_list)
  with ts len have rest: "exec (pcatch (list_handles room present) err) c (idle\<lparr>s_in := enc_reply (h_zlib h) (R_IDList is)\<rparr>)
      = (Ok (CL_SUCCESS, length ps, take room ts), c', idle)"
    by (simp add: list_handles_def prog_simps)
  have wait: "outcome (pcatch (list_handles room present) err) = None" by (simp add: list_handles_def)
  have "listed c sv c' (sv\<lparr>mObjects := objs, sv_world := w\<rparr>) ts ps"
    using l by (simp add: listed_def denotes_world_fun)
  with remote_exchange [OF adv wait srv _ rest] show ?thesis by (auto simp: enc_reply_not_Nil)
qed

lemma remote_clGetPlatformIDs:
  assumes m: "mirrors n c sv" and l: "cl_lists h clGetPlatformIDs (sv_world sv) ps w"
    and a: "assign_all getIDFor (mObjects sv) ps = Some (is, objs)" and "present = (0 < room)" and "present \<or> count"
  shows "\<exists>ts c'. remote h (api_clGetPlatformIDs room present count) c sv (Ok (CL_SUCCESS, length ps, take room ts))
      c' (sv\<lparr>mObjects := objs, sv_world := w\<rparr>)
    \<and> listed c sv c' (sv\<lparr>mObjects := objs, sv_world := w\<rparr>) ts ps"
proof (rule remote_list [OF _ _ m a])
  let ?bs = "enc_packet PT_GetPlatformIDs (put_Signal ())"
  have "cl_mStream c" using m by (simp add: mirrors_def in_sync_def)
  then show "advance (api_clGetPlatformIDs room present count) c idle
      = (pcatch (list_handles room present) (on_error (CL_OUT_OF_HOST_MEMORY, 0, []) (CL_SUCCESS, 0, []) (\<lambda>code. (code, 0, []))),
         c, idle\<lparr>s_sent := ?bs\<rparr>)"
    using assms(4,5) by (auto simp: api_clGetPlatformIDs_def list_handles_def advance_simps idle_def)
  show "exec (serverStep h) sv (idle\<lparr>s_in := ?bs\<rparr>)
      = (Ok True, sv\<lparr>mObjects := objs, sv_world := w\<rparr>, idle\<lparr>s_sent := enc_reply (h_zlib h) (R_IDList is)\<rparr>)"
    using exec_handleNextPacket [of "idle\<lparr>s_in := ?bs\<rparr>" PT_GetPlatformIDs "put_Signal ()" "[]" h sv]
      exec_sendPlatformList [of "idle\<lparr>s_in := ?bs\<rparr>" "[]", OF _ l a]
    by (simp add: serverStep_def prog_simps pthen_continue_def idle_def)
qed (use l assms(4) in \<open>auto simp: cl_lists_def\<close>)

text \<open>A null platform goes as the ID 0.\<close>

lemma remote_clGetDeviceIDs:
  assumes m: "mirrors n c sv" and den: "denotes c sv platform x"
    and l: "cl_lists h (clGetDeviceIDs x ty) (sv_world sv) ps w"
    and a: "assign_all getIDFor (mObjects sv) ps = Some (is, objs)" and "present = (0 < room)" and "present \<or> count"
  shows "\<exists>ts c'. remote h (api_clGetDeviceIDs platform ty room present count) c sv
      (Ok (CL_SUCCESS, length ps, take room ts)) c' (sv\<lparr>mObjects := objs, sv_world := w\<rparr>)
    \<and> listed c sv c' (sv\<lparr>mObjects := objs, sv_world := w\<rparr>) ts ps"
proof (rule remote_list [OF _ _ m a])
  let ?q = "\<lparr>gdi_mDeviceType = ty, gdi_mPlatformID = id_of c platform\<rparr>"
  let ?bs = "enc_packet PT_GetDeviceIDs (put_GetDeviceIDs ?q)"
  have sync: "in_sync c sv" using m by (simp add: mirrors_def)
  note ids = denotes_id [OF sync den]
  show "advance (api_clGetDeviceIDs platform ty room present count) c idle
      = (pcatch (list_handles room present) (on_error (CL_OUT_OF_HOST_MEMORY, 0, []) (CL_SUCCESS, 0, []) (\<lambda>code. (code, 0, []))),
         c, idle\<lparr>s_sent := ?bs\<rparr>)"
    using assms(5,6) ids in_sync_connected [OF sync]
    by (auto simp: api_clGetDeviceIDs_def list_handles_def advance_simps idle_def)
  show "exec (serverStep h) sv (idle\<lparr>s_in := ?bs\<rparr>)
      = (Ok True, sv\<lparr>mObjects := objs, sv_world := w\<rparr>, idle\<lparr>s_sent := enc_reply (h_zlib h) (R_IDList is)\<rparr>)"
    using exec_handleNextPacket [of "idle\<lparr>s_in := ?bs\<rparr>" PT_GetDeviceIDs "put_GetDeviceIDs ?q" "[]" h sv]
      exec_sendDeviceList [of "idle\<lparr>s_in := ?bs\<rparr>" ?q "[]" h sv ps w "is" objs] l a ids
    by (simp add: serverStep_def prog_simps pthen_continue_def idle_def)
qed (use l assms(5) in \<open>auto simp: cl_lists_def\<close>)

text \<open>When OpenCL has no device to list, the error comes back and nothing is stored.\<close>

lemma remote_clGetDeviceIDs_fails:
  assumes sync: "in_sync c sv" and den: "denotes c sv platform x"
    and cl: "h_cl h (clGetDeviceIDs x ty 0) (sv_world sv) = (r, w)" "r_err r \<noteq> CL_SUCCESS"
    and "h_new h 128" and "present = (0 < room)" and "present \<or> count"
  shows "remote h (api_clGetDeviceIDs platform ty room present count) c sv (Ok (r_err r, 0, [])) c (sv\<lparr>sv_world := w\<rparr>)"
proof (rule remote_exchange)
  let ?q = "\<lparr>gdi_mDeviceType = ty, gdi_mPlatformID = id_of c platform\<rparr>"
  let ?bs = "enc_packet PT_GetDeviceIDs (put_GetDeviceIDs ?q)" and ?r = "enc_reply (h_zlib h) (R_Error (r_err r))"
  let ?rest = "pcatch (list_handles room present) (on_error (CL_OUT_OF_HOST_MEMORY, 0, []) (CL_SUCCESS, 0, []) (\<lambda>code. (code, 0, [])))"
  note ids = denotes_id [OF sync den]
  show "advance (api_clGetDeviceIDs platform ty room present count) c idle = (?rest, c, idle\<lparr>s_sent := ?bs\<rparr>)"
    using assms(6,7) ids in_sync_connected [OF sync]
    by (auto simp: api_clGetDeviceIDs_def list_handles_def advance_simps idle_def)
  show "outcome ?rest = None" by (simp add: list_handles_def)
  have "exec (sendDeviceList h) sv (idle\<lparr>s_in := ?bs\<rparr>) = (Ok (), sv\<lparr>sv_world := w\<rparr>, idle\<lparr>s_pending := ?r\<rparr>)"
    using exec_sendDeviceList_fails [of "idle\<lparr>s_in := ?bs\<rparr>" ?q "[]" h sv r w] cl ids assms(5) by (simp add: idle_def)
  then show "exec (serverStep h) sv (idle\<lparr>s_in := ?bs\<rparr>) = (Ok True, sv\<lparr>sv_world := w\<rparr>, idle\<lparr>s_sent := ?r\<rparr>)"
    using exec_handleNextPacket [of "idle\<lparr>s_in := ?bs\<rparr>" PT_GetDeviceIDs "put_GetDeviceIDs ?q" "[]" h sv]
    by (simp add: serverStep_def prog_simps pthen_continue_def idle_def)
  show "exec ?rest c (idle\<lparr>s_in := ?r\<rparr>) = (Ok (r_err r, 0, []), c, idle)"
    using exec_readPacket_Error [of "idle\<lparr>s_in := ?r\<rparr>" "r_err r" "[]" PT_IDList "pdec get_IDList" c]
    by (simp add: list_handles_def prog_simps on_error_def enc_reply_def idle_def)
qed (simp_all add: enc_reply_not_Nil)

section \<open>After the handshake\<close>

text \<open>A call right after the connection is made.\<close>

lemma dialog_then_remote:
  assumes "dialog h q c0 idle (server_start h) sv0 idle = Some (Ok u, c, idle, serverStep h, sv, idle)"
    and "remote h (f u) c sv r c' sv'"
  shows "dialog h (pbind q f) c0 idle (server_start h) sv0 idle = Some (r, c', idle, serverStep h, sv', idle)"
  using dialog_context [of "\<lambda>p. pbind p f" f h q c0 idle "server_start h" sv0 idle u c idle "serverStep h" sv idle]
    assms by (simp add: remote_def advance_simps)

lemma started_mirrors:
  "isCompatibleWith (VersionPacket cfg) (VersionPacket cfg') \<Longrightarrow>
   mirrors n (started_client cfg cfg') ((server_init w)\<lparr>mEventStream := es\<rparr>)"
  using started_in_sync [of cfg cfg', where w = w and es = es]
  by (simp add: mirrors_def started_client_def client_init_def server_init_def)

end
