(* ===== verification/RCL_RemoteQueries.thy ===== *)
theory RCL_RemoteQueries
  imports RCL_RemoteLists
begin

text \<open>
  The \<open>clGet*Info\<close> functions as remote calls. The server asks OpenCL for the size of the answer and
  then for the answer (\<open>query_data\<close>), or for an object (\<open>query_object\<close>); the client copies what it
  gets to the memory of the application. \<open>data_query\<close> and \<open>object_query\<close> list the functions and
  parameters; those with an encoding of their own (numbers, the sizes of a work item) are not among them.
\<close>

section \<open>One question\<close>

text \<open>
  \<open>asks_info h c sv p k tail\<close>: \<open>p\<close> sends one packet and goes on with \<open>k\<close>; the server, whose handler has
  read the packet, goes on with \<open>tail\<close>.
\<close>

definition asks_info ::
  "'w host \<Rightarrow> client \<Rightarrow> 'w server \<Rightarrow> (client, u32 \<times> query_out) prog \<Rightarrow> (client, u32 \<times> query_out) prog
   \<Rightarrow> ('w server, unit) prog \<Rightarrow> bool" where
  "asks_info h c sv p k tail \<longleftrightarrow> (\<exists>oom bs.
     advance p c idle = (pcatch k (query_error oom), c, idle\<lparr>s_sent := bs\<rparr>)
     \<and> (\<forall>sv' out. exec tail sv idle = (Ok (), sv', idle\<lparr>s_pending := out\<rparr>) \<longrightarrow>
          exec (serverStep h) sv (idle\<lparr>s_in := bs\<rparr>) = (Ok True, sv', idle\<lparr>s_sent := out\<rparr>)))"

lemma asks_infoI:
  assumes "advance p c idle = (pcatch k (query_error oom), c, idle\<lparr>s_sent := enc_packet ty bs\<rparr>)"
    and "exec (dispatch ty h) sv (idle\<lparr>s_in := enc_packet ty bs\<rparr>) = exec (pthen_continue tail) sv idle"
  shows "asks_info h c sv p k tail"
proof -
  have "exec (serverStep h) sv (idle\<lparr>s_in := enc_packet ty bs\<rparr>) = (Ok True, sv', idle\<lparr>s_sent := out\<rparr>)"
    if "exec tail sv idle = (Ok (), sv', idle\<lparr>s_pending := out\<rparr>)" for sv' out
    using that assms(2) exec_handleNextPacket [of "idle\<lparr>s_in := enc_packet ty bs\<rparr>" ty bs "[]" h sv]
    by (simp add: serverStep_def prog_simps pthen_continue_def idle_def)
  with assms(1) show ?thesis unfolding asks_info_def by blast
qed

lemma remote_info:
  assumes ask: "asks_info h c sv p k tail" and wait: "outcome k = None"
    and srv: "exec tail sv idle = (Ok (), sv', idle\<lparr>s_pending := enc_reply (h_zlib h) r\<rparr>)"
    and rest: "\<And>oom. exec (pcatch k (query_error oom)) c (idle\<lparr>s_in := enc_reply (h_zlib h) r\<rparr>) = (Ok a, c', idle)"
  shows "remote h p c sv (Ok a) c' sv'"
proof -
  from ask srv obtain oom bs where adv: "advance p c idle = (pcatch k (query_error oom), c, idle\<lparr>s_sent := bs\<rparr>)"
    and step: "exec (serverStep h) sv (idle\<lparr>s_in := bs\<rparr>) = (Ok True, sv', idle\<lparr>s_sent := enc_reply (h_zlib h) r\<rparr>)"
    unfolding asks_info_def by blast
  show ?thesis
    using remote_exchange [OF adv _ step enc_reply_not_Nil, of "Ok a" c'] rest wait by simp
qed

text \<open>Reading the packet of a question.\<close>

lemma exec_read_query:
  assumes "decode d (bs @ []) = (Ok query, [])" and "ty \<noteq> PT_Error" and "ty \<noteq> PT_Terminate"
  shows "exec (readPacket ty (pdec d)) sv (idle\<lparr>s_in := enc_packet ty bs\<rparr>) = (Ok query, sv, idle)"
  using exec_readPacket_Ok [of "idle\<lparr>s_in := enc_packet ty bs\<rparr>" ty bs "[]" d query sv] assms by (simp add: idle_def)

lemmas exec_read_queries =
  exec_read_query [OF IDParamPair_codec.decode_enc [OF TrueI]]
  exec_read_query [OF KernelArgInfo_codec.decode_enc [OF TrueI]]
  exec_read_query [OF KernelWGInfo_codec.decode_enc [OF TrueI]]

section \<open>Data\<close>

text \<open>
  \<open>info_answer h check q w a w'\<close>: asked with \<open>q\<close> in the state \<open>w\<close>, first for the size and then for the
  data, OpenCL ends in \<open>w'\<close> with the error or the data \<open>a\<close>. A handler without \<open>check\<close> asks a second
  time even if the first call failed. An implementation reports the same size twice.
\<close>

inductive info_answer ::
  "'w host \<Rightarrow> bool \<Rightarrow> (nat \<Rightarrow> cl_call) \<Rightarrow> 'w \<Rightarrow> u32 + byte list \<Rightarrow> 'w \<Rightarrow> bool" for h check q w where
  no_size: "h_cl h (q 0) w = (r1, w1) \<Longrightarrow> check \<and> r_err r1 \<noteq> CL_SUCCESS \<Longrightarrow> info_answer h check q w (Inl (r_err r1)) w1"
| no_data: "h_cl h (q 0) w = (r1, w1) \<Longrightarrow> check \<longrightarrow> r_err r1 = CL_SUCCESS \<Longrightarrow>
    out_size 0 r1 < 2 ^ 63 \<and> h_new h (out_size 0 r1) \<Longrightarrow> h_cl h (q (out_size 0 r1)) w1 = (r2, w2) \<Longrightarrow>
    r_err r2 \<noteq> CL_SUCCESS \<Longrightarrow> info_answer h check q w (Inl (r_err r2)) w2"
| answered: "h_cl h (q 0) w = (r1, w1) \<Longrightarrow> check \<longrightarrow> r_err r1 = CL_SUCCESS \<Longrightarrow>
    out_size 0 r1 < 2 ^ 63 \<and> h_new h (out_size 0 r1) \<Longrightarrow> h_cl h (q (out_size 0 r1)) w1 = (r2, w2) \<Longrightarrow>
    r_err r2 = CL_SUCCESS \<Longrightarrow> r_size r2 = Some (length (r_bytes r2)) \<Longrightarrow> length (r_bytes r2) = out_size 0 r1 \<Longrightarrow>
    info_answer h check q w (Inr (r_bytes r2)) w2"

lemma out_bytes_all: "length (r_bytes r) = length buf \<Longrightarrow> out_bytes buf r = r_bytes r"
  by (simp add: out_bytes_def memcpy_at_def)

fun data_reply :: "nat \<Rightarrow> u32 + byte list \<Rightarrow> reply" where
  "data_reply w (Inl e) = R_Error e"
| "data_reply w (Inr d) = R_Payload w d"

lemma exec_query_data:
  assumes "info_answer h check q (sv_world sv) a w'" and "\<And>d. a = Inr d \<Longrightarrow> payload_fits w d"
  shows "exec (query_data h w check q) sv idle
    = (Ok (), sv\<lparr>sv_world := w'\<rparr>, idle\<lparr>s_pending := enc_reply (h_zlib h) (data_reply w a)\<rparr>)"
  using assms
  by (induction rule: info_answer.cases)
    (auto simp: query_data_def prog_simps Let_def out_bytes_all enc_PayloadPtr_all idle_def)

lemma exec_query_payload:
  assumes "zlib_opt_ok z" and "\<And>d. a = Inr d \<Longrightarrow> payload_fits w d"
  shows "exec (pcatch (query_payload w z buf) (query_error oom)) c (idle\<lparr>s_in := enc_reply z (data_reply w a)\<rparr>)
    = (Ok (case a of Inl e \<Rightarrow> (e, None, None) | Inr d \<Rightarrow> (CL_SUCCESS, copy_out d buf)), c, idle)"
proof (cases a)
  case (Inl e)
  then show ?thesis
    using exec_readPacket_Error [of "idle\<lparr>s_in := enc_reply z (R_Error e)\<rparr>" e "[]" PT_Payload "pdec (get_Payload w z)" c]
    by (simp add: query_payload_def prog_simps query_error_def on_error_def enc_reply_def idle_def)
next
  case (Inr d)
  then show ?thesis
    using exec_readPacket_Ok [of "idle\<lparr>s_in := enc_reply z (R_Payload w d)\<rparr>" PT_Payload "put_Payload w z d" "[]" "get_Payload w z" d c]
      get_Payload_put [OF assms(2) assms(1), of d "[]"]
    by (simp add: query_payload_def query_ok_def prog_simps enc_reply_def idle_def)
qed

section \<open>What the functions send\<close>

lemma size_param_cases:
  "param \<notin> set size_params \<Longrightarrow> \<not> List.member (device_size_params h) param \<and> \<not> List.member size_params param"
  by (auto simp: device_size_params_def size_params_def)

lemmas ask_client = query_payload_def query_handle_def Let_def advance_simps

lemma asks_platform:
  assumes "in_sync c sv" and "denotes c sv t x"
  shows "asks_info h c sv (api_clGetPlatformInfo (h_zlib h) t param buf)
    (query_payload 1 (h_zlib h) buf)
    (pbind (call h (clGetInfo I_Platform x param 0)) (\<lambda>r1.
     checked h (r_err r1)
       (let replySize = out_size 0 r1 in
        pbind (resize h 1 replySize) (\<lambda>_.
        pbind (call h (clGetInfo I_Platform x param replySize)) (\<lambda>r2.
        checked h (r_err r2)
          (reply h (R_Payload 1 (out_bytes (replicate replySize 0) r2))))))))"
  using denotes_id [OF assms(1,2)] in_sync_connected [OF assms(1)]
  by (intro asks_infoI [where ty = PT_GetPlatformInfo and bs = "put_IDParamPair \<lparr>idp_mData = param, idp_mID = id_of c t\<rparr>"
        and oom = CL_DEVICE_NOT_AVAILABLE])
    (simp_all add: api_clGetPlatformInfo_def ask_client getPlatformInfo_def pthen_continue_def prog_simps exec_read_queries)

lemma asks_device:
  assumes "in_sync c sv" and "denotes c sv t x"
    and "param \<notin> {CL_DEVICE_MAX_WORK_ITEM_SIZES} \<union> set size_params"
  shows "asks_info h c sv (api_clGetDeviceInfo (h_zlib h) stack t param buf)
    (if param = CL_DEVICE_PLATFORM \<or> param = CL_DEVICE_PARENT_DEVICE then query_handle buf else query_payload 4 (h_zlib h) buf)
    (if param = CL_DEVICE_PLATFORM \<or> param = CL_DEVICE_PARENT_DEVICE then query_object h (Some 0) (clGetInfo I_Device x param)
     else query_data h 4 False (clGetInfo I_Device x param))"
  using denotes_id [OF assms(1,2)] in_sync_connected [OF assms(1)] size_param_cases [of param h] assms(3)
  by (intro asks_infoI [where ty = PT_GetDeviceInfo and bs = "put_IDParamPair \<lparr>idp_mData = param, idp_mID = id_of c t\<rparr>"
        and oom = CL_OUT_OF_HOST_MEMORY])
    (simp_all add: api_clGetDeviceInfo_def ask_client getDeviceInfo_def pthen_continue_def prog_simps exec_read_queries)

lemma asks_queue:
  assumes "in_sync c sv" and "denotes c sv t x"
  shows "asks_info h c sv (api_clGetCommandQueueInfo (h_zlib h) t param buf)
    (if param = CL_QUEUE_CONTEXT \<or> param = CL_QUEUE_DEVICE then query_handle buf else query_payload 1 (h_zlib h) buf)
    (if param = CL_QUEUE_CONTEXT \<or> param = CL_QUEUE_DEVICE then query_object h None (clGetInfo I_CommandQueue x param)
     else query_data h 1 True (clGetInfo I_CommandQueue x param))"
  using denotes_id [OF assms(1,2)] in_sync_connected [OF assms(1)]
  by (intro asks_infoI [where ty = PT_GetQueueInfo and bs = "put_IDParamPair \<lparr>idp_mData = param, idp_mID = id_of c t\<rparr>"
        and oom = CL_OUT_OF_HOST_MEMORY])
    (simp_all add: api_clGetCommandQueueInfo_def ask_client getQueueInfo_def pthen_continue_def prog_simps exec_read_queries)

lemma asks_mem_object:
  assumes "in_sync c sv" and "denotes c sv t x"
  shows "asks_info h c sv (api_clGetMemObjectInfo (h_zlib h) t param buf)
    (if param = CL_MEM_CONTEXT \<or> param = CL_MEM_ASSOCIATED_MEMOBJECT then query_handle buf else query_payload 1 (h_zlib h) buf)
    (if param = CL_MEM_CONTEXT \<or> param = CL_MEM_ASSOCIATED_MEMOBJECT then query_object h None (clGetInfo I_MemObject x param)
     else query_data h 1 True (clGetInfo I_MemObject x param))"
  using denotes_id [OF assms(1,2)] in_sync_connected [OF assms(1)]
  by (intro asks_infoI [where ty = PT_GetMemObjInfo and bs = "put_IDParamPair \<lparr>idp_mData = param, idp_mID = id_of c t\<rparr>"
        and oom = CL_OUT_OF_HOST_MEMORY])
    (simp_all add: api_clGetMemObjectInfo_def ask_client getMemObjInfo_def pthen_continue_def prog_simps exec_read_queries)

lemma asks_img:
  assumes "in_sync c sv" and "denotes c sv t x" and "param \<noteq> CL_IMAGE_BUFFER"
  shows "asks_info h c sv (api_clGetImageInfo (h_zlib h) t param buf)
    (query_payload 1 (h_zlib h) buf)
    (query_data h 1 True (clGetInfo I_Image x param))"
  using denotes_id [OF assms(1,2)] in_sync_connected [OF assms(1)] assms(3)
  by (intro asks_infoI [where ty = PT_GetImageInfo and bs = "put_IDParamPair \<lparr>idp_mData = param, idp_mID = id_of c t\<rparr>"
        and oom = CL_OUT_OF_HOST_MEMORY])
    (simp_all add: api_clGetImageInfo_def ask_client getImageInfo_def pthen_continue_def prog_simps exec_read_queries)

lemma asks_kernel:
  assumes "in_sync c sv" and "denotes c sv t x" and "param \<notin> {CL_KERNEL_REFERENCE_COUNT, CL_KERNEL_NUM_ARGS}"
  shows "asks_info h c sv (api_clGetKernelInfo (h_zlib h) t param buf)
    (if param = CL_KERNEL_CONTEXT \<or> param = CL_KERNEL_PROGRAM then query_handle buf else query_payload 4 (h_zlib h) buf)
    (if param = CL_KERNEL_CONTEXT \<or> param = CL_KERNEL_PROGRAM then query_object h None (clGetInfo I_Kernel x param)
     else query_data h 4 False (clGetInfo I_Kernel x param))"
  using denotes_id [OF assms(1,2)] in_sync_connected [OF assms(1)] assms(3)
  by (intro asks_infoI [where ty = PT_KernelInfo and bs = "put_IDParamPair \<lparr>idp_mData = param, idp_mID = id_of c t\<rparr>"
        and oom = CL_OUT_OF_HOST_MEMORY])
    (simp_all add: api_clGetKernelInfo_def ask_client getKernelInfo_def pthen_continue_def prog_simps exec_read_queries)

lemma asks_kernel_arg:
  assumes "in_sync c sv" and "denotes c sv t x"
    and "param \<notin> {CL_KERNEL_ARG_ACCESS_QUALIFIER, CL_KERNEL_ARG_TYPE_QUALIFIER, CL_KERNEL_ARG_ADDRESS_QUALIFIER}"
  shows "asks_info h c sv (api_clGetKernelArgInfo (h_zlib h) t i param buf)
    (query_payload 4 (h_zlib h) buf)
    (query_data h 4 False (clGetKernelArgInfo x i param))"
  using denotes_id [OF assms(1,2)] in_sync_connected [OF assms(1)] assms(3)
  by (intro asks_infoI [where ty = PT_KernelArgInfo and bs = "put_KernelArgInfo \<lparr>kai_mArgIndex = i, kai_mParam = param, kai_mKernelID = id_of c t\<rparr>"
        and oom = CL_OUT_OF_HOST_MEMORY])
    (simp_all add: api_clGetKernelArgInfo_def ask_client getKernelArgInfo_def pthen_continue_def prog_simps exec_read_queries)

lemma asks_work_group:
  assumes "in_sync c sv" and "denotes c sv t x" and "denotes c sv d y"
    and "param \<notin> {CL_KERNEL_COMPILE_WORK_GROUP_SIZE, CL_KERNEL_LOCAL_MEM_SIZE,
      CL_KERNEL_PREFERRED_WORK_GROUP_SIZE_MULTIPLE, CL_KERNEL_WORK_GROUP_SIZE}"
  shows "asks_info h c sv (api_clGetKernelWorkGroupInfo (h_zlib h) stack t d param buf)
    (query_payload 4 (h_zlib h) buf)
    (query_data h 4 False (clGetKernelWorkGroupInfo x y param))"
  using denotes_id [OF assms(1,2)] in_sync_connected [OF assms(1)] denotes_id [OF assms(1,3)] assms(4)
  by (intro asks_infoI [where ty = PT_KernelWGInfo and bs = "put_KernelWGInfo \<lparr>kwg_mKernelID = id_of c t, kwg_mDeviceID = id_of c d, kwg_mParam = param\<rparr>"
        and oom = CL_OUT_OF_HOST_MEMORY])
    (simp_all add: api_clGetKernelWorkGroupInfo_def ask_client getKernelWGInfo_def pthen_continue_def prog_simps exec_read_queries)

section \<open>Functions that ask for data\<close>

inductive data_query ::
  "'w host \<Rightarrow> (client, u32 \<times> query_out) prog \<Rightarrow> handle list \<Rightarrow> nat \<Rightarrow> bool \<Rightarrow> buffer
   \<Rightarrow> ((handle \<Rightarrow> ptr) \<Rightarrow> nat \<Rightarrow> cl_call) \<Rightarrow> bool" for h :: "'w host" where
  platform: "data_query h (api_clGetPlatformInfo (h_zlib h) t param buf) [t] 1 True buf
     (\<lambda>obj. clGetInfo I_Platform (obj t) param)"
| device: "param \<notin> {CL_DEVICE_PLATFORM, CL_DEVICE_PARENT_DEVICE, CL_DEVICE_MAX_WORK_ITEM_SIZES} \<union> set size_params \<Longrightarrow>
     data_query h (api_clGetDeviceInfo (h_zlib h) stack t param buf) [t] 4 False buf
       (\<lambda>obj. clGetInfo I_Device (obj t) param)"
| queue: "param \<notin> {CL_QUEUE_CONTEXT, CL_QUEUE_DEVICE} \<Longrightarrow>
     data_query h (api_clGetCommandQueueInfo (h_zlib h) t param buf) [t] 1 True buf
       (\<lambda>obj. clGetInfo I_CommandQueue (obj t) param)"
| mem_object: "param \<notin> {CL_MEM_CONTEXT, CL_MEM_ASSOCIATED_MEMOBJECT} \<Longrightarrow>
     data_query h (api_clGetMemObjectInfo (h_zlib h) t param buf) [t] 1 True buf
       (\<lambda>obj. clGetInfo I_MemObject (obj t) param)"
| img: "param \<noteq> CL_IMAGE_BUFFER \<Longrightarrow>
     data_query h (api_clGetImageInfo (h_zlib h) t param buf) [t] 1 True buf
       (\<lambda>obj. clGetInfo I_Image (obj t) param)"
| kernel: "param \<notin> {CL_KERNEL_CONTEXT, CL_KERNEL_PROGRAM, CL_KERNEL_REFERENCE_COUNT, CL_KERNEL_NUM_ARGS} \<Longrightarrow>
     data_query h (api_clGetKernelInfo (h_zlib h) t param buf) [t] 4 False buf
       (\<lambda>obj. clGetInfo I_Kernel (obj t) param)"
| kernel_arg: "param \<notin> {CL_KERNEL_ARG_ACCESS_QUALIFIER, CL_KERNEL_ARG_TYPE_QUALIFIER, CL_KERNEL_ARG_ADDRESS_QUALIFIER} \<Longrightarrow>
     data_query h (api_clGetKernelArgInfo (h_zlib h) t i param buf) [t] 4 False buf
       (\<lambda>obj. clGetKernelArgInfo (obj t) i param)"
| work_group: "param \<notin> {CL_KERNEL_COMPILE_WORK_GROUP_SIZE, CL_KERNEL_LOCAL_MEM_SIZE,
       CL_KERNEL_PREFERRED_WORK_GROUP_SIZE_MULTIPLE, CL_KERNEL_WORK_GROUP_SIZE} \<Longrightarrow>
     data_query h (api_clGetKernelWorkGroupInfo (h_zlib h) stack t d param buf) [t, d] 4 False buf
       (\<lambda>obj. clGetKernelWorkGroupInfo (obj t) (obj d) param)"

text \<open>What the server sends for an answer of OpenCL.\<close>

definition answers :: "'w host \<Rightarrow> 'w server \<Rightarrow> nat \<Rightarrow> bool \<Rightarrow> (nat \<Rightarrow> cl_call) \<Rightarrow> ('w server, unit) prog \<Rightarrow> bool" where
  "answers h sv w check q tail \<longleftrightarrow> (\<forall>a w'. info_answer h check q (sv_world sv) a w' \<longrightarrow>
     (\<forall>d. a = Inr d \<longrightarrow> payload_fits w d) \<longrightarrow> exec tail sv idle
       = (Ok (), sv\<lparr>sv_world := w'\<rparr>, idle\<lparr>s_pending := enc_reply (h_zlib h) (data_reply w a)\<rparr>))"

lemma answers_query_data: "answers h sv w check q (query_data h w check q)"
  by (simp add: answers_def exec_query_data)

lemma answers_platform: "answers h sv 1 True (clGetInfo I_Platform x param) (pbind (call h (clGetInfo I_Platform x param 0)) (\<lambda>r1.
     checked h (r_err r1)
       (let replySize = out_size 0 r1 in
        pbind (resize h 1 replySize) (\<lambda>_.
        pbind (call h (clGetInfo I_Platform x param replySize)) (\<lambda>r2.
        checked h (r_err r2)
          (reply h (R_Payload 1 (out_bytes (replicate replySize 0) r2))))))))"
  unfolding answers_def
  by (auto elim!: info_answer.cases simp: prog_simps Let_def out_bytes_all idle_def)

lemma data_query_asks:
  assumes "data_query h p ts w check buf G" and sync: "in_sync c sv" and den: "\<forall>t \<in> set ts. denotes c sv t (obj t)"
  shows "\<exists>tail. asks_info h c sv p (query_payload w (h_zlib h) buf) tail \<and> answers h sv w check (G obj) tail"
  using assms(1)
proof cases
  case (platform t param)
  with asks_platform [OF sync, of t "obj t" h param buf] answers_platform [of h sv "obj t" param] den
  show ?thesis by auto
next
  case (device param stack t)
  with asks_device [OF sync, of t "obj t" param h stack buf] den show ?thesis by (auto intro: answers_query_data)
next
  case (queue param t)
  with asks_queue [OF sync, of t "obj t" h param buf] den show ?thesis by (auto intro: answers_query_data)
next
  case (mem_object param t)
  with asks_mem_object [OF sync, of t "obj t" h param buf] den show ?thesis by (auto intro: answers_query_data)
next
  case (img param t)
  with asks_img [OF sync, of t "obj t" param h buf] den show ?thesis by (auto intro: answers_query_data)
next
  case (kernel param t)
  with asks_kernel [OF sync, of t "obj t" param h buf] den show ?thesis by (auto intro: answers_query_data)
next
  case (kernel_arg param t i)
  with asks_kernel_arg [OF sync, of t "obj t" param h i buf] den show ?thesis by (auto intro: answers_query_data)
next
  case (work_group param stack t d)
  with asks_work_group [OF sync, of t "obj t" d "obj d" param h stack buf] den show ?thesis
    by (auto intro: answers_query_data)
qed

text \<open>
  The application gets what OpenCL answers: an error, or the size of the data and, if its buffer has
  room, the data.
\<close>

lemma remote_data_query:
  assumes "data_query h p ts w check buf G" and "in_sync c sv" and "\<forall>t \<in> set ts. denotes c sv t (obj t)"
    and "zlib_opt_ok (h_zlib h)" and "info_answer h check (G obj) (sv_world sv) a w'"
    and fits: "\<And>d. a = Inr d \<Longrightarrow> payload_fits w d"
  shows "remote h p c sv (Ok (case a of Inl e \<Rightarrow> (e, None, None) | Inr d \<Rightarrow> (CL_SUCCESS, copy_out d buf)))
    c (sv\<lparr>sv_world := w'\<rparr>)"
proof -
  from data_query_asks [OF assms(1-3)] obtain tail
    where ask: "asks_info h c sv p (query_payload w (h_zlib h) buf) tail" and ans: "answers h sv w check (G obj) tail"
    by blast
  have "exec tail sv idle = (Ok (), sv\<lparr>sv_world := w'\<rparr>, idle\<lparr>s_pending := enc_reply (h_zlib h) (data_reply w a)\<rparr>)"
    using ans assms(5) fits unfolding answers_def by blast
  with exec_query_payload [OF assms(4) fits] ask show ?thesis
    by (intro remote_info [OF ask]) (simp_all add: query_payload_def)
qed

section \<open>Functions that ask for an object\<close>

inductive object_query ::
  "'w host \<Rightarrow> (client, u32 \<times> query_out) prog \<Rightarrow> handle \<Rightarrow> buffer \<Rightarrow> (ptr \<Rightarrow> nat \<Rightarrow> cl_call) \<Rightarrow> bool" for h :: "'w host" where
  device: "param \<in> {CL_DEVICE_PLATFORM, CL_DEVICE_PARENT_DEVICE} \<Longrightarrow>
     object_query h (api_clGetDeviceInfo (h_zlib h) stack t param buf) t buf (\<lambda>x. clGetInfo I_Device x param)"
| queue: "param \<in> {CL_QUEUE_CONTEXT, CL_QUEUE_DEVICE} \<Longrightarrow>
     object_query h (api_clGetCommandQueueInfo (h_zlib h) t param buf) t buf (\<lambda>x. clGetInfo I_CommandQueue x param)"
| mem_object: "param \<in> {CL_MEM_CONTEXT, CL_MEM_ASSOCIATED_MEMOBJECT} \<Longrightarrow>
     object_query h (api_clGetMemObjectInfo (h_zlib h) t param buf) t buf (\<lambda>x. clGetInfo I_MemObject x param)"
| kernel: "param \<in> {CL_KERNEL_CONTEXT, CL_KERNEL_PROGRAM} \<Longrightarrow>
     object_query h (api_clGetKernelInfo (h_zlib h) t param buf) t buf (\<lambda>x. clGetInfo I_Kernel x param)"

lemma object_query_asks:
  assumes "object_query h p t buf G" and sync: "in_sync c sv" and den: "denotes c sv t x"
  shows "\<exists>init. asks_info h c sv p (query_handle buf) (query_object h init (G x))"
  using assms(1)
proof cases
  case (device param stack)
  with asks_device [OF sync den, of param h stack buf] show ?thesis by (auto simp: size_params_def)
next
  case (queue param)
  with asks_queue [OF sync den, of h param buf] show ?thesis by auto
next
  case (mem_object param)
  with asks_mem_object [OF sync den, of h param buf] show ?thesis by auto
next
  case (kernel param)
  with asks_kernel [OF sync den, of param h buf] show ?thesis by auto
qed

lemma put_u64_simps: "length (put_u64 x) = 8" "word_of_nat (le_decode (put_u64 x)) = x"
  using unsigned_less [of x, where ?'a = nat] by (simp_all add: put_u64_def word_of_le)

lemma exec_query_object:
  assumes "h_cl h (q 8) (sv_world sv) = (r, w)"
  shows "r_err r \<noteq> CL_SUCCESS \<Longrightarrow> exec (query_object h init q) sv idle
      = (Ok (), sv\<lparr>sv_world := w\<rparr>, idle\<lparr>s_pending := enc_reply (h_zlib h) (R_Error (r_err r))\<rparr>)"
    and "r_err r = CL_SUCCESS \<Longrightarrow> r_bytes r = put_u64 x \<Longrightarrow> getIDFor (mObjects sv) x = Some (i, objs) \<Longrightarrow>
      exec (query_object h init q) sv idle
      = (Ok (), sv\<lparr>mObjects := objs, sv_world := w\<rparr>, idle\<lparr>s_pending := enc_reply (h_zlib h) (R_ID i)\<rparr>)"
  using assms
  by (auto simp: query_object_def query_var_def prog_simps idle_def out_bytes_all put_u64_simps split: option.splits)

text \<open>The application gets a handle that stands for the object OpenCL names.\<close>

lemma remote_object_query:
  assumes "object_query h p t buf G" and m: "mirrors n c sv" and den: "denotes c sv t x"
    and "h_cl h (G x 8) (sv_world sv) = (r, w)" and "r_err r = CL_SUCCESS" and "r_bytes r = put_u64 y"
    and a: "getIDFor (mObjects sv) y = Some (i, objs)" and buf: "snd buf \<or> fst buf < 8"
  shows "\<exists>u c'. remote h p c sv (Ok (CL_SUCCESS, if fst buf < 8 then None else Some (handle_bytes u), Some 8)) c'
      (sv\<lparr>mObjects := objs, sv_world := w\<rparr>)
    \<and> listed c sv c' (sv\<lparr>mObjects := objs, sv_world := w\<rparr>) [u] [y]"
proof -
  have "in_sync c sv" using m by (simp add: mirrors_def)
  from object_query_asks [OF assms(1) this den] obtain init
    where ask: "asks_info h c sv p (query_handle buf) (query_object h init (G x))" by blast
  from exec_getOrInsert [OF m a, of idle] obtain u c'
    where u: "exec (getOrInsertObject i) c idle = (Ok u, c', idle)" "\<forall>m. mirrors m c sv \<longrightarrow> mirrors m c' (sv\<lparr>mObjects := objs\<rparr>)"
      "denotes c' (sv\<lparr>mObjects := objs\<rparr>) u y" "\<forall>u x. denotes c sv u x \<longrightarrow> denotes c' (sv\<lparr>mObjects := objs\<rparr>) u x" by blast
  have "exec (pcatch (query_handle buf) (query_error oom)) c (idle\<lparr>s_in := enc_reply (h_zlib h) (R_ID i)\<rparr>)
      = (Ok (CL_SUCCESS, if fst buf < 8 then None else Some (handle_bytes u), Some 8), c', idle)" for oom
    using u(1) buf exec_readID [of "idle\<lparr>s_in := enc_reply (h_zlib h) (R_ID i)\<rparr>" "h_zlib h" i "[]" c]
    by (auto simp: query_handle_def prog_simps Store64_def query_ok_def idle_def)
  then have "remote h p c sv (Ok (CL_SUCCESS, if fst buf < 8 then None else Some (handle_bytes u), Some 8)) c'
      (sv\<lparr>mObjects := objs, sv_world := w\<rparr>)"
    using remote_info [OF ask _ exec_query_object(2) [of h "G x", OF assms(4-6) a]] by (simp add: query_handle_def)
  moreover have "listed c sv c' (sv\<lparr>mObjects := objs, sv_world := w\<rparr>) [u] [y]"
    using u(2-4) by (simp add: listed_def denotes_world_fun)
  ultimately show ?thesis by blast
qed

end
