(* ===== verification/RCL_RemoteKernel.thy ===== *)
theory RCL_RemoteKernel
  imports RCL_RemoteQueries RCL_RemoteCommands
begin

text \<open>
  Building a program, waiting for events and setting the argument of a kernel as remote calls. The
  last takes two exchanges: the server asks for the kind of value the argument has.
\<close>

section \<open>Building and waiting\<close>

definition listed_or_null :: "'a list \<Rightarrow> 'a list option" where
  "listed_or_null xs = (if xs = [] then None else Some xs)"

lemma devices_listed:
  "\<not> devices_bad (length ds) (listed_or_null ds)"
  "(case listed_or_null ds of None \<Rightarrow> [] | Some ts \<Rightarrow> ts) = ds"
  by (auto simp: devices_bad_def listed_or_null_def)

lemma remote_clBuildProgram:
  assumes sync: "in_sync c sv" and den: "\<forall>t \<in> set (program # ds). denotes c sv t (obj t)"
    and opts: "string_ok (case opts of None \<Rightarrow> [] | Some s \<Rightarrow> s)" and ds: "length ds < 256"
    and z: "zlib_opt_ok (h_zlib h)"
    and cl: "h_cl h (clBuildProgram (obj program) (map obj ds)
        (c_str (build_options (case opts of None \<Rightarrow> [] | Some s \<Rightarrow> s)))) (sv_world sv) = (r, w)"
  shows "remote h (api_clBuildProgram program (length ds) (listed_or_null ds) opts 0 0) c sv (Ok (r_err r)) c
    (sv\<lparr>sv_world := w\<rparr>)"
proof -
  note ids = command_ids [OF sync den]
  let ?s = "case opts of None \<Rightarrow> [] | Some s \<Rightarrow> s"
  let ?q = "Q_BuildProgram \<lparr>isp_mID = id_of c program, isp_mString = ?s\<rparr> (map (id_of c) ds)"
  have prog: "0 < program" "cl_heap c program = Some (id_of c program)" using ids(1) [of program] by simp_all
  have devs: "0 < t \<and> cl_heap c t = Some (id_of c t)" if "t \<in> set ds" for t using ids(1) that by simp
  then have "0 \<notin> set ds" by force
  then have adv: "advance (api_clBuildProgram program (length ds) (listed_or_null ds) opts 0 0) c idle
      = (pcatch (pbind readSuccess (\<lambda>_. PRet CL_SUCCESS))
          (on_error CL_OUT_OF_HOST_MEMORY CL_DEVICE_NOT_AVAILABLE (\<lambda>code. code)),
         c, idle\<lparr>s_sent := enc_request (h_zlib h) ?q\<rparr>)"
    using prog devs ids(3) ds opts
    by (simp add: api_clBuildProgram_def devices_listed advance_simps Let_def ok_IDStringPair_def ok_IDList_def
        container_ok_def size_max_def enc_IDList_def)
  have "remote_call (mObjects sv) ?q = clBuildProgram (obj program) (map obj ds) (c_str (build_options ?s))"
    using ids(2) by simp
  with cl have "h_cl h (remote_call (mObjects sv) ?q) (sv_world sv) = (r, w)" by (simp only:)
  from remote_status [OF adv _ z this] opts ds show ?thesis
    by (simp add: ok_IDStringPair_def ok_IDList_def container_ok_def size_max_def)
qed

lemma remote_clWaitForEvents:
  assumes sync: "in_sync c sv" and den: "\<forall>t \<in> set es. denotes c sv t (obj t)"
    and es: "es \<noteq> []" "length es < 256" and z: "zlib_opt_ok (h_zlib h)"
    and cl: "h_cl h (clWaitForEvents (map obj es)) (sv_world sv) = (r, w)"
  shows "remote h (api_clWaitForEvents (length es) (Some es)) c sv (Ok (r_err r)) c (sv\<lparr>sv_world := w\<rparr>)"
proof -
  note ids = command_ids [OF sync den]
  let ?q = "Q_WaitEvents (map (id_of c) es)"
  have adv: "advance (api_clWaitForEvents (length es) (Some es)) c idle
      = (pcatch (pbind readSuccess (\<lambda>_. PRet CL_SUCCESS))
          (on_error CL_OUT_OF_HOST_MEMORY CL_DEVICE_NOT_AVAILABLE (\<lambda>code. code)),
         c, idle\<lparr>s_sent := enc_request (h_zlib h) ?q\<rparr>)"
    using ids es
    by (simp add: api_clWaitForEvents_def advance_simps ok_IDList_def container_ok_def size_max_def enc_IDList_def)
  have "remote_call (mObjects sv) ?q = clWaitForEvents (map obj es)" using ids(2) by simp
  with cl have "h_cl h (remote_call (mObjects sv) ?q) (sv_world sv) = (r, w)" by (simp only:)
  from remote_status [OF adv _ z this] es show ?thesis
    by (simp add: ok_IDList_def container_ok_def size_max_def)
qed

section \<open>Two exchanges\<close>

lemma dialog_exchange:
  assumes "advance p c cst = (p', c1, cst1)" and "outcome p' = None"
    and "serverTurn h q sv (sst\<lparr>s_in := s_in sst @ s_sent cst1\<rparr>) = Some (q', sv', sst')" and "s_sent sst' \<noteq> []"
  shows "dialog h p c cst q sv sst = dialog h p' c1 (cst1\<lparr>s_in := s_in cst1 @ s_sent sst', s_sent := []\<rparr>)
    q' sv' (sst'\<lparr>s_sent := []\<rparr>)"
  using assms by (subst dialog.simps) simp

text \<open>The server asks back: it sends \<open>ask\<close> and goes on with \<open>q\<close> when the client has answered.\<close>

lemma remote_asked_back:
  assumes adv1: "advance p c idle = (p1, c, idle\<lparr>s_sent := bs1\<rparr>)" and wait1: "outcome p1 = None"
    and srv1: "advance (serverStep h) sv (idle\<lparr>s_in := bs1\<rparr>) = (q, sv1, idle\<lparr>s_sent := ask\<rparr>)"
      "outcome q = None" "ask \<noteq> []"
    and adv2: "advance p1 c (idle\<lparr>s_in := ask\<rparr>) = (p2, c, idle\<lparr>s_sent := bs2\<rparr>)" and wait2: "outcome p2 = None"
    and srv2: "exec q sv1 (idle\<lparr>s_in := bs2\<rparr>) = (Ok True, sv2, idle\<lparr>s_sent := resp\<rparr>)" "resp \<noteq> []"
    and rest: "exec p2 c (idle\<lparr>s_in := resp\<rparr>) = (r, c2, idle)" "r \<noteq> Fail Blocked"
  shows "remote h p c sv r c2 sv2"
proof -
  have turn1: "serverTurn h (serverStep h) sv (idle\<lparr>s_in := bs1\<rparr>) = Some (q, sv1, idle\<lparr>s_sent := ask\<rparr>)"
    using srv1 by (subst serverTurn.simps) simp
  from advance_exec [OF srv2(1)]
  have turn2: "serverTurn h q sv1 (idle\<lparr>s_in := bs2\<rparr>) = Some (serverStep h, sv2, idle\<lparr>s_sent := resp\<rparr>)"
    by (subst serverTurn.simps) (simp add: serverTurn_waits)
  from advance_exec [OF rest] have "advance p2 c (idle\<lparr>s_in := resp\<rparr>) = (finished r, c2, idle)" by simp
  then have "dialog h p2 c (idle\<lparr>s_in := resp\<rparr>) (serverStep h) sv2 idle = Some (r, c2, idle, serverStep h, sv2, idle)"
    by (subst dialog.simps) simp
  with dialog_exchange [OF adv1 wait1, of h "serverStep h" sv idle] turn1 srv1(3)
    dialog_exchange [OF adv2 wait2, of h q sv1 idle] turn2 srv2(2)
  show ?thesis by (simp add: remote_def)
qed

section \<open>The argument of a kernel\<close>

text \<open>What the server asks for, by the address space of the argument, and what it does with the answer.\<close>

definition asks_for :: "u32 \<Rightarrow> byte" where
  "asks_for AS = (if AS = CL_KERNEL_ARG_ADDRESS_GLOBAL \<or> AS = CL_KERNEL_ARG_ADDRESS_CONSTANT then 73
     else if AS = CL_KERNEL_ARG_ADDRESS_LOCAL then 83 else 80)"

definition set_asked :: "'w host \<Rightarrow> ptr \<Rightarrow> u32 \<Rightarrow> byte \<Rightarrow> ('w server, cl_ret) prog" where
  "set_asked h x i what =
     (if what = 73 then
        pbind (readPacket PT_ID (pdec get_u16)) (\<lambda>argID.
        pbind (objFor argID) (\<lambda>memObj. call h (clSetKernelArg x i 8 (Some (put_u64 memObj)))))
      else if what = 83 then
        pbind (readPacket PT_Payload (pdec get_u32)) (\<lambda>n. call h (clSetKernelArg x i (unat n) None))
      else
        pbind (readPacket PT_Payload (pdec (get_Payload 4 (h_zlib h)))) (\<lambda>payload.
        call h (clSetKernelArg x i (length payload) (Some payload))))"

lemma set_asked_waits:
  "s_in st = [] \<Longrightarrow> advance (set_asked h x i what) sv st = (set_asked h x i what, sv, st)"
  "outcome (set_asked h x i what) = None"
  by (simp_all add: set_asked_def advance_simps)

lemma setKernelArg_asks:
  "setKernelArg h =
     pbind (readPacket PT_SetKernelArg (pdec get_KernelArg)) (\<lambda>arg.
     pbind (objFor (ka_mKernelID arg)) (\<lambda>x.
     query_var h 4 None (clGetKernelArgInfo x (ka_mArgIndex arg) CL_KERNEL_ARG_ADDRESS_QUALIFIER) (\<lambda>v.
     pbind (reply h (R_Data8 (asks_for (word_of_nat v)))) (\<lambda>_.
     pbind pflush (\<lambda>_.
     pbind (set_asked h x (ka_mArgIndex arg) (asks_for (word_of_nat v))) (\<lambda>r.
     checked h (r_err r) (reply h R_Success)))))))"
  unfolding setKernelArg_def Let_def asks_for_def set_asked_def
  by (intro arg_cong [of _ _ "pbind _"] ext arg_cong [of _ _ "query_var _ _ _ _"]) (simp add: pbind_assoc)

lemma server_asks_for_arg:
  assumes q: "h_cl h (clGetKernelArgInfo (getObj (mObjects sv) k) i CL_KERNEL_ARG_ADDRESS_QUALIFIER 4) (sv_world sv)
      = (r1, w1)" and r1: "r_err r1 = CL_SUCCESS" "r_bytes r1 = put_u32 AS"
    and srv: "exec (set_asked h (getObj (mObjects sv) k) i (asks_for AS)) (sv\<lparr>sv_world := w1\<rparr>) (idle\<lparr>s_in := bs2\<rparr>)
      = (Ok r2, sv\<lparr>sv_world := w2\<rparr>, idle)"
  shows "\<exists>q. advance (serverStep h) sv (idle\<lparr>s_in := enc_packet PT_SetKernelArg (put_KernelArg \<lparr>ka_mArgIndex = i, ka_mKernelID = k\<rparr>)\<rparr>)
      = (q, sv\<lparr>sv_world := w1\<rparr>, idle\<lparr>s_sent := enc_reply (h_zlib h) (R_Data8 (asks_for AS))\<rparr>) \<and> outcome q = None
    \<and> exec q (sv\<lparr>sv_world := w1\<rparr>) (idle\<lparr>s_in := bs2\<rparr>) = (Ok True, sv\<lparr>sv_world := w2\<rparr>,
        idle\<lparr>s_sent := enc_reply (h_zlib h) (if r_err r2 = CL_SUCCESS then R_Success else R_Error (r_err r2))\<rparr>)"
proof -
  let ?x = "getObj (mObjects sv) k"
  let ?a = "\<lparr>ka_mArgIndex = i, ka_mKernelID = k\<rparr>"
  let ?st = "idle\<lparr>s_in := enc_packet PT_SetKernelArg (put_KernelArg ?a)\<rparr>"
  let ?rest = "pbind (set_asked h ?x i (asks_for AS)) (\<lambda>r. checked h (r_err r) (reply h R_Success))"
  have "unat AS < 256 ^ 4" using unsigned_less [of AS, where ?'a = nat] by simp
  from word_of_le [OF this] have AS: "word_of_nat (le_decode (take 4 (r_bytes r1))) = AS" "4 \<le> length (r_bytes r1)"
    using r1(2) by (simp_all add: put_u32_def)
  have read: "exec (readPacket PT_SetKernelArg (pdec get_KernelArg)) sv ?st = (Ok ?a, sv, idle)"
    by (rule exec_read_query [OF KernelArg_codec.decode_enc [OF TrueI]]) simp_all
  have query: "exec (call h (clGetKernelArgInfo ?x i CL_KERNEL_ARG_ADDRESS_QUALIFIER 4)) sv idle
      = (Ok r1, sv\<lparr>sv_world := w1\<rparr>, idle)"
    using q by (simp add: prog_simps)
  have handler: "advance (setKernelArg h) sv ?st = (?rest, sv\<lparr>sv_world := w1\<rparr>,
      idle\<lparr>s_sent := enc_reply (h_zlib h) (R_Data8 (asks_for AS))\<rparr>)"
    using r1(1) AS
    by (simp add: setKernelArg_asks advance_exec [OF read] query_var_def advance_exec [OF exec_objFor]
        advance_exec [OF query] advance_exec [OF exec_reply] checked_def set_asked_waits advance_simps)
  let ?E = "\<lambda>e. if e = BadAlloc then pbind (reply h (R_Error CL_OUT_OF_HOST_MEMORY)) (\<lambda>_. PRet True) else PThrow e"
  let ?q = "pbind (pcatch (pbind ?rest (\<lambda>_. PRet True)) ?E) (\<lambda>b. pbind pflush (\<lambda>_. PRet b))"
  have waits: "outcome ?rest = None" by (simp add: set_asked_waits)
  have peek: "exec nextPacketTy sv ?st = (Ok (pt_code PT_SetKernelArg), sv, ?st)"
    using exec_nextPacketTy_packet [of ?st PT_SetKernelArg "put_KernelArg ?a" "[]" sv] by simp
  have "advance (serverStep h) sv ?st = (?q, sv\<lparr>sv_world := w1\<rparr>,
      idle\<lparr>s_sent := enc_reply (h_zlib h) (R_Data8 (asks_for AS))\<rparr>)"
    unfolding serverStep_def handleNextPacket_def
    using handler waits advance_exec [OF peek] pt_of_code [of PT_SetKernelArg]
    by (simp add: advance_simps pthen_continue_def del: pt_of_code)
  moreover have "outcome ?q = None" using waits by simp
  moreover have "exec ?q (sv\<lparr>sv_world := w1\<rparr>) (idle\<lparr>s_in := bs2\<rparr>) = (Ok True, sv\<lparr>sv_world := w2\<rparr>,
      idle\<lparr>s_sent := enc_reply (h_zlib h) (if r_err r2 = CL_SUCCESS then R_Success else R_Error (r_err r2))\<rparr>)"
    using srv by (simp add: prog_simps idle_def)
  ultimately show ?thesis by blast
qed

text \<open>
  \<open>arg_given c sv what n val n' val'\<close>: asked with the letter \<open>what\<close>, the client, given the size \<open>n\<close> and
  the bytes \<open>val\<close>, has the server call OpenCL with \<open>n'\<close> and \<open>val'\<close>.
\<close>

inductive arg_given ::
  "client \<Rightarrow> 'w server \<Rightarrow> byte \<Rightarrow> nat \<Rightarrow> byte list \<Rightarrow> nat \<Rightarrow> byte list option \<Rightarrow> bool" for c sv where
  object: "denotes c sv t x \<Longrightarrow> t < 2 ^ 64 \<Longrightarrow> arg_given c sv 73 8 (handle_bytes t) 8 (Some (put_u64 x))"
| local: "n < 2 ^ 32 \<Longrightarrow> arg_given c sv 83 n val n None"
| data: "length d < 2 ^ 32 \<Longrightarrow> arg_given c sv 80 (length d) d (length d) (Some d)"

lemma handle_bytes_value: "t < 2 ^ 64 \<Longrightarrow> length (handle_bytes t) = 8 \<and> le_decode (handle_bytes t) = t"
  by (simp add: handle_bytes_def le_decode_encode)

lemma arg_given_works:
  assumes "arg_given c sv what n val n' val'" and sync: "in_sync c sv" and z: "zlib_opt_ok (h_zlib h)"
    and cl: "h_cl h (clSetKernelArg x i n' val') w1 = (r2, w2)"
  shows "\<exists>bs. advance (send_kernel_arg (h_zlib h) what n val) c idle = (PRet (), c, st_put bs idle)
    \<and> exec (set_asked h x i what) (sv\<lparr>sv_world := w1\<rparr>) (idle\<lparr>s_in := bs\<rparr>) = (Ok r2, sv\<lparr>sv_world := w2\<rparr>, idle)"
  using assms(1)
proof cases
  case (object t y)
  with denotes_id [OF sync object(6)] handle_bytes_value [OF object(7)] cl
    exec_read_query [OF get_u16_put, where ty = PT_ID and sv = "sv\<lparr>sv_world := w1\<rparr>"]
  show ?thesis
    by (intro exI [of _ "enc_packet PT_ID (put_u16 (id_of c t))"])
      (simp add: send_kernel_arg_def set_asked_def advance_simps prog_simps)
next
  case local
  with cl exec_read_query [OF get_u32_put, where ty = PT_Payload and sv = "sv\<lparr>sv_world := w1\<rparr>"]
  show ?thesis
    by (intro exI [of _ "enc_packet PT_Payload (put_u32 (word_of_nat n))"])
      (simp add: send_kernel_arg_def set_asked_def advance_simps prog_simps unat_of_nat)
next
  case (data)
  then have "payload_fits 4 val" by (simp add: payload_fits_4)
  from data cl exec_read_query [OF get_Payload_put [OF this z], where ty = PT_Payload and sv = "sv\<lparr>sv_world := w1\<rparr>"]
  show ?thesis
    by (intro exI [of _ "enc_packet PT_Payload (put_Payload 4 (h_zlib h) val)"])
      (simp add: send_kernel_arg_def set_asked_def advance_simps prog_simps)
qed

lemma remote_clSetKernelArg:
  assumes sync: "in_sync c sv" and den: "denotes c sv krn x" and z: "zlib_opt_ok (h_zlib h)"
    and arg: "arg_given c sv (asks_for AS) n val n' val'"
    and q: "h_cl h (clGetKernelArgInfo x i CL_KERNEL_ARG_ADDRESS_QUALIFIER 4) (sv_world sv) = (r1, w1)"
      "r_err r1 = CL_SUCCESS" "r_bytes r1 = put_u32 AS"
    and cl: "h_cl h (clSetKernelArg x i n' val') w1 = (r2, w2)"
  shows "remote h (api_clSetKernelArg (h_zlib h) krn i n val) c sv (Ok (r_err r2)) c (sv\<lparr>sv_world := w2\<rparr>)"
proof -
  let ?err = "on_error CL_OUT_OF_HOST_MEMORY CL_DEVICE_NOT_AVAILABLE (\<lambda>code. code)"
  let ?p2 = "pcatch (pbind readSuccess (\<lambda>_. PRet CL_SUCCESS)) ?err"
  let ?p1 = "pcatch (pbind (readPacket PT_Payload (pdec get_u8)) (\<lambda>what. pbind (send_kernel_arg (h_zlib h) what n val) (\<lambda>_.
      pbind pflush (\<lambda>_. pbind readSuccess (\<lambda>_. PRet CL_SUCCESS))))) ?err"
  let ?ask = "enc_reply (h_zlib h) (R_Data8 (asks_for AS))"
  note k = denotes_id [OF sync den]
  from arg_given_works [OF arg sync z cl] obtain bs
    where send: "advance (send_kernel_arg (h_zlib h) (asks_for AS) n val) c idle = (PRet (), c, st_put bs idle)"
      and srv: "exec (set_asked h x i (asks_for AS)) (sv\<lparr>sv_world := w1\<rparr>) (idle\<lparr>s_in := bs\<rparr>)
        = (Ok r2, sv\<lparr>sv_world := w2\<rparr>, idle)" by blast
  have adv1: "advance (api_clSetKernelArg (h_zlib h) krn i n val) c idle
      = (?p1, c, idle\<lparr>s_sent := enc_packet PT_SetKernelArg (put_KernelArg \<lparr>ka_mArgIndex = i, ka_mKernelID = id_of c krn\<rparr>)\<rparr>)"
    using k in_sync_connected [OF sync] by (simp add: api_clSetKernelArg_def advance_simps idle_def)
  have read: "exec (readPacket PT_Payload (pdec get_u8)) c (idle\<lparr>s_in := ?ask\<rparr>) = (Ok (asks_for AS), c, idle)"
    using exec_read_query [OF get_u8_put, where ty = PT_Payload] by (simp add: enc_reply_def)
  have adv2: "advance ?p1 c (idle\<lparr>s_in := ?ask\<rparr>) = (?p2, c, idle\<lparr>s_sent := bs\<rparr>)"
    using send by (simp add: advance_simps advance_exec [OF read])
  from server_asks_for_arg [of h sv "id_of c krn" i r1 w1 AS bs r2 w2] q srv k obtain qq
    where turn: "advance (serverStep h) sv (idle\<lparr>s_in := enc_packet PT_SetKernelArg
          (put_KernelArg \<lparr>ka_mArgIndex = i, ka_mKernelID = id_of c krn\<rparr>)\<rparr>)
        = (qq, sv\<lparr>sv_world := w1\<rparr>, idle\<lparr>s_sent := ?ask\<rparr>)" "outcome qq = None"
      "exec qq (sv\<lparr>sv_world := w1\<rparr>) (idle\<lparr>s_in := bs\<rparr>) = (Ok True, sv\<lparr>sv_world := w2\<rparr>,
        idle\<lparr>s_sent := enc_reply (h_zlib h) (if r_err r2 = CL_SUCCESS then R_Success else R_Error (r_err r2))\<rparr>)"
    by auto
  show ?thesis
    by (rule remote_asked_back [OF adv1 _ turn(1,2) _ adv2 _ turn(3)])
      (simp_all add: enc_reply_not_Nil prog_simps on_error_def idle_def)
qed

end
