(* ===== verification/RCL_Session.thy ===== *)
theory RCL_Session
  imports RCL_RemoteKernel
begin

text \<open>
  Whole applications, on an OpenCL of their own and through the client.

  An application is a tree of calls (\<open>app\<close>): what it does next depends on the results. It keeps the
  objects it gets in variables, numbered in the order it got them, so that the same application runs
  over objects, natively (\<open>native_run\<close>: its own calls, with its own arguments, and nothing else), and over handles,
  through the functions of the client (\<open>client_run\<close>). \<open>server_run\<close> is what the OpenCL of the server sees of the latter:
  questions are asked twice, a build gets another option, and so on.
\<close>

section \<open>Calls\<close>

type_synonym var = nat

text \<open>A status, a size or a number, and the data the application finds in its buffer.\<close>

type_synonym app_result = "u32 \<times> nat option \<times> byte list option"

text \<open>Calls that are one call of OpenCL. The number of \<open>A_Status\<close> is a position in \<open>status_calls\<close>.\<close>

datatype basic_call =
    A_Status nat var u32
  | A_Context "var option" "var list"
  | A_Queue var var u64
  | A_Source var nat "byte list option list" "nat list option"
  | A_Build var "var list" "byte list option"
  | A_Kernel var "byte list"
  | A_Clone var
  | A_Buffer var u64 u64 "byte list option"
  | A_SubBuffer var u64 u32 u64 u64
  | A_UserEvent var
  | A_Wait "var list"
  | A_Launch var var nat "u64 list option" "u64 list" "u64 list" "var list" bool
  | A_Write var var bool u64 "byte list" "var list" bool
  | A_Read var var u64 u64 "var list" bool

datatype query =
    Ask_Info info_kind var u32
  | Ask_KernelArg var u32 u32
  | Ask_WorkGroup var var u32

datatype arg = Arg_Object var | Arg_Local nat | Arg_Data "byte list"

text \<open>The other calls: the first two list objects; \<open>A_Query\<close> says how much room its buffer has.\<close>

datatype app_call =
    A_Basic basic_call
  | A_Platforms nat
  | A_Devices var u64 nat
  | A_Query query buffer
  | A_SetArg var u32 arg

datatype app = A_Stop | A_Call app_call "app_result \<Rightarrow> app"

primrec basic_vars :: "basic_call \<Rightarrow> var list" where
  "basic_vars (A_Status n v s) = [v]"
| "basic_vars (A_Context p ds) = (case p of None \<Rightarrow> ds | Some v \<Rightarrow> v # ds)"
| "basic_vars (A_Queue c d props) = [c, d]"
| "basic_vars (A_Source c n strs lens) = [c]"
| "basic_vars (A_Build p ds opts) = p # ds"
| "basic_vars (A_Kernel p name) = [p]"
| "basic_vars (A_Clone k) = [k]"
| "basic_vars (A_Buffer c flags sz d) = [c]"
| "basic_vars (A_SubBuffer b flags ty origin sz) = [b]"
| "basic_vars (A_UserEvent c) = [c]"
| "basic_vars (A_Wait es) = es"
| "basic_vars (A_Launch q k dim off global loc es want) = q # k # es"
| "basic_vars (A_Write q b blocking off d es want) = q # b # es"
| "basic_vars (A_Read q b off sz es want) = q # b # es"

primrec query_vars :: "query \<Rightarrow> var list" where
  "query_vars (Ask_Info kind v param) = [v]"
| "query_vars (Ask_KernelArg v i param) = [v]"
| "query_vars (Ask_WorkGroup v d param) = [v, d]"

definition arg_vars :: "arg \<Rightarrow> var list" where
  "arg_vars a = (case a of Arg_Object v \<Rightarrow> [v] | _ \<Rightarrow> [])"

primrec call_vars :: "app_call \<Rightarrow> var list" where
  "call_vars (A_Basic b) = basic_vars b"
| "call_vars (A_Platforms room) = []"
| "call_vars (A_Devices v ty room) = [v]"
| "call_vars (A_Query q buf) = query_vars q"
| "call_vars (A_SetArg k i a) = k # arg_vars a"

section \<open>The calls of OpenCL\<close>

text \<open>The sizes of a launch: \<open>d\<close> in the dimensions that are not used.\<close>

definition sizes :: "nat \<Rightarrow> nat \<Rightarrow> u64 list \<Rightarrow> size3" where
  "sizes n d xs = (let at = (\<lambda>i. if n \<le> i then d else unat (xs ! i)) in (at 0, at 1, at 2))"

definition offsets :: "nat \<Rightarrow> u64 list option \<Rightarrow> size3" where
  "offsets n off = (case off of None \<Rightarrow> (0, 0, 0) | Some xs \<Rightarrow> sizes n 0 xs)"

text \<open>The call of OpenCL the server makes, for the objects \<open>x v\<close> of the variables.\<close>

primrec server_call :: "(var \<Rightarrow> ptr) \<Rightarrow> basic_call \<Rightarrow> cl_call" where
  "server_call x (A_Status n v s) = snd (status_calls s ! n) (x v)"
| "server_call x (A_Context p ds) = clCreateContext
     (case p of None \<Rightarrow> [] | Some v \<Rightarrow> [CL_CONTEXT_PLATFORM, x v, 0]) (map x ds)"
| "server_call x (A_Queue c d props) = clCreateCommandQueue (x c) (x d) props"
| "server_call x (A_Source c n strs lens) =
     clCreateProgramWithSource (x c) (the (the (source_string n strs lens)))"
| "server_call x (A_Build p ds opts) = clBuildProgram (x p) (map x ds)
     (c_str (build_options (case opts of None \<Rightarrow> [] | Some s \<Rightarrow> s)))"
| "server_call x (A_Kernel p name) = clCreateKernel (x p) (c_str name)"
| "server_call x (A_Clone k) = clCloneKernel (x k)"
| "server_call x (A_Buffer c flags sz d) = clCreateBuffer (x c) flags (unat sz) d"
| "server_call x (A_SubBuffer b flags ty origin sz) = clCreateSubBuffer (x b) flags ty (unat origin) (unat sz)"
| "server_call x (A_UserEvent c) = clCreateUserEvent (x c)"
| "server_call x (A_Wait es) = clWaitForEvents (map x es)"
| "server_call x (A_Launch q k dim off global loc es want) =
     clEnqueueNDRangeKernel (x q) (x k) (word_of_nat dim) (offsets dim off) (sizes dim 1 global)
       (Some (sizes dim 1 loc)) (map x es) want"
| "server_call x (A_Write q b blocking off d es want) =
     clEnqueueWriteBuffer (x q) (x b) blocking (unat off) d (map x es) want"
| "server_call x (A_Read q b off sz es want) =
     clEnqueueReadBuffer (x q) (x b) True (unat off) (unat sz) (map x es) want"

text \<open>The call the application makes on an OpenCL of its own: the options of a build are its own.\<close>

definition native_basic :: "(var \<Rightarrow> ptr) \<Rightarrow> basic_call \<Rightarrow> cl_call" where
  "native_basic x b = (case b of
       A_Build p ds opts \<Rightarrow> clBuildProgram (x p) (map x ds) (c_str (case opts of None \<Rightarrow> [] | Some s \<Rightarrow> s))
     | _ \<Rightarrow> server_call x b)"

text \<open>Whether the call returns an object or an event, and the data it delivers.\<close>

primrec gives_object :: "basic_call \<Rightarrow> bool" where
  "gives_object (A_Status n v s) = False"
| "gives_object (A_Context p ds) = True"
| "gives_object (A_Queue c d props) = True"
| "gives_object (A_Source c n strs lens) = True"
| "gives_object (A_Build p ds opts) = False"
| "gives_object (A_Kernel p name) = True"
| "gives_object (A_Clone k) = True"
| "gives_object (A_Buffer c flags sz d) = True"
| "gives_object (A_SubBuffer b flags ty origin sz) = True"
| "gives_object (A_UserEvent c) = True"
| "gives_object (A_Wait es) = False"
| "gives_object (A_Launch q k dim off global loc es want) = want"
| "gives_object (A_Write q b blocking off d es want) = want"
| "gives_object (A_Read q b off sz es want) = want"

definition read_size :: "basic_call \<Rightarrow> nat option" where
  "read_size b = (case b of A_Read q bu off sz es want \<Rightarrow> Some (unat sz) | _ \<Rightarrow> None)"

text \<open>
  What the library asks of a call: sizes and flags of at most 32 bits, lists it can send, a null pointer neither for
  the local size of a launch nor for the name of a kernel, and no memory of the application that OpenCL would go on using.
\<close>

definition in32 :: "u64 \<Rightarrow> bool" where
  "in32 x \<longleftrightarrow> unat x < 2 ^ 32"

primrec basic_ok :: "'w host \<Rightarrow> basic_call \<Rightarrow> bool" where
  "basic_ok h (A_Status n v s) \<longleftrightarrow> n < 17"
| "basic_ok h (A_Context p ds) \<longleftrightarrow> ds \<noteq> [] \<and> length ds < 65536"
| "basic_ok h (A_Queue c d props) \<longleftrightarrow> in32 props"
| "basic_ok h (A_Source c n strs lens) \<longleftrightarrow> 0 < n \<and>
     (case source_string n strs lens of Some (Some src) \<Rightarrow> string_ok src | _ \<Rightarrow> False)"
| "basic_ok h (A_Build p ds opts) \<longleftrightarrow>
     string_ok (case opts of None \<Rightarrow> [] | Some s \<Rightarrow> s) \<and> length ds < 256"
| "basic_ok h (A_Kernel p name) \<longleftrightarrow> string_ok name"
| "basic_ok h (A_Clone k) \<longleftrightarrow> 210 \<le> h_target h"
| "basic_ok h (A_Buffer c flags sz d) \<longleftrightarrow> and flags CL_MEM_USE_HOST_PTR = 0 \<and> in32 flags \<and> in32 sz
     \<and> (\<forall>mem \<in> set_option d. unat sz = length mem)"
| "basic_ok h (A_SubBuffer b flags ty origin sz) \<longleftrightarrow> in32 flags \<and> in32 origin \<and> in32 sz"
| "basic_ok h (A_UserEvent c) \<longleftrightarrow> True"
| "basic_ok h (A_Wait es) \<longleftrightarrow> es \<noteq> [] \<and> length es < 256"
| "basic_ok h (A_Launch q k dim off global loc es want) \<longleftrightarrow> 1 \<le> dim \<and> dim \<le> 3 \<and> length es < 256
     \<and> (\<forall>xs \<in> {global, loc} \<union> set_option off. dim \<le> length xs \<and> (\<forall>s \<in> set xs. in32 s))
     \<and> 0 \<notin> set (take dim loc)"
| "basic_ok h (A_Write q b blocking off d es want) \<longleftrightarrow> in32 off \<and> length d < 2 ^ 32 \<and> length es < 256"
| "basic_ok h (A_Read q b off sz es want) \<longleftrightarrow> in32 off \<and> in32 sz \<and> can_alloc h (unat sz) \<and> length es < 256"

text \<open>The failure of \<open>clCreateContext\<close> is always reported with the same status.\<close>

definition status_kept :: "basic_call \<Rightarrow> u32 \<Rightarrow> bool" where
  "status_kept b e \<longleftrightarrow> (case b of A_Context p ds \<Rightarrow> e = CL_DEVICE_NOT_AVAILABLE | _ \<Rightarrow> True)"

primrec query_call :: "(var \<Rightarrow> ptr) \<Rightarrow> query \<Rightarrow> nat \<Rightarrow> cl_call" where
  "query_call x (Ask_Info kind v param) = clGetInfo kind (x v) param"
| "query_call x (Ask_KernelArg v i param) = clGetKernelArgInfo (x v) i param"
| "query_call x (Ask_WorkGroup v d param) = clGetKernelWorkGroupInfo (x v) (x d) param"

text \<open>The parameters whose answer is data, the bytes of its size on the way, and whether the server
  gives up after the first failure.\<close>

primrec query_ok_for :: "query \<Rightarrow> bool" where
  "query_ok_for (Ask_Info kind v param) \<longleftrightarrow> (case kind of
       I_Platform \<Rightarrow> True
     | I_Device \<Rightarrow> param \<notin> {CL_DEVICE_PLATFORM, CL_DEVICE_PARENT_DEVICE, CL_DEVICE_MAX_WORK_ITEM_SIZES} \<union> set size_params
     | I_CommandQueue \<Rightarrow> param \<notin> {CL_QUEUE_CONTEXT, CL_QUEUE_DEVICE}
     | I_MemObject \<Rightarrow> param \<notin> {CL_MEM_CONTEXT, CL_MEM_ASSOCIATED_MEMOBJECT}
     | I_Image \<Rightarrow> param \<noteq> CL_IMAGE_BUFFER
     | I_Kernel \<Rightarrow> param \<notin> {CL_KERNEL_CONTEXT, CL_KERNEL_PROGRAM, CL_KERNEL_REFERENCE_COUNT, CL_KERNEL_NUM_ARGS}
     | _ \<Rightarrow> False)"
| "query_ok_for (Ask_KernelArg v i param) \<longleftrightarrow> param \<notin> {CL_KERNEL_ARG_ACCESS_QUALIFIER,
     CL_KERNEL_ARG_TYPE_QUALIFIER, CL_KERNEL_ARG_ADDRESS_QUALIFIER}"
| "query_ok_for (Ask_WorkGroup v d param) \<longleftrightarrow> param \<notin> {CL_KERNEL_COMPILE_WORK_GROUP_SIZE,
     CL_KERNEL_LOCAL_MEM_SIZE, CL_KERNEL_PREFERRED_WORK_GROUP_SIZE_MULTIPLE, CL_KERNEL_WORK_GROUP_SIZE}"

definition query_width :: "query \<Rightarrow> nat" where
  "query_width q = (case q of Ask_Info kind v param \<Rightarrow> if kind = I_Device \<or> kind = I_Kernel then 4 else 1 | _ \<Rightarrow> 4)"

definition query_checked :: "query \<Rightarrow> bool" where
  "query_checked q = (query_width q = 1)"

text \<open>The size and the bytes of an argument, and the address spaces it may be in.\<close>

primrec arg_size :: "arg \<Rightarrow> nat" where
  "arg_size (Arg_Object v) = 8"
| "arg_size (Arg_Local n) = n"
| "arg_size (Arg_Data d) = length d"

primrec arg_value :: "(var \<Rightarrow> ptr) \<Rightarrow> arg \<Rightarrow> byte list option" where
  "arg_value x (Arg_Object v) = Some (put_u64 (x v))"
| "arg_value x (Arg_Local n) = None"
| "arg_value x (Arg_Data d) = Some d"

primrec arg_fits :: "arg \<Rightarrow> u32 \<Rightarrow> bool" where
  "arg_fits (Arg_Object v) AS \<longleftrightarrow> asks_for AS = 73"
| "arg_fits (Arg_Local n) AS \<longleftrightarrow> asks_for AS = 83 \<and> n < 2 ^ 32"
| "arg_fits (Arg_Data d) AS \<longleftrightarrow> asks_for AS = 80 \<and> length d < 2 ^ 32"

section \<open>Natively\<close>

text \<open>
  One call on an OpenCL of the application's own, over the objects \<open>x v\<close> of its variables: the result, the objects it gets
  and the new state. The room for a list, and for data, is the one the application has.
\<close>

definition room_of :: "buffer \<Rightarrow> nat" where
  "room_of buf = (if snd buf then fst buf else 0)"

primrec native_query :: "(var \<Rightarrow> ptr) \<Rightarrow> app_call \<Rightarrow> cl_call" where
  "native_query x (A_Basic b) = native_basic x b"
| "native_query x (A_Platforms room) = clGetPlatformIDs room"
| "native_query x (A_Devices v ty room) = clGetDeviceIDs (x v) ty room"
| "native_query x (A_Query q buf) = query_call x q (room_of buf)"
| "native_query x (A_SetArg k i a) = clSetKernelArg (x k) i (arg_size a) (arg_value x a)"

primrec native_result :: "app_call \<Rightarrow> cl_ret \<Rightarrow> app_result \<times> ptr list" where
  "native_result (A_Basic b) r = ((CL_SUCCESS, None, map_option (\<lambda>_. r_bytes r) (read_size b)), if gives_object b then [r_obj r] else [])"
| "native_result (A_Platforms room) r = ((CL_SUCCESS, r_size r, None), r_objs r)"
| "native_result (A_Devices v ty room) r = ((CL_SUCCESS, r_size r, None), r_objs r)"
| "native_result (A_Query q buf) r = ((CL_SUCCESS, r_size r, if snd buf then Some (r_bytes r) else None), [])"
| "native_result (A_SetArg k i a) r = ((CL_SUCCESS, None, None), [])"

definition native_call :: "'w host \<Rightarrow> (var \<Rightarrow> ptr) \<Rightarrow> app_call \<Rightarrow> 'w \<Rightarrow> (app_result \<times> ptr list) \<times> 'w" where
  "native_call h x k w = (case h_cl h (native_query x k) w of (r, w') \<Rightarrow>
     (if r_err r \<noteq> CL_SUCCESS then ((r_err r, None, None), []) else native_result k r, w'))"

primrec native_run :: "'w host \<Rightarrow> app \<Rightarrow> ptr list \<Rightarrow> 'w \<Rightarrow> app_result list \<times> 'w" where
  "native_run h A_Stop xs w = ([], w)"
| "native_run h (A_Call k f) xs w = (case native_call h ((!) xs) k w of ((res, ps), w1) \<Rightarrow>
     (case native_run h (f res) (xs @ ps) w1 of (outs, w2) \<Rightarrow> (res # outs, w2)))"

section \<open>On the OpenCL of the server\<close>

text \<open>
  The objects OpenCL has named so far, and what they are: a released object's address may come back as that of
  another object, and then this is what counts. The client finds memory objects by the ID of their address.
\<close>

datatype obj_class = C_Listed | C_Memory | C_Other

definition made_class :: "cl_call \<Rightarrow> obj_class" where
  "made_class c = (if makes_mem c then C_Memory else C_Other)"

definition may_make :: "cl_call \<Rightarrow> (ptr \<rightharpoonup> obj_class) \<Rightarrow> ptr \<Rightarrow> bool" where
  "may_make c known p \<longleftrightarrow>
     (case known p of None \<Rightarrow> card (dom known) < 65536 | Some k \<Rightarrow> makes_mem c \<longrightarrow> k = C_Memory)"

definition may_list :: "(ptr \<rightharpoonup> obj_class) \<Rightarrow> ptr list \<Rightarrow> bool" where
  "may_list known ps \<longleftrightarrow> (\<forall>p \<in> set ps. known p \<in> {None, Some C_Listed}) \<and> card (dom known \<union> set ps) \<le> 65536"

definition name_all :: "(ptr \<rightharpoonup> obj_class) \<Rightarrow> ptr list \<Rightarrow> (ptr \<rightharpoonup> obj_class)" where
  "name_all known ps = (\<lambda>p. if p \<in> set ps then Some C_Listed else known p)"

lemma name_all_apply [simp]: "name_all known ps p = (if p \<in> set ps then Some C_Listed else known p)"
  by (simp add: name_all_def)

lemma dom_name_all [simp]: "dom (name_all known ps) = dom known \<union> set ps"
  by (auto simp: name_all_def)

text \<open>
  The objects of the variables. A variable whose object was at the address of one that is made has none any more:
  the application released it and does not use it again.
\<close>

definition usable :: "ptr option list \<Rightarrow> var \<Rightarrow> bool" where
  "usable objs v \<longleftrightarrow> v < length objs \<and> objs ! v \<noteq> None"

definition var_obj :: "ptr option list \<Rightarrow> var \<Rightarrow> ptr" where
  "var_obj objs v = the (objs ! v)"

definition add_made :: "ptr \<Rightarrow> ptr option list \<Rightarrow> ptr option list" where
  "add_made p objs = map (\<lambda>x. if x = Some p then None else x) objs @ [Some p]"

text \<open>
  \<open>server_does h objs known w k res objs' known' w'\<close>: \<open>k\<close> takes OpenCL from \<open>w\<close> to \<open>w'\<close> and gives the application
  the result; \<open>objs\<close> are the objects of its variables and \<open>known\<close> those OpenCL has named. Lists and answers are asked
  for with their size first, and the address space of an argument is asked for before it is set.
\<close>

inductive server_does ::
  "'w host \<Rightarrow> ptr option list \<Rightarrow> (ptr \<rightharpoonup> obj_class) \<Rightarrow> 'w \<Rightarrow> app_call \<Rightarrow> app_result \<Rightarrow> ptr option list
   \<Rightarrow> (ptr \<rightharpoonup> obj_class) \<Rightarrow> 'w \<Rightarrow> bool"
  for h objs known w where
  failed: "basic_ok h b \<Longrightarrow> h_cl h (server_call (var_obj objs) b) w = (r, w') \<Longrightarrow> r_err r \<noteq> CL_SUCCESS \<Longrightarrow>
     status_kept b (r_err r) \<Longrightarrow> server_does h objs known w (A_Basic b) (r_err r, None, None) objs known w'"
| worked: "basic_ok h b \<Longrightarrow> h_cl h (server_call (var_obj objs) b) w = (r, w') \<Longrightarrow> r_err r = CL_SUCCESS \<Longrightarrow>
     \<forall>n \<in> set_option (read_size b). length (r_bytes r) = n \<Longrightarrow> \<not> gives_object b \<Longrightarrow>
     server_does h objs known w (A_Basic b)
       (CL_SUCCESS, None, map_option (\<lambda>_. r_bytes r) (read_size b)) objs known w'"
| made: "basic_ok h b \<Longrightarrow> h_cl h (server_call (var_obj objs) b) w = (r, w') \<Longrightarrow> r_err r = CL_SUCCESS \<Longrightarrow>
     \<forall>n \<in> set_option (read_size b). length (r_bytes r) = n \<Longrightarrow> gives_object b \<Longrightarrow>
     may_make (server_call (var_obj objs) b) known (r_obj r) \<Longrightarrow>
     server_does h objs known w (A_Basic b)
       (CL_SUCCESS, None, map_option (\<lambda>_. r_bytes r) (read_size b)) (add_made (r_obj r) objs)
       (known(r_obj r \<mapsto> made_class (server_call (var_obj objs) b))) w'"
| platforms: "cl_lists h clGetPlatformIDs w ps w' \<Longrightarrow> may_list known ps \<Longrightarrow>
     server_does h objs known w (A_Platforms room) (CL_SUCCESS, Some (length ps), None)
       (objs @ map Some (take room ps)) (name_all known ps) w'"
| devices: "cl_lists h (clGetDeviceIDs (var_obj objs v) ty) w ps w' \<Longrightarrow> may_list known ps \<Longrightarrow>
     server_does h objs known w (A_Devices v ty room) (CL_SUCCESS, Some (length ps), None)
       (objs @ map Some (take room ps)) (name_all known ps) w'"
| unlisted: "h_cl h (clGetDeviceIDs (var_obj objs v) ty 0) w = (r, w') \<Longrightarrow> r_err r \<noteq> CL_SUCCESS \<Longrightarrow> h_new h 128 \<Longrightarrow>
     server_does h objs known w (A_Devices v ty room) (r_err r, None, None) objs known w'"
| no_answer: "query_ok_for q \<Longrightarrow> info_answer h (query_checked q) (query_call (var_obj objs) q) w (Inl e) w' \<Longrightarrow>
     server_does h objs known w (A_Query q buf) (e, None, None) objs known w'"
| answered: "query_ok_for q \<Longrightarrow> info_answer h (query_checked q) (query_call (var_obj objs) q) w (Inr d) w' \<Longrightarrow>
     payload_fits (query_width q) d \<Longrightarrow> snd buf \<longrightarrow> length d \<le> fst buf \<Longrightarrow>
     server_does h objs known w (A_Query q buf)
       (CL_SUCCESS, Some (length d), if snd buf then Some d else None) objs known w'"
| set_arg: "h_cl h (clGetKernelArgInfo (var_obj objs k) i CL_KERNEL_ARG_ADDRESS_QUALIFIER 4) w = (r1, w1) \<Longrightarrow>
     r_err r1 = CL_SUCCESS \<Longrightarrow> r_bytes r1 = put_u32 AS \<Longrightarrow> arg_fits a AS \<Longrightarrow>
     h_cl h (clSetKernelArg (var_obj objs k) i (arg_size a) (arg_value (var_obj objs) a)) w1 = (r, w') \<Longrightarrow>
     server_does h objs known w (A_SetArg k i a) (r_err r, None, None) objs known w'"

inductive server_run ::
  "'w host \<Rightarrow> app \<Rightarrow> ptr option list \<Rightarrow> (ptr \<rightharpoonup> obj_class) \<Rightarrow> 'w \<Rightarrow> app_result list \<Rightarrow> 'w \<Rightarrow> bool" for h where
  stop: "server_run h A_Stop objs known w [] w"
| step: "\<forall>v \<in> set (call_vars k). usable objs v \<Longrightarrow> server_does h objs known w k res objs' known' w1 \<Longrightarrow>
     server_run h (f res) objs' known' w1 outs w' \<Longrightarrow>
     server_run h (A_Call k f) objs known w (res # outs) w'"

section \<open>Through the client\<close>

definition gives_status :: "(client, u32) prog \<Rightarrow> (client, app_result \<times> handle list) prog" where
  "gives_status p = pbind p (\<lambda>e. PRet ((e, None, None), []))"

definition gives_new :: "(client, handle \<times> u32) prog \<Rightarrow> (client, app_result \<times> handle list) prog" where
  "gives_new p = pbind p (\<lambda>(t, e). PRet ((e, None, None), if e = CL_SUCCESS then [t] else []))"

definition opt_list :: "'a option \<Rightarrow> 'a list" where
  "opt_list x = (case x of None \<Rightarrow> [] | Some a \<Rightarrow> [a])"

definition gives_list :: "(client, u32 \<times> nat \<times> handle list) prog \<Rightarrow> (client, app_result \<times> handle list) prog" where
  "gives_list p = pbind p (\<lambda>(e, n, ts). PRet ((e, if e = CL_SUCCESS then Some n else None, None), ts))"

definition gives_data :: "(client, u32 \<times> query_out) prog \<Rightarrow> (client, app_result \<times> handle list) prog" where
  "gives_data p = pbind p (\<lambda>(e, d, n). PRet ((e, n, d), []))"

text \<open>The functions of the client, for the handles \<open>t v\<close> of the variables.\<close>

primrec client_basic :: "zlib option \<Rightarrow> (var \<Rightarrow> handle) \<Rightarrow> basic_call \<Rightarrow> (client, app_result \<times> handle list) prog" where
  "client_basic z t (A_Status n v s) = gives_status (fst (status_calls s ! n) (t v))"
| "client_basic z t (A_Context p ds) = gives_new (api_clCreateContext
     (case p of None \<Rightarrow> None | Some v \<Rightarrow> Some [CL_CONTEXT_PLATFORM, word_of_nat (t v), 0])
     (length ds) (Some (map t ds)))"
| "client_basic z t (A_Queue c d props) = gives_new (api_clCreateCommandQueue (t c) (t d) props)"
| "client_basic z t (A_Source c n strs lens) = gives_new (api_clCreateProgramWithSource (t c) n (Some strs) lens)"
| "client_basic z t (A_Build p ds opts) =
     gives_status (api_clBuildProgram (t p) (length ds) (listed_or_null (map t ds)) opts 0 0)"
| "client_basic z t (A_Kernel p name) = gives_new (api_clCreateKernel (t p) (Some name))"
| "client_basic z t (A_Clone k) = gives_new (api_clCloneKernel (t k))"
| "client_basic z t (A_Buffer c flags sz d) = gives_new (api_clCreateBuffer z (t c) flags sz d)"
| "client_basic z t (A_SubBuffer b flags ty origin sz) =
     gives_new (api_clCreateSubBuffer (t b) flags ty (Some (origin, sz)))"
| "client_basic z t (A_UserEvent c) = gives_new (api_clCreateUserEvent (t c))"
| "client_basic z t (A_Wait es) = gives_status (api_clWaitForEvents (length es) (Some (map t es)))"
| "client_basic z t (A_Launch q k dim off global loc es want) =
     pbind (api_clEnqueueNDRangeKernel (t q) (t k) dim off global (Some loc) (length es) (Some (map t es)) want)
       (\<lambda>(e, ev). PRet ((e, None, None), opt_list ev))"
| "client_basic z t (A_Write q b blocking off d es want) =
     pbind (api_clEnqueueWriteBuffer z (t q) (t b) blocking off (word_of_nat (length d)) d (length es) (Some (map t es)) want)
       (\<lambda>(e, ev, _). PRet ((e, None, None), opt_list ev))"
| "client_basic z t (A_Read q b off sz es want) =
     pbind (api_clEnqueueReadBuffer z (t q) (t b) True off sz (unat sz) (length es) (Some (map t es)) want)
       (\<lambda>(e, ev, d). PRet ((e, None, d), opt_list ev))"

primrec client_query :: "zlib option \<Rightarrow> (var \<Rightarrow> handle) \<Rightarrow> query \<Rightarrow> buffer \<Rightarrow> (client, u32 \<times> query_out) prog" where
  "client_query z t (Ask_Info kind v param) buf = (case kind of
       I_Device \<Rightarrow> api_clGetDeviceInfo z [] (t v) param buf
     | I_CommandQueue \<Rightarrow> api_clGetCommandQueueInfo z (t v) param buf
     | I_MemObject \<Rightarrow> api_clGetMemObjectInfo z (t v) param buf
     | I_Image \<Rightarrow> api_clGetImageInfo z (t v) param buf
     | I_Kernel \<Rightarrow> api_clGetKernelInfo z (t v) param buf
     | _ \<Rightarrow> api_clGetPlatformInfo z (t v) param buf)"
| "client_query z t (Ask_KernelArg v i param) buf = api_clGetKernelArgInfo z (t v) i param buf"
| "client_query z t (Ask_WorkGroup v d param) buf = api_clGetKernelWorkGroupInfo z [] (t v) (t d) param buf"

text \<open>The application passes the address of its variable, or no memory for a local argument.\<close>

primrec arg_memory :: "(var \<Rightarrow> handle) \<Rightarrow> arg \<Rightarrow> byte list" where
  "arg_memory t (Arg_Object v) = handle_bytes (t v)"
| "arg_memory t (Arg_Local n) = []"
| "arg_memory t (Arg_Data d) = d"

primrec client_call :: "zlib option \<Rightarrow> (var \<Rightarrow> handle) \<Rightarrow> app_call \<Rightarrow> (client, app_result \<times> handle list) prog" where
  "client_call z t (A_Basic b) = client_basic z t b"
| "client_call z t (A_Platforms room) = gives_list (api_clGetPlatformIDs room (0 < room) True)"
| "client_call z t (A_Devices v ty room) = gives_list (api_clGetDeviceIDs (t v) ty room (0 < room) True)"
| "client_call z t (A_Query q buf) = gives_data (client_query z t q buf)"
| "client_call z t (A_SetArg k i a) =
     gives_status (api_clSetKernelArg z (t k) i (arg_size a) (arg_memory t a))"

primrec client_run :: "zlib option \<Rightarrow> app \<Rightarrow> handle list \<Rightarrow> (client, app_result list) prog" where
  "client_run z A_Stop hs = PRet []"
| "client_run z (A_Call k f) hs =
     pbind (client_call z ((!) hs) k) (\<lambda>(res, ts).
     pbind (client_run z (f res) (hs @ ts)) (\<lambda>outs. PRet (res # outs)))"

end
