(* ===== verification/RCL_Transparency.thy ===== *)
theory RCL_Transparency
  imports RCL_Session
begin

text \<open>
  The client's functions simulate OpenCL (\<open>client_call_simulates\<close>): both give an application the same results,
  the handles it gets stand for the objects, and OpenCL ends in the same state. So a whole application
  runs as it does on the OpenCL of the server's machine (\<open>client_run_simulates\<close>).
\<close>

section \<open>The calls that are one call of OpenCL\<close>

lemma remote_pbind_PRet:
  "remote h p c sv (Ok a) c1 sv1 \<Longrightarrow> f a = PRet b \<Longrightarrow> remote h (pbind p f) c sv (Ok b) c1 sv1"
  using remote_pbind_eq [of h p c sv a c1 sv1 f "Ok b" c1 sv1] by (simp add: remote_PRet)

lemma remote_event_pbind:
  assumes run: "remote_event h p c sv want r w G F"
    and "r_err r \<noteq> CL_SUCCESS \<Longrightarrow> f (G (r_err r)) = PRet (G' (r_err r))"
    and ok: "\<And>ev. want \<longleftrightarrow> ev \<noteq> None \<Longrightarrow> f (F ev) = PRet (F' ev)"
  shows "remote_event h (pbind p f) c sv want r w G' F'"
proof (cases "r_err r = CL_SUCCESS \<and> want")
  case True
  have "remote h (pbind p f) c sv (Ok (F' (Some t))) c' sv'" if "remote h p c sv (Ok (F (Some t))) c' sv'" for t c' sv'
    using remote_pbind_PRet [where f = f, OF that] ok [of "Some t"] True by simp
  note step = this
  show ?thesis
  proof (cases "r_obj r \<in> set (mObjects sv)")
    case known: True
    with run True obtain t c' where "remote h p c sv (Ok (F (Some t))) c' (sv\<lparr>sv_world := w\<rparr>)"
      "reused_handle c sv c' t (r_obj r)" by (auto simp: remote_event_def)
    with step have "\<exists>t c'. remote h (pbind p f) c sv (Ok (F' (Some t))) c' (sv\<lparr>sv_world := w\<rparr>)
        \<and> reused_handle c sv c' t (r_obj r)" by blast
    with True known show ?thesis unfolding remote_event_def by simp
  next
    case False
    with run True step show ?thesis unfolding remote_event_def by (metis (no_types, lifting))
  qed
next
  case False
  with run assms(2) ok [of None] show ?thesis
    unfolding remote_event_def by (auto intro: remote_pbind_PRet)
qed

lemma remote_event_status:
  assumes "remote h p c sv (Ok (r_err r)) c (sv\<lparr>sv_world := w\<rparr>)"
  shows "remote_event h p c sv False r w (\<lambda>e. e) (\<lambda>_. CL_SUCCESS)"
  using assms by (auto simp: remote_event_def)

lemma remote_event_create:
  assumes "create_call h p ts G E" and "in_sync c sv" and "\<forall>t \<in> set ts. denotes c sv t (obj t)"
    and "zlib_opt_ok (h_zlib h)" and "h_cl h (G obj) (sv_world sv) = (r, w)" and "mirrors n c sv"
  shows "remote_event h p c sv True r w (\<lambda>e. (0, E e)) (\<lambda>ev. (the ev, CL_SUCCESS))"
proof (cases "r_obj r \<in> set (mObjects sv)")
  case True
  with remote_create_call(1,3) [OF assms(1-5)] assms(6) show ?thesis unfolding remote_event_def by auto metis
next
  case False
  with remote_create_call(1,2) [OF assms(1-5)] show ?thesis unfolding remote_event_def by auto
qed

text \<open>What the application gets, for all of them.\<close>

definition fail_status :: "basic_call \<Rightarrow> u32 \<Rightarrow> u32" where
  "fail_status b e = (case b of A_Context p ds \<Rightarrow> CL_DEVICE_NOT_AVAILABLE | _ \<Rightarrow> e)"

lemma fail_status_error: "e \<noteq> CL_SUCCESS \<Longrightarrow> fail_status b e \<noteq> CL_SUCCESS"
  by (cases b) (simp_all add: fail_status_def)

definition read_data :: "basic_call \<Rightarrow> cl_ret \<Rightarrow> byte list option" where
  "read_data b r = map_option (\<lambda>n. out_bytes (replicate n 0) r) (read_size b)"

definition simulates ::
  "'w host \<Rightarrow> client \<Rightarrow> 'w server \<Rightarrow> (var \<Rightarrow> handle) \<Rightarrow> basic_call \<Rightarrow> cl_ret \<Rightarrow> 'w \<Rightarrow> bool" where
  "simulates h c sv t b r w \<longleftrightarrow> remote_event h (client_basic (h_zlib h) t b) c sv (gives_object b) r w
     (\<lambda>e. ((fail_status b e, None, None), [])) (\<lambda>ev. ((CL_SUCCESS, None, read_data b r), opt_list ev))"

text \<open>A call with the right arguments over handles that stand for objects, and the answer of OpenCL.\<close>

definition called ::
  "'w host \<Rightarrow> client \<Rightarrow> 'w server \<Rightarrow> (var \<Rightarrow> handle) \<Rightarrow> (handle \<Rightarrow> ptr) \<Rightarrow> basic_call \<Rightarrow> cl_ret \<Rightarrow> 'w \<Rightarrow> bool" where
  "called h c sv t obj b r w \<longleftrightarrow> (\<exists>n < 2 ^ 63. mirrors n c sv) \<and> zlib_opt_ok (h_zlib h) \<and> basic_ok h b
     \<and> (\<forall>u \<in> t ` set (basic_vars b). denotes c sv u (obj u))
     \<and> h_cl h (server_call (\<lambda>v. obj (t v)) b) (sv_world sv) = (r, w)"

lemma called_sync: "called h c sv t obj b r w \<Longrightarrow> in_sync c sv" "called h c sv t obj b r w \<Longrightarrow> zlib_opt_ok (h_zlib h)"
  by (auto simp: called_def mirrors_def)

lemma simulates_status:
  assumes "remote h p c sv (Ok (r_err r)) c (sv\<lparr>sv_world := w\<rparr>)" and "client_basic (h_zlib h) t b = gives_status p"
    and "\<not> gives_object b" and "read_size b = None" and "fail_status b = (\<lambda>e. e)"
  shows "simulates h c sv t b r w"
  using assms(3-5) unfolding simulates_def assms(2) gives_status_def
  by (auto intro!: remote_event_pbind [OF remote_event_status [OF assms(1)]] simp: read_data_def opt_list_def)

lemma simulates_create:
  assumes call: "called h c sv t obj b r w" and create: "create_call h p ts G E"
    and "client_basic (h_zlib h) t b = gives_new p" and "gives_object b" and "read_size b = None"
    and "set ts \<subseteq> t ` set (basic_vars b)" and "G obj = server_call (\<lambda>v. obj (t v)) b" and E: "\<And>e. E e = fail_status b e"
  shows "simulates h c sv t b r w"
proof -
  have ts: "\<forall>u \<in> set ts. denotes c sv u (obj u)" and cl: "h_cl h (G obj) (sv_world sv) = (r, w)"
    using call assms(6,7) by (auto simp: called_def)
  from call obtain n where "mirrors n c sv" by (auto simp: called_def)
  note create = remote_event_create [OF create called_sync(1) [OF call] ts called_sync(2) [OF call] cl this]
  have "remote_event h (pbind p (\<lambda>(t, e). PRet ((e, None, None), if e = CL_SUCCESS then [t] else []))) c sv True r w
      (\<lambda>e. ((fail_status b e, None, None), [])) (\<lambda>ev. ((CL_SUCCESS, None, None), opt_list ev))"
    by (rule remote_event_pbind [OF create]) (auto simp: opt_list_def E fail_status_error)
  with assms(4,5) show ?thesis by (simp add: simulates_def assms(3) gives_new_def read_data_def)
qed

text \<open>A command, whose function returns a tuple with the event.\<close>

lemma simulates_event:
  assumes "remote_event h p c sv (gives_object b) r w G F" and "client_basic (h_zlib h) t b = pbind p f"
    and "\<And>e. f (G e) = PRet ((fail_status b e, None, None), [])"
    and "\<And>ev. f (F ev) = PRet ((CL_SUCCESS, None, read_data b r), opt_list ev)"
  shows "simulates h c sv t b r w"
  unfolding simulates_def assms(2) using assms(1) by (rule remote_event_pbind) (simp_all only: assms(3,4))

lemma server_call_cong:
  "\<forall>v \<in> set (basic_vars b). x v = y v \<Longrightarrow> server_call x b = server_call y b"
  by (cases b) (auto split: option.splits)

lemma mirrors_handle:
  assumes "mirrors n c sv" and "n < 2 ^ 63" and "denotes c sv t p"
  shows "t < 2 ^ 64"
proof -
  from assms have ok: "client_ok c" and new: "cl_next c \<le> Suc (length (cl_mObjects c)) + n"
    by (simp_all add: mirrors_def in_sync_def)
  from assms(3) obtain i where "cl_heap c t = Some i" by (auto simp: denotes_def)
  with ok have "t \<in> set (cl_mObjects c)" by (auto simp: client_ok_heap)
  with ok have "t < cl_next c" "length (cl_mObjects c) \<le> 65536" by (auto simp: client_ok_def)
  with new assms(2) show ?thesis by simp
qed

lemma in32_unat: "in32 x \<Longrightarrow> unat (ucast x :: u32) = unat x"
  by (simp add: in32_def unat_ucast_u32)

lemma in32_ucast: "in32 x \<Longrightarrow> ucast (ucast x :: u32) = x"
  using in32_unat [of x] by (simp only: word_unat_eq_iff unsigned_ucast_eq) (simp add: unsigned_take_bit_eq take_bit_nat_eq_self in32_def)

lemma in32_nth: "\<forall>s \<in> set xs. in32 s \<Longrightarrow> i < n \<Longrightarrow> n \<le> length xs \<Longrightarrow> unat (ucast (xs ! i) :: u32) = unat (xs ! i)"
  by (simp add: in32_unat)

lemma in32_nonzero:
  assumes "\<forall>s \<in> set xs. in32 s" and "0 \<notin> set (take n xs)"
  shows "(0::u32) \<notin> set (map ucast (take n xs))"
proof
  assume "(0::u32) \<in> set (map ucast (take n xs))"
  then obtain x where x: "x \<in> set (take n xs)" "ucast x = (0::u32)" by auto
  have "in32 x" using assms(1) x(1) by (auto dest: in_set_takeD)
  from in32_ucast [OF this] x(2) have "x = 0" by simp
  with x(1) assms(2) show False by simp
qed

lemma sizes_sent:
  assumes "\<forall>s \<in> set xs. in32 s" and "n \<le> length xs"
  shows "size3_of (dims n d m (Some xs)) = sizes n (unat d) xs"
  using in32_nth [OF assms(1) _ assms(2)] by (auto simp: dims_def size3_of_def sizes_def Let_def)

lemma offsets_sent:
  "\<forall>xs \<in> set_option off. n \<le> length xs \<and> (\<forall>s \<in> set xs. in32 s) \<Longrightarrow> size3_of (dims n 0 0 off) = offsets n off"
  by (cases off) (simp_all add: sizes_sent offsets_def, simp add: dims_def size3_of_def)

text \<open>Every call is what its function makes of it.\<close>

lemmas basic_shape = read_size_def fail_status_def fun_eq_iff

lemma A_Status_simulates:
  assumes call: "called h c sv t obj (A_Status n v s) r w"
  shows "simulates h c sv t (A_Status n v s) r w"
proof -
  note sync = called_sync [OF call]
  obtain f g where fg: "status_calls s ! n = (f, g)" by (cases "status_calls s ! n")
  have "length (status_calls s) = 17" by (simp add: status_calls_def)
  with nth_mem [of n "status_calls s"] call fg have "(f, g) \<in> set (status_calls s)" by (simp add: called_def)
  moreover have "cl_heap c (t v) = Some (id_of c (t v))" "getObj (mObjects sv) (id_of c (t v)) = obj (t v)"
    using denotes_id [OF sync(1), of "t v" "obj (t v)"] call by (simp_all add: called_def)
  ultimately have "remote h (f (t v)) c sv (Ok (r_err r)) c (sv\<lparr>sv_world := w\<rparr>)"
    using remote_status_call [OF _ sync(1) _ sync(2), of f g s "t v" "id_of c (t v)" r w] call fg by (simp add: called_def)
  then show ?thesis by (rule simulates_status) (simp_all add: fg basic_shape)
qed

lemma A_Build_simulates:
  assumes call: "called h c sv t obj (A_Build p ds opts) r w"
  shows "simulates h c sv t (A_Build p ds opts) r w"
proof (rule simulates_status)
  note sync = called_sync [OF call]
  show "remote h (api_clBuildProgram (t p) (length (map t ds)) (listed_or_null (map t ds)) opts 0 0) c sv
      (Ok (r_err r)) c (sv\<lparr>sv_world := w\<rparr>)"
    by (rule remote_clBuildProgram [OF sync(1) _ _ _ sync(2), where obj = obj]) (use call in \<open>simp_all add: called_def comp_def\<close>)
qed (simp_all add: basic_shape)

lemma A_Wait_simulates:
  assumes call: "called h c sv t obj (A_Wait es) r w"
  shows "simulates h c sv t (A_Wait es) r w"
proof (rule simulates_status)
  note sync = called_sync [OF call]
  show "remote h (api_clWaitForEvents (length (map t es)) (Some (map t es))) c sv (Ok (r_err r)) c (sv\<lparr>sv_world := w\<rparr>)"
    by (rule remote_clWaitForEvents [OF sync(1) _ _ _ sync(2), where obj = obj]) (use call in \<open>simp_all add: called_def comp_def\<close>)
qed (simp_all add: basic_shape)

lemma A_Context_simulates:
  assumes call: "called h c sv t obj (A_Context p ds) r w"
  shows "simulates h c sv t (A_Context p ds) r w"
proof (cases p)
  case None
  show ?thesis by (rule simulates_create [OF call create_call.ctx [of "map t ds"]])
      (use call None in \<open>simp_all add: called_def basic_shape comp_def\<close>)
next
  case (Some v)
  have "t v < 2 ^ 64" using mirrors_handle call Some by (auto simp: called_def)
  then show ?thesis by (intro simulates_create [OF call create_call.ctx_platform [of "map t ds" "t v"]])
      (use call Some in \<open>simp_all add: called_def basic_shape comp_def\<close>)
qed

lemma A_Source_simulates:
  assumes call: "called h c sv t obj (A_Source ctx n strs lens) r w"
  shows "simulates h c sv t (A_Source ctx n strs lens) r w"
proof -
  from call obtain src where "source_string n strs lens = Some (Some src)" "string_ok src" "0 < n"
    by (auto simp: called_def split: option.splits)
  then show ?thesis by (intro simulates_create [OF call create_call.source [of n strs lens src h "t ctx"]])
      (simp_all add: basic_shape)
qed

lemma A_Buffer_simulates:
  assumes call: "called h c sv t obj (A_Buffer ctx flags sz d) r w"
  shows "simulates h c sv t (A_Buffer ctx flags sz d) r w"
proof (cases d)
  case None
  show ?thesis by (rule simulates_create [OF call create_call.buffer [of flags h "t ctx" sz]])
      (use call None in \<open>simp_all add: called_def basic_shape in32_ucast in32_unat\<close>)
next
  case (Some mem)
  show ?thesis by (rule simulates_create [OF call create_call.buffer_data [of flags sz mem h "t ctx"]])
      (use call Some in \<open>simp_all add: called_def basic_shape in32_ucast in32_unat in32_def\<close>)
qed

lemma creates_simulate:
  "called h c sv t obj (A_Queue ctx d props) r w \<Longrightarrow> simulates h c sv t (A_Queue ctx d props) r w"
  "called h c sv t obj (A_Kernel p name) r w \<Longrightarrow> simulates h c sv t (A_Kernel p name) r w"
  "called h c sv t obj (A_Clone k) r w \<Longrightarrow> simulates h c sv t (A_Clone k) r w"
  "called h c sv t obj (A_SubBuffer buf flags ty origin sz) r w \<Longrightarrow> simulates h c sv t (A_SubBuffer buf flags ty origin sz) r w"
  "called h c sv t obj (A_UserEvent ctx) r w \<Longrightarrow> simulates h c sv t (A_UserEvent ctx) r w"
  subgoal
    by (frule simulates_create [OF _ create_call.queue [of h "t ctx" "t d" props]])
      (simp_all add: called_def basic_shape in32_ucast)
  subgoal
    by (frule simulates_create [OF _ create_call.kernel [of name h "t p"]]) (simp_all add: called_def basic_shape)
  subgoal
    by (frule simulates_create [OF _ create_call.clone [of h "t k"]]) (simp_all add: called_def basic_shape)
  subgoal
    by (frule simulates_create [OF _ create_call.sub_buffer [of h "t buf" flags ty origin sz]])
      (simp_all add: called_def basic_shape in32_ucast in32_unat)
  subgoal
    by (frule simulates_create [OF _ create_call.user_event [of h "t ctx"]]) (simp_all add: called_def basic_shape)
  done

lemma A_Launch_simulates:
  assumes call: "called h c sv t obj (A_Launch q k dim off global loc es want) r w"
  shows "simulates h c sv t (A_Launch q k dim off global loc es want) r w"
proof (rule simulates_event [where f = "\<lambda>(e, ev). PRet ((e, None, None), opt_list ev)"])
  note sync = called_sync [OF call]
  have ok: "1 \<le> dim" "\<forall>xs \<in> {global, loc} \<union> set_option off. dim \<le> length xs \<and> (\<forall>s \<in> set xs. in32 s)"
    "0 \<notin> set (take dim loc)" using call by (simp_all add: called_def)
  then have loc: "fst (dims dim 1 1 (Some loc)) \<noteq> 0"
    using launched_local_size(1) [of dim "Some loc"] in32_nonzero [of loc dim] by simp
  show "remote_event h (api_clEnqueueNDRangeKernel (t q) (t k) dim off global (Some loc) (length (map t es)) (Some (map t es)) want)
      c sv (gives_object (A_Launch q k dim off global loc es want)) r w (\<lambda>e. (e, None)) (\<lambda>ev. (CL_SUCCESS, ev))"
    unfolding gives_object.simps
    by (rule remote_clEnqueueNDRangeKernel [OF sync(1) _ _ _ _ _ _ _ sync(2), where obj = obj])
      (use call loc sizes_sent [of loc dim 1 1] sizes_sent [of global dim 1 1] offsets_sent [of off dim]
       in \<open>simp_all add: called_def comp_def Let_def\<close>)
qed (simp_all add: fail_status_def read_size_def read_data_def opt_list_def)

lemma A_Write_simulates:
  assumes call: "called h c sv t obj (A_Write q bu blocking off d es want) r w"
  shows "simulates h c sv t (A_Write q bu blocking off d es want) r w"
proof (rule simulates_event [where f = "\<lambda>(e, ev, _). PRet ((e, None, None), opt_list ev)"])
  note sync = called_sync [OF call]
  show "remote_event h (api_clEnqueueWriteBuffer (h_zlib h) (t q) (t bu) blocking off (word_of_nat (length d)) d
        (length (map t es)) (Some (map t es)) want) c sv (gives_object (A_Write q bu blocking off d es want)) r w
        (\<lambda>e. (e, None, ())) (\<lambda>ev. (CL_SUCCESS, ev, ()))"
    unfolding gives_object.simps
    by (rule remote_clEnqueueWriteBuffer [OF sync(1) _ _ _ _ _ sync(2), where obj = obj])
      (use call in \<open>simp_all add: called_def comp_def in32_def unat_of_nat\<close>)
qed (simp_all add: fail_status_def read_size_def read_data_def opt_list_def)

lemma A_Read_simulates:
  assumes call: "called h c sv t obj (A_Read q bu off sz es want) r w"
  shows "simulates h c sv t (A_Read q bu off sz es want) r w"
proof (rule simulates_event [where f = "\<lambda>(e, ev, d). PRet ((e, None, d), opt_list ev)"])
  note sync = called_sync [OF call]
  show "remote_event h (api_clEnqueueReadBuffer (h_zlib h) (t q) (t bu) True off sz (unat sz)
        (length (map t es)) (Some (map t es)) want) c sv (gives_object (A_Read q bu off sz es want)) r w
        (\<lambda>e. (e, None, None)) (\<lambda>ev. (CL_SUCCESS, ev, Some (out_bytes (replicate (unat sz) 0) r)))"
    unfolding gives_object.simps
    by (rule remote_clEnqueueReadBuffer [OF sync(1) _ _ _ _ _ _ sync(2), where obj = obj])
      (use call in \<open>simp_all add: called_def comp_def in32_def\<close>)
qed (simp_all add: fail_status_def read_size_def read_data_def opt_list_def)

lemma basic_simulates: "called h c sv t obj b r w \<Longrightarrow> simulates h c sv t b r w"
  by (cases b) (auto intro: A_Status_simulates A_Build_simulates A_Wait_simulates A_Context_simulates A_Source_simulates
      A_Buffer_simulates creates_simulate A_Launch_simulates A_Write_simulates A_Read_simulates)

section \<open>The state of a session\<close>

text \<open>
  Between two calls: the handles of the application's variables stand for their objects, and at most \<open>n\<close> handles have
  been replaced.
\<close>

definition in_session ::
  "nat \<Rightarrow> client \<Rightarrow> 'w server \<Rightarrow> handle list \<Rightarrow> ptr option list \<Rightarrow> (ptr \<rightharpoonup> obj_class) \<Rightarrow> 'w \<Rightarrow> bool" where
  "in_session n c sv hs objs known w \<longleftrightarrow> mirrors n c sv
     \<and> list_all2 (\<lambda>t x. \<forall>p \<in> set_option x. denotes c sv t p) hs objs
     \<and> set (mObjects sv) = dom known \<and> sv_world sv = w"

text \<open>A call of an application whose handles are \<open>hs\<close>.\<close>

definition remote_step ::
  "'w host \<Rightarrow> (client, app_result \<times> handle list) prog \<Rightarrow> nat \<Rightarrow> client \<Rightarrow> 'w server \<Rightarrow> handle list \<Rightarrow> app_result
   \<Rightarrow> ptr option list \<Rightarrow> (ptr \<rightharpoonup> obj_class) \<Rightarrow> 'w \<Rightarrow> bool" where
  "remote_step h p n c sv hs res objs known w \<longleftrightarrow> (\<exists>ts c' sv'. remote h p c sv (Ok (res, ts)) c' sv'
     \<and> in_session (Suc n) c' sv' (hs @ ts) objs known w)"

lemma mirrors_Suc: "mirrors n c sv \<Longrightarrow> mirrors (Suc n) c sv"
  by (simp add: mirrors_def)

lemma remote_step_same:
  assumes "remote h p c sv (Ok (res, [])) c (sv\<lparr>sv_world := w'\<rparr>)" and "in_session n c sv hs objs known w"
  shows "remote_step h p n c sv hs res objs known w'"
  unfolding remote_step_def using assms
  by (intro exI [of _ "[]"] exI [of _ c] exI [of _ "sv\<lparr>sv_world := w'\<rparr>"]) (auto simp: in_session_def mirrors_Suc)

text \<open>The object of a variable is the one its handle stands for.\<close>

definition object_of :: "client \<Rightarrow> 'w server \<Rightarrow> handle \<Rightarrow> ptr" where
  "object_of c sv t = getObj (mObjects sv) (id_of c t)"

lemma session_var:
  assumes "in_session n c sv hs objs known w" and "usable objs v"
  shows "denotes c sv (hs ! v) (var_obj objs v)" and "object_of c sv (hs ! v) = var_obj objs v"
proof -
  show den: "denotes c sv (hs ! v) (var_obj objs v)"
    using assms by (auto simp: in_session_def list_all2_conv_all_nth usable_def var_obj_def)
  have "in_sync c sv" using assms(1) by (simp add: in_session_def mirrors_def)
  from denotes_id [OF this den] show "object_of c sv (hs ! v) = var_obj objs v" by (simp add: object_of_def)
qed

text \<open>An object that is made gets the next variable, whether the server knows its address or not.\<close>

lemma session_made:
  assumes s: "in_session n c sv hs objs known w" and t: "denotes c' sv' t p"
    and keep: "\<forall>u x. denotes c sv u x \<longrightarrow> x \<noteq> p \<longrightarrow> denotes c' sv' u x"
    and m: "mirrors (Suc n) c' sv'" and "set (mObjects sv') = insert p (set (mObjects sv))" and "sv_world sv' = w'"
  shows "in_session (Suc n) c' sv' (hs @ [t]) (add_made p objs) (known(p \<mapsto> k)) w'"
proof -
  have "list_all2 (\<lambda>t x. \<forall>p \<in> set_option x. denotes c sv t p) hs objs" using s by (simp add: in_session_def)
  then have "list_all2 (\<lambda>t x. \<forall>p \<in> set_option x. denotes c' sv' t p) hs (map (\<lambda>x. if x = Some p then None else x) objs)"
    using keep by (auto simp: list_all2_conv_all_nth)
  with assms show ?thesis
    by (auto simp: in_session_def add_made_def intro!: list_all2_appendI)
qed

section \<open>One call of an application\<close>

lemma basic_step:
  assumes s: "in_session n c sv hs objs known w" and n: "n < 2 ^ 63" and v: "\<forall>v \<in> set (basic_vars b). usable objs v"
    and z: "zlib_opt_ok (h_zlib h)" and ok: "basic_ok h b" and cl: "h_cl h (server_call (var_obj objs) b) w = (r, w')"
  shows "simulates h c sv ((!) hs) b r w'"
proof (rule basic_simulates)
  have "server_call (var_obj objs) b = server_call (\<lambda>v. object_of c sv (hs ! v)) b"
    using session_var(2) [OF s] v by (intro server_call_cong) simp
  moreover have "denotes c sv (hs ! v) (object_of c sv (hs ! v))" if "v \<in> set (basic_vars b)" for v
    using session_var [OF s] v that by simp
  ultimately show "called h c sv ((!) hs) (object_of c sv) b r w'"
    using s n z ok cl by (auto simp: called_def in_session_def)
qed

lemma failed_step:
  assumes s: "in_session n c sv hs objs known w" and "simulates h c sv t b r w'" and "r_err r \<noteq> CL_SUCCESS"
    and "status_kept b (r_err r)"
  shows "remote_step h (client_basic (h_zlib h) t b) n c sv hs (r_err r, None, None) objs known w'"
proof (rule remote_step_same [OF _ s])
  have "fail_status b (r_err r) = r_err r" using assms(4) by (cases b) (simp_all add: fail_status_def status_kept_def)
  with assms(2,3) show "remote h (client_basic (h_zlib h) t b) c sv (Ok ((r_err r, None, None), [])) c (sv\<lparr>sv_world := w'\<rparr>)"
    by (simp add: simulates_def remote_event_def)
qed

lemma read_data_full:
  "\<forall>n \<in> set_option (read_size b). length (r_bytes r) = n \<Longrightarrow> read_data b r = map_option (\<lambda>_. r_bytes r) (read_size b)"
  by (cases "read_size b") (auto simp: read_data_def out_bytes_all)

lemma worked_step:
  assumes s: "in_session n c sv hs objs known w" and "simulates h c sv t b r w'" and "r_err r = CL_SUCCESS"
    and "\<forall>n \<in> set_option (read_size b). length (r_bytes r) = n" and "\<not> gives_object b"
  shows "remote_step h (client_basic (h_zlib h) t b) n c sv hs
    (CL_SUCCESS, None, map_option (\<lambda>_. r_bytes r) (read_size b)) objs known w'"
  using assms(2-5) read_data_full [OF assms(4)]
  by (auto intro!: remote_step_same [OF _ s] simp: simulates_def remote_event_def opt_list_def)

lemma made_step:
  assumes s: "in_session n c sv hs objs known w" and sim: "simulates h c sv t b r w'" and ok: "r_err r = CL_SUCCESS"
    and data: "\<forall>n \<in> set_option (read_size b). length (r_bytes r) = n" and gives: "gives_object b"
    and may: "may_make cl known (r_obj r)"
  shows "remote_step h (client_basic (h_zlib h) t b) n c sv hs (CL_SUCCESS, None, map_option (\<lambda>_. r_bytes r) (read_size b))
    (add_made (r_obj r) objs) (known(r_obj r \<mapsto> k)) w'"
proof -
  let ?res = "(CL_SUCCESS, None, map_option (\<lambda>_. r_bytes r) (read_size b))"
  have m: "mirrors n c sv" and dom: "set (mObjects sv) = dom known" using s by (simp_all add: in_session_def)
  have "\<exists>t1 c' sv'. remote h (client_basic (h_zlib h) t b) c sv (Ok (?res, [t1])) c' sv' \<and> denotes c' sv' t1 (r_obj r)
      \<and> (\<forall>u x. denotes c sv u x \<longrightarrow> x \<noteq> r_obj r \<longrightarrow> denotes c' sv' u x) \<and> mirrors (Suc n) c' sv'
      \<and> set (mObjects sv') = insert (r_obj r) (set (mObjects sv)) \<and> sv_world sv' = w'"
  proof (cases "r_obj r \<in> set (mObjects sv)")
    case True
    with sim ok gives read_data_full [OF data] obtain t1 c'
      where "remote h (client_basic (h_zlib h) t b) c sv (Ok (?res, [t1])) c' (sv\<lparr>sv_world := w'\<rparr>)"
        and "reused_handle c sv c' t1 (r_obj r)"
      unfolding simulates_def remote_event_def by (auto simp: opt_list_def)
    with m True show ?thesis
      unfolding reused_handle_def by (intro exI [of _ t1] exI [of _ c'] exI [of _ "sv\<lparr>sv_world := w'\<rparr>"]) auto
  next
    case False
    have "distinct (mObjects sv)" using m by (simp add: mirrors_def in_sync_def objs_ok_def)
    moreover have "known (r_obj r) = None" using False dom by (auto simp: dom_def)
    ultimately have "length (mObjects sv) < 65536"
      using may dom distinct_card [of "mObjects sv"] by (simp add: may_make_def)
    with False sim ok gives read_data_full [OF data] obtain t1 c' sv'
      where "remote h (client_basic (h_zlib h) t b) c sv (Ok (?res, [t1])) c' sv'"
        and "new_handle c sv c' sv' t1 (r_obj r)" "sv_world sv' = w'"
      unfolding simulates_def remote_event_def by (auto simp: opt_list_def)
    with m show ?thesis
      unfolding new_handle_def by (intro exI [of _ t1] exI [of _ c'] exI [of _ sv']) (auto intro: mirrors_Suc)
  qed
  with session_made [OF s, where w' = w' and k = k] show ?thesis unfolding remote_step_def by blast
qed

text \<open>Listing objects.\<close>

lemma assign_all_room:
  "objs_ok table \<Longrightarrow> card (set table \<union> set ps) \<le> 65536 \<Longrightarrow>
   \<exists>is objs. assign_all getIDFor table ps = Some (is, objs) \<and> set objs = set table \<union> set ps"
proof (induction ps arbitrary: table)
  case (Cons p ps)
  then have d: "distinct table" "length table \<le> 65536" by (simp_all add: objs_ok_def)
  show ?case
  proof (cases "p \<in> set table")
    case True
    then have "set table \<union> set (p # ps) = set table \<union> set ps" by auto
    with Cons getIDFor_found [OF True d(2)] show ?thesis by fastforce
  next
    case False
    have "Suc (length table) = card (insert p (set table))" using d(1) False by (simp add: distinct_card)
    also have "\<dots> \<le> card (set table \<union> set (p # ps))" by (intro card_mono) auto
    finally have len: "length table < 65536" using Cons.prems(2) by simp
    with d(1) False have "objs_ok (table @ [p])" by (simp add: objs_ok_def)
    moreover have "card (set (table @ [p]) \<union> set ps) \<le> 65536" using Cons.prems(2) by simp
    ultimately show ?thesis using Cons.IH [of "table @ [p]"] getIDFor_absent [OF False len] by fastforce
  qed
qed simp

lemma listed_step:
  assumes s: "in_session n c sv hs objs known w"
    and "remote h p c sv (Ok (CL_SUCCESS, length ps, take room ts)) c' (sv\<lparr>mObjects := table, sv_world := w'\<rparr>)"
    and l: "listed c sv c' (sv\<lparr>mObjects := table, sv_world := w'\<rparr>) ts ps" and "set table = set (mObjects sv) \<union> set ps"
  shows "remote_step h (gives_list p) n c sv hs (CL_SUCCESS, Some (length ps), None) (objs @ map Some (take room ps))
    (name_all known ps) w'"
proof -
  let ?sv = "sv\<lparr>mObjects := table, sv_world := w'\<rparr>"
  have call: "remote h (gives_list p) c sv (Ok ((CL_SUCCESS, Some (length ps), None), take room ts)) c' ?sv"
    unfolding gives_list_def using assms(2) by (rule remote_pbind_PRet) simp
  have "list_all2 (\<lambda>t x. \<forall>p \<in> set_option x. denotes c' ?sv t p) hs objs"
    using s l by (auto simp: in_session_def listed_def list_all2_conv_all_nth)
  moreover have "list_all2 (denotes c' ?sv) (take room ts) (take room ps)"
    using l unfolding listed_def by (simp only: list_all2_takeI)
  then have "list_all2 (\<lambda>t x. \<forall>p \<in> set_option x. denotes c' ?sv t p) (take room ts) (map Some (take room ps))"
    by (simp add: list_all2_map2 denotes_world_fun)
  ultimately have "in_session (Suc n) c' ?sv (hs @ take room ts) (objs @ map Some (take room ps)) (name_all known ps) w'"
    using s l assms(4) by (auto simp: in_session_def listed_def intro!: list_all2_appendI mirrors_Suc)
  with call show ?thesis unfolding remote_step_def by blast
qed

lemma platforms_step:
  assumes s: "in_session n c sv hs objs known w" and "cl_lists h clGetPlatformIDs w ps w'" and "may_list known ps"
  shows "remote_step h (gives_list (api_clGetPlatformIDs room (0 < room) True)) n c sv hs
    (CL_SUCCESS, Some (length ps), None) (objs @ map Some (take room ps)) (name_all known ps) w'"
proof -
  have m: "mirrors n c sv" "objs_ok (mObjects sv)" using s by (simp_all add: in_session_def mirrors_def in_sync_def)
  with assms obtain "is" table where "assign_all getIDFor (mObjects sv) ps = Some (is, table)"
    "set table = set (mObjects sv) \<union> set ps"
    using assign_all_room [of "mObjects sv" ps] by (auto simp: in_session_def may_list_def)
  with remote_clGetPlatformIDs [OF m(1), of h ps w' "is" table "0 < room" room True] assms(1,2) listed_step [OF s]
  show ?thesis by (fastforce simp: in_session_def)
qed

lemma devices_step:
  assumes s: "in_session n c sv hs objs known w" and v: "usable objs v"
    and "cl_lists h (clGetDeviceIDs (var_obj objs v) ty) w ps w'" and "may_list known ps"
  shows "remote_step h (gives_list (api_clGetDeviceIDs (hs ! v) ty room (0 < room) True)) n c sv hs
    (CL_SUCCESS, Some (length ps), None) (objs @ map Some (take room ps)) (name_all known ps) w'"
proof -
  have m: "mirrors n c sv" "objs_ok (mObjects sv)" using s by (simp_all add: in_session_def mirrors_def in_sync_def)
  with assms obtain "is" table where "assign_all getIDFor (mObjects sv) ps = Some (is, table)"
    "set table = set (mObjects sv) \<union> set ps"
    using assign_all_room [of "mObjects sv" ps] by (auto simp: in_session_def may_list_def)
  with remote_clGetDeviceIDs [OF m(1) session_var(1) [OF s v], of h ty ps w' "is" table "0 < room" room True] assms(1,3)
    listed_step [OF s]
  show ?thesis by (fastforce simp: in_session_def)
qed

lemma unlisted_step:
  assumes s: "in_session n c sv hs objs known w" and v: "usable objs v"
    and "h_cl h (clGetDeviceIDs (var_obj objs v) ty 0) w = (r, w')" and "r_err r \<noteq> CL_SUCCESS" and "h_new h 128"
  shows "remote_step h (gives_list (api_clGetDeviceIDs (hs ! v) ty room (0 < room) True)) n c sv hs
    (r_err r, None, None) objs known w'"
proof (rule remote_step_same [OF _ s])
  have "in_sync c sv" "sv_world sv = w" using s by (simp_all add: in_session_def mirrors_def)
  with remote_clGetDeviceIDs_fails [OF _ session_var(1) [OF s v], of h ty r w' "0 < room" room True] assms(3-5)
  have "remote h (api_clGetDeviceIDs (hs ! v) ty room (0 < room) True) c sv (Ok (r_err r, 0, [])) c (sv\<lparr>sv_world := w'\<rparr>)"
    by simp
  then show "remote h (gives_list (api_clGetDeviceIDs (hs ! v) ty room (0 < room) True)) c sv
      (Ok ((r_err r, None, None), [])) c (sv\<lparr>sv_world := w'\<rparr>)"
    unfolding gives_list_def by (rule remote_pbind_PRet) (simp add: assms(4))
qed

text \<open>Asking for data.\<close>

lemma client_query_asks:
  assumes "query_ok_for q"
  shows "data_query h (client_query (h_zlib h) t q buf) (map t (query_vars q)) (query_width q) (query_checked q) buf
    (\<lambda>obj. query_call (\<lambda>v. obj (t v)) q)"
proof (cases q)
  case (Ask_Info kind v param)
  with assms show ?thesis
    by (cases kind) (simp_all add: query_width_def query_checked_def data_query.intros del: One_nat_def)
qed (use assms in \<open>simp_all add: query_width_def query_checked_def data_query.intros\<close>)

definition answer_result :: "buffer \<Rightarrow> u32 + byte list \<Rightarrow> app_result" where
  "answer_result buf a = (case a of Inl e \<Rightarrow> (e, None, None)
     | Inr d \<Rightarrow> (CL_SUCCESS, Some (length d), if snd buf \<and> length d \<le> fst buf then Some d else None))"

lemma answer_result:
  "(case (case a of Inl e \<Rightarrow> (e, None, None) | Inr d \<Rightarrow> (CL_SUCCESS, copy_out d buf)) of
      (e, d, n) \<Rightarrow> PRet ((e, n, d), [])) = PRet (answer_result buf a, [])"
  by (cases a) (simp_all add: answer_result_def copy_out_def)

lemma query_step:
  assumes s: "in_session n c sv hs objs known w" and v: "\<forall>v \<in> set (query_vars q). usable objs v"
    and z: "zlib_opt_ok (h_zlib h)" and q: "query_ok_for q"
    and a: "info_answer h (query_checked q) (query_call (var_obj objs) q) w a w'"
    and fits: "\<And>d. a = Inr d \<Longrightarrow> payload_fits (query_width q) d"
  shows "remote_step h (gives_data (client_query (h_zlib h) ((!) hs) q buf)) n c sv hs (answer_result buf a) objs known w'"
proof (rule remote_step_same [OF _ s])
  have sync: "in_sync c sv" and w: "sv_world sv = w" using s by (simp_all add: in_session_def mirrors_def)
  have den: "\<forall>t \<in> set (map ((!) hs) (query_vars q)). denotes c sv t (object_of c sv t)"
    using session_var [OF s] v by simp
  have "query_call (\<lambda>v. object_of c sv (hs ! v)) q = query_call (var_obj objs) q"
    using session_var(2) [OF s] v by (cases q) (simp_all add: fun_eq_iff)
  with a w have "info_answer h (query_checked q) (query_call (\<lambda>v. object_of c sv (hs ! v)) q) (sv_world sv) a w'" by simp
  from remote_data_query [OF client_query_asks [OF q] sync den z this fits]
  show "remote h (gives_data (client_query (h_zlib h) ((!) hs) q buf)) c sv (Ok (answer_result buf a, [])) c (sv\<lparr>sv_world := w'\<rparr>)"
    unfolding gives_data_def by (rule remote_pbind_PRet) (assumption | rule answer_result)+
qed

text \<open>Setting an argument.\<close>

lemma set_arg_step:
  assumes s: "in_session n c sv hs objs known w" and n: "n < 2 ^ 63" and v: "\<forall>v \<in> set (k # arg_vars a). usable objs v"
    and z: "zlib_opt_ok (h_zlib h)"
    and q: "h_cl h (clGetKernelArgInfo (var_obj objs k) i CL_KERNEL_ARG_ADDRESS_QUALIFIER 4) w = (r1, w1)"
      "r_err r1 = CL_SUCCESS" "r_bytes r1 = put_u32 AS" "arg_fits a AS"
    and cl: "h_cl h (clSetKernelArg (var_obj objs k) i (arg_size a) (arg_value (var_obj objs) a)) w1 = (r, w')"
  shows "remote_step h (gives_status (api_clSetKernelArg (h_zlib h) (hs ! k) i (arg_size a) (arg_memory ((!) hs) a))) n c sv hs
    (r_err r, None, None) objs known w'"
proof (rule remote_step_same [OF _ s])
  have m: "mirrors n c sv" and sync: "in_sync c sv" and w: "sv_world sv = w" using s by (simp_all add: in_session_def mirrors_def)
  have "arg_given c sv (asks_for AS) (arg_size a) (arg_memory ((!) hs) a) (arg_size a) (arg_value (var_obj objs) a)"
  proof (cases a)
    case (Arg_Object u)
    with v have den: "denotes c sv (hs ! u) (var_obj objs u)" by (intro session_var(1) [OF s]) (simp add: arg_vars_def)
    from arg_given.object [OF den mirrors_handle [OF m n den]] q(4) Arg_Object show ?thesis by simp
  qed (use q(4) in \<open>simp_all add: arg_given.intros\<close>)
  from remote_clSetKernelArg [OF sync session_var(1) [OF s] z this] v q w cl
  have "remote h (api_clSetKernelArg (h_zlib h) (hs ! k) i (arg_size a) (arg_memory ((!) hs) a)) c sv (Ok (r_err r)) c (sv\<lparr>sv_world := w'\<rparr>)"
    by simp
  then show "remote h (gives_status (api_clSetKernelArg (h_zlib h) (hs ! k) i (arg_size a) (arg_memory ((!) hs) a))) c sv
      (Ok ((r_err r, None, None), [])) c (sv\<lparr>sv_world := w'\<rparr>)"
    unfolding gives_status_def by (rule remote_pbind_PRet) simp
qed

section \<open>Whole applications\<close>

theorem client_call_simulates:
  assumes s: "in_session n c sv hs objs known w" and n: "n < 2 ^ 63" and v: "\<forall>v \<in> set (call_vars k). usable objs v"
    and z: "zlib_opt_ok (h_zlib h)" and run: "server_does h objs known w k res objs' known' w'"
  shows "remote_step h (client_call (h_zlib h) ((!) hs) k) n c sv hs res objs' known' w'"
  using run
proof cases
  case (failed b r)
  with v have "\<forall>v \<in> set (basic_vars b). usable objs v" by simp
  from failed_step [OF s basic_step [OF s n this z]] failed show ?thesis by simp
next
  case (worked b r)
  with v have "\<forall>v \<in> set (basic_vars b). usable objs v" by simp
  from worked_step [OF s basic_step [OF s n this z]] worked show ?thesis by simp
next
  case (made b r)
  with v have "\<forall>v \<in> set (basic_vars b). usable objs v" by simp
  from made_step [OF s basic_step [OF s n this z]] made show ?thesis by simp
next
  case (platforms ps room)
  with platforms_step [OF s] show ?thesis by simp
next
  case (devices v ty ps room)
  with v devices_step [OF s, of v h ty ps w'] show ?thesis by simp
next
  case (unlisted v ty r room)
  with v unlisted_step [OF s, of v h ty r w'] show ?thesis by simp
next
  case (no_answer q e buf)
  with v query_step [OF s _ z no_answer(5,6), of buf] show ?thesis by (simp add: answer_result_def)
next
  case (answered q d buf)
  then have "answer_result buf (Inr d) = res" by (simp add: answer_result_def)
  with v query_step [OF s _ z answered(5,6), of buf] answered show ?thesis by simp
next
  case (set_arg k i r1 w1 AS a r)
  with v set_arg_step [OF s n _ z set_arg(5-9)] show ?thesis by simp
qed

text \<open>Every call replaces at most one handle; handles are addresses of 64 bits.\<close>

theorem client_run_simulates:
  assumes "server_run h app objs known w outs w'" and "in_session n c sv hs objs known w" and "n + length outs \<le> 2 ^ 63"
    and z: "zlib_opt_ok (h_zlib h)"
  shows "\<exists>c' sv'. remote h (client_run (h_zlib h) app hs) c sv (Ok outs) c' sv' \<and> sv_world sv' = w'"
  using assms(1-3)
proof (induction arbitrary: n c sv hs rule: server_run.induct)
  case (stop objs known w)
  then show ?case by (intro exI [of _ c] exI [of _ sv]) (simp add: in_session_def remote_PRet)
next
  case (step k objs known w res objs' known' w1 f outs w')
  then have n: "n < 2 ^ 63" "Suc n + length outs \<le> 2 ^ 63" by simp_all
  from client_call_simulates [OF step.prems(1) n(1) step.hyps(1) z step.hyps(2)] obtain ts c1 sv1
    where call: "remote h (client_call (h_zlib h) ((!) hs) k) c sv (Ok (res, ts)) c1 sv1"
      and s1: "in_session (Suc n) c1 sv1 (hs @ ts) objs' known' w1" unfolding remote_step_def by blast
  from step.IH [OF s1 n(2)] obtain c2 sv2
    where rest: "remote h (client_run (h_zlib h) (f res) (hs @ ts)) c1 sv1 (Ok outs) c2 sv2" and w': "sv_world sv2 = w'" by blast
  have "remote h (pbind (client_run (h_zlib h) (f res) (hs @ ts)) (\<lambda>outs. PRet (res # outs))) c1 sv1 (Ok (res # outs)) c2 sv2"
    using rest by (rule remote_pbind_PRet) simp
  then have "remote h (client_run (h_zlib h) (A_Call k f) hs) c sv (Ok (res # outs)) c2 sv2"
    unfolding client_run.simps by (intro remote_pbind_eq [OF call, THEN iffD2]) simp
  with w' show ?case by blast
qed

text \<open>From the start of a connection, before the application has any object, with an event stream or without.\<close>

lemma started_session:
  "in_session 0 (client_init\<lparr>cl_mStream := True, cl_mEventStream := b\<rparr>) ((server_init w)\<lparr>mEventStream := es\<rparr>) [] [] Map.empty w"
  by (simp add: in_session_def mirrors_def in_sync_def client_ok_def client_init_def server_init_def objs_ok_def)

lemma handshake_session:
  assumes "isCompatibleWith (VersionPacket cfg) (VersionPacket (h_cfg h))" and "find_port h 16 w = (port, w1)"
    and "if event_stream_wanted cfg (h_cfg h) then port_accepts h port w1 w2 else w2 = w"
  obtains c sv where "dialog h (Connection cfg True connect) client_init idle (server_start h) (server_init w) idle
      = Some (Ok (), c, idle, serverStep h, sv, idle)" and "in_session 0 c sv [] [] Map.empty w2"
proof (cases "event_stream_wanted cfg (h_cfg h)")
  case True
  with assms(3) have "port_accepts h port w1 w2" by simp
  from that [OF handshake_ports [OF True assms(2) this] started_session] show ?thesis .
next
  case False
  have c: "started_client cfg (h_cfg h) = client_init\<lparr>cl_mStream := True, cl_mEventStream := cfg_async cfg \<and> cfg_async (h_cfg h)\<rparr>"
    using assms(1) by (simp add: started_client_def)
  have "server_init w = (server_init w2)\<lparr>mEventStream := None\<rparr>" using assms(3) False by (simp add: server_init_def)
  with that [OF handshake_versions [OF False], unfolded c] started_session show ?thesis by metis
qed

end
