(* ===== verification/RCL_Native.thy ===== *)
theory RCL_Native
  imports RCL_Transparency
begin

text \<open>
  When an application runs through the client as it does natively. \<open>permits\<close> is the list of the conditions on one call,
  each in terms of the call itself and of the OpenCL it is made on; \<open>transparent\<close> asks them of every call of a native run.
  Where the server makes other calls than the application, the condition is that OpenCL does not mind: a question leaves
  its state as it was, the answer is the same with room for it and with the room the application has, and a build with the
  option the server adds does what it does without. Under these conditions the calls of the server
  (\<open>server_does\<close>) give the native results.
\<close>

section \<open>The conditions\<close>

text \<open>An answer of OpenCL to the application, and the one the server gets.\<close>

definition same_answer :: "nat \<Rightarrow> buffer \<Rightarrow> u32 + byte list \<Rightarrow> cl_ret \<Rightarrow> bool" where
  "same_answer w buf a r \<longleftrightarrow> (case a of
       Inl e \<Rightarrow> r_err r = e
     | Inr d \<Rightarrow> r_err r = CL_SUCCESS \<and> r_size r = Some (length d) \<and> payload_fits w d
         \<and> (snd buf \<longrightarrow> length d \<le> fst buf \<and> r_bytes r = d))"

definition options_harmless :: "'w host \<Rightarrow> (var \<Rightarrow> ptr) \<Rightarrow> 'w \<Rightarrow> basic_call \<Rightarrow> bool" where
  "options_harmless h x w b \<longleftrightarrow> h_cl h (server_call x b) w = h_cl h (native_basic x b) w"

text \<open>Only a build has options, and when it asks for the information itself nothing is added.\<close>

lemma options_harmless_simps [simp]:
  "(\<And>p ds opts. b \<noteq> A_Build p ds opts) \<Longrightarrow> options_harmless h x w b"
  "contains arg_info_option s \<Longrightarrow> options_harmless h x w (A_Build p ds (Some s))"
  subgoal by (cases b) (blast | simp add: options_harmless_def native_basic_def)+
  subgoal by (simp add: options_harmless_def native_basic_def build_options_def)
  done

inductive permits ::
  "'w host \<Rightarrow> ptr option list \<Rightarrow> (ptr \<rightharpoonup> obj_class) \<Rightarrow> 'w \<Rightarrow> app_call \<Rightarrow> ptr option list \<Rightarrow> (ptr \<rightharpoonup> obj_class) \<Rightarrow> bool"
  for h objs known w where
  failed: "basic_ok h b \<Longrightarrow> options_harmless h (var_obj objs) w b \<Longrightarrow> h_cl h (native_basic (var_obj objs) b) w = (r, w') \<Longrightarrow>
     r_err r \<noteq> CL_SUCCESS \<Longrightarrow> status_kept b (r_err r) \<Longrightarrow> permits h objs known w (A_Basic b) objs known"
| worked: "basic_ok h b \<Longrightarrow> options_harmless h (var_obj objs) w b \<Longrightarrow> h_cl h (native_basic (var_obj objs) b) w = (r, w') \<Longrightarrow>
     r_err r = CL_SUCCESS \<Longrightarrow> \<forall>n \<in> set_option (read_size b). length (r_bytes r) = n \<Longrightarrow> \<not> gives_object b \<Longrightarrow>
     permits h objs known w (A_Basic b) objs known"
| made: "basic_ok h b \<Longrightarrow> options_harmless h (var_obj objs) w b \<Longrightarrow> h_cl h (native_basic (var_obj objs) b) w = (r, w') \<Longrightarrow>
     r_err r = CL_SUCCESS \<Longrightarrow> \<forall>n \<in> set_option (read_size b). length (r_bytes r) = n \<Longrightarrow> gives_object b \<Longrightarrow>
     may_make (server_call (var_obj objs) b) known (r_obj r) \<Longrightarrow>
     permits h objs known w (A_Basic b) (add_made (r_obj r) objs) (known(r_obj r \<mapsto> made_class (server_call (var_obj objs) b)))"
| platforms: "cl_lists h clGetPlatformIDs w ps w \<Longrightarrow> may_list known ps \<Longrightarrow> h_cl h (clGetPlatformIDs room) w = (r, w) \<Longrightarrow>
     r_err r = CL_SUCCESS \<Longrightarrow> r_size r = Some (length ps) \<Longrightarrow> r_objs r = take room ps \<Longrightarrow>
     permits h objs known w (A_Platforms room) (objs @ map Some (take room ps)) (name_all known ps)"
| devices: "cl_lists h (clGetDeviceIDs (var_obj objs v) ty) w ps w \<Longrightarrow> may_list known ps \<Longrightarrow>
     h_cl h (clGetDeviceIDs (var_obj objs v) ty room) w = (r, w) \<Longrightarrow>
     r_err r = CL_SUCCESS \<Longrightarrow> r_size r = Some (length ps) \<Longrightarrow> r_objs r = take room ps \<Longrightarrow>
     permits h objs known w (A_Devices v ty room) (objs @ map Some (take room ps)) (name_all known ps)"
| no_devices: "h_cl h (clGetDeviceIDs (var_obj objs v) ty 0) w = (r1, w) \<Longrightarrow>
     h_cl h (clGetDeviceIDs (var_obj objs v) ty room) w = (r, w) \<Longrightarrow> r_err r1 = r_err r \<Longrightarrow> r_err r \<noteq> CL_SUCCESS \<Longrightarrow>
     h_new h 128 \<Longrightarrow> permits h objs known w (A_Devices v ty room) objs known"
| asked: "query_ok_for q \<Longrightarrow> info_answer h (query_checked q) (query_call (var_obj objs) q) w a w \<Longrightarrow>
     h_cl h (query_call (var_obj objs) q (room_of buf)) w = (r, w) \<Longrightarrow> same_answer (query_width q) buf a r \<Longrightarrow>
     permits h objs known w (A_Query q buf) objs known"
| set_arg: "h_cl h (clGetKernelArgInfo (var_obj objs k) i CL_KERNEL_ARG_ADDRESS_QUALIFIER 4) w = (r1, w) \<Longrightarrow>
     r_err r1 = CL_SUCCESS \<Longrightarrow> r_bytes r1 = put_u32 AS \<Longrightarrow> arg_fits a AS \<Longrightarrow>
     permits h objs known w (A_SetArg k i a) objs known"

inductive transparent :: "'w host \<Rightarrow> app \<Rightarrow> ptr option list \<Rightarrow> (ptr \<rightharpoonup> obj_class) \<Rightarrow> 'w \<Rightarrow> bool" for h where
  stop: "transparent h A_Stop objs known w"
| step: "\<forall>v \<in> set (call_vars k). usable objs v \<Longrightarrow> permits h objs known w k objs' known' \<Longrightarrow>
     native_call h (var_obj objs) k w = ((res, ps), w1) \<Longrightarrow> transparent h (f res) objs' known' w1 \<Longrightarrow>
     transparent h (A_Call k f) objs known w"

section \<open>The calls of the server\<close>

lemma info_answer_error: "info_answer h check q w (Inl e) w' \<Longrightarrow> e \<noteq> CL_SUCCESS"
  by (auto elim: info_answer.cases)

text \<open>The variables that are usable have the objects they have natively.\<close>

definition var_of :: "ptr option \<Rightarrow> ptr \<Rightarrow> bool" where
  "var_of x p \<longleftrightarrow> x = None \<or> x = Some p"

lemma var_of_simps [simp]: "var_of None p" "var_of (Some q) p \<longleftrightarrow> q = p"
  by (auto simp: var_of_def)

lemma var_of_made: "list_all2 var_of objs xs \<Longrightarrow> list_all2 var_of (add_made p objs) (xs @ [p])"
  unfolding add_made_def by (intro list_all2_appendI) (auto simp: list_all2_conv_all_nth)

lemma var_of_listed: "list_all2 var_of objs xs \<Longrightarrow> list_all2 var_of (objs @ map Some ps) (xs @ ps)"
  by (intro list_all2_appendI) (auto simp: list_all2_conv_all_nth)

lemma permits_does:
  assumes "permits h objs known w k objs' known'" and "native_call h (var_obj objs) k w = ((res, ps), w')"
    and "list_all2 var_of objs xs"
  shows "server_does h objs known w k res objs' known' w' \<and> list_all2 var_of objs' (xs @ ps)"
  using assms(1)
proof cases
  case (failed b r w1)
  with assms(2) have n: "res = (r_err r, None, None)" "ps = []" "w' = w1" by (auto simp: native_call_def)
  from failed have "h_cl h (server_call (var_obj objs) b) w = (r, w1)" by (simp add: options_harmless_def)
  from server_does.failed [OF failed(4) this failed(7,8)] n failed(1-3) assms(3) show ?thesis by simp
next
  case (worked b r w1)
  with assms(2) have n: "res = (CL_SUCCESS, None, map_option (\<lambda>_. r_bytes r) (read_size b))" "ps = []" "w' = w1"
    by (auto simp: native_call_def)
  from worked have "h_cl h (server_call (var_obj objs) b) w = (r, w1)" by (simp add: options_harmless_def)
  from server_does.worked [OF worked(4) this worked(7-9)] n worked(1-3) assms(3) show ?thesis by simp
next
  case (made b r w1)
  with assms(2) have n: "res = (CL_SUCCESS, None, map_option (\<lambda>_. r_bytes r) (read_size b))" "ps = [r_obj r]" "w' = w1"
    by (auto simp: native_call_def)
  from made have "h_cl h (server_call (var_obj objs) b) w = (r, w1)" by (simp add: options_harmless_def)
  from server_does.made [OF made(4) this made(7-10)] n made(1-3) var_of_made [OF assms(3)] show ?thesis by simp
next
  case (platforms qs room r)
  with assms(2) have n: "res = (CL_SUCCESS, Some (length qs), None)" "ps = take room qs" "w' = w"
    by (auto simp: native_call_def)
  from server_does.platforms [OF platforms(4,5)] n platforms(1-3) var_of_listed [OF assms(3)] show ?thesis by simp
next
  case (devices v ty qs room r)
  with assms(2) have n: "res = (CL_SUCCESS, Some (length qs), None)" "ps = take room qs" "w' = w"
    by (auto simp: native_call_def)
  from server_does.devices [OF devices(4,5)] n devices(1-3) var_of_listed [OF assms(3)] show ?thesis by simp
next
  case (no_devices v ty r1 room r)
  with assms(2) have n: "res = (r_err r1, None, None)" "ps = []" "w' = w" by (auto simp: native_call_def)
  from server_does.unlisted [OF no_devices(4), where room = room] n no_devices assms(3) show ?thesis by simp
next
  case (asked q a buf r)
  show ?thesis
  proof (cases a)
    case (Inl e)
    have "r_err r = e" using asked(7) Inl by (simp add: same_answer_def)
    moreover have "e \<noteq> CL_SUCCESS" using asked(5) unfolding Inl by (rule info_answer_error)
    ultimately have "native_call h (var_obj objs) (A_Query q buf) w = (((e, None, None), []), w)"
      using asked(6) by (simp add: native_call_def)
    with assms(2) have n: "res = (e, None, None)" "ps = []" "w' = w" unfolding asked(1) by simp_all
    have "server_does h objs known w (A_Query q buf) (e, None, None) objs known w"
      by (rule server_does.no_answer [OF asked(4)]) (use asked(5) Inl in simp)
    with n asked(1-3) assms(3) show ?thesis by simp
  next
    case (Inr d)
    with asked assms(2) have n: "res = (CL_SUCCESS, Some (length d), if snd buf then Some d else None)" "ps = []" "w' = w"
      by (auto simp: native_call_def same_answer_def)
    have "server_does h objs known w (A_Query q buf) (CL_SUCCESS, Some (length d), if snd buf then Some d else None) objs known w"
      by (rule server_does.answered [OF asked(4)]) (use asked(5,7) Inr in \<open>simp_all add: same_answer_def\<close>)
    with n asked(1-3) assms(3) show ?thesis by simp
  qed
next
  case (set_arg v i r1 AS a)
  obtain r w1 where r: "h_cl h (clSetKernelArg (var_obj objs v) i (arg_size a) (arg_value (var_obj objs) a)) w = (r, w1)"
    by (cases "h_cl h (clSetKernelArg (var_obj objs v) i (arg_size a) (arg_value (var_obj objs) a)) w")
  with set_arg assms(2) have "res = (r_err r, None, None)" "ps = []" "w' = w1"
    by (auto simp: native_call_def split: if_splits)
  with server_does.set_arg [OF set_arg(4-7) r] set_arg(1-3) assms(3) show ?thesis by simp
qed

lemma native_call_cong:
  assumes "\<forall>v \<in> set (call_vars k). x v = y v"
  shows "native_call h x k w = native_call h y k w"
proof -
  have "native_query x k = native_query y k"
  proof (cases k)
    case (A_Basic b)
    then show ?thesis using assms server_call_cong [of b x y]
      by (cases b) (auto simp: native_basic_def cong: map_cong)
  next
    case (A_Query q buf)
    then show ?thesis using assms by (cases q) auto
  next
    case (A_SetArg k i a)
    then show ?thesis using assms by (cases a) (auto simp: arg_vars_def)
  qed (use assms in auto)
  then show ?thesis by (simp add: native_call_def)
qed

theorem native_run_server:
  assumes "transparent h app objs known w" and "list_all2 var_of objs xs" and "native_run h app xs w = (outs, w')"
  shows "server_run h app objs known w outs w'"
  using assms
proof (induction arbitrary: xs outs rule: transparent.induct)
  case (stop objs known w)
  then show ?case by (auto intro: server_run.stop)
next
  case (step k objs known w objs' known' res ps w1 f)
  have "(!) xs v = var_obj objs v" if "usable objs v" for v
    using that step.prems(1) by (auto simp: usable_def var_obj_def var_of_def list_all2_conv_all_nth)
  then have "native_call h ((!) xs) k w = ((res, ps), w1)"
    using step.hyps(1,3) native_call_cong [of k "(!) xs" "var_obj objs" h w] by simp
  then obtain outs' where outs: "native_run h (f res) (xs @ ps) w1 = (outs', w')" "outs = res # outs'"
    using step.prems(2) by (auto split: prod.splits)
  from permits_does [OF step.hyps(2,3) step.prems(1)]
  have does: "server_does h objs known w k res objs' known' w1" and vars: "list_all2 var_of objs' (xs @ ps)" by simp_all
  from server_run.step [where f = f, OF step.hyps(1) does step.IH [OF vars outs(1)]] outs(2) show ?case by simp
qed

end
