(* ===== verification/RCL_SessionExample.thy ===== *)
theory RCL_SessionExample
  imports RCL_ClientExample RCL_Native
begin

text \<open>
  An application that finds a device, makes a context, a queue and a buffer with data, reads the buffer and writes
  other data to it; then it releases the queue, makes another one and reads the buffer again, on an OpenCL whose state is
  the content of its one buffer. The second queue is at the address of the first.
\<close>

definition store_cl :: "nat opencl" where
  "store_cl c w = (case c of
       clGetPlatformIDs n \<Rightarrow> ((cl_status 0)\<lparr>r_size := Some 1, r_objs := take n [55]\<rparr>, w)
     | clGetDeviceIDs p t n \<Rightarrow> ((cl_status 0)\<lparr>r_size := Some 1, r_objs := take n [77]\<rparr>, w)
     | clCreateContext props ds \<Rightarrow> (if props = [CL_CONTEXT_PLATFORM, 55, 0] \<and> ds = [77] then cl_object 100 else cl_status (- 33), w)
     | clCreateCommandQueue ctx d props \<Rightarrow> (if ctx = 100 \<and> d = 77 then cl_object 101 else cl_status (- 34), w)
     | clCreateBuffer ctx flags n d \<Rightarrow> (cl_object 102, case d of None \<Rightarrow> 0 | Some bs \<Rightarrow> le_decode bs)
     | clEnqueueWriteBuffer q b blocking off d es want \<Rightarrow> (cl_status 0, if b = 102 then le_decode d else w)
     | clEnqueueReadBuffer q b blocking off n es want \<Rightarrow> ((cl_status 0)\<lparr>r_bytes := le_encode n w\<rparr>, w)
     | clRelease kind p \<Rightarrow> (cl_status 0, w)
     | _ \<Rightarrow> (cl_status (- 30), w))"

text \<open>Variables: 0 the platform, 1 the device, 2 the context, 3 the queue, 4 the buffer, 5 the other queue.\<close>

definition store_app :: app where
  "store_app =
     A_Call (A_Platforms 1) (\<lambda>r.
     if r \<noteq> (CL_SUCCESS, Some 1, None) then A_Stop else
     A_Call (A_Devices 0 4 1) (\<lambda>_.
     A_Call (A_Basic (A_Context (Some 0) [1])) (\<lambda>r.
     if fst r \<noteq> CL_SUCCESS then A_Stop else
     A_Call (A_Basic (A_Queue 2 1 0)) (\<lambda>_.
     A_Call (A_Basic (A_Buffer 2 0x20 4 (Some [1, 2, 3, 4]))) (\<lambda>_.
     A_Call (A_Basic (A_Read 3 4 0 4 [] False)) (\<lambda>r.
     A_Call (A_Basic (A_Write 3 4 True 0 (rev (the (snd (snd r)))) [] False)) (\<lambda>_.
     A_Call (A_Basic (A_Status 8 3 0)) (\<lambda>_.
     A_Call (A_Basic (A_Queue 2 1 0)) (\<lambda>_.
     A_Call (A_Basic (A_Read 5 4 0 4 [] False)) (\<lambda>_. A_Stop))))))))))"

definition store_outs :: "app_result list" where
  "store_outs = [(CL_SUCCESS, Some 1, None), (CL_SUCCESS, Some 1, None), (CL_SUCCESS, None, None), (CL_SUCCESS, None, None),
     (CL_SUCCESS, None, None), (CL_SUCCESS, None, Some [1, 2, 3, 4]), (CL_SUCCESS, None, None),
     (CL_SUCCESS, None, None), (CL_SUCCESS, None, None), (CL_SUCCESS, None, Some [4, 3, 2, 1])]"

lemma permits_worked:
  assumes "basic_ok h b" and "\<And>p ds opts. b \<noteq> A_Build p ds opts" and "h_cl h (server_call (var_obj objs) b) w = (r, w')"
    and "r_err r = CL_SUCCESS" and "\<forall>n \<in> set_option (read_size b). length (r_bytes r) = n" and "\<not> gives_object b"
  shows "permits h objs known w (A_Basic b) objs known"
  using assms options_harmless_simps(1) [OF assms(2), of h "var_obj objs" w]
  by (intro permits.worked [of h b objs w r w']) (simp_all add: options_harmless_def)

lemma permits_made:
  assumes "basic_ok h b" and "\<And>p ds opts. b \<noteq> A_Build p ds opts" and "h_cl h (server_call (var_obj objs) b) w = (r, w')"
    and "r_err r = CL_SUCCESS" and "read_size b = None" and "gives_object b"
    and "may_make (server_call (var_obj objs) b) known (r_obj r)"
    and "objs' = add_made (r_obj r) objs" and "known' = known(r_obj r \<mapsto> made_class (server_call (var_obj objs) b))"
  shows "permits h objs known w (A_Basic b) objs' known'"
  using assms options_harmless_simps(1) [OF assms(2), of h "var_obj objs" w]
  unfolding assms(8,9) by (intro permits.made [of h b objs w r w']) (simp_all add: options_harmless_def)

lemma transparent_step:
  "permits h objs known w k objs' known' \<Longrightarrow> native_call h (var_obj objs) k w = ((res, ps), w1) \<Longrightarrow>
   \<forall>v \<in> set (call_vars k). usable objs v \<Longrightarrow> next = f res \<Longrightarrow> transparent h next objs' known' w1 \<Longrightarrow>
   transparent h (A_Call k f) objs known w"
  by (auto intro: transparent.step)

lemma store_native: "native_run (example_host store_cl) store_app [] w = (store_outs, le_decode [4, 3, 2, 1])"
proof -
  have "(4::nat) = Suc (Suc (Suc (Suc 0)))" by simp
  then have bytes: "le_encode 4 67305985 = [1, 2, 3, 4]" "le_encode 4 16909060 = [4, 3, 2, 1]"
    by (simp_all only: le_encode.simps) simp_all
  show ?thesis
    by (simp add: store_app_def store_outs_def native_call_def native_basic_def store_cl_def read_size_def status_calls_def bytes)
qed

lemma store_transparent: "transparent (example_host store_cl) store_app [] Map.empty w"
proof -
  let ?h = "example_host store_cl" and ?w1 = "67305985 :: nat" and ?w2 = "16909060 :: nat"
  let ?objs = "[Some 55, Some 77, Some 100, Some 101, Some 102]"
  let ?k0 = "name_all (name_all Map.empty [55]) [77]"
  let ?k1 = "?k0(100 \<mapsto> C_Other)" let ?k2 = "?k1(101 \<mapsto> C_Other)" let ?k3 = "?k2(102 \<mapsto> C_Memory)"
  let ?k4 = "?k3(101 \<mapsto> C_Other)"
  let ?read = "A_Read 3 4 0 4 [] False" and ?put = "A_Write 3 4 True 0 [4, 3, 2, 1] [] False"
  let ?objs' = "[Some 55, Some 77, Some 100, None, Some 102, Some 101]" and ?again = "A_Read 5 4 0 4 [] False"
  note defs = store_cl_def read_size_def in32_def var_obj_def add_made_def made_class_def makes_mem_def may_make_def
  have "(4::nat) = Suc (Suc (Suc (Suc 0)))" by simp
  then have bytes: "le_encode 4 67305985 = [1, 2, 3, 4]" "le_encode 4 16909060 = [4, 3, 2, 1]"
    by (simp_all only: le_encode.simps) simp_all
  have s0: "permits ?h [] Map.empty w (A_Platforms 1) [Some 55] (name_all Map.empty [55])"
    using permits.platforms [of ?h w "[55]" Map.empty 1 "(cl_status 0)\<lparr>r_size := Some 1, r_objs := [55]\<rparr>" "[]"]
    by (simp add: cl_lists_def store_cl_def may_list_def)
  have s1: "permits ?h [Some 55] (name_all Map.empty [55]) w (A_Devices 0 4 1) [Some 55, Some 77] ?k0"
    using permits.devices [of ?h "[Some 55]" 0 4 w "[77]" "name_all Map.empty [55]" 1
        "(cl_status 0)\<lparr>r_size := Some 1, r_objs := [77]\<rparr>"]
    by (simp add: cl_lists_def store_cl_def may_list_def var_obj_def)
  have s2: "permits ?h [Some 55, Some 77] ?k0 w (A_Basic (A_Context (Some 0) [1])) [Some 55, Some 77, Some 100] ?k1"
    by (rule permits_made [where r = "cl_object 100"]) (simp_all add: defs)
  have s3: "permits ?h [Some 55, Some 77, Some 100] ?k1 w (A_Basic (A_Queue 2 1 0)) [Some 55, Some 77, Some 100, Some 101] ?k2"
    by (rule permits_made [where r = "cl_object 101"]) (simp_all add: defs)
  have s4: "permits ?h [Some 55, Some 77, Some 100, Some 101] ?k2 w (A_Basic (A_Buffer 2 0x20 4 (Some [1, 2, 3, 4]))) ?objs ?k3"
    by (rule permits_made [where r = "cl_object 102"]) (simp_all add: defs)
  have s5: "permits ?h ?objs ?k3 ?w1 (A_Basic ?read) ?objs ?k3"
    by (rule permits_worked [where r = "(cl_status 0)\<lparr>r_bytes := [1, 2, 3, 4]\<rparr>"]) (simp_all add: defs can_alloc_def bytes)
  have s6: "permits ?h ?objs ?k3 ?w1 (A_Basic ?put) ?objs ?k3"
    by (rule permits_worked [where r = "cl_status 0"]) (simp_all add: defs)
  have s7: "permits ?h ?objs ?k3 ?w2 (A_Basic (A_Status 8 3 0)) ?objs ?k3"
    by (rule permits_worked [where r = "cl_status 0"]) (simp_all add: defs status_calls_def)
  have s8: "permits ?h ?objs ?k3 ?w2 (A_Basic (A_Queue 2 1 0)) ?objs' ?k4"
    by (rule permits_made [where r = "cl_object 101"]) (simp_all add: defs)
  have s9: "permits ?h ?objs' ?k4 ?w2 (A_Basic ?again) ?objs' ?k4"
    by (rule permits_worked [where r = "(cl_status 0)\<lparr>r_bytes := [4, 3, 2, 1]\<rparr>"]) (simp_all add: defs can_alloc_def bytes)
  show ?thesis
    unfolding store_app_def
    by (rule transparent_step, rule s0 s1 s2 s3 s4 s5 s6 s7 s8 s9,
        simp add: native_call_def native_basic_def defs status_calls_def bytes,
        simp add: usable_def, simp del: One_nat_def)+ (rule transparent.stop)
qed

end
