(* ===== verification/Spec2Isabelle.thy ===== *)
theory Spec2Isabelle
  imports RCL_ClientExample RCL_ClientLost RCL_Icd RCL_ServerCallbacks RCL_ClientCallbacks RCL_ClientObjects RCL_SessionExample
begin

text \<open>
  A model of RemoteCL: a client library that looks like an OpenCL implementation and sends every
  call over TCP to a server, which makes it on the OpenCL implementation of its own machine. This
  library covers everything both sides share (\<open>src/common/\<close>), the server (\<open>src/server/\<close>), the client
  (\<open>src/client/\<close>), and the two ends together: what a call of the application does and returns.

  \<^bold>\<open>The program.\<close> A \<open>Socket\<close> moves bytes. A \<open>SocketStream\<close> buffers them in both directions and has
  the operators \<open><<\<close> and \<open>>>\<close> for integers; \<open>streamserialise.h\<close> adds containers, strings and arrays,
  and every packet struct of \<open>common/packets/\<close> has a pair of operators on top of these. A
  \<open>PacketStream\<close> puts the type byte of a packet before it, and on reading turns an error packet and
  a terminate packet into exceptions. The server runs one \<open>ServerInstance\<close> per connection: it sends
  the version packet and then, in a loop, looks at the type of the next packet and runs the handler
  for it. A handler reads its packets, replaces 16-bit IDs by the object pointers of the table
  \<open>mObjects\<close> (\<open>getObj\<close>), calls OpenCL, gives the objects it got back an ID (\<open>getIDFor\<close>) and writes
  its reply; callbacks registered with OpenCL write on a second connection, the event stream. On the
  client's side a handle of the application is the address of an object that holds an ID. A function
  \<open>clXxx\<close> checks its arguments, takes the connection (\<open>gConnection.get()\<close>), writes its packets,
  flushes, reads the replies and makes objects of the IDs in them (\<open>registerID\<close>,
  \<open>getOrInsertObject\<close>); its \<open>catch\<close> clauses turn exceptions into a status. A thread reads the event
  stream and calls the callbacks of the application.

  \<^bold>\<open>Theories and sources.\<close> In the order in which they build on each other:
  \<^item> \<open>RCL_Prelude\<close>: machine integers, outcomes (\<open>'a res\<close>: a value, a C++ exception, or a failure no
    handler sees), a state monad, little-endian encoding, the theorem collections.
  \<^item> \<open>RCL_Socket\<close>: \<open>common/socket.cpp\<close> (\<open>receive\<close>, \<open>send\<close>) over the operating system, a parameter
    whose documented behaviour is the hypothesis \<open>os_ok\<close>; \<open>seg_os\<close> is an instance of it, a network
    that delivers any given segments.
  \<^item> \<open>RCL_SocketStream\<close>: \<open>common/socketstream.h\<close>, \<open>.cpp\<close>. The record \<open>sockstream\<close> has the members of
    the class; \<open>ss_read\<close>, \<open>ss_peek\<close>, \<open>ss_write\<close>, \<open>ss_flush\<close> are its operations. The invariant
    \<open>ss_inv\<close>, and what each operation does to the bytes still to be read (\<open>ss_in\<close>) and the bytes
    written so far (\<open>ss_out\<close>).
  \<^item> \<open>RCL_Decode\<close>: deserialisers as programs (\<open>dec\<close>) and the interfaces \<open>byte_source\<close> and \<open>byte_sink\<close>
    (what a packet needs of a stream) and \<open>codec\<close> (what an operator \<open><<\<close> and its \<open>>>\<close> promise each
    other), interpreted on the socket stream and on every packet.
  \<^item> \<open>RCL_Serialise\<close>: \<open>streamserialise.h\<close> and the integer operators. \<open>RCL_PacketType\<close>: the enumeration
    of \<open>packets/packet.h\<close>. \<open>RCL_Packets\<close>, \<open>RCL_PacketsCommands\<close>, \<open>RCL_PacketsProgram\<close>: the other
    packet structs, one record each, with the fields in the order they are declared and \<open>put_X\<close>,
    \<open>get_X\<close> in the order they are written. \<open>RCL_Payload\<close>: \<open>packets/payload.h\<close> and \<open>compression.h\<close>.
    \<open>RCL_Version\<close>: \<open>packets/version.h\<close>, \<open>.cpp\<close>.
  \<^item> \<open>RCL_Interaction\<close>: programs over a stream and a state (\<open>prog\<close>), run on any stream; the abstract
    stream of two byte queues (\<open>stream\<close>, \<open>exec\<close>); the interface \<open>stream_refinement\<close> and its
    interpretation: what a program does on the abstract stream it does on a socket stream.
  \<^item> \<open>RCL_PacketStream\<close>: \<open>common/packetstream.h\<close>, and the replies of a server as values.
  \<^item> \<open>RCL_OpenCL\<close>: the calls the server makes, their arguments and what they return. The
    implementation itself is a parameter of which nothing is assumed.
  \<^item> \<open>RCL_ServerObjects\<close>: \<open>getIDFor\<close> and \<open>getObj\<close> of \<open>server/instance.h\<close>, behind the interface
    \<open>object_table\<close>. \<open>RCL_Server\<close>: the members of a \<open>ServerInstance\<close> (record \<open>server\<close>), what it uses
    of its host (record \<open>host\<close>) and the steps its handlers share.
  \<^item> \<open>RCL_ServerQueue\<close> (\<open>refcount.cpp\<close>, \<open>queue.cpp\<close>), \<open>RCL_ServerEvent\<close> (\<open>event.cpp\<close>),
    \<open>RCL_ServerContext\<close> (\<open>context.cpp\<close>, \<open>device.cpp\<close>, platform handlers of \<open>instance.cpp\<close>),
    \<open>RCL_ServerMemory\<close> (\<open>memory.cpp\<close>, \<open>image.cpp\<close>), \<open>RCL_ServerProgram\<close> (\<open>program.cpp\<close>): one
    definition per handler, under the name of the member function.
  \<^item> \<open>RCL_ServerInstance\<close>: \<open>instance.cpp\<close>, the constructor, \<open>createEventStream\<close>, \<open>handleNextPacket\<close> with
    its \<open>switch\<close> (\<open>dispatch\<close>), \<open>run\<close> (\<open>serverStep\<close> is the body of its loop, \<open>serverRun\<close> the loop),
    and what \<open>server/main.cpp\<close> does with an accepted connection (\<open>serverConnection\<close>).
  \<^item> \<open>RCL_Rpc\<close>: the specification of the server. A \<open>request\<close> is everything a client sends for one
    call, \<open>serve\<close> its meaning: one OpenCL call (\<open>remote_call\<close>) and its answer, without any bytes.
    The handlers implement it. \<open>RCL_ServerLoop\<close>: the whole run, as a relation; what it keeps, when it
    ends, and its refinement to a socket. \<open>RCL_Example\<close>: concrete hosts, streams and packets.
  \<^item> \<open>RCL_SocketSetup\<close>: the constructors, \<open>accept\<close> and \<open>close\<close> of \<open>common/socket.cpp\<close> over a second
    set of operating system calls, with the hypothesis \<open>fds_ok\<close> about descriptors. \<open>RCL_CText\<close>: \<open>strtoul\<close>
    and \<open>strstr\<close>. \<open>RCL_ServerMain\<close>: \<open>server/main.cpp\<close>, the command line and the accept loop.
  \<^item> \<open>RCL_Client\<close>: \<open>connection.h\<close>, \<open>connection.cpp\<close>, \<open>objects.h\<close>, \<open>apiutil.h\<close> of \<open>client/\<close>. The record
    \<open>client\<close> has the members of \<open>Connection\<close>, the memory the objects and mappings live in
    (\<open>cl_heap\<close>, \<open>cl_mMappings\<close>, \<open>cl_bytes\<close>) and the calls made to the application (\<open>cl_calls\<close>). Its
    invariant \<open>client_ok\<close>; the handshake (\<open>Connection\<close>); the event thread (\<open>CallbackThreadMain\<close>).
    \<open>RCL_ClientObjects\<close>: the objects in memory with the structures the ICD loader needs (\<open>objects.h\<close>); wherever the
    allocator puts them, the handles of a \<open>client\<close> stand for theirs.
  \<^item> \<open>RCL_ClientApi\<close> (\<open>platform.cpp\<close>, \<open>device.cpp\<close>, \<open>queue.cpp\<close>), \<open>RCL_ClientEvent\<close> (\<open>event.cpp\<close>),
    \<open>RCL_ClientMemory\<close> (\<open>memory.cpp\<close>, \<open>image.cpp\<close>), \<open>RCL_ClientContext\<close> (\<open>context.cpp\<close>),
    \<open>RCL_ClientProgram\<close> (\<open>program.cpp\<close>), \<open>RCL_ClientKernel\<close> (\<open>kernel.cpp\<close>): one definition per function of
    the API, \<open>api_clXxx\<close> for \<open>clXxx\<close>.
  \<^item> \<open>RCL_Dialog\<close>: two programs that talk to each other over a pair of streams (\<open>dialog\<close>), and \<open>remote\<close>:
    a function of the API against the loop of an idle server. \<open>RCL_Remote\<close>: when both ends agree
    (\<open>in_sync\<close>, \<open>denotes\<close>), and the calls that return a status or an object; \<open>RCL_RemoteCommands\<close>:
    kernels and buffers; \<open>RCL_RemoteMapping\<close>: mapped buffers; \<open>RCL_RemoteStart\<close>: the start of both
    ends; \<open>RCL_RemoteEvents\<close>: callbacks. \<open>RCL_TwoMachines\<close>: from a dialog to two processes on two
    sockets. \<open>RCL_RemoteLists\<close>: the functions that list platforms and devices. \<open>RCL_RemoteQueries\<close>: the
    \<open>clGet*Info\<close> functions. \<open>RCL_RemoteKernel\<close>: building, waiting, arguments of kernels.
    \<open>RCL_ClientExample\<close>: concrete ends of a connection.
  \<^item> \<open>RCL_Session\<close>: applications (\<open>app\<close>), what they do on an OpenCL of their own (\<open>native_run\<close>), what they do linked
    with the client (\<open>client_run\<close>), and the calls the server makes for that (\<open>server_run\<close>). \<open>RCL_Transparency\<close>: the client
    gives the results of the server's calls. \<open>RCL_Native\<close>: when these are the native results (\<open>transparent\<close>).
    \<open>RCL_SessionExample\<close>: an application that uses a device.
  \<^item> \<open>RCL_Api\<close>: the 63 functions of the API as one relation (\<open>api_call\<close>), and what every one of them
    keeps. \<open>RCL_ClientOffline\<close>: the functions without a connection (\<open>mStream\<close> is null: the server was not reached, or
    its version is another). \<open>RCL_ClientLost\<close>: the functions after a connection is lost (\<open>mStream\<close> is still set), behind the interface
    \<open>dead_stream\<close>, interpreted on a socket stream whose peer is gone. \<open>RCL_Icd\<close>: \<open>client/icd.cpp\<close> and
    \<open>client/exports.def\<close>: which functions are exported and which have no slot in the table of the loader. The order of the slots is
    that of a struct of the OpenCL headers, which are not part of the repository, so that nothing is claimed of positions.
  \<^item> \<open>RCL_Interference\<close>: a program and an environment that acts between its steps (\<open>weave\<close>), behind the
    interface \<open>interference\<close>. \<open>RCL_ServerCallbacks\<close> interprets it on the server and the threads of
    OpenCL, \<open>RCL_ClientCallbacks\<close> on a function of the API and the event thread.

  \<^bold>\<open>What is shown.\<close> C1 is about everything at once: within the limits it lists, an application that is linked
  with the client and talks to the server over sockets gets the results it gets natively from the server's OpenCL.
  C2 to C7 are about the whole server: served over a socket a sequence of requests
  gets the replies of the specification, byte for byte; IDs stay valid; whatever bytes arrive, a
  socket stream behaves as the abstract one; the exact condition under which the server never leaves its loop; callbacks
  that run during a turn disturb nothing. C8 to C18 are about client and server together: everything
  shown of a dialog holds of two processes on two sockets; a call of the application does what the
  same call of OpenCL does with the objects behind the handles, for the functions that return a
  status, those that return an object, the list of devices, questions about objects, kernel launches and arguments,
  and mapped buffers; callbacks arrive; both ends agree after the handshake. C19 to C22 are about all
  functions of the client: handles stay valid, a lost connection is noticed, events that arrive during
  a call disturb nothing, and handles as addresses in memory. C23 to C25 are about the start of both
  programs: settings, sockets, the accept loop. C26 and C27 are about the object table, C28 to C35
  about single handlers and the loop (several of them state behaviour that the code can hardly mean,
  such as two replies to one request). C36 and C37 are about streams and C38 to C40 about packets.
  Theorems without a number are further facts about single handlers and operations.

  \<^bold>\<open>Conventions.\<close> Integers are words of their width; \<open>size_t\<close> values that only count bytes of a
  vector are natural numbers, with the reduction written out where they are converted to a smaller
  type or multiplied. Pointers and OpenCL handles are 64-bit words, \<open>nullptr\<close> is 0. The host is
  little-endian with 64-bit \<open>size_t\<close>, as the wire format of the program requires of both ends.
  \<open>assert\<close> is on (a failed one is \<open>Fail AssertionFailed\<close>). Reading past what an open peer has sent is
  \<open>Fail Blocked\<close> on the abstract stream. No fuel is used except where the source counts: the write
  loop may run twice, which its comment promises and the proof that all writes arrive confirms, and
  \<open>createEventStream\<close> tries 16 ports. Loops that may run forever (reading, \<open>getIDFor\<close>, the
  server's loop) are partial functions into \<open>option\<close>.

  The bytes of memory of the application are given with the pointer; reading or writing past them is
  \<open>Fail UndefinedBehaviour\<close>, as is using a handle whose object is gone. C strings are their bytes before
  the terminating zero. What a function returns through pointers is part of its result.

  \<^bold>\<open>What is not modelled.\<close> \<open>getPeerName\<close>, which only names a peer for the log; \<open>IgnoreSigChild\<close> and the
  variant of \<open>server/main.cpp\<close> that starts threads instead of processes; the Windows variants of the
  code; log output. Failing allocations are modelled where a handler of the server sizes a buffer from
  a number it was sent or told (\<open>h_new\<close>), not inside the operators \<open>>>\<close> and not in the client. The
  mutexes are taken as correct: a callback is one atomic step between the steps of the thread it
  interrupts, and calls of several threads of the application, which the lock of the connection
  puts in a row, are a sequence. What OpenCL would write past a buffer of the server is dropped (\<open>out_bytes\<close>). An \<open>accept\<close> for the
  event stream that never returns is not modelled. Exchanges of client and server are shown for an idle server on
  the abstract stream; C8 carries them to sockets.

  \<^bold>\<open>Where applications can tell the difference.\<close> The conditions of C1 (\<open>permits\<close>, with \<open>basic_ok\<close> for the arguments)
  are what the code needs to be transparent. Each stands for something the code does not do: it cuts sizes, offsets and
  flags to 32 bits; it sends ones for a null local size; it turns non-blocking reads into blocking ones; it cannot let OpenCL use memory
  of the application; it replaces the status of a failing \<open>clCreateContext\<close>; it asks for sizes first, adds an option
  to a build and asks for the address space of an argument, which OpenCL must not mind. At most 65536 addresses of objects fit the
  table. When OpenCL uses the address of
  a released object again, the application has to be through with that one, and a new memory object may only be at the
  address of another memory object: the client makes no new object for it but takes the one it has for the ID for a
  \<open>MemObject\<close>, whatever it is. Queries for numbers,
  images, mapped buffers and callbacks are not among the calls of \<open>app\<close>; other theorems are about them.
\<close>

section \<open>Whole applications\<close>



section \<open>The server as a whole\<close>

text \<open>C2
  Over a TCP connection, however the traffic is segmented: a client that sends a sequence of
  requests ahead and closes gets the version packet and then, in order, exactly the replies of the
  specification \<open>serve\<close> (one OpenCL call per request, with IDs replaced by objects), all of them
  delivered to the network; the server ends normally with the object table and the OpenCL state
  that serving the requests one by one gives. The requests are those of the type \<open>request\<close>: the 24 kinds that are one
  OpenCL call (reference counts, queues, contexts, user events and waiting, kernel launches, buffers and their commands,
  programs and kernels; not the \<open>clGet*\<close> queries, kernel arguments, images and event callbacks). Each has to be
  \<open>request_ok\<close>: lists, strings and data fit the length fields of their packets, the type of a reference count is one of the seven, the
  properties of a context come in pairs, what is read from a buffer fits the reply and its memory can be allocated, a
  compilation has no callback, and the server is built for OpenCL 2.0 for a queue with properties and for 2.1 to clone
  a kernel. And the object table has to have room for the objects made (\<open>serve_all\<close> is defined).
\<close>

theorem server_answers_over_socket:
  assumes "os_ok os rem out" and "zlib_opt_ok (h_zlib h)" and "list_all (request_ok h) qs"
    and "rem n = concat (map (enc_request (h_zlib h)) qs)"
    and "serve_all h qs (server_init w) = Some (rs, sv')"
  shows "\<exists>c'. serverConnection (ss_ops os) h w (ss_start n)
             = Some (Ok (), sv'\<lparr>mEventStream := None\<rparr>, c')
           \<and> out (mSocket c') = out n
               @ enc_reply (h_zlib h) (R_Version (VersionPacket (h_cfg h)))
               @ enc_replies (h_zlib h) rs"
proof -
  let ?st = "\<lparr>s_in = rem n, s_closed = True, s_pending = [], s_sent = out n\<rparr>"
  have "serverConnection st_ops h w ?st = Some (Ok (), sv'\<lparr>mEventStream := None\<rparr>,
      \<lparr>s_in = [], s_closed = True, s_pending = [], s_sent = out n
         @ enc_reply (h_zlib h) (R_Version (VersionPacket (h_cfg h))) @ enc_replies (h_zlib h) rs\<rparr>)"
    using serverRun_serves_all [OF assms(3,2), of _ "[]" "[]" "server_init w" rs sv'] assms(4,5)
    by (simp add: serverConnection_abstract)
  from stream_refinement.serverConnection_refines [OF ss_stream_refinement [OF assms(1)] this
      ss_start_abs [of rem out n]]
  show ?thesis by (auto dest: ss_abs_delivered)
qed

theorem server_answers_over_socket_witness:
  "\<exists>c'. serverConnection (ss_ops seg_os) (example_host fresh_cl) 0
          (ss_start (segments3 (concat (map (enc_request None) [Q_CreateUserEvent 9, Q_Flush 0]))))
        = Some (Ok (), \<lparr>mEventStream = None, mObjects = [4096], sv_blocks = [], sv_world = 2\<rparr>, c')
      \<and> snd (mSocket c')
        = enc_reply None (R_Version (VersionPacket (h_cfg (example_host fresh_cl))))
          @ enc_reply None (R_ID 0) @ enc_reply None R_Success"
  using server_answers_over_socket [OF seg_os_ok _ _ _ example_serve_all,
      of "segments3 (concat (map (enc_request None) [Q_CreateUserEvent 9, Q_Flush 0]))"]
  by (simp add: zlib_opt_ok_def enc_replies_def)

text \<open>C3
  One request: with the encoding of a request next on the stream,
  \<open>handleNextPacket\<close> reads exactly that request, leaves the server in the state the specification
  \<open>serve\<close> gives (the OpenCL call made with the objects the IDs stand for, an ID assigned to what
  it returned) and writes exactly the specified replies. The request is of one of the 24 kinds of the type \<open>request\<close>
  and \<open>request_ok\<close>, as in C2 (so the server is built for OpenCL 2.0 or 2.1 where the request needs it, the memory for a read
  can be allocated, and there is no compile callback: C34, C33 and C30 are about the others), and the object table has room
  for a new object.
\<close>

theorem handleNextPacket_serves:
  assumes "request_ok h q" and "zlib_opt_ok (h_zlib h)"
    and "s_in st = enc_request (h_zlib h) q @ rest" and "serve h q sv = Some (rs, sv')"
  shows "exec (handleNextPacket h) sv st =
    (Ok True, sv', st\<lparr>s_in := rest, s_pending := s_pending st @ enc_replies (h_zlib h) rs\<rparr>)"
  using assms by (rule exec_handleNextPacket_serves)

theorem handleNextPacket_serves_witness:
  "exec (handleNextPacket (example_host fresh_cl)) (server_init 0)
     (closed_stream (enc_request None (Q_CreateUserEvent 9) @ [1, 2]))
   = (Ok True, (server_init 1)\<lparr>mObjects := [4096]\<rparr>,
      (closed_stream [1, 2])\<lparr>s_pending := enc_reply None (R_ID 0)\<rparr>)"
proof -
  have "serve (example_host fresh_cl) (Q_CreateUserEvent 9) (server_init 0)
      = Some ([R_ID 0], (server_init 1)\<lparr>mObjects := [4096]\<rparr>)"
    by (simp add: serve_def server_init_def fresh_cl_def getIDFor_absent)
  from handleNextPacket_serves [OF _ _ _ this,
      of "closed_stream (enc_request None (Q_CreateUserEvent 9) @ [1, 2])" "[1, 2]"]
  show ?thesis by (simp add: zlib_opt_ok_def enc_replies_def closed_stream_def)
qed

text \<open>C4
  Whatever a client sends, over whatever stream, and whatever the OpenCL implementation answers:
  after the run of an instance every ID that was assigned before still names the same object, no
  object has two IDs, and the table has at most 65536 entries.
\<close>

theorem object_ids_stay_valid:
  assumes "serverRun ops h sv c = Some (r, sv', c')" and "objs_ok (mObjects sv)"
  shows "objs_ok (mObjects sv') \<and> (\<forall>i. has_id (mObjects sv) i \<longrightarrow>
      has_id (mObjects sv') i \<and> getObj (mObjects sv') i = getObj (mObjects sv) i)"
proof -
  from assms(1) have "sv_grows sv sv'"
    using server_ends_grows [of ops h sv c "(r, sv', c')"] by (simp add: serverRun_iff_ends)
  with assms(2) have g: "objs_ok (mObjects sv')" "prefix (mObjects sv) (mObjects sv')"
    by (simp_all add: sv_grows_def sv_ok_def)
  then show ?thesis
    using prefix_getObj [OF g(2)] prefix_length_le [OF g(2)] by (auto simp: has_id_def)
qed

theorem object_ids_stay_valid_witness:
  "objs_ok (mObjects (fst (snd (the (serverRun st_ops (example_host fresh_cl)
      ((server_init 0)\<lparr>mObjects := [77, 99]\<rparr>) (closed_stream []))))))"
proof -
  let ?sv = "(server_init 0)\<lparr>mObjects := [77, 99]\<rparr> :: nat server"
  have "exec (serverStep (example_host fresh_cl)) ?sv (closed_stream [])
      = (Ok False, ?sv\<lparr>mEventStream := None\<rparr>, closed_stream [])"
    by (rule exec_serverStep_end) simp_all
  then have "serverRun st_ops (example_host fresh_cl) ?sv (closed_stream [])
      = Some (Ok (), ?sv\<lparr>mEventStream := None\<rparr>, closed_stream [])"
    by (subst serverRun.simps) simp
  from object_ids_stay_valid [OF this] this show ?thesis by (simp add: objs_ok_def)
qed

text \<open>C5
  Whatever bytes a client sends before it closes, well-formed or not: if the run of a connection on
  the abstract stream ends, with any outcome but a handler that spins, then the run over a socket
  ends with the same outcome and the same state of the instance, and has written the same bytes,
  however the network cuts the traffic.
\<close>

theorem any_client_over_socket:
  assumes "os_ok os rem out"
    and "serverConnection st_ops h w \<lparr>s_in = rem n, s_closed = True, s_pending = [], s_sent = out n\<rparr>
           = Some (r, sv', st')"
    and "r \<noteq> Fail Nontermination" and "r \<noteq> Fail Blocked"
  shows "\<exists>c'. serverConnection (ss_ops os) h w (ss_start n) = Some (r, sv', c')
           \<and> ss_out out c' = st_out st'"
  using stream_refinement.serverConnection_refines [OF ss_stream_refinement [OF assms(1)] assms(2)
      ss_start_abs [of rem out n] _ assms(4)] assms(3)
  by (auto simp: ss_abs_def)

theorem any_client_over_socket_witness:
  "\<exists>c'. serverConnection (ss_ops seg_os) (example_host fresh_cl) 0 (ss_start (segments3 [51, 0, 0]))
        = Some (Ok (), server_init 0, c')
      \<and> ss_out snd c' = enc_reply None (R_Version (VersionPacket (h_cfg (example_host fresh_cl))))"
proof -
  let ?st = "\<lparr>s_in = [51, 0, 0], s_closed = True, s_pending = [],
     s_sent = enc_reply None (R_Version (VersionPacket (h_cfg (example_host fresh_cl))))\<rparr>"
  have "exec (handleNextPacket (example_host fresh_cl)) (server_init 0) ?st
      = exec (dispatch PT_IDList (example_host fresh_cl)) (server_init 0) ?st"
    by (rule exec_handleNextPacket [of _ _ "[0, 0]" "[]"]) (simp add: enc_packet_Cons)
  then have "exec (serverStep (example_host fresh_cl)) (server_init 0) ?st
      = (Ok False, server_init 0, ?st)"
    by (simp add: serverStep_def prog_simps)
  then have "serverRun st_ops (example_host fresh_cl) (server_init 0) ?st
      = Some (Ok (), server_init 0, ?st)"
    by (subst serverRun.simps) simp
  then have "serverConnection st_ops (example_host fresh_cl) 0
      \<lparr>s_in = concat (fst (segments3 [51, 0, 0])), s_closed = True, s_pending = [],
       s_sent = snd (segments3 [51, 0, 0])\<rparr> = Some (Ok (), server_init 0, ?st)"
    by (simp add: serverConnection_abstract)
  from any_client_over_socket [OF seg_os_ok this] show ?thesis by (simp add: st_out_def)
qed

text \<open>C6
  A server built against OpenCL 2.1 or later whose client closes the connection: it never leaves its loop if and only if
  its turns lead to a byte, where a packet starts, that is the value of no packet type, or to a turn that itself
  never ends (a read that misses 1024 bytes or more at the end of the stream, C37, or the search for an ID in a full
  table, C27). A byte of the first kind is not consumed, so the server spins on it.
\<close>

theorem server_never_ends_iff:
  assumes "210 \<le> h_target h" and "s_closed st"
  shows "(case serverRun st_ops h sv st of None \<Rightarrow> True | Some (r, sv', st') \<Rightarrow> r = Fail Nontermination)
     \<longleftrightarrow> (\<exists>sv1 st1. server_turns st_ops h sv st sv1 st1
        \<and> (stuck st1 \<or> fst (run st_ops (serverStep h) sv1 st1) = Fail Nontermination))"
  using runs_forever_iff [OF assms] unfolding runs_forever_def turn_spins_def .

theorem server_never_ends_iff_witness:
  "serverRun st_ops (example_host fresh_cl) (server_init 0) (closed_stream [200, 0, 0]) = None
   \<or> fst (the (serverRun st_ops (example_host fresh_cl) (server_init 0) (closed_stream [200, 0, 0]))) = Fail Nontermination"
proof -
  have "pt_of_byte 200 = None" by (simp add: pt_of_byte_def all_packet_types_def)
  then have "stuck (closed_stream [200, 0, 0])" by (simp add: stuck_def)
  with server_never_ends_iff [of "example_host fresh_cl" "closed_stream [200, 0, 0]" "server_init 0"]
  show ?thesis by (auto intro: server_turns.here split: option.splits)
qed

text \<open>C7
  Callbacks registered in earlier turns run in threads of OpenCL while the server's thread is in a turn
  of its loop. However they are interleaved with the steps of a turn, for all packets but the two that
  replace the event stream: the turn ends as it does alone, with the same replies and the same state,
  and the event stream carries what the callbacks send, whole and in their order.
\<close>

theorem callbacks_during_a_turn:
  assumes "sv_ok sv" and "\<forall>l \<in> set (concat sched). block_set l sv"
    and "so_peek ops c = (Ok b, c1)" and "pt_of_byte b \<notin> Some ` set event_stream_types"
    and "run ops (serverStep h) sv c = (r, sv', c')"
  shows "weave event_action ops (serverStep h) sv c sched = (r,
      sv'\<lparr>mEventStream := map_option (sent_on (concat (map (action_bytes sv) (concat sched)))) (mEventStream sv)\<rparr>, c')"
  using assms by (rule weave_serverStep)

theorem callbacks_during_a_turn_witness:
  "weave event_action st_ops (serverStep (example_host fresh_cl))
      (example_server\<lparr>sv_blocks := [\<lparr>cb_instance = True, cb_ID = 0\<rparr>]\<rparr>) (closed_stream (enc_request None (Q_Flush 0)))
      [[], [(1, 0)], [(0, 0)]]
    = (Ok True, example_server\<lparr>sv_blocks := [\<lparr>cb_instance = True, cb_ID = 0\<rparr>], sv_world := 4,
         mEventStream := Some (fresh_stream\<lparr>s_sent := event_bytes 0 1 @ event_bytes 0 0\<rparr>)\<rparr>,
       (closed_stream [])\<lparr>s_sent := enc_reply None R_Success\<rparr>)"
proof -
  let ?h = "example_host fresh_cl" and ?sv = "example_server\<lparr>sv_blocks := [\<lparr>cb_instance = True, cb_ID = 0\<rparr>]\<rparr>"
  let ?c = "closed_stream (enc_request None (Q_Flush 0))"
  have "serve ?h (Q_Flush 0) ?sv = Some ([R_Success], ?sv\<lparr>sv_world := 4\<rparr>)"
    by (simp add: serve_def fresh_cl_def example_server_def server_init_def getObj_def)
  from exec_handleNextPacket_serves [OF _ _ _ this, of ?c "[]"]
  have "run st_ops (serverStep ?h) ?sv ?c = (Ok True, ?sv\<lparr>sv_world := 4\<rparr>, (closed_stream [])\<lparr>s_sent := enc_reply None R_Success\<rparr>)"
    by (simp add: serverStep_def prog_simps zlib_opt_ok_def enc_replies_def closed_stream_def)
  moreover have "so_peek st_ops ?c = (Ok (pt_code PT_Flush), ?c)"
    by (simp add: st_ops_def st_peek_def enc_packet_Cons closed_stream_def)
  ultimately show ?thesis
    using callbacks_during_a_turn [of ?sv "[[], [(1, 0)], [(0, 0)]]" st_ops ?c "pt_code PT_Flush" ?c ?h] pt_of_code [of PT_Flush]
    by (simp del: pt_of_code add: sv_ok_def objs_ok_def block_set_def event_stream_types_def action_bytes_def sent_on_def fresh_stream_def)
qed

section \<open>The client and the server together\<close>

text \<open>C8
  Two processes on two sockets: take any program of the application that, together with a server that
  starts, runs to its end in a dialog. There is one byte string for each direction such that the
  client, reading the one however its socket cuts it, ends with the same result and sends exactly the
  other, and the server, reading that one however its socket cuts it, ends with the same objects and
  OpenCL state and sends exactly the first. So whatever is shown about calls against an idle server
  holds of two machines. Both processes end: the client says goodbye in the destructor of its
  connection, and the server leaves its loop.
\<close>

theorem client_and_server_over_sockets:
  assumes "os_ok os rem out" and "os_ok os' rem' out'"
    and "dialog h p c idle (server_start h) (server_init w) idle = Some (Ok a, c', idle, serverStep h, sv', idle)"
  shows "\<exists>B R. (\<forall>n. rem n = R \<longrightarrow> (\<exists>cs. run (ss_ops os) (client_life p) c (ss_start n)
        = (Ok a, c'\<lparr>cl_mObjects := [], cl_heap := Map.empty\<rparr>, cs) \<and> out (mSocket cs) = out n @ B))
    \<and> (\<forall>n. rem' n = B \<longrightarrow> (\<exists>ss. serverConnection (ss_ops os') h w (ss_start n)
        = Some (Ok (), sv'\<lparr>mEventStream := None\<rparr>, ss) \<and> out' (mSocket ss) = out' n @ R))"
  using assms by (rule life_over_sockets)

theorem client_and_server_over_sockets_witness:
  "\<exists>B R ts c' cs sv' ss. run (ss_ops seg_os) (client_life (pbind (Connection (h_cfg (example_host list_cl)) True (\<lambda>_. True))
        (\<lambda>_. api_clGetPlatformIDs 1 True True))) client_init (ss_start (segments3 R)) = (Ok (CL_SUCCESS, 1, ts), c', cs)
    \<and> snd (mSocket cs) = B
    \<and> serverConnection (ss_ops seg_os) (example_host list_cl) 0 (ss_start (segments3 B)) = Some (Ok (), sv', ss)
    \<and> snd (mSocket ss) = R \<and> mObjects sv' = [55]"
proof -
  let ?h = "example_host list_cl"
  let ?c = "started_client (h_cfg ?h) (h_cfg ?h)"
  let ?sv = "(server_init 0)\<lparr>mEventStream := Some fresh_stream\<rparr>"
  have ids: "assign_all getIDFor (mObjects ?sv) [55] = Some ([0], [55])"
    by (simp add: server_init_def getIDFor_absent)
  have l: "cl_lists ?h clGetPlatformIDs (sv_world ?sv) [55] 2"
    by (simp add: cl_lists_def list_cl_def server_init_def)
  have m: "mirrors 0 ?c ?sv" by (rule started_mirrors) (simp add: isCompatibleWith_def)
  from remote_clGetPlatformIDs [where room = 1 and present = True and count = True, OF m l ids] obtain ts c'
    where "remote ?h (api_clGetPlatformIDs 1 True True) ?c ?sv (Ok (CL_SUCCESS, 1, take 1 ts)) c'
      (?sv\<lparr>mObjects := [55], sv_world := 2\<rparr>)" by auto
  from dialog_then_remote [OF handshake_events [where connect = "\<lambda>_. True" and w = 0] this]
  have "dialog ?h (pbind (Connection (h_cfg ?h) True (\<lambda>_. True)) (\<lambda>_. api_clGetPlatformIDs 1 True True)) client_init idle
      (server_start ?h) (server_init 0) idle
    = Some (Ok (CL_SUCCESS, 1, take 1 ts), c', idle, serverStep ?h, ?sv\<lparr>mObjects := [55], sv_world := 2\<rparr>, idle)"
    by (simp add: example_host_connects event_stream_wanted_def isCompatibleWith_def)
  from client_and_server_over_sockets [OF seg_os_ok seg_os_ok this] obtain B R
    where c: "\<And>n. concat (fst n) = R \<Longrightarrow> \<exists>cs. run (ss_ops seg_os) (client_life (pbind (Connection (h_cfg ?h) True (\<lambda>_. True))
          (\<lambda>_. api_clGetPlatformIDs 1 True True))) client_init (ss_start n)
        = (Ok (CL_SUCCESS, 1, take 1 ts), c'\<lparr>cl_mObjects := [], cl_heap := Map.empty\<rparr>, cs) \<and> snd (mSocket cs) = snd n @ B"
      and s: "\<And>n. concat (fst n) = B \<Longrightarrow> \<exists>ss. serverConnection (ss_ops seg_os) ?h 0 (ss_start n)
        = Some (Ok (), (?sv\<lparr>mObjects := [55], sv_world := 2\<rparr>)\<lparr>mEventStream := None\<rparr>, ss) \<and> snd (mSocket ss) = snd n @ R"
    by blast
  from c [of "segments3 R"] s [of "segments3 B"] show ?thesis by fastforce
qed

text \<open>C9
  The functions of the client that return a status (\<open>status_calls\<close>: flush, finish, the status of a
  user event, retaining and releasing objects of every kind): with a handle the client gave out and
  an idle server, the function sends its request, the server makes exactly the OpenCL call listed for
  it on the object the handle stands for, and the application gets the status of that call. The
  client is unchanged, and both ends are ready for the next call.
\<close>

theorem status_calls_are_remote:
  assumes "(f, g) \<in> set (status_calls status)" and "in_sync c sv" and "cl_heap c t = Some i"
    and "zlib_opt_ok (h_zlib h)" and "h_cl h (g (getObj (mObjects sv) i)) (sv_world sv) = (r, w)"
  shows "remote h (f t) c sv (Ok (r_err r)) c (sv\<lparr>sv_world := w\<rparr>) \<and> in_sync c (sv\<lparr>sv_world := w\<rparr>)"
  using remote_status_call [OF assms] assms(2) by simp

theorem status_calls_are_remote_witness:
  "remote (example_host failing_cl) (api_clReleaseKernel 2) example_client example_server (Ok (- 5))
     example_client example_server \<and> in_sync example_client example_server"
  using status_calls_are_remote [of api_clReleaseKernel "clRelease K_Kernel" 0 example_client example_server 2 1
      "example_host failing_cl"]
  by (simp add: status_calls_def zlib_opt_ok_def failing_cl_def)

text \<open>C10
  The functions that return a new object (queues, user events, kernels, clones of them, programs from
  source, buffers with and without data, sub-buffers, contexts): when the OpenCL call fails the
  application gets no object and the status of the call (of a context always the same one), and
  nothing changes. When it succeeds with an object that is new to the server, the application gets
  a handle that was not in use and stands for that object, every other handle stands for what it stood
  for, and both ends agree on all of them. When the object is at an address the server has in its table, that of a
  released object, the handle stands for it, and so does every other handle for what it stood for, except those of
  the released object; the functions for memory objects return the handle of that one.
\<close>

theorem create_calls_return_new_handles:
  assumes "create_call h p ts G E" and "in_sync c sv" and "\<forall>t \<in> set ts. denotes c sv t (obj t)"
    and "zlib_opt_ok (h_zlib h)" and "h_cl h (G obj) (sv_world sv) = (r, w)"
  shows "(r_err r \<noteq> CL_SUCCESS \<longrightarrow> remote h p c sv (Ok (0, E (r_err r))) c (sv\<lparr>sv_world := w\<rparr>))
    \<and> (r_err r = CL_SUCCESS \<longrightarrow> r_obj r \<notin> set (mObjects sv) \<longrightarrow> length (mObjects sv) < 65536 \<longrightarrow>
        (\<exists>t c' sv'. remote h p c sv (Ok (t, CL_SUCCESS)) c' sv' \<and> new_handle c sv c' sv' t (r_obj r)
          \<and> sv_world sv' = w))
    \<and> (r_err r = CL_SUCCESS \<longrightarrow> r_obj r \<in> set (mObjects sv) \<longrightarrow> (makes_mem (G obj) \<longrightarrow> mirrors n c sv) \<longrightarrow>
        (\<exists>t c'. remote h p c sv (Ok (t, CL_SUCCESS)) c' (sv\<lparr>sv_world := w\<rparr>) \<and> reused_handle c sv c' t (r_obj r)
          \<and> (makes_mem (G obj) \<longrightarrow> c' = c)))"
  using remote_create_call [OF assms] by blast

theorem create_calls_return_new_handles_witness:
  "\<exists>t c' sv'. remote (example_host fresh_cl) (api_clCreateKernel 3 (Some [102])) example_client example_server
      (Ok (t, CL_SUCCESS)) c' sv' \<and> new_handle example_client example_server c' sv' t 4099 \<and> sv_world sv' = 4"
proof -
  have "create_call (example_host fresh_cl) (api_clCreateKernel 3 (Some [102])) [3]
      (\<lambda>obj. clCreateKernel (obj 3) (c_str [102])) (\<lambda>e. e)"
    by (rule create_call.kernel) (simp add: string_ok_def)
  from create_calls_return_new_handles [OF this example_in_sync, where obj = example_object and r = "cl_object 4099" and w = 4] show ?thesis
    by (simp add: fresh_cl_def zlib_opt_ok_def)
qed

text \<open>C11
  \<open>clGetDeviceIDs\<close> is a remote call: the application gets the number of devices OpenCL lists on
  the server, and in the first \<open>room\<close> entries of its array handles that stand, in their order, for
  these devices. Every handle it had stands for what it stood for.
\<close>

theorem clGetDeviceIDs_lists_devices:
  assumes "mirrors n c sv" and "denotes c sv platform x" and "cl_lists h (clGetDeviceIDs x ty) (sv_world sv) ps w"
    and "assign_all getIDFor (mObjects sv) ps = Some (is, objs)" and "present = (0 < room)" and "present \<or> count"
  shows "\<exists>ts c'. remote h (api_clGetDeviceIDs platform ty room present count) c sv
      (Ok (CL_SUCCESS, length ps, take room ts)) c' (sv\<lparr>mObjects := objs, sv_world := w\<rparr>)
    \<and> listed c sv c' (sv\<lparr>mObjects := objs, sv_world := w\<rparr>) ts ps"
  using assms by (rule remote_clGetDeviceIDs)

theorem clGetDeviceIDs_lists_devices_witness:
  "\<exists>ts c'. remote (example_host list_cl) (api_clGetDeviceIDs 1 4 1 True True) example_client example_server
      (Ok (CL_SUCCESS, 2, take 1 ts)) c' (example_server\<lparr>mObjects := [4096, 4097, 4098, 77, 88], sv_world := 5\<rparr>)
    \<and> listed example_client example_server c' (example_server\<lparr>mObjects := [4096, 4097, 4098, 77, 88], sv_world := 5\<rparr>)
        ts [77, 88]"
proof -
  have "mirrors 0 example_client example_server" by (simp add: mirrors_def)
  moreover have "cl_lists (example_host list_cl) (clGetDeviceIDs 4096 4) (sv_world example_server) [77, 88] 5"
    by (simp add: cl_lists_def list_cl_def)
  moreover have "assign_all getIDFor (mObjects example_server) [77, 88] = Some ([3, 4], [4096, 4097, 4098, 77, 88])"
    by (simp add: getIDFor_absent)
  ultimately show ?thesis
    using clGetDeviceIDs_lists_devices [of 0 example_client example_server 1 4096 "example_host list_cl" 4 "[77, 88]" 5 "[3, 4]"
        "[4096, 4097, 4098, 77, 88]" True 1 True]
    by (simp del: assign_all.simps add: numeral_2_eq_2)
qed

text \<open>C12
  The \<open>clGet*Info\<close> functions on a platform, a device, a queue, a memory object, an image, a kernel, an argument of a kernel or a
  kernel on a device, for the parameters whose answer travels as a burst of data (\<open>data_query\<close>): the application gets
  what OpenCL answers on the server for the object behind its handle. That is the error of the call, or the size of
  the data and, if its buffer has room for all of it, the data. The size of the data has to fit the burst it is
  sent in, which has 8 bits for it (platforms, queues, memory objects, images) or 32 (C39 is about data that does not fit).
  Not among these parameters are those for objects (C13), the parameters of a device that are a \<open>size_t\<close>
  (\<open>size_params\<close>), \<open>CL_DEVICE_MAX_WORK_ITEM_SIZES\<close> (of which 3 bytes arrive), the reference count and the number of
  arguments of a kernel, the four parameters of a kernel on a device that are sizes, and the three qualifiers of an
  argument; nor are the functions about contexts, events and programs.
\<close>

theorem info_queries_are_remote:
  assumes "data_query h p ts w check buf G" and "in_sync c sv" and "\<forall>t \<in> set ts. denotes c sv t (obj t)"
    and "zlib_opt_ok (h_zlib h)" and "info_answer h check (G obj) (sv_world sv) a w'"
    and "\<And>d. a = Inr d \<Longrightarrow> payload_fits w d"
  shows "remote h p c sv (Ok (case a of Inl e \<Rightarrow> (e, None, None)
      | Inr d \<Rightarrow> (CL_SUCCESS, if snd buf \<and> length d \<le> fst buf then Some d else None, Some (length d))))
    c (sv\<lparr>sv_world := w'\<rparr>)"
  using remote_data_query [OF assms] unfolding copy_out_def .

theorem info_queries_are_remote_witness:
  "remote (example_host query_cl) (api_clGetDeviceInfo None [] 1 0x102B (4096, True)) example_client example_server
    (Ok (CL_SUCCESS, Some (replicate 3000 1), Some 3000)) example_client (example_server\<lparr>sv_world := 5\<rparr>)"
proof -
  let ?h = "example_host query_cl" and ?q = "\<lambda>obj :: handle \<Rightarrow> ptr. clGetInfo I_Device (obj 1) 0x102B"
  let ?r = "(cl_status 0)\<lparr>r_size := Some 3000, r_bytes := replicate 3000 1\<rparr>"
  have "data_query ?h (api_clGetDeviceInfo None [] 1 0x102B (4096, True)) [1] 4 False (4096, True) ?q"
    using data_query.device [of "0x102B" ?h "[]" 1 "(4096, True)"] by (simp add: size_params_def)
  moreover have "info_answer ?h False (?q example_object) 3 (Inr (r_bytes ?r)) 5"
    by (rule info_answer.answered [where ?r1.0 = "(cl_status 0)\<lparr>r_size := Some 3000, r_bytes := []\<rparr>" and ?w1.0 = 4])
      (simp_all add: query_cl_def)
  ultimately show ?thesis
    using info_queries_are_remote [of ?h _ "[1]" 4 False "(4096, True)" ?q example_client example_server example_object
        "Inr (r_bytes ?r)" 5]
    by (simp add: zlib_opt_ok_def payload_fits_less)
qed

text \<open>C13
  The same functions where the answer is an object, such as the context of a queue: the application
  gets a handle that stands for the object OpenCL names on the server. Every handle the application had
  stands for what it stood for.
\<close>

theorem object_queries_return_handles:
  assumes "object_query h p t buf G" and "mirrors n c sv" and "denotes c sv t x"
    and "h_cl h (G x 8) (sv_world sv) = (r, w)" and "r_err r = CL_SUCCESS" and "r_bytes r = put_u64 y"
    and "getIDFor (mObjects sv) y = Some (i, objs)" and "snd buf \<or> fst buf < 8"
  shows "\<exists>u c'. remote h p c sv (Ok (CL_SUCCESS, if fst buf < 8 then None else Some (handle_bytes u), Some 8)) c'
      (sv\<lparr>mObjects := objs, sv_world := w\<rparr>)
    \<and> listed c sv c' (sv\<lparr>mObjects := objs, sv_world := w\<rparr>) [u] [y]"
  using assms by (rule remote_object_query)

theorem object_queries_return_handles_witness:
  "\<exists>u c'. remote (example_host image_cl) (api_clGetCommandQueueInfo None 2 CL_QUEUE_CONTEXT (8, True))
      example_client example_server (Ok (CL_SUCCESS, Some (handle_bytes u), Some 8)) c'
      (example_server\<lparr>mObjects := [4096, 4097, 4098, 4], sv_world := 4\<rparr>)
    \<and> denotes c' (example_server\<lparr>mObjects := [4096, 4097, 4098, 4], sv_world := 4\<rparr>) u 4"
proof -
  let ?h = "example_host image_cl"
  have "object_query ?h (api_clGetCommandQueueInfo None 2 CL_QUEUE_CONTEXT (8, True)) 2 (8, True)
      (\<lambda>x. clGetInfo I_CommandQueue x CL_QUEUE_CONTEXT)"
    using object_query.queue [of CL_QUEUE_CONTEXT ?h 2 "(8, True)"] by simp
  moreover have "mirrors 0 example_client example_server" by (simp add: mirrors_def)
  ultimately show ?thesis
    using object_queries_return_handles [OF _ _ example_denotes(2), of ?h _ "(8, True)"
        "\<lambda>x. clGetInfo I_CommandQueue x CL_QUEUE_CONTEXT" 0 "(cl_status 0)\<lparr>r_size := Some 8, r_bytes := put_u64 4\<rparr>" 4 4 3
        "[4096, 4097, 4098, 4]"]
    by (simp add: image_cl_def put_u64_def getIDFor_absent listed_def) blast
qed

text \<open>C14
  \<open>clEnqueueNDRangeKernel\<close>: with 1 to 3 dimensions, OpenCL launches the kernel on the server's machine
  with the number of dimensions, the sizes of each of them (in 32 bits; 1 and offset 0 for those not used) and the
  events of the caller. OpenCL never gets to choose a local size: when the caller passes a
  null pointer for it, the launch is made with work-groups of one work-item. A failure is
  returned; on success the event, when one is asked for, is a handle for the event OpenCL returned.
\<close>

theorem clEnqueueNDRangeKernel_launches:
  assumes "in_sync c sv" and "\<forall>t \<in> set (queue # krn # es). denotes c sv t (obj t)"
    and "1 \<le> work_dim" and "work_dim \<le> 3" and "work_dim \<le> length global"
    and "\<forall>xs \<in> set_option offset. work_dim \<le> length xs"
    and "\<forall>xs \<in> set_option loc. work_dim \<le> length xs \<and> (0::u32) \<notin> set (map ucast (take work_dim xs))"
    and "length es < 256" and "zlib_opt_ok (h_zlib h)"
    and "h_cl h (clEnqueueNDRangeKernel (obj queue) (obj krn) (word_of_nat work_dim)
        (size3_of (dims work_dim 0 0 offset)) (size3_of (dims work_dim 1 1 (Some global)))
        (Some (case loc of None \<Rightarrow> (1, 1, 1) | Some xs \<Rightarrow> size3_of (dims work_dim 1 1 (Some xs))))
        (map obj es) want) (sv_world sv) = (r, w)"
  shows "remote_event h (api_clEnqueueNDRangeKernel queue krn work_dim offset global loc (length es) (Some es) want)
    c sv want r w (\<lambda>e. (e, None)) (\<lambda>ev. (CL_SUCCESS, ev))"
proof -
  have loc: "\<forall>xs \<in> set_option loc. work_dim \<le> length xs \<and> 0 \<notin> set (take work_dim xs)"
    using assms(7) by force
  show ?thesis
    by (rule remote_clEnqueueNDRangeKernel [OF assms(1-6) loc assms(8,9)])
      (use assms(10) launched_local_size [OF assms(3,7)] in \<open>simp add: Let_def\<close>)
qed

theorem clEnqueueNDRangeKernel_launches_witness:
  "remote (example_host launch_cl) (api_clEnqueueNDRangeKernel 1 2 2 None [64, 32] None 1 (Some [3]) False)
     example_client example_server (Ok (CL_SUCCESS, None)) example_client (example_server\<lparr>sv_world := 4\<rparr>)
   \<and> launch_cl (clEnqueueNDRangeKernel 4096 4097 2 (0, 0, 0) (64, 32, 1) None [4098] False) 3 = (cl_status (- 54), 3)"
  using clEnqueueNDRangeKernel_launches [of example_client example_server 1 2 "[3]" example_object 2
      "[64, 32]" None None "example_host launch_cl" False "cl_status 0" 4]
  by (simp add: zlib_opt_ok_def launch_cl_def remote_event_def dims_def size3_of_def example_object_def)

text \<open>C15
  \<open>clSetKernelArg\<close> is a remote call of two exchanges: the server looks up the address space of the argument and asks for
  what it needs. For a global or constant one that is an ID, which stands for the handle at the
  address the application passed; for a local one only the size; for any other one the data. OpenCL gets the object, the
  size without data, or the data, and the application the status of the call.
\<close>

theorem clSetKernelArg_is_remote:
  assumes "in_sync c sv" and "denotes c sv krn x" and "zlib_opt_ok (h_zlib h)"
    and "arg_given c sv (asks_for AS) n val n' val'"
    and "h_cl h (clGetKernelArgInfo x i CL_KERNEL_ARG_ADDRESS_QUALIFIER 4) (sv_world sv) = (r1, w1)"
    and "r_err r1 = CL_SUCCESS" and "r_bytes r1 = put_u32 AS"
    and "h_cl h (clSetKernelArg x i n' val') w1 = (r2, w2)"
  shows "remote h (api_clSetKernelArg (h_zlib h) krn i n val) c sv (Ok (r_err r2)) c (sv\<lparr>sv_world := w2\<rparr>)"
  using assms by (rule remote_clSetKernelArg)

theorem clSetKernelArg_is_remote_witness:
  "remote (example_host query_cl) (api_clSetKernelArg None 2 0 8 (handle_bytes 3)) example_client example_server
     (Ok CL_SUCCESS) example_client (example_server\<lparr>sv_world := 5\<rparr>)"
proof -
  have "arg_given example_client example_server (asks_for CL_KERNEL_ARG_ADDRESS_GLOBAL) 8 (handle_bytes 3) 8 (Some (put_u64 4098))"
    using arg_given.object [OF example_denotes(3)] by (simp add: asks_for_def)
  from clSetKernelArg_is_remote [OF example_in_sync example_denotes(2) _ this, of "example_host query_cl" 0
      "(cl_status 0)\<lparr>r_size := Some 4, r_bytes := le_encode 4 0x119B\<rparr>" 4 "cl_status 0" 5]
  show ?thesis by (simp add: zlib_opt_ok_def query_cl_def put_u32_def)
qed

text \<open>C16
  Callbacks on events, from end to end: \<open>clSetEventCallback\<close> succeeds when the server's OpenCL call does;
  whenever OpenCL afterwards calls the function it was given, once for each status in any list, nothing
  is lost on the way and the client's thread, by the time the event stream ends, has made one call to
  the application's function for each status, in the same order, with the application's own event and
  its own data. The status takes the way in 16 bits, so that an error (a negative number) arrives
  as a positive one.
\<close>

theorem event_callbacks_arrive:
  assumes "in_sync c sv" and "denotes c sv event x" and "cl_mEventStream c" and "0 < fn"
    and "length (cl_mCallbacks c) < 65536"
    and "h_cl h (clSetEventCallback x ty (length (sv_blocks sv))) (sv_world sv) = (r, w)" and "r_err r = CL_SUCCESS"
    and "mEventStream sv = Some fresh_stream"
  shows "\<exists>c1 sv1 sv2 es. remote h (api_clSetEventCallback event ty fn data) c sv (Ok CL_SUCCESS) c1 sv1
    \<and> fire codes (length (sv_blocks sv)) sv1 = Ok sv2 \<and> mEventStream sv2 = Some es \<and> s_pending es = []
    \<and> CallbackThreadMain st_ops c1 (closed_stream (s_sent es)) = Some (Ok (),
        c1\<lparr>cl_calls := cl_calls c @ map (\<lambda>code. EventNotify fn event (ucast (ucast code :: u16)) data) codes\<rparr>,
        closed_stream [])"
proof -
  let ?i = "word_of_nat (length (cl_mCallbacks c)) :: IDType"
  let ?c1 = "c\<lparr>cl_mCallbacks := cl_mCallbacks c @ [Some (CB_Event event fn data)]\<rparr>"
  let ?sv1 = "sv\<lparr>sv_blocks := sv_blocks sv @ [\<lparr>cb_instance = True, cb_ID = ?i\<rparr>], sv_world := w\<rparr>"
  let ?es = "fresh_stream\<lparr>s_sent := concat (map (event_bytes ?i) codes)\<rparr>"
  have i: "unat ?i = length (cl_mCallbacks c)" using assms(5) by (simp add: unat_of_nat)
  have "fire codes (length (sv_blocks sv)) ?sv1 = Ok (?sv1\<lparr>mEventStream := Some ?es\<rparr>)"
    using fire_sends [of "length (sv_blocks sv)" ?sv1 ?i fresh_stream codes] assms(8)
    by (simp add: fresh_stream_def)
  moreover have "CallbackThreadMain st_ops ?c1 (closed_stream (s_sent ?es)) = Some (Ok (),
      ?c1\<lparr>cl_calls := cl_calls c @ map (\<lambda>code. EventNotify fn event (ucast (ucast code :: u16)) data) codes\<rparr>,
      closed_stream [])"
    using CallbackThreadMain_delivers [of "closed_stream (s_sent ?es)" ?i codes ?c1 event fn data] i
    by (simp add: closed_stream_def)
  ultimately show ?thesis
    using remote_clSetEventCallback [OF assms(1-4,6,7)] by (fastforce simp: fresh_stream_def)
qed

theorem event_callbacks_arrive_witness:
  "\<exists>c1 sv1 sv2 es. remote (example_host query_cl) (api_clSetEventCallback 3 0 500 600) example_client example_server
      (Ok CL_SUCCESS) c1 sv1
    \<and> fire [1, 0, - 14] 0 sv1 = Ok sv2 \<and> mEventStream sv2 = Some es \<and> s_pending es = []
    \<and> CallbackThreadMain st_ops c1 (closed_stream (s_sent es)) = Some (Ok (),
        c1\<lparr>cl_calls := [EventNotify 500 3 1 600, EventNotify 500 3 0 600, EventNotify 500 3 65522 600]\<rparr>,
        closed_stream [])"
  using event_callbacks_arrive [of example_client example_server 3 4098 500 "example_host query_cl" 0
      "cl_status 0" 4 600 "[1, 0, - 14]"]
  by (simp add: query_cl_def)

text \<open>C17
  The handshake: a client that reached the server ends its constructor with the connection in use
  exactly when both ends have the same version and both or neither compress. Only when moreover both are built for it an
  event stream is opened: the server takes the first port it can bind, in at most 16 tries at random, and tells the
  client so; it has the event stream exactly when it found one, and the client has it exactly when it can also reach that
  port. In every case every handle of the client stands for an object of the server, and both are ready for the
  first call. The \<open>accept\<close> on the port the server found is taken to return a connection: one that fails after the port has
  been announced is the subject of \<open>createEventStream_failure_replies_twice\<close>.
\<close>

theorem handshake_agrees:
  assumes "find_port h 16 w = (port, w1)"
    and "event_stream_wanted cfg (h_cfg h) \<Longrightarrow> port_accepts h port w1 w2"
  shows "\<exists>c sv. dialog h (Connection cfg True connect) client_init idle (server_start h) (server_init w) idle
      = Some (Ok (), c, idle, serverStep h, sv, idle)
    \<and> cl_mStream c = isCompatibleWith (VersionPacket cfg) (VersionPacket (h_cfg h))
    \<and> (mEventStream sv \<noteq> None) = (cl_mStream c \<and> cfg_async cfg \<and> cfg_async (h_cfg h) \<and> port \<noteq> None)
    \<and> cl_mEventStream c = (mEventStream sv \<noteq> None \<and> (\<exists>p. port = Some p \<and> connect p))
    \<and> (cl_mStream c \<longrightarrow> in_sync c sv)"
proof (cases "event_stream_wanted cfg (h_cfg h)")
  case True
  then have "isCompatibleWith (VersionPacket cfg) (VersionPacket (h_cfg h))" "cfg_async cfg" "cfg_async (h_cfg h)"
    by (simp_all add: event_stream_wanted_def)
  with handshake_ports [where connect = connect, OF True assms(1) assms(2) [OF True]] show ?thesis
    by (auto simp: in_sync_def client_ok_def client_init_def server_init_def objs_ok_def)
next
  case False
  have "(server_init w)\<lparr>mEventStream := None\<rparr> = server_init w" by (simp add: server_init_def)
  with handshake_versions [OF False, of connect w] False
    started_in_sync [of cfg "h_cfg h", where w = w and es = None]
  show ?thesis by (auto simp: started_client_def event_stream_wanted_def server_init_def client_init_def)
qed

theorem handshake_agrees_witness:
  "\<exists>c sv. dialog (example_host fresh_cl) (Connection (h_cfg (example_host fresh_cl)) True (\<lambda>p. p = 49159))
        client_init idle (server_start (example_host fresh_cl)) (server_init 0) idle
      = Some (Ok (), c, idle, serverStep (example_host fresh_cl), sv, idle)
    \<and> cl_mStream c \<and> cl_mEventStream c \<and> mEventStream sv \<noteq> None \<and> in_sync c sv"
proof -
  let ?h = "example_host fresh_cl"
  have port: "find_port ?h 16 0 = (Some 49159, 0)"
    using find_port.simps(2) [of ?h 15 0] by (simp add: example_host_connects event_port_def)
  have accepts: "port_accepts ?h (Some 49159) 0 0"
    by (simp add: example_host_connects port_accepts_def)
  from handshake_agrees [OF port, where connect = "\<lambda>p. p = 49159", of "h_cfg ?h" 0] accepts show ?thesis
    by (auto simp: example_host_connects isCompatibleWith_def)
qed

text \<open>C18
  Mapping a buffer for reading and writing: \<open>clEnqueueMapBuffer\<close> returns a new block that holds the bytes OpenCL
  reads from that part of the buffer; after the application has stored any other bytes in the block,
  \<open>clEnqueueUnmapMemObject\<close> makes OpenCL write exactly these to the same part of the buffer. The buffer
  is retained once in between and released once, and afterwards no mapping is left.
\<close>

theorem map_store_unmap:
  assumes "in_sync c sv" and "mappings_ok c" and "\<forall>t \<in> set (queue # buffer # es). denotes c sv t (obj t)"
    and "unat offset < 2 ^ 32" and "unat sz < 2 ^ 32" and "can_alloc h (unat sz)" and "length d = unat sz"
    and "length es < 256" and "zlib_opt_ok (h_zlib h)"
    and "h_cl h (clEnqueueReadBuffer (obj queue) (obj buffer) True (unat offset) (unat sz) (map obj es) False)
        (sv_world sv) = (r1, w1)" and "r_err r1 = CL_SUCCESS"
    and "h_cl h (clRetain K_MemObject (obj buffer)) w1 = (r2, w2)"
    and "h_cl h (clEnqueueWriteBuffer (obj queue) (obj buffer) True (unat offset) d (map obj es) False) w2 = (r3, w3)"
    and "r_err r3 = CL_SUCCESS" and "h_cl h (clRelease K_MemObject (obj buffer)) w3 = (r4, w4)"
  shows "\<exists>c1. remote h (api_clEnqueueMapBuffer (h_zlib h) queue buffer blocking (or CL_MAP_READ CL_MAP_WRITE) offset sz
        (length es) (Some es) False) c sv (Ok (cl_next c, CL_SUCCESS, None)) c1 (sv\<lparr>sv_world := w2\<rparr>)
    \<and> block_bytes c1 (cl_next c) (unat sz) = out_bytes (replicate (unat sz) 0) r1
    \<and> (\<exists>c2. remote h (api_clEnqueueUnmapMemObject (h_zlib h) queue buffer (cl_next c) (length es) (Some es) False)
        (store_block (cl_next c) d c1) (sv\<lparr>sv_world := w2\<rparr>) (Ok (CL_SUCCESS, None)) c2 (sv\<lparr>sv_world := w4\<rparr>)
      \<and> cl_mMappings c2 = cl_mMappings c \<and> in_sync c2 (sv\<lparr>sv_world := w4\<rparr>))"
  using remote_map_store_unmap [OF assms] by simp

theorem map_store_unmap_witness:
  "\<exists>c1. remote (example_host buffer_cl) (api_clEnqueueMapBuffer None 1 2 True (or CL_MAP_READ CL_MAP_WRITE) 1 3 0
      (Some []) False) example_client example_server (Ok (4, CL_SUCCESS, None)) c1 (example_server\<lparr>sv_world := 5\<rparr>)
    \<and> block_bytes c1 4 3 = [2, 3, 4]
    \<and> (\<exists>c2. remote (example_host buffer_cl) (api_clEnqueueUnmapMemObject None 1 2 4 0 (Some []) False)
        (store_block 4 [7, 8, 9] c1) (example_server\<lparr>sv_world := 5\<rparr>) (Ok (CL_SUCCESS, None)) c2
        (example_server\<lparr>sv_world := 7\<rparr>)
      \<and> cl_mMappings c2 = cl_mMappings example_client \<and> in_sync c2 (example_server\<lparr>sv_world := 7\<rparr>))"
  using map_store_unmap [of example_client example_server 1 2 "[]" example_object 1 3 "example_host buffer_cl"
      "[7, 8, 9]" "(cl_status 0)\<lparr>r_bytes := [2, 3, 4]\<rparr>" 4 "cl_status 0" 5 "cl_status 0" 6 "cl_status 0" 7 True]
  by (simp add: buffer_cl_def zlib_opt_ok_def can_alloc_def out_bytes_def memcpy_at_def)

section \<open>The functions of the client\<close>

text \<open>C19
  The registry of the client: whatever functions of the API the application calls with whatever
  arguments, and whatever the server or anybody else sends, over whatever stream, the registry stays
  consistent (IDs and objects belong to each other one to one), a handle that is in use names the ID
  it always had, and a registered callback keeps its index.
\<close>

theorem handles_stay_valid:
  assumes "\<forall>p \<in> set ps. \<exists>name. api_call z name p" and "client_ok c"
    and "run ops (api_session ps) c st = (r, c', st')"
  shows "client_ok c' \<and> (\<forall>t i. t < cl_next c \<longrightarrow> cl_heap c' t = Some i \<longrightarrow> cl_heap c t = Some i)
    \<and> prefix (cl_mCallbacks c) (cl_mCallbacks c')"
  using preserves_run [OF preserves_api_session [OF assms(1)] client_keeps_refl client_keeps_trans assms(3)] assms(2)
  by (simp add: client_keeps_def)

theorem handles_stay_valid_witness:
  "case run st_ops (api_session [api_clFlush 1, returns snd (api_clCreateUserEvent 2)]) example_client
        (closed_stream [1, 2, 3]) of
     (r, c, st) \<Rightarrow> client_ok c \<and> cl_heap c 3 \<in> {None, Some 2}"
proof -
  let ?ps = "[api_clFlush 1, returns snd (api_clCreateUserEvent 2)]"
  have calls: "\<forall>p \<in> set ?ps. \<exists>name. api_call None name p" by (auto intro: api_call.intros)
  obtain r c st where run: "run st_ops (api_session ?ps) example_client (closed_stream [1, 2, 3]) = (r, c, st)"
    by (rule prod_cases3)
  note handles_stay_valid [OF calls example_client_ok run]
  then have "client_ok c" and "\<forall>i. cl_heap c 3 = Some i \<longrightarrow> cl_heap example_client 3 = Some i"
    by (auto dest: spec [of _ 3] simp del: example_ends_simps(4))
  then show ?thesis unfolding run by (cases "cl_heap c 3") auto
qed



text \<open>C21
  Events of callbacks registered before arrive while a thread of the application is inside a function
  of the API. However the turns of the event thread are interleaved with its steps, for all functions
  but the two that call the application themselves: the function ends as it does alone, and the
  application is called once for every event, in their order.
\<close>

theorem events_during_a_call:
  assumes "api_call z name p" and "name \<notin> set calling_back" and "client_ok c"
    and "\<forall>l \<in> set (concat sched). is_registered l c" and "run ops p c st = (r, c', st')"
  shows "weave handle_event ops p c st sched
    = (r, c'\<lparr>cl_calls := cl_calls c @ map (event_call c) (concat sched)\<rparr>, st')"
  using assms by (rule weave_api_call)

theorem events_during_a_call_witness:
  "weave handle_event st_ops (api_clFlush 1) (example_client\<lparr>cl_mCallbacks := [Some (CB_Event 3 500 600)]\<rparr>)
      (closed_stream (enc_reply None R_Success)) [[(0, 1)], [], [(0, 0)]]
    = (Ok CL_SUCCESS, example_client\<lparr>cl_mCallbacks := [Some (CB_Event 3 500 600)],
         cl_calls := [EventNotify 500 3 1 600, EventNotify 500 3 0 600]\<rparr>,
       (closed_stream [])\<lparr>s_sent := enc_packet PT_Flush (put_u16 0)\<rparr>)"
proof -
  let ?c = "example_client\<lparr>cl_mCallbacks := [Some (CB_Event 3 500 600)]\<rparr>"
  have "run st_ops (api_clFlush 1) ?c (closed_stream (enc_reply None R_Success))
      = (Ok CL_SUCCESS, ?c, (closed_stream [])\<lparr>s_sent := enc_packet PT_Flush (put_u16 0)\<rparr>)"
    by (simp add: api_clFlush_def queue_call_def prog_simps enc_reply_def codec_simps closed_stream_def)
  moreover have "client_ok ?c" using example_client_ok by (simp add: client_ok_def)
  ultimately show ?thesis
    using events_during_a_call [OF api_call.Flush, of ?c "[[(0, 1)], [], [(0, 0)]]"]
    by (simp add: calling_back_def is_registered_def event_call_def)
qed

text \<open>C22
  The handles in memory. A handle is the address of a structure inside an object, with a pointer to the dispatch table and
  one to the object. Take any sequence of objects the client makes for IDs (\<open>registerID\<close>, which destroys the object that
  has the ID) or looks for (\<open>getOrInsertObject\<close>), at whatever free addresses the allocator puts them, the address of
  a destroyed object included: of all the handles the application got, those whose object is still there lead through the
  structure to the ID the model says, and to the table the loader needs, and different objects have different handles.
  So the model, in which a handle is never used twice, says what happens in memory.
\<close>

theorem handles_in_memory:
  assumes "client_ok c" and "registry_ok table g" and "same_slots c g"
    and "memory_steps off table steps g = Some (us, g')"
  shows "\<exists>ts c'. run ops (client_steps steps) c st = (Ok ts, c', st) \<and> length ts = length us
    \<and> client_ok c' \<and> registry_ok table g' \<and> same_slots c' g'
    \<and> (\<forall>k < length us. \<forall>i. cl_heap c' (ts ! k) = Some i \<longrightarrow>
        GetID_at off (rg_mem g') (us ! k) = Some i
      \<and> map_option dispatchTable (dispatchable_at off (rg_mem g') (us ! k)) = Some table
      \<and> (\<forall>l < length us. cl_heap c' (ts ! l) \<noteq> None \<longrightarrow> us ! l = us ! k \<longrightarrow> ts ! l = ts ! k))"
proof -
  have "same_objects table c g" using assms(1-3) by (simp add: same_objects_def)
  from memory_steps_client [OF this assms(4), of ops st] obtain ts c'
    where r: "run ops (client_steps steps) c st = (Ok ts, c', st)" "same_objects table c' g'"
      "list_all2 (\<lambda>t u. t < cl_next c' \<and> (\<forall>i. cl_heap c' t = Some i \<longrightarrow> handle_in off c' g' t = u)) ts us" by blast
  from r(2) have ok: "client_ok c'" "registry_ok table g'" "same_slots c' g'" by (simp_all add: same_objects_def)
  have us: "handle_in off c' g' (ts ! k) = us ! k" if "k < length us" "cl_heap c' (ts ! k) = Some i" for k i
    using r(3) that by (simp add: list_all2_conv_all_nth)
  have same: "ts ! l = ts ! k" if "k < length us" "cl_heap c' (ts ! k) = Some i" "l < length us"
      "cl_heap c' (ts ! l) = Some j" "us ! l = us ! k" for k l i j
    by (rule handles_differ [OF ok that(4,2), of off]) (simp only: us [OF that(1,2)] us [OF that(3,4)] that(5))
  have reads: "GetID_at off (rg_mem g') (us ! k) = Some i
      \<and> map_option dispatchTable (dispatchable_at off (rg_mem g') (us ! k)) = Some table"
    if "k < length us" "cl_heap c' (ts ! k) = Some i" for k i
    using handle_reads [OF ok that(2), of off] us [OF that] by simp
  from r(1,3) ok reads same show ?thesis by (auto simp: list_all2_lengthD)
qed

text \<open>The object at address 1000 is destroyed, and its address used again.\<close>

theorem handles_in_memory_witness:
  "\<exists>g' ts c'. memory_steps 8 77 [(True, 0, 1000), (True, 1, 2000), (True, 0, 3000), (False, 1, 4000), (True, 2, 1000)]
        \<lparr>rg_mObjects = [], rg_mem = Map.empty\<rparr> = Some ([1008, 2008, 3008, 2008, 1008], g')
    \<and> run st_ops (client_steps [(True, 0, 1000), (True, 1, 2000), (True, 0, 3000), (False, 1, 4000), (True, 2, 1000)])
        client_init idle = (Ok ts, c', idle)
    \<and> ts = [1, 2, 3, 2, 4] \<and> cl_heap c' 4 = Some 2 \<and> GetID_at 8 (rg_mem g') 1008 = Some 2"
proof -
  let ?steps = "[(True, 0, 1000), (True, 1, 2000), (True, 0, 3000), (False, 1, 4000), (True, 2, 1000)] :: (bool \<times> IDType \<times> address) list"
  let ?g = "\<lparr>rg_mObjects = [], rg_mem = Map.empty\<rparr> :: registry"
  have ok: "client_ok client_init" by (simp add: client_ok_def client_init_def)
  obtain g' where m: "memory_steps 8 77 ?steps ?g = Some ([1008, 2008, 3008, 2008, 1008], g')"
    by (simp add: memory_step_def register_at_def getOrInsert_at_def OpenCLType_def ICDDispatchable_def)
  have r: "\<exists>c'. run st_ops (client_steps ?steps) client_init idle = (Ok [1, 2, 3, 2, 4], c', idle) \<and> cl_heap c' 4 = Some 2"
    by (simp add: prog_simps registerID_def getOrInsertObject_def register_object_def client_init_def)
  from handles_in_memory [OF ok registry_start m, of st_ops idle] r
  have "GetID_at 8 (rg_mem g') ([1008, 2008, 3008, 2008, 1008] ! 4) = Some 2" by fastforce
  with m r show ?thesis by auto
qed

section \<open>Starting up\<close>

text \<open>C23
  The settings of both programs agree: for every port from 1 to 65535, written in decimal, a server started with it as
  \<open>--port\<close> serves the port that a client connects to when the environment variable \<open>REMOTECL\<close> is
  \<open>host=NAME;port=N\<close>, \<open>port=N;host=NAME\<close> or \<open>port=N\<close>, and the client takes the host name that is given there, whatever the
  defaults are; without a \<open>host=\<close> or a \<open>port=\<close> it takes the default for that. The name may be any that is not empty, does not begin
  with a quotation mark (a quoted name keeps the opening one) and has neither \<open>;\<close> nor \<open>=\<close> in it; nothing else may be in the variable.
\<close>

theorem settings_agree:
  assumes "0 < n" and "n < 65536" and "name \<noteq> []" and "hd name \<noteq> 34" and "59 \<notin> set name" and "61 \<notin> set name"
  shows "parse_args port0 [c_bytes ''--port'', digits n] = Serve (word_of_nat n)
    \<and> server_address host0 port1 (Some (c_bytes ''host='' @ name @ c_bytes '';port='' @ digits n)) = Some (name, word_of_nat n)
    \<and> server_address host0 port1 (Some (c_bytes ''port='' @ digits n @ c_bytes '';host='' @ name)) = Some (name, word_of_nat n)
    \<and> server_address host0 port1 (Some (c_bytes ''host='' @ name)) = Some (name, port1)
    \<and> server_address host0 port1 (Some (c_bytes ''port='' @ digits n)) = Some (host0, word_of_nat n)"
proof -
  let ?host = "[104, 111, 115, 116, 61] :: byte list" and ?port = "[112, 111, 114, 116, 61] :: byte list"
  have w: "c_bytes ''host='' = ?host" "c_bytes ''port='' = ?port" "c_bytes '';host='' = 59 # ?host"
    "c_bytes '';port='' = 59 # ?port" by (simp_all add: c_bytes_def)
  have port: "ucast (word_of_nat n :: u64) = (word_of_nat n :: u16)"
    by transfer (simp add: take_bit_of_nat min_def)
  have "unat (word_of_nat n :: u16) = n" using assms(2) by (simp add: unat_of_nat)
  with assms(1) have nonzero: "(word_of_nat n :: u16) \<noteq> 0" by (metis less_numeral_extra(3) unat_0)
  have ds: "strtoul (digits n) = Some (word_of_nat n, [])"
    "strtoul (digits n @ 59 # rest) = Some (word_of_nat n, 59 # rest)" for rest
    using assms(2) strtoul_digits [of n "[]"] strtoul_digits [of n "59 # rest"] by (simp_all add: digit_def)
  have digits: "104 \<notin> set (digits n)" "61 \<notin> set (digits n)"
    using digit_digits [of 104 n] digit_digits [of 61 n] by (auto simp: digit_def)
  have parse: "ParseServerName name = Some name" "ParseServerName (name @ 59 # rest) = Some name" for rest
    using assms(3-5) by (cases name; auto simp: ParseServerName_def takeWhile_eq_all_conv takeWhile_append)+
  have name_port: "strstr ?port (?host @ name @ 59 # ?port @ digits n) = Some (digits n)"
    using strstr_last [of 61 "name @ [59]" "[112, 111, 114, 116]" "digits n"] assms(6) by simp
  have no_port: "strstr ?port (?host @ name) = None"
    using strstr_none [of 61 name "[112, 111, 114, 116]"] assms(6) by simp
  have no_host: "strstr ?host (?port @ digits n) = None"
    using strstr_none [of 61 "digits n" "[104, 111, 115, 116]"] digits(2) by simp
  have port_name: "strstr ?host (?port @ digits n @ 59 # ?host @ name) = Some name"
    using strstr_first [of 104 "?port @ digits n @ [59]" "[111, 115, 116, 61]" name] digits(1) by simp
  have front: "strstr ?port (?port @ rest) = Some rest" "strstr ?host (?host @ rest) = Some rest" for rest by simp_all
  have "server_address host0 port1 (Some (?host @ name @ 59 # ?port @ digits n)) = Some (name, word_of_nat n)"
    unfolding server_address_def option.case Let_def w name_port front using ds(1) port nonzero parse(2) by simp
  moreover have "server_address host0 port1 (Some (?port @ digits n @ 59 # ?host @ name)) = Some (name, word_of_nat n)"
    unfolding server_address_def option.case Let_def w port_name front using ds(2) port nonzero parse(1) by simp
  moreover have "server_address host0 port1 (Some (?host @ name)) = Some (name, port1)"
    unfolding server_address_def option.case Let_def w no_port front using parse(1) by simp
  moreover have "server_address host0 port1 (Some (?port @ digits n)) = Some (host0, word_of_nat n)"
    unfolding server_address_def option.case Let_def w no_host front using ds(1) port nonzero by simp
  moreover have "parse_args port0 [c_bytes ''--port'', digits n] = Serve (word_of_nat n)"
    using ds(1) port by simp
  ultimately show ?thesis unfolding w by simp
qed

theorem settings_agree_witness:
  "parse_args 23857 [c_bytes ''--port'', [53, 52, 51, 50]] = Serve 5432
    \<and> server_address [] 23857 (Some (c_bytes ''host='' @ c_bytes ''gpu'' @ c_bytes '';port='' @ [53, 52, 51, 50]))
        = Some (c_bytes ''gpu'', 5432)"
proof -
  have "digits 5432 = [53, 52, 51, 50]" by (simp add: digits.simps)
  with settings_agree [of 5432 "c_bytes ''gpu''" 23857 "[]" 23857] show ?thesis by (simp add: c_bytes_def)
qed

text \<open>C24
  Sockets do not leak: whatever the operating system answers to any of the calls, making a socket for a
  server or for a client and accepting a connection either give a descriptor that was not open before, and no other is
  opened or closed, or throw \<open>Socket::Error\<close> with the table of descriptors as it was.
\<close>

theorem sockets_do_not_leak:
  assumes "fds_ok os fds"
  shows "makes_socket fds (Socket_server os keep_alive port)
    \<and> makes_socket fds (Socket_client os keep_alive hostname port)
    \<and> makes_socket fds (Socket_accept os server)"
  using makes_socket_server [OF assms] makes_socket_client [OF assms] makes_socket_accept [OF assms] by blast

theorem sockets_do_not_leak_witness:
  "makes_socket set (Socket_client table_os True [103] 80)
    \<and> Socket_client table_os True [103] 80 [3] = (Ok 4, [4, 3])
    \<and> Socket_server table_os True 80 [3] = (Throw SocketError, [3])"
  using sockets_do_not_leak [OF table_os_ok, of True 80 "[103]" 3]
  by (simp add: Socket_client_def Socket_server_def Socket_new_def destroy_throw_def Socket_dtor_def
      syscall_def monad_simps table_os_def fresh_fd_def)



section \<open>The object table\<close>

text \<open>C26
  \<open>getIDFor\<close> and \<open>getObj\<close>: the ID an object is given resolves to that object, IDs given before
  keep their objects, and asking again gives the same ID without changing the table.
\<close>

theorem getIDFor_getObj:
  assumes "objs_ok objs" and "getIDFor objs p = Some (i, objs')"
  shows "getObj objs' i = p \<and> getIDFor objs' p = Some (i, objs')
    \<and> (\<forall>j. has_id objs j \<longrightarrow> getObj objs' j = getObj objs j)"
  using server_table.assign_look [OF assms] server_table.assign_inv [OF assms]
    server_table.assign_again [of objs' i] server_table.assign_keeps [OF assms] by blast

theorem getIDFor_getObj_witness:
  "getObj [11, 22, 33] 2 = 33 \<and> getIDFor [11, 22, 33] 33 = Some (2, [11, 22, 33])
    \<and> getObj [11, 22, 33] 1 = getObj [11, 22] 1"
proof -
  have "getIDFor [11, 22] 33 = Some (2, [11, 22, 33])" by (simp add: getIDFor_absent)
  from getIDFor_getObj [OF _ this] show ?thesis by (simp add: objs_ok_def has_id_def)
qed

text \<open>C27
  \<open>getIDFor\<close> never returns exactly when the table is full (65536 objects) and the object is not
  in it: the 16-bit counter of its loop cannot reach the size.
\<close>

theorem getIDFor_None_iff:
  assumes "length objs \<le> 65536"
  shows "getIDFor objs p = None \<longleftrightarrow> length objs = 65536 \<and> p \<notin> set objs"
  using getIDFor_full [of objs p] getIDFor_total [of objs p] assms
  by (cases "length objs < 65536 \<or> p \<in> set objs") auto

theorem getIDFor_None_iff_witness:
  "getIDFor (replicate 65536 1) 2 = None \<and> getIDFor [1, 2, 3] 2 \<noteq> None"
  using getIDFor_None_iff [of "replicate 65536 1" 2] getIDFor_None_iff [of "[1, 2, 3]" 2]
  by simp

section \<open>Handlers\<close>

text \<open>C28
  \<open>sendDeviceList\<close>: when both queries succeed and report \<open>n\<close> devices, at most 255 and with the
  memory for them, the reply is a
  list of IDs that resolve, in order, to the devices the implementation listed.
\<close>

theorem sendDeviceList_resolves:
  assumes "s_in st = enc_packet PT_GetDeviceIDs (put_GetDeviceIDs q) @ rest"
    and "h_cl h (clGetDeviceIDs (getObj (mObjects sv) (gdi_mPlatformID q)) (gdi_mDeviceType q) 0)
           (sv_world sv) = (r1, w1)" and "r_err r1 = CL_SUCCESS" and "r_size r1 = Some n"
    and "h_cl h (clGetDeviceIDs (getObj (mObjects sv) (gdi_mPlatformID q)) (gdi_mDeviceType q) n) w1
           = (r2, w2)" and "r_err r2 = CL_SUCCESS" and "r_objs r2 = devices" and "length devices = n"
    and "n \<le> 255" and "h_new h 128" and "h_new h (n * 8)" and "objs_ok (mObjects sv)"
    and "assign_all getIDFor (mObjects sv) devices = Some (is, objs)"
  shows "exec (sendDeviceList h) sv st = (Ok (), sv\<lparr>mObjects := objs, sv_world := w2\<rparr>,
           st\<lparr>s_in := rest, s_pending := s_pending st @ enc_reply (h_zlib h) (R_IDList is)\<rparr>)
         \<and> map (getObj objs) is = devices"
proof -
  have "ok_IDList is"
    using length_assign_all [OF assms(13)] assms(8,9)
    by (simp add: ok_IDList_def container_ok_def size_max_def)
  then show ?thesis
    using assms server_table.assign_all_look [OF assms(12,13)]
    by (simp add: sendDeviceList_def Let_def prog_simps codec_simps out_objs_def exec_idsFor)
qed

theorem sendDeviceList_resolves_witness:
  "exec (sendDeviceList (example_host query_cl)) (server_init 0)
     (closed_stream (enc_packet PT_GetDeviceIDs (put_GetDeviceIDs \<lparr>gdi_mDeviceType = 4, gdi_mPlatformID = 0\<rparr>)))
   = (Ok (), \<lparr>mEventStream = None, mObjects = [77, 88], sv_blocks = [], sv_world = 2\<rparr>,
      (closed_stream [])\<lparr>s_pending := enc_reply None (R_IDList [0, 1])\<rparr>)
   \<and> map (getObj [77, 88]) [0, 1] = [77, 88]"
proof -
  have "assign_all getIDFor [] [77, 88] = Some ([0, 1], [77, 88])"
    by (simp add: getIDFor_absent)
  then show ?thesis
    using sendDeviceList_resolves [of
        "closed_stream (enc_packet PT_GetDeviceIDs (put_GetDeviceIDs \<lparr>gdi_mDeviceType = 4, gdi_mPlatformID = 0\<rparr>))"
        "\<lparr>gdi_mDeviceType = 4, gdi_mPlatformID = 0\<rparr>" "[]" "example_host query_cl" "server_init 0"
        "(cl_status 0)\<lparr>r_size := Some 2\<rparr>" 1 2
        "(cl_status 0)\<lparr>r_size := Some 2, r_objs := [77, 88]\<rparr>" 2 "[77, 88]" "[0, 1]" "[77, 88]"]
    by (simp add: query_cl_def server_init_def closed_stream_def objs_ok_def)
qed

text \<open>C29
  \<open>registerEventCallback\<close>: when \<open>clSetEventCallback\<close> fails, the client is sent two replies, the
  error and a success packet, for its one request; the callback block stays allocated.
\<close>

theorem registerEventCallback_failure_replies_twice:
  assumes "s_in st = enc_packet PT_RegisterEventCallback (put_RegisterEventCallback P) @ rest"
    and "h_cl h (clSetEventCallback (getObj (mObjects sv) (rec_mEventID P)) (rec_mCBType P)
           (length (sv_blocks sv))) (sv_world sv) = (r, w)" and "r_err r \<noteq> CL_SUCCESS"
  shows "exec (registerEventCallback h) sv st
    = (Ok (), sv\<lparr>sv_blocks := sv_blocks sv @ [\<lparr>cb_instance = True, cb_ID = rec_mCallbackID P\<rparr>],
                  sv_world := w\<rparr>,
       st\<lparr>s_in := rest,
          s_pending := s_pending st @ enc_replies (h_zlib h) [R_Error (r_err r), R_Success]\<rparr>)"
  using assms exec_readPacket [of st PT_RegisterEventCallback "put_RegisterEventCallback P" rest
      "pnoexcept (pdec get_RegisterEventCallback)" sv]
    exec_pdec_Ok [of get_RegisterEventCallback "st\<lparr>s_in := put_RegisterEventCallback P @ rest\<rparr>" P rest sv]
  by (simp add: registerEventCallback_def prog_simps codec_simps pnoexcept_def newBlock_def
      enc_replies_def)

theorem registerEventCallback_failure_replies_twice_witness:
  "exec (registerEventCallback (example_host failing_cl)) (server_init 0)
     (closed_stream (enc_packet PT_RegisterEventCallback (put_RegisterEventCallback
        \<lparr>rec_mEventID = 3, rec_mCallbackID = 4, rec_mCBType = 0\<rparr>)))
   = (Ok (), (server_init 0)\<lparr>sv_blocks := [\<lparr>cb_instance = True, cb_ID = 4\<rparr>]\<rparr>,
      (closed_stream [])\<lparr>s_pending := enc_replies None [R_Error (- 5), R_Success]\<rparr>)"
  using registerEventCallback_failure_replies_twice [of
      "closed_stream (enc_packet PT_RegisterEventCallback (put_RegisterEventCallback
        \<lparr>rec_mEventID = 3, rec_mCallbackID = 4, rec_mCBType = 0\<rparr>))"
      "\<lparr>rec_mEventID = 3, rec_mCallbackID = 4, rec_mCBType = 0\<rparr>" "[]"
      "example_host failing_cl" "server_init 0" "cl_status (- 5)" 0]
  by (simp add: failing_cl_def server_init_def closed_stream_def)

text \<open>
  After a successful registration, the callback that OpenCL runs with the registered block sends
  the client, on the event stream and at once, the ID it registered and the low 16 bits of the
  status.
\<close>

theorem registered_callback_reaches_client:
  assumes "s_in st = enc_packet PT_RegisterEventCallback (put_RegisterEventCallback P) @ rest"
    and "h_cl h (clSetEventCallback (getObj (mObjects sv) (rec_mEventID P)) (rec_mCBType P)
           (length (sv_blocks sv))) (sv_world sv) = (r, w)" and "r_err r = CL_SUCCESS"
    and "mEventStream sv = Some es"
  shows "\<exists>sv' st'. exec (registerEventCallback h) sv st = (Ok (), sv', st')
    \<and> s_pending st' = s_pending st @ enc_reply (h_zlib h) R_Success
    \<and> EventCallback code (length (sv_blocks sv)) sv'
      = Ok (sv'\<lparr>mEventStream := Some (es\<lparr>s_pending := [], s_sent := s_sent es @ s_pending es
            @ enc_packet PT_CallbackTrigger (put_u32 (ucast (rec_mCallbackID P)))
            @ enc_packet PT_EventCallbackTrigger (put_u16 (ucast code))\<rparr>)\<rparr>)"
  using assms exec_readPacket [of st PT_RegisterEventCallback "put_RegisterEventCallback P" rest
      "pnoexcept (pdec get_RegisterEventCallback)" sv]
    exec_pdec_Ok [of get_RegisterEventCallback "st\<lparr>s_in := put_RegisterEventCallback P @ rest\<rparr>" P rest sv]
  by (simp add: registerEventCallback_def prog_simps codec_simps pnoexcept_def newBlock_def
      EventCallback_def triggerEventCallback_def es_put_def es_flush_def st_flush_def)

theorem registered_callback_reaches_client_witness:
  "\<exists>sv' st'. exec (registerEventCallback (example_host query_cl))
      ((server_init 0)\<lparr>mEventStream := Some fresh_stream\<rparr>)
      (closed_stream (enc_packet PT_RegisterEventCallback (put_RegisterEventCallback
        \<lparr>rec_mEventID = 3, rec_mCallbackID = 4, rec_mCBType = 0\<rparr>))) = (Ok (), sv', st')
    \<and> s_pending st' = enc_reply None R_Success
    \<and> EventCallback 0x10002 0 sv'
      = Ok (sv'\<lparr>mEventStream := Some (fresh_stream\<lparr>s_pending := [], s_sent :=
            enc_packet PT_CallbackTrigger (put_u32 4)
            @ enc_packet PT_EventCallbackTrigger (put_u16 2)\<rparr>)\<rparr>)"
proof -
  have low: "put_u16 65538 = put_u16 2" by (rule arg_cong [of _ _ put_u16]) simp
  show ?thesis
  using registered_callback_reaches_client [of
      "closed_stream (enc_packet PT_RegisterEventCallback (put_RegisterEventCallback
        \<lparr>rec_mEventID = 3, rec_mCallbackID = 4, rec_mCBType = 0\<rparr>))"
      "\<lparr>rec_mEventID = 3, rec_mCallbackID = 4, rec_mCBType = 0\<rparr>" "[]"
      "example_host query_cl" "(server_init 0)\<lparr>mEventStream := Some fresh_stream\<rparr>"
      "cl_status 0" 1 fresh_stream "0x10002"]
  by (simp add: query_cl_def server_init_def fresh_stream_def low)
qed

text \<open>C30
  \<open>compileProgram\<close> with a callback: the server makes a block for it, which gets the next number, and makes one call,
  \<open>clCompileProgram\<close> on the objects of the request with that block; the reply is a success packet or the error of the
  call. But the block never gets its instance, so that the callback OpenCL will run with it is undefined behaviour.
\<close>

theorem compileProgram_callback_undefined:
  assumes "s_in st = enc_packet PT_CompileProgram (put_CompileProgram p) @ rest"
    and "ok_CompileProgram p" and "cp_mHasCallback p"
    and "h_cl h (clCompileProgram (getObj (mObjects sv) (cp_mProgramID p)) (map (getObj (mObjects sv)) (cp_mDeviceIDs p))
        (c_str (cp_mOptions p)) (map (getObj (mObjects sv)) (cp_mHeaderIDs p)) (map c_str (cp_mHeaderNames p))
        (Some (length (sv_blocks sv)))) (sv_world sv) = (r, w)"
  shows "\<exists>sv'. exec (compileProgram h) sv st = (Ok (), sv', st\<lparr>s_in := rest,
        s_pending := s_pending st @ enc_reply (h_zlib h) (if r_err r = CL_SUCCESS then R_Success else R_Error (r_err r))\<rparr>)
    \<and> sv' = sv\<lparr>sv_world := w, sv_blocks := sv_blocks sv @ [\<lparr>cb_instance = False, cb_ID = cp_mCallbackID p\<rparr>]\<rparr>
    \<and> ProgramCallback (length (sv_blocks sv)) sv' = Fail UndefinedBehaviour"
  using assms
  by (auto simp: compileProgram_def prog_simps codec_simps newBlock_def ProgramCallback_def)

theorem compileProgram_callback_undefined_witness:
  "\<exists>sv'. exec (compileProgram (example_host query_cl)) (server_init 0)
      (closed_stream (enc_packet PT_CompileProgram (put_CompileProgram example_compile)))
      = (Ok (), sv', (closed_stream [])\<lparr>s_pending := enc_reply None R_Success\<rparr>)
    \<and> ProgramCallback 0 sv' = Fail UndefinedBehaviour"
proof -
  have "ok_CompileProgram example_compile"
    by (simp add: ok_CompileProgram_def example_compile_def string_ok_def container_ok_def size_max_def)
  from compileProgram_callback_undefined [OF _ this, of "closed_stream (enc_packet PT_CompileProgram (put_CompileProgram example_compile))"
      "[]" "example_host query_cl" "server_init 0" "cl_status 0" 1]
  show ?thesis by (auto simp: example_compile_def server_init_def query_cl_def closed_stream_def)
qed

text \<open>
  \<open>setKernelArg\<close> for a buffer argument: the server finds the argument in the global or constant
  address space, asks the client for an ID (the letter I, flushed before it waits), and sets the
  argument to the object that the ID of the following packet stands for; the last reply is the
  status.
\<close>

theorem setKernelArg_buffer:
  assumes "s_in st = enc_packet PT_SetKernelArg (put_KernelArg a) @ enc_packet PT_ID (put_u16 i) @ rest"
    and "h_cl h (clGetKernelArgInfo (getObj (mObjects sv) (ka_mKernelID a)) (ka_mArgIndex a)
           CL_KERNEL_ARG_ADDRESS_QUALIFIER 4) (sv_world sv) = (r1, w1)"
    and "r_err r1 = CL_SUCCESS" and "r_bytes r1 = put_u32 AS"
    and "AS \<in> {CL_KERNEL_ARG_ADDRESS_GLOBAL, CL_KERNEL_ARG_ADDRESS_CONSTANT}"
    and "h_cl h (clSetKernelArg (getObj (mObjects sv) (ka_mKernelID a)) (ka_mArgIndex a) 8
           (Some (put_u64 (getObj (mObjects sv) i)))) w1 = (r2, w2)"
  shows "exec (setKernelArg h) sv st = (Ok (), sv\<lparr>sv_world := w2\<rparr>,
    st\<lparr>s_in := rest, s_sent := s_sent st @ s_pending st @ enc_reply (h_zlib h) (R_Data8 73),
       s_pending := enc_reply (h_zlib h)
         (if r_err r2 = CL_SUCCESS then R_Success else R_Error (r_err r2))\<rparr>)"
proof -
  have "unat AS < 256 ^ 4" using unsigned_less [of AS, where ?'a = nat] by simp
  from word_of_le [OF this] have "word_of_nat (le_decode (take 4 (r_bytes r1))) = AS"
    and "4 \<le> length (r_bytes r1)"
    using assms(4) by (simp_all add: put_u32_def)
  then show ?thesis
    using assms by (auto simp: setKernelArg_def query_var_def Let_def prog_simps codec_simps)
qed

theorem setKernelArg_buffer_witness:
  "exec (setKernelArg (example_host query_cl)) ((server_init 0)\<lparr>mObjects := [11, 22]\<rparr>)
     (closed_stream (enc_packet PT_SetKernelArg (put_KernelArg \<lparr>ka_mArgIndex = 0, ka_mKernelID = 0\<rparr>)
        @ enc_packet PT_ID (put_u16 1) @ []))
   = (Ok (), (server_init 2)\<lparr>mObjects := [11, 22]\<rparr>,
      (closed_stream [])\<lparr>s_sent := enc_reply None (R_Data8 73), s_pending := enc_reply None R_Success\<rparr>)"
  using setKernelArg_buffer [of
      "closed_stream (enc_packet PT_SetKernelArg (put_KernelArg \<lparr>ka_mArgIndex = 0, ka_mKernelID = 0\<rparr>)
        @ enc_packet PT_ID (put_u16 1) @ [])" "\<lparr>ka_mArgIndex = 0, ka_mKernelID = 0\<rparr>" 1 "[]"
      "example_host query_cl" "(server_init 0)\<lparr>mObjects := [11, 22]\<rparr>"
      "(cl_status 0)\<lparr>r_size := Some 4, r_bytes := le_encode 4 0x119B\<rparr>" 1
      "CL_KERNEL_ARG_ADDRESS_GLOBAL" "cl_status 0" 2]
  by (simp add: query_cl_def server_init_def closed_stream_def put_u32_def)

text \<open>C31
  \<open>createImage\<close> with initial data: the image is created without data to learn its element size,
  the client is asked for exactly that many bytes per pixel (a dimension of 0 counting as 1), and
  the image is created again with the data it sends; the first one is released and the reply is
  the ID of the second.
\<close>

theorem createImage_with_data:
  fixes p :: CreateImage
  defines "fl \<equiv> ucast (ci_mFlags p) :: u64"
  assumes "s_in st = enc_packet PT_CreateImage (put_CreateImage p) @ enc_data (h_zlib h) d @ rest"
    and "and fl CL_MEM_COPY_HOST_PTR \<noteq> 0" and "payload_fits 4 d" and "zlib_opt_ok (h_zlib h)"
    and "h_cl h (clCreateImage (getObj (mObjects sv) (ci_mContextID p))
           (and fl (not CL_MEM_COPY_HOST_PTR)) (image_format_of p) (image_desc_of p) None)
           (sv_world sv) = (r1, w1)" and "r_err r1 = CL_SUCCESS"
    and "h_cl h (clGetInfo I_Image (r_obj r1) CL_IMAGE_ELEMENT_SIZE 8) w1 = (r2, w2)"
    and "r_err r2 = CL_SUCCESS" and "r_bytes r2 = le_encode 8 px" and "px < 2 ^ 64"
    and "h_cl h (clRelease K_MemObject (r_obj r1)) w2 = (r3, w3)"
    and "h_cl h (clCreateImage (getObj (mObjects sv) (ci_mContextID p))
           (or (and fl (not CL_MEM_COPY_HOST_PTR)) CL_MEM_COPY_HOST_PTR) (image_format_of p)
           (image_desc_of p) (Some d)) w3 = (r4, w4)" and "r_err r4 = CL_SUCCESS"
    and "getIDFor (mObjects sv) (r_obj r4) = Some (i, objs)"
  shows "exec (createImage h) sv st = (Ok (), sv\<lparr>mObjects := objs, sv_world := w4\<rparr>,
    st\<lparr>s_in := rest,
       s_sent := s_sent st @ s_pending st @ enc_reply (h_zlib h) (R_Data32 (image_data_size px p)),
       s_pending := enc_reply (h_zlib h) (R_ID i)\<rparr>)"
proof -
  have "le_decode (out_bytes (le_encode 8 0) r2) = px"
    using assms(10,11) by (simp add: out_bytes_def memcpy_at_def le_decode_encode)
  then show ?thesis
    using assms(2-) unfolding fl_def
    by (simp add: createImage_def query_var_def Let_def prog_simps codec_simps enc_data_def
        get_Payload_put)
qed

theorem createImage_with_data_witness:
  "exec (createImage (example_host image_cl)) ((server_init 0)\<lparr>mObjects := [11]\<rparr>)
     (closed_stream (enc_packet PT_CreateImage (put_CreateImage example_image)
        @ enc_data None [1, 2, 3, 4, 5, 6, 7, 8] @ []))
   = (Ok (), (server_init 4)\<lparr>mObjects := [11, 4099]\<rparr>,
      (closed_stream [])\<lparr>s_sent := enc_reply None (R_Data32 8), s_pending := enc_reply None (R_ID 1)\<rparr>)"
proof -
  have "getIDFor [11] 4099 = Some (1, [11, 4099])" by (simp add: getIDFor_absent)
  then show ?thesis
    using createImage_with_data [of
        "closed_stream (enc_packet PT_CreateImage (put_CreateImage example_image)
           @ enc_data None [1, 2, 3, 4, 5, 6, 7, 8] @ [])"
        example_image "example_host image_cl" "[1, 2, 3, 4, 5, 6, 7, 8]" "[]"
        "(server_init 0)\<lparr>mObjects := [11]\<rparr>" "cl_object 4096" 1
        "(cl_status 0)\<lparr>r_size := Some 8, r_bytes := le_encode 8 4\<rparr>" 2 4 "cl_object 4098" 3
        "cl_object 4099" 4 1 "[11, 4099]"]
    by (simp add: image_cl_def fresh_cl_def server_init_def closed_stream_def example_image_def
        payload_fits_less zlib_opt_ok_def image_data_size_def)
qed

text \<open>C32
  \<open>readImage\<close> asks for the pixel size before it reads the event list. When that query fails on a
  request that has an event list, the error is sent, the list stays on the stream, and the next
  turn of the loop takes it for an unexpected packet and ends the connection.
\<close>

theorem readImage_failure_ends_connection:
  assumes "s_in st = enc_packet PT_ReadImage (put_ImageRW p) @ enc_IDList ids @ rest"
    and "h_cl h (clGetInfo I_Image (getObj (mObjects sv) (irw_mImageID p)) CL_IMAGE_ELEMENT_SIZE 8)
           (sv_world sv) = (r, w)" and "r_err r \<noteq> CL_SUCCESS" and "s_pending st = []"
  shows "serverRun st_ops h sv st = Some (Ok (), sv\<lparr>sv_world := w\<rparr>,
    st\<lparr>s_in := enc_IDList ids @ rest, s_sent := s_sent st @ enc_reply (h_zlib h) (R_Error (r_err r))\<rparr>)"
proof -
  let ?sv1 = "sv\<lparr>sv_world := w\<rparr>"
  let ?st1 = "st\<lparr>s_in := enc_IDList ids @ rest, s_sent := s_sent st @ enc_reply (h_zlib h) (R_Error (r_err r))\<rparr>"
  have "exec (handleNextPacket h) sv st = exec (dispatch PT_ReadImage h) sv st"
    using assms(1) by (rule exec_handleNextPacket)
  then have "exec (serverStep h) sv st = (Ok True, ?sv1, ?st1)"
    using assms by (simp add: serverStep_def readImage_def query_var_def pthen_continue_def
        prog_simps codec_simps)
  then have "serverRun st_ops h sv st = serverRun st_ops h ?sv1 ?st1"
    by (rule serverRun_step_Ok)
  moreover have "exec (handleNextPacket h) ?sv1 ?st1 = exec (dispatch PT_IDList h) ?sv1 ?st1"
    by (rule exec_handleNextPacket) (simp add: enc_IDList_def)
  then have "exec (serverStep h) ?sv1 ?st1 = (Ok False, ?sv1, ?st1)"
    using assms(4) by (simp add: serverStep_def prog_simps)
  then have "serverRun st_ops h ?sv1 ?st1 = Some (Ok (), ?sv1, ?st1)"
    by (subst serverRun.simps) simp
  ultimately show ?thesis by simp
qed

theorem readImage_failure_ends_connection_witness:
  "serverRun st_ops (example_host failing_cl) (server_init 0)
     (closed_stream (enc_packet PT_ReadImage (put_ImageRW example_image_read) @ enc_IDList [7] @ []))
   = Some (Ok (), server_init 0,
      (closed_stream (enc_IDList [7]))\<lparr>s_sent := enc_reply None (R_Error (- 5))\<rparr>)"
  using readImage_failure_ends_connection [of
      "closed_stream (enc_packet PT_ReadImage (put_ImageRW example_image_read) @ enc_IDList [7] @ [])"
      example_image_read "[7]" "[]" "example_host failing_cl" "server_init 0" "cl_status (- 5)" 0]
  by (simp add: failing_cl_def server_init_def closed_stream_def)

text \<open>
  \<open>getDeviceInfo\<close> for \<open>CL_DEVICE_MAX_WORK_ITEM_SIZES\<close>: of the 24 bytes of the three sizes the
  client is sent the first three.
\<close>

theorem max_work_item_sizes_sends_3_bytes:
  assumes "s_in st = enc_packet PT_GetDeviceInfo (put_IDParamPair q) @ rest"
    and "idp_mData q = CL_DEVICE_MAX_WORK_ITEM_SIZES"
    and "h_cl h (clGetInfo I_Device (getObj (mObjects sv) (idp_mID q)) CL_DEVICE_MAX_WORK_ITEM_SIZES 24)
           (sv_world sv) = (r, w)" and "r_err r = CL_SUCCESS" and "length (r_bytes r) = 24"
  shows "exec (getDeviceInfo h) sv st = (Ok (), sv\<lparr>sv_world := w\<rparr>,
    st\<lparr>s_in := rest,
       s_pending := s_pending st @ enc_reply (h_zlib h) (R_Payload 1 (take 3 (r_bytes r)))\<rparr>)"
proof -
  have "le_encode 24 (le_decode (r_bytes r)) = r_bytes r"
    using le_encode_decode [of "r_bytes r"] assms(5) by simp
  moreover have "put_PayloadPtr 1 z mem 3 = put_Payload 1 z (take 3 mem)" if "length mem = 24"
    for z mem
    using that by (cases z) (simp_all add: put_PayloadPtr_def put_Payload_def Let_def min_def
        CompressionSizeThreshold_def)
  moreover have "CL_DEVICE_MAX_WORK_ITEM_SIZES \<notin> set (device_size_params h)"
    by (simp add: device_size_params_def)
  ultimately show ?thesis
    using assms
    by (simp add: getDeviceInfo_def query_sizes3_def query_var_def Let_def prog_simps codec_simps
        enc_reply_def)
qed

theorem max_work_item_sizes_sends_3_bytes_witness:
  "exec (getDeviceInfo (example_host query_cl)) (server_init 0)
     (closed_stream (enc_packet PT_GetDeviceInfo
        (put_IDParamPair \<lparr>idp_mData = CL_DEVICE_MAX_WORK_ITEM_SIZES, idp_mID = 0\<rparr>)))
   = (Ok (), server_init 1, (closed_stream [])\<lparr>s_pending := enc_reply None (R_Payload 1 [1, 1, 1])\<rparr>)"
  using max_work_item_sizes_sends_3_bytes [of
      "closed_stream (enc_packet PT_GetDeviceInfo
        (put_IDParamPair \<lparr>idp_mData = CL_DEVICE_MAX_WORK_ITEM_SIZES, idp_mID = 0\<rparr>))"
      "\<lparr>idp_mData = CL_DEVICE_MAX_WORK_ITEM_SIZES, idp_mID = 0\<rparr>" "[]" "example_host query_cl"
      "server_init 0" "(cl_status 0)\<lparr>r_size := Some 3000, r_bytes := replicate 24 1\<rparr>" 1]
  by (simp add: query_cl_def server_init_def closed_stream_def numeral_3_eq_3)

text \<open>
  \<open>getPlatformInfo\<close>: the answer of the implementation, of any length, is sent with an 8-bit
  size, so a client gets its first \<open>n mod 256\<close> bytes (uncompressed builds).
\<close>

theorem getPlatformInfo_truncates:
  assumes "s_in st = enc_packet PT_GetPlatformInfo (put_IDParamPair q) @ rest" and "h_zlib h = None"
    and "h_cl h (clGetInfo I_Platform (getObj (mObjects sv) (idp_mID q)) (idp_mData q) 0) (sv_world sv)
           = (r1, w1)" and "r_err r1 = CL_SUCCESS" and "r_size r1 = Some n"
    and "n < 2 ^ 63" and "h_new h n"
    and "h_cl h (clGetInfo I_Platform (getObj (mObjects sv) (idp_mID q)) (idp_mData q) n) w1
           = (r2, w2)" and "r_err r2 = CL_SUCCESS" and "length (r_bytes r2) = n"
  shows "\<exists>out. exec (getPlatformInfo h) sv st = (Ok (), sv\<lparr>sv_world := w2\<rparr>,
      st\<lparr>s_in := rest, s_pending := s_pending st @ enc_packet PT_Payload out\<rparr>)
    \<and> decode (get_Payload 1 None) out = (Ok (take (n mod 256) (r_bytes r2)), [])"
proof -
  have "decode (get_Payload 1 None) (put_Payload 1 None (r_bytes r2))
      = (Ok (take (n mod 256) (r_bytes r2)), [])"
    using get_Payload_truncated [of 1 "r_bytes r2" "[]"] assms(10) by simp
  moreover have "out_bytes (replicate n 0) r2 = r_bytes r2"
    using assms(10) by (simp add: out_bytes_def memcpy_at_def)
  ultimately show ?thesis
    using assms by (intro exI [of _ "put_Payload 1 None (r_bytes r2)"])
      (simp add: getPlatformInfo_def Let_def prog_simps codec_simps enc_reply_def)
qed

theorem getPlatformInfo_truncates_witness:
  "\<exists>out. exec (getPlatformInfo (example_host query_cl)) (server_init 0)
      (closed_stream (enc_packet PT_GetPlatformInfo (put_IDParamPair \<lparr>idp_mData = 0x902, idp_mID = 0\<rparr>)))
      = (Ok (), server_init 2, (closed_stream [])\<lparr>s_pending := enc_packet PT_Payload out\<rparr>)
    \<and> decode (get_Payload 1 None) out = (Ok (replicate 184 1), [])"
  using getPlatformInfo_truncates [of
      "closed_stream (enc_packet PT_GetPlatformInfo (put_IDParamPair \<lparr>idp_mData = 0x902, idp_mID = 0\<rparr>))"
      "\<lparr>idp_mData = 0x902, idp_mID = 0\<rparr>" "[]" "example_host query_cl" "server_init 0"
      "(cl_status 0)\<lparr>r_size := Some 3000, r_bytes := []\<rparr>" 1 3000
      "(cl_status 0)\<lparr>r_size := Some 3000, r_bytes := replicate 3000 1\<rparr>" 2]
  by (simp add: query_cl_def server_init_def closed_stream_def)

text \<open>
  \<open>getProgramBuildInfo\<close>: an answer longer than 1024 bytes (a build log) is asked for twice with the
  same 1024 bytes of room; what the client gets has the full length, but is the first 1024 bytes
  followed by zeros.
\<close>

theorem getProgramBuildInfo_pads_long_logs:
  assumes "s_in st = enc_packet PT_BuildInfo (put_ProgramBuildInfo q) @ rest"
    and "\<And>w. h_cl h (clGetProgramBuildInfo (getObj (mObjects sv) (pbi_mProgramID q))
           (getObj (mObjects sv) (pbi_mDeviceID q)) (pbi_mParam q) 1024) w = (r, f w)"
    and "r_err r = CL_SUCCESS" and "r_size r = Some n" and "1024 < n" and "n < 2 ^ 63"
    and "length (r_bytes r) = 1024" and "h_new h 1024" and "h_new h n"
  shows "exec (getProgramBuildInfo h) sv st = (Ok (), sv\<lparr>sv_world := f (f (sv_world sv))\<rparr>,
    st\<lparr>s_in := rest, s_pending := s_pending st
         @ enc_reply (h_zlib h) (R_Payload 4 (r_bytes r @ replicate (n - 1024) 0))\<rparr>)"
proof -
  have b: "out_bytes buf r = r_bytes r" if "length buf = 1024" for buf
    using that assms(7) by (simp add: out_bytes_def memcpy_at_def)
  from assms show ?thesis
    by (simp add: getProgramBuildInfo_def Let_def prog_simps codec_simps b)
qed

theorem getProgramBuildInfo_pads_long_logs_witness:
  "exec (getProgramBuildInfo (example_host query_cl)) (server_init 0)
     (closed_stream (enc_packet PT_BuildInfo (put_ProgramBuildInfo
        \<lparr>pbi_mParam = 0x1183, pbi_mProgramID = 0, pbi_mDeviceID = 1\<rparr>)))
   = (Ok (), server_init 2, (closed_stream [])\<lparr>s_pending :=
        enc_reply None (R_Payload 4 (replicate 1024 1 @ replicate 1976 0))\<rparr>)"
  using getProgramBuildInfo_pads_long_logs [of
      "closed_stream (enc_packet PT_BuildInfo (put_ProgramBuildInfo
        \<lparr>pbi_mParam = 0x1183, pbi_mProgramID = 0, pbi_mDeviceID = 1\<rparr>))"
      "\<lparr>pbi_mParam = 0x1183, pbi_mProgramID = 0, pbi_mDeviceID = 1\<rparr>" "[]"
      "example_host query_cl" "server_init 0"
      "(cl_status 0)\<lparr>r_size := Some 3000, r_bytes := replicate 1024 1\<rparr>" "\<lambda>w. w + 1" 3000]
  by (simp add: query_cl_def server_init_def closed_stream_def)

text \<open>
  The options of \<open>buildProgram\<close>: what is passed to the compiler always contains
  \<open>-cl-kernel-arg-info\<close>, starts with the client's options, and is the client's options themselves
  when they contain it already (it is never added twice).
\<close>

theorem build_options_contain_arg_info:
  "contains arg_info_option (build_options s)
   \<and> take (length s) (build_options s) = s
   \<and> build_options (build_options s) = build_options s"
proof -
  have "contains arg_info_option (build_options s)"
    using contains_append [of arg_info_option "s @ [32]"] by (simp add: build_options_def)
  then show ?thesis by (auto simp: build_options_def)
qed

text \<open>C33
  Out of memory: when the buffer for a \<open>clEnqueueReadBuffer\<close> cannot be allocated, with events to wait for or
  without, the turn of the loop reads the whole request, answers \<open>CL_OUT_OF_HOST_MEMORY\<close>, makes no OpenCL call, and goes on
  with the next packet.
\<close>

theorem bad_alloc_is_answered:
  assumes "s_in st = enc_packet PT_ReadBuffer (put_BufferRW p)
        @ (if brw_mExpectEventList p then enc_packet PT_IDList (put_IDList is) else []) @ rest"
    and "ok_IDList is" and "\<not> h_new h (unat (brw_mSize p))" and "s_pending st = []"
  shows "exec (serverStep h) sv st = (Ok True, sv,
    st\<lparr>s_in := rest, s_sent := s_sent st @ enc_reply (h_zlib h) (R_Error CL_OUT_OF_HOST_MEMORY)\<rparr>)"
proof -
  have "exec (handleNextPacket h) sv st = exec (dispatch PT_ReadBuffer h) sv st"
    using assms(1) by (rule exec_handleNextPacket)
  moreover have "unat (brw_mSize p) \<le> 2 ^ 63 - 1"
    using unsigned_less [of "brw_mSize p", where ?'a = nat] by simp
  ultimately show ?thesis
    using assms by (auto simp: serverStep_def readBuffer_def readEventList_def pthen_continue_def
        Let_def prog_simps codec_simps split: if_splits)
qed

theorem bad_alloc_is_answered_witness:
  "exec (serverStep (example_host fresh_cl)) (server_init 0)
     (closed_stream (enc_packet PT_ReadBuffer (put_BufferRW (example_buffer_read\<lparr>brw_mExpectEventList := True\<rparr>))
        @ enc_packet PT_IDList (put_IDList [2, 3])))
   = (Ok True, server_init 0,
      (closed_stream [])\<lparr>s_sent := enc_reply None (R_Error CL_OUT_OF_HOST_MEMORY)\<rparr>)"
  using bad_alloc_is_answered [of
      "closed_stream (enc_packet PT_ReadBuffer (put_BufferRW (example_buffer_read\<lparr>brw_mExpectEventList := True\<rparr>))
        @ enc_packet PT_IDList (put_IDList [2, 3]))"
      "example_buffer_read\<lparr>brw_mExpectEventList := True\<rparr>" "[2, 3]" "[]" "example_host fresh_cl" "server_init 0"]
  by (simp add: example_buffer_read_def closed_stream_def ok_IDList_def container_ok_def size_max_def)

text \<open>C34
  A server built against an OpenCL before 2.0 answers \<open>CreateQueueWithProp\<close> with an error but
  leaves the request on the stream: its loop never ends, each turn sends one more error.
\<close>

theorem createQueueWithProp_unsupported_loops:
  assumes "h_target h < 200" and "s_in st = enc_packet PT_CreateQueueWithProp bs @ rest"
    and "s_pending st = []"
  shows "exec (serverStep h) sv st
      = (Ok True, sv, st\<lparr>s_sent := s_sent st @ enc_reply (h_zlib h) (R_Error CL_INVALID_OPERATION)\<rparr>)
    \<and> serverRun st_ops h sv st = None"
proof -
  have turn: "exec (serverStep h) sv st
      = (Ok True, sv, st\<lparr>s_sent := s_sent st @ enc_reply (h_zlib h) (R_Error CL_INVALID_OPERATION)\<rparr>)"
    if "s_in st = enc_packet PT_CreateQueueWithProp bs @ rest" and "s_pending st = []" for sv st
    using assms(1) exec_handleNextPacket [OF that(1), of h sv] that(2)
    by (simp add: serverStep_def createQueueWithProp_def pthen_continue_def prog_simps)
  have never: "server_ends st_ops h sv st q \<Longrightarrow>
      \<not> (s_in st = enc_packet PT_CreateQueueWithProp bs @ rest \<and> s_pending st = [])" for sv st q
    by (induction rule: server_ends.induct) (auto simp: turn)
  have "serverRun st_ops h sv st = None"
  proof (cases "serverRun st_ops h sv st")
    case (Some q)
    then have "server_ends st_ops h sv st q" by (rule serverRun_Some_ends)
    from never [OF this] assms(2,3) show ?thesis by simp
  qed
  with turn [OF assms(2,3)] show ?thesis by simp
qed

theorem createQueueWithProp_unsupported_loops_witness:
  "serverRun st_ops ((example_host fresh_cl)\<lparr>h_target := 120\<rparr>) (server_init 0)
     (closed_stream (enc_packet PT_CreateQueueWithProp (put_CreateQueueWithProp
        \<lparr>cqp_mContext = 0, cqp_mDevice = 1, cqp_mProperties = []\<rparr>))) = None"
  using createQueueWithProp_unsupported_loops [of "(example_host fresh_cl)\<lparr>h_target := 120\<rparr>"
      "closed_stream (enc_packet PT_CreateQueueWithProp (put_CreateQueueWithProp
        \<lparr>cqp_mContext = 0, cqp_mDevice = 1, cqp_mProperties = []\<rparr>))"
      "put_CreateQueueWithProp \<lparr>cqp_mContext = 0, cqp_mDevice = 1, cqp_mProperties = []\<rparr>" "[]"
      "server_init 0"]
  by simp

text \<open>
  \<open>createEventStream\<close>: when the first port can be bound and a client connects, the one reply is the
  port, flushed before the server waits for the connection, and the instance has a fresh event
  stream.
\<close>

theorem createEventStream_opens:
  assumes "s_in st = enc_packet PT_EventStreamOpen (put_Signal ()) @ rest"
    and "h_rand h (sv_world sv) = (x, w1)"
    and "h_bind h (word_of_nat (x mod 16384 + 49152)) w1 = (True, w2)"
    and "h_accept h (word_of_nat (x mod 16384 + 49152)) w2 = (None, w3)"
  shows "exec (createEventStream h) sv st
    = (Ok (), sv\<lparr>mEventStream := Some fresh_stream, sv_world := w3\<rparr>,
       st\<lparr>s_in := rest, s_sent := s_sent st @ s_pending st
            @ enc_reply (h_zlib h) (R_Data16 (word_of_nat (x mod 16384 + 49152))), s_pending := []\<rparr>)"
  using assms
  by (simp add: createEventStream_def event_stream_tries_first [of 16 h] world_def Let_def
      prog_simps codec_simps)

theorem createEventStream_opens_witness:
  "exec (createEventStream (example_host fresh_cl)) (server_init 0)
     (closed_stream (enc_packet PT_EventStreamOpen (put_Signal ())))
   = (Ok (), (server_init 0)\<lparr>mEventStream := Some fresh_stream\<rparr>,
      (closed_stream [])\<lparr>s_sent := enc_reply None (R_Data16 49159)\<rparr>)"
  using createEventStream_opens [of "closed_stream (enc_packet PT_EventStreamOpen (put_Signal ()))"
      "[]" "example_host fresh_cl" "server_init 0" 7 0 0 0]
  by (simp add: example_host_def server_init_def closed_stream_def)

text \<open>
  \<open>createEventStream\<close>: when the port has been announced and accepting the connection then fails, the
  client is sent a second reply, the port 0, and the old event stream is kept.
\<close>

theorem createEventStream_failure_replies_twice:
  assumes "s_in st = enc_packet PT_EventStreamOpen (put_Signal ()) @ rest"
    and "h_rand h (sv_world sv) = (x, w1)"
    and "h_bind h (word_of_nat (x mod 16384 + 49152)) w1 = (True, w2)"
    and "h_accept h (word_of_nat (x mod 16384 + 49152)) w2 = (Some e, w3)"
  shows "exec (createEventStream h) sv st
    = (Ok (), sv\<lparr>sv_world := w3\<rparr>,
       st\<lparr>s_in := rest, s_sent := s_sent st @ s_pending st
            @ enc_reply (h_zlib h) (R_Data16 (word_of_nat (x mod 16384 + 49152))),
          s_pending := enc_reply (h_zlib h) (R_Data16 0)\<rparr>)"
  using assms
  by (simp add: createEventStream_def event_stream_tries_first [of 16 h] world_def Let_def
      prog_simps codec_simps)

theorem createEventStream_failure_replies_twice_witness:
  "exec (createEventStream ((example_host fresh_cl)\<lparr>h_accept := \<lambda>p w. (Some SocketError, w)\<rparr>))
     (server_init 0) (closed_stream (enc_packet PT_EventStreamOpen (put_Signal ())))
   = (Ok (), server_init 0, (closed_stream [])\<lparr>s_sent := enc_reply None (R_Data16 49159),
        s_pending := enc_reply None (R_Data16 0)\<rparr>)"
  using createEventStream_failure_replies_twice [of
      "closed_stream (enc_packet PT_EventStreamOpen (put_Signal ()))" "[]"
      "(example_host fresh_cl)\<lparr>h_accept := \<lambda>p w. (Some SocketError, w)\<rparr>" "server_init 0"
      7 0 0 SocketError 0]
  by (simp add: example_host_def server_init_def closed_stream_def)

text \<open>C35
  Packets only a server may send end the connection at once: the turn of the loop reads nothing,
  writes nothing and does not continue; a stray data packet fails the assertion instead.
\<close>

theorem unexpected_packets_end_connection:
  assumes "s_in st = enc_packet ty bs @ rest" and "s_pending st = []"
    and "ty \<in> set (PT_Payload # server_only_types)"
  shows "exec (serverStep h) sv st
    = (if ty = PT_Payload then Fail AssertionFailed else Ok False, sv, st)"
proof -
  have "exec (handleNextPacket h) sv st = exec (dispatch ty h) sv st"
    using assms(1) by (rule exec_handleNextPacket)
  moreover have "exec (dispatch ty h) sv st
      = (if ty = PT_Payload then Fail AssertionFailed else Ok False, sv, st)"
    using assms(3) by (auto simp: server_only_types_def)
  ultimately show ?thesis using assms(2) by (simp add: serverStep_def prog_simps)
qed

theorem unexpected_packets_end_connection_witness:
  "exec (serverStep (example_host fresh_cl)) (server_init 0) (closed_stream (enc_packet PT_ID (put_u16 3)))
   = (Ok False, server_init 0, closed_stream (enc_packet PT_ID (put_u16 3)))"
  using unexpected_packets_end_connection [of "closed_stream (enc_packet PT_ID (put_u16 3))" PT_ID
      "put_u16 3" "[]" "example_host fresh_cl" "server_init 0"]
  by (simp add: server_only_types_def)

section \<open>Streams\<close>

text \<open>C36
  Any code over the stream (a handler, the loop's body) does over a buffered socket stream what it
  does over the abstract stream of two byte queues, for every segmentation of the traffic: same
  result, same state of the instance, and streams that correspond afterwards.
\<close>

theorem program_over_socket:
  assumes "os_ok os rem out" and "ss_abs rem out ss st" and "exec p s st = (r, s', st')"
    and "r \<noteq> Fail Blocked"
  shows "\<exists>ss'. run (ss_ops os) p s ss = (r, s', ss')
           \<and> (r = Fail Nontermination \<or> ss_abs rem out ss' st')"
  using stream_refinement.run_refines [OF ss_stream_refinement [OF assms(1)] assms(2-4)] .

theorem program_over_socket_witness:
  "\<exists>ss'. run (ss_ops seg_os) (pdec get_u32) () (ss_start (segments3 (put_u32 77 @ [9])))
           = (Ok 77, (), ss')
       \<and> (Ok 77 = (Fail Nontermination :: u32 res)
          \<or> ss_abs (\<lambda>n. concat (fst n)) snd ss' (closed_stream [9]))"
proof -
  have abs: "ss_abs (\<lambda>n. concat (fst n)) snd (ss_start (segments3 (put_u32 77 @ [9])))
      (closed_stream (put_u32 77 @ [9]))"
    using ss_start_abs [of "\<lambda>n. concat (fst n)" snd "segments3 (put_u32 77 @ [9])"]
    by (simp add: closed_stream_def)
  have "exec (pdec get_u32) () (closed_stream (put_u32 77 @ [9])) = (Ok 77, (), closed_stream [9])"
    using exec_pdec_Ok [of get_u32 "closed_stream (put_u32 77 @ [9])" 77 "[9]" "()"]
    by (simp add: codec_simps closed_stream_def)
  from program_over_socket [OF seg_os_ok abs this] show ?thesis by simp
qed

text \<open>
  \<open>SocketStream::read\<close>: when the peer has sent at least \<open>n\<close> more bytes, in whatever segments, a
  read of \<open>n\<close> returns exactly the next \<open>n\<close>, consumes nothing else and writes nothing; the offsets
  stay within the buffers.
\<close>

theorem read_returns_next_bytes:
  assumes "os_ok os rem out" and "ss_inv ss" and "n \<le> length (ss_in rem ss)"
  shows "\<exists>ss'. ss_read os n ss = (Ok (take n (ss_in rem ss)), ss')
           \<and> ss_in rem ss' = drop n (ss_in rem ss) \<and> ss_inv ss' \<and> ss_out out ss' = ss_out out ss"
  using assms by (rule ss_read_enough)

theorem read_returns_next_bytes_witness:
  "\<exists>ss'. ss_read seg_os 3 (ss_start (segments3 [1, 2, 3, 4])) = (Ok [1, 2, 3], ss')
      \<and> ss_in (\<lambda>n. concat (fst n)) ss' = [4] \<and> ss_inv ss' \<and> ss_out snd ss' = []"
  using read_returns_next_bytes [OF seg_os_ok ss_inv_start, of 3 "segments3 [1, 2, 3, 4]"]
  by (simp add: ss_in_start ss_out_start numeral_3_eq_3)

text \<open>C37
  \<open>SocketStream::read\<close> at the end of the stream: a read that needs more than the peer sent before
  it closed throws \<open>Socket::Error\<close> when less than a buffer is missing; when 1024 bytes or more are
  missing it never returns.
\<close>

theorem read_at_end_of_stream:
  assumes "os_ok os rem out" and "ss_inv ss" and "length (ss_in rem ss) < n"
  shows "fst (ss_read os n ss) = (if 1024 \<le> n - length (ss_in rem ss)
           then Fail Nontermination else Throw SocketError)"
  using ss_read_short [OF assms] by (auto simp: BufferSize_def split: if_splits)

theorem read_at_end_of_stream_witness:
  "fst (ss_read seg_os 4 (ss_start (segments3 [1, 2]))) = Throw SocketError
   \<and> fst (ss_read seg_os 1026 (ss_start (segments3 [1, 2]))) = Fail Nontermination"
  using read_at_end_of_stream [OF seg_os_ok ss_inv_start, of "segments3 [1, 2]" 4]
    read_at_end_of_stream [OF seg_os_ok ss_inv_start, of "segments3 [1, 2]" 1026]
  by (simp add: ss_in_start)

text \<open>
  \<open>SocketStream::write\<close> and \<open>flush\<close>: any burst of writes, of any sizes, followed by one flush
  hands the network exactly the bytes written, in order, after what was written before; no write
  needs more than two turns of its loop.
\<close>

theorem writes_then_flush_deliver:
  assumes "os_ok os rem out" and "ss_inv ss"
  shows "\<exists>ss'. mbind (mmap (ss_write os) bss) (\<lambda>_. ss_flush os) ss = (Ok (), ss')
           \<and> out (mSocket ss') = ss_out out ss @ concat bss \<and> ss_inv ss'"
  using byte_sink.burst_delivers [OF ss_byte_sink [OF assms(1)] assms(2)] .

theorem writes_then_flush_deliver_witness:
  "\<exists>ss'. mbind (mmap (ss_write seg_os) [replicate 1000 1, replicate 500 2]) (\<lambda>_. ss_flush seg_os)
          (ss_start (segments3 [])) = (Ok (), ss')
      \<and> snd (mSocket ss') = replicate 1000 1 @ replicate 500 2 \<and> ss_inv ss'"
  using writes_then_flush_deliver [OF seg_os_ok ss_inv_start,
      of "[replicate 1000 1, replicate 500 2]" "segments3 []"]
  by (simp add: ss_out_start)

text \<open>
  \<open>SocketStream::peek\<close> shows the next byte, or \<open>-1\<close> (255) at the end of the stream, and leaves
  everything that is still to be read in place.
\<close>

theorem peek_consumes_nothing:
  assumes "os_ok os rem out" and "ss_inv ss"
  shows "\<exists>ss'. ss_peek os ss = (Ok (case ss_in rem ss of [] \<Rightarrow> 255 | b # _ \<Rightarrow> b), ss')
           \<and> ss_in rem ss' = ss_in rem ss \<and> ss_inv ss' \<and> ss_out out ss' = ss_out out ss"
  using assms by (rule ss_peek_ok)

theorem peek_consumes_nothing_witness:
  "\<exists>ss'. ss_peek seg_os (ss_start (segments3 [6, 7])) = (Ok 6, ss')
      \<and> ss_in (\<lambda>n. concat (fst n)) ss' = [6, 7] \<and> ss_inv ss' \<and> ss_out snd ss' = []"
  using peek_consumes_nothing [OF seg_os_ok ss_inv_start, of "segments3 [6, 7]"]
  by (simp add: ss_in_start ss_out_start)

section \<open>Packets\<close>

text \<open>
  A packet written with \<open>writePacket\<close> and its \<open>operator<<\<close>, and read from a socket with its
  \<open>operator>>\<close>, arrives unchanged and nothing after it is touched, shown for \<open>EnqueueKernel\<close>, whose
  fields are written in another order than they are declared.
\<close>

theorem EnqueueKernel_over_socket:
  assumes "os_ok os rem out" and "ss_inv ss" and "ss_in rem ss = put_EnqueueKernel p @ rest"
  shows "\<exists>ss'. run_dec (ss_read os) get_EnqueueKernel ss = (Ok p, ss')
           \<and> ss_in rem ss' = rest \<and> ss_inv ss'"
  using EnqueueKernel_codec.decode_from_source [OF ss_byte_source [OF assms(1)] assms(2,3)] by simp

theorem EnqueueKernel_over_socket_witness:
  "\<exists>ss'. run_dec (ss_read seg_os) get_EnqueueKernel
          (ss_start (segments3 (put_EnqueueKernel example_kernel @ [3]))) = (Ok example_kernel, ss')
      \<and> ss_in (\<lambda>n. concat (fst n)) ss' = [3] \<and> ss_inv ss'"
  using EnqueueKernel_over_socket [OF seg_os_ok, of
      "ss_start (segments3 (put_EnqueueKernel example_kernel @ [3]))" example_kernel "[3]"]
  by (simp add: ss_in_start ss_inv_start)

text \<open>
  \<open>CompileProgram\<close>: reading back what was written gives the packet, except that the callback ID,
  which is sent only together with a callback, is indeterminate without one.
\<close>

theorem CompileProgram_round_trip:
  assumes "ok_CompileProgram p"
  shows "decode (get_CompileProgram u) (put_CompileProgram p @ rest)
           = (Ok (if cp_mHasCallback p then p else p\<lparr>cp_mCallbackID := u\<rparr>), rest)"
  using assms by (rule get_CompileProgram_put)

theorem CompileProgram_round_trip_witness:
  "decode (get_CompileProgram 0) (put_CompileProgram example_compile @ [8]) = (Ok example_compile, [8])"
proof -
  have "ok_CompileProgram example_compile"
    by (simp add: ok_CompileProgram_def example_compile_def string_ok_def container_ok_def size_max_def)
  from CompileProgram_round_trip [OF this, of 0 "[8]"] show ?thesis
    by (simp add: example_compile_def)
qed

text \<open>C38
  A data burst whose length fits its size type arrives unchanged, read into a \<open>Payload\<close> or through
  a \<open>PayloadInto\<close>, whether the build compresses or not and whether compression was worth it, as
  long as ZLib undoes its own compression.
\<close>

theorem payload_round_trip:
  assumes "payload_fits w d" and "zlib_opt_ok z"
  shows "decode (get_Payload w z) (put_Payload w z d @ rest) = (Ok d, rest)
       \<and> decode (get_PayloadInto w z) (put_Payload w z d @ rest) = (Ok d, rest)"
  using get_Payload_put [OF assms] get_PayloadInto_put [OF assms] by simp

theorem payload_round_trip_witness:
  "put_Payload 4 (Some zeros_zlib) (replicate 2097152 0) = put_size 4 2097152 @ put_size 4 1 @ [0]
   \<and> decode (get_Payload 4 (Some zeros_zlib)) (put_Payload 4 (Some zeros_zlib) (replicate 2097152 0) @ [5])
     = (Ok (replicate 2097152 0), [5])"
proof -
  have "zlib_opt_ok (Some zeros_zlib)"
    by (auto simp: zlib_opt_ok_def zlib_ok_def zeros_zlib_def split: if_splits)
  moreover have "payload_fits 4 (replicate 2097152 0)" by (simp add: payload_fits_less)
  ultimately show ?thesis
    using payload_round_trip [of 4 "replicate 2097152 0" "Some zeros_zlib" "[5]"]
    by (simp add: put_Payload_def Let_def CompressionSizeThreshold_def Compress_def zeros_zlib_def)
qed

text \<open>C39
  A data burst that does not fit its size type is cut without an error (uncompressed builds): the
  receiver gets the first \<open>n mod 256 ^ w\<close> of its \<open>n\<close> bytes, and the stream stays in step.
\<close>

theorem payload_is_cut_silently:
  "decode (get_Payload w None) (put_Payload w None d @ rest)
     = (Ok (take (length d mod 256 ^ w) d), rest)"
  by (rule get_Payload_truncated)

text \<open>C40
  Sending data through a \<open>PayloadPtr\<close> writes the same bytes as sending a copy in a \<open>Payload\<close>, with or without ZLib and whether
  the data are compressed or not, for data whose length fits the size type of the two (\<open>w\<close> bytes). (Longer data is cut
  by both, but a \<open>PayloadPtr\<close> cuts the length before it decides whether to compress, a \<open>Payload\<close> after.)
\<close>

theorem PayloadPtr_equals_Payload:
  assumes "payload_fits w d"
  shows "put_PayloadPtr w z d (length d) = put_Payload w z d"
  using assms by (rule put_PayloadPtr_eq)

theorem PayloadPtr_equals_Payload_witness:
  "put_PayloadPtr 1 None [1, 2, 3] 3 = put_Payload 1 None [1, 2, 3]"
  using PayloadPtr_equals_Payload [of 1 "[1, 2, 3]" None]
  by (simp add: payload_fits_less numeral_3_eq_3)

text \<open>
  The version handshake: two builds accept each other exactly when their major and minor versions
  and their use of ZLib agree; whether the asynchronous event stream is built in does not matter,
  and is read off the packet correctly.
\<close>

theorem version_compatibility:
  "(isCompatibleWith (VersionPacket c) (VersionPacket d) \<longleftrightarrow>
      cfg_maj c = cfg_maj d \<and> cfg_min c = cfg_min d \<and> cfg_zlib c = cfg_zlib d)
   \<and> eventEnabled (VersionPacket c) = cfg_async c
   \<and> decode get_Version (put_Version (VersionPacket c) @ rest) = (Ok (VersionPacket c), rest)"
  using isCompatibleWith_VersionPacket [of c d] by (simp add: codec_simps)

end
